(* ===== verification/Prelude.thy ===== *)
theory Prelude
  imports Main "HOL-Library.State_Monad" "HOL-Library.Monad_Syntax" "HOL-Library.Sublist"
begin

text \<open>
  What every component shares: the named theorem collections, the parts of Go's
  standard library the operator calls (strconv.Itoa, strings.Join, strings.Cut,
  strings.HasPrefix, the time units), and general facts on lists and options.
\<close>

named_theorems go_defs "definitions of small helpers, unfolded by the component proofs"
named_theorems emits_intro "which effects a program may record, one rule per construct or operation"
named_theorems keeps_intro "which parts of the state a program leaves alone"


section \<open>Go strings\<close>

text \<open>A Go string is a sequence of bytes and a HOL character is a byte, so
  strings are character lists and \<open>len(s)\<close> is the list's length.\<close>

definition digit_char :: "nat \<Rightarrow> char" where
  "digit_char d = char_of (48 + d)"

fun itoa :: "nat \<Rightarrow> string" where
  "itoa n = (if n < 10 then [digit_char n] else itoa (n div 10) @ [digit_char (n mod 10)])"

declare itoa.simps [simp del]

definition is_digit :: "char \<Rightarrow> bool" where
  "is_digit c = (48 \<le> (of_char c :: nat) \<and> (of_char c :: nat) \<le> 57)"

definition itoa_int :: "int \<Rightarrow> string" where
  "itoa_int i = (if i < 0 then ''-'' @ itoa (nat (- i)) else itoa (nat i))"

fun join :: "string \<Rightarrow> string list \<Rightarrow> string" where
  "join sep [] = []"
| "join sep [x] = x"
| "join sep (x # y # ys) = x @ sep @ join sep (y # ys)"

definition has_prefix :: "string \<Rightarrow> string \<Rightarrow> bool" where
  "has_prefix s p = prefix p s"

fun is_infix :: "string \<Rightarrow> string \<Rightarrow> bool" where
  "is_infix p [] = (p = [])"
| "is_infix p (c # cs) = (prefix p (c # cs) \<or> is_infix p cs)"

lemma of_char_digit [simp]: "d < 10 \<Longrightarrow> (of_char (digit_char d) :: nat) = 48 + d"
  by (simp add: digit_char_def)

lemma is_digit_digit_char [simp]: "d < 10 \<Longrightarrow> is_digit (digit_char d)"
  by (simp add: is_digit_def)

lemma digit_char_inject: "d < 10 \<Longrightarrow> e < 10 \<Longrightarrow> digit_char d = digit_char e \<longleftrightarrow> d = e"
  by (metis add_left_cancel of_char_digit)

lemma itoa_digits: "c \<in> set (itoa n) \<Longrightarrow> is_digit c"
proof (induction n rule: itoa.induct)
  case (1 n)
  show ?case
  proof (cases "n < 10")
    case True
    then show ?thesis using "1.prems" by (simp add: itoa.simps [of n])
  next
    case False
    then show ?thesis using 1 by (auto simp: itoa.simps [of n])
  qed
qed

lemma itoa_not_Nil [simp]: "itoa n \<noteq> []"
  by (simp add: itoa.simps [of n])

lemma colon_not_in_itoa [simp]: "CHR '':'' \<notin> set (itoa n)"
proof
  assume "CHR '':'' \<in> set (itoa n)"
  from itoa_digits [OF this] show False
    by (simp add: is_digit_def)
qed

lemma itoa_inject: "itoa m = itoa n \<Longrightarrow> m = n"
proof (induction m arbitrary: n rule: itoa.induct)
  case (1 m)
  show ?case
  proof (cases "m < 10")
    case m: True
    have "n < 10"
    proof (rule ccontr)
      assume "\<not> n < 10"
      then have "itoa n = itoa (n div 10) @ [digit_char (n mod 10)]"
        by (simp add: itoa.simps [of n])
      moreover have "itoa m = [digit_char m]" using m by (simp add: itoa.simps [of m])
      ultimately have "itoa (n div 10) @ [digit_char (n mod 10)] = [] @ [digit_char m]"
        using "1.prems" by simp
      then show False by (simp only: append1_eq_conv) simp
    qed
    then show ?thesis
      using "1.prems" m by (simp add: itoa.simps [of m] itoa.simps [of n] digit_char_inject)
  next
    case m: False
    then have im: "itoa m = itoa (m div 10) @ [digit_char (m mod 10)]"
      by (simp add: itoa.simps [of m])
    have n: "\<not> n < 10"
    proof
      assume "n < 10"
      then have "itoa n = [digit_char n]" by (simp add: itoa.simps [of n])
      then have "itoa (m div 10) @ [digit_char (m mod 10)] = [] @ [digit_char n]"
        using im "1.prems" by simp
      then show False by (simp only: append1_eq_conv) simp
    qed
    then have "itoa n = itoa (n div 10) @ [digit_char (n mod 10)]"
      by (simp add: itoa.simps [of n])
    with im "1.prems" have "itoa (m div 10) = itoa (n div 10)"
      and "digit_char (m mod 10) = digit_char (n mod 10)" by simp_all
    then have "m div 10 = n div 10" and "m mod 10 = n mod 10"
      using "1.IH" [OF m] by (simp_all add: digit_char_inject)
    then show ?thesis by (metis div_mult_mod_eq)
  qed
qed

lemma length_itoa_mono: "m \<le> n \<Longrightarrow> length (itoa m) \<le> length (itoa n)"
proof (induction n arbitrary: m rule: itoa.induct)
  case (1 n)
  show ?case
  proof (cases "m < 10")
    case True
    then show ?thesis by (simp add: itoa.simps [of m] Suc_leI)
  next
    case False
    with 1 have "length (itoa (m div 10)) \<le> length (itoa (n div 10))" by (simp add: div_le_mono)
    then show ?thesis using False "1.prems" by (simp add: itoa.simps [of m] itoa.simps [of n])
  qed
qed

lemma length_itoa: "n < 10 ^ k \<Longrightarrow> 0 < k \<Longrightarrow> length (itoa n) \<le> k"
proof (induction k arbitrary: n)
  case (Suc k)
  show ?case
  proof (cases "n < 10")
    case False
    then have "length (itoa n) = Suc (length (itoa (n div 10)))"
      by (simp add: itoa.simps [of n])
    moreover have "n div 10 < 10 ^ k" using Suc.prems by (simp add: less_mult_imp_div_less mult.commute)
    moreover have "0 < k" using False Suc.prems by (cases k) auto
    ultimately show ?thesis using Suc.IH by simp
  qed (simp add: itoa.simps [of n])
qed simp

lemma append_sep_inject:
  "c \<notin> set xs \<Longrightarrow> c \<notin> set ys \<Longrightarrow> xs @ c # us = ys @ c # vs \<longleftrightarrow> xs = ys \<and> us = vs"
proof (induction xs arbitrary: ys)
  case Nil
  then show ?case by (cases ys) auto
next
  case (Cons x xs)
  then show ?case by (cases ys) auto
qed


section \<open>Time\<close>

text \<open>Go's time.Duration counts nanoseconds in an int64. Every duration below is
  a literal of at most thirty minutes or a user interval, so int is the width.\<close>

type_synonym duration = int

definition second :: duration where "second = 1000000000"
definition minute :: duration where "minute = 60 * second"

lemmas time_units = second_def minute_def


section \<open>Lists and options\<close>

definition str_distinct_add :: "'a \<Rightarrow> 'a list \<Rightarrow> 'a list" where
  "str_distinct_add x xs = (if x \<in> set xs then xs else xs @ [x])"

lemma set_str_distinct_add [simp]: "set (str_distinct_add x xs) = insert x (set xs)"
  by (auto simp: str_distinct_add_def)

lemma distinct_str_distinct_add [simp]: "distinct xs \<Longrightarrow> distinct (str_distinct_add x xs)"
  by (simp add: str_distinct_add_def)

lemma map_update_keep: "f x = f (xs ! i) \<Longrightarrow> map f (xs[i := x]) = map f xs"
  by (cases "i < length xs") (simp_all add: map_update list_update_same_conv list_update_beyond)

lemma distinct_map_after:
  "distinct (map f (before @ x # after)) \<Longrightarrow> y \<in> set after \<Longrightarrow> f y \<noteq> f x"
  by simp (metis image_eqI)

lemma strict_sorted_adj:
  fixes xs :: "'a :: linorder list"
  shows "sorted xs \<Longrightarrow> sorted_wrt (<) (remdups_adj xs)"
proof (induction xs rule: remdups_adj.induct)
  case (3 x y xs)
  then show ?case by (cases "x = y") (auto intro: order.strict_trans2 le_neq_trans)
qed simp_all

end
