(* ===== verification/Api.thy ===== *)
theory Api
  imports Prelude "HOL-Library.Word"
begin

text \<open>
  The API types of api/v1alpha1 that the reconcilers read and write:
  common_types.go and moduleinstance_types.go. A Go pointer that may be nil is
  an option; a metav1.Time is the number of nanoseconds since the epoch; an
  int64 is a \<open>64 word\<close> read with \<open>sint\<close>.
\<close>

type_synonym time = int
type_synonym int64 = "64 word"


section \<open>common_types.go\<close>

definition annotation_force_delete_orphan :: string where
  "annotation_force_delete_orphan = ''opm.dev/force-delete-orphan''"

record module_reference =
  mod_path :: string
  mod_version :: string

record rollout_spec =
  ro_strategy :: string
  ro_force_conflicts :: bool

record render_inputs =
  ri_digest :: string
  ri_rendered_at :: time

record failure_counters =
  fc_reconcile :: int64
  fc_apply :: int64
  fc_prune :: int64
  fc_drift :: int64

text \<open>A data policy is a string of the API; the two constants are the values it validates.\<close>

type_synonym data_policy = string

definition data_policy_keep :: data_policy where "data_policy_keep = ''Keep''"
definition data_policy_delete :: data_policy where "data_policy_delete = ''Delete''"

definition deletes_claims :: "data_policy \<Rightarrow> bool" where
  "deletes_claims p = (p = data_policy_delete)"

record inventory_entry =
  ie_group :: string
  ie_kind :: string
  ie_namespace :: string
  ie_name :: string
  ie_version :: string
  ie_component :: string

record inventory =
  inv_revision :: int64
  inv_digest :: string
  inv_count :: int64
  inv_entries :: "inventory_entry list"

record history_entry =
  he_sequence :: int64
  he_action :: string
  he_phase :: string
  he_started_at :: "time option"
  he_finished_at :: "time option"
  he_source_digest :: string
  he_config_digest :: string
  he_render_digest :: string
  he_inventory_digest :: string
  he_inventory_count :: int64
  he_message :: string


section \<open>Conditions\<close>

datatype cond_status = CTrue | CFalse | CUnknown

text \<open>metav1.Condition, with the observed generation the source never sets by hand left out.\<close>

record cond =
  c_type :: string
  c_status :: cond_status
  c_reason :: string
  c_message :: string
  c_since :: time


section \<open>moduleinstance_types.go\<close>

type_synonym owner_type = string

definition owner_cli :: owner_type where "owner_cli = ''cli''"
definition owner_controller :: owner_type where "owner_controller = ''controller''"

record instance_spec =
  sp_suspend :: bool
  sp_owner :: owner_type
  sp_module :: module_reference
  sp_values :: "string option"
  sp_prune :: bool
  sp_data_policy :: data_policy
  sp_service_account :: string
  sp_rollout :: "rollout_spec option"

record instance_status =
  is_observed_generation :: int64
  is_instance_uuid :: string
  is_previous_instance_uuid :: string
  is_conditions :: "cond list"
  is_last_attempted_action :: string
  is_last_attempted_at :: "time option"
  is_last_attempted_duration :: "duration option"
  is_last_attempted_source_digest :: string
  is_last_attempted_config_digest :: string
  is_last_attempted_render_digest :: string
  is_last_applied_at :: "time option"
  is_last_applied_source_digest :: string
  is_last_applied_version :: string
  is_last_applied_inputs :: "render_inputs option"
  is_last_applied_config_digest :: string
  is_last_applied_render_digest :: string
  is_failure_counters :: "failure_counters option"
  is_inventory :: "inventory option"
  is_required_contracts :: "string list"
  is_history :: "history_entry list"
  is_next_retry_at :: "time option"

text \<open>The object: of its metadata, what the reconcilers read and the finalizers they write.\<close>

record module_instance =
  mi_name :: string
  mi_namespace :: string
  mi_generation :: int64
  mi_annotations :: "(string \<times> string) list"
  mi_finalizers :: "string list"
  mi_deletion_timestamp :: "time option"
  mi_spec :: instance_spec
  mi_status :: instance_status


section \<open>modulepackage_types.go\<close>

text \<open>Flux's references to an object in a namespace, with and without its kind.\<close>

record object_reference =
  nr_namespace :: string
  nr_name :: string

record source_reference =
  sf_api_version :: string
  sf_kind :: string
  sf_name :: string
  sf_namespace :: string

record source_status =
  ss_ref :: "source_reference option"
  ss_revision :: string
  ss_digest :: string
  ss_url :: string

record package_spec =
  pp_source :: source_reference
  pp_path :: string
  pp_interval :: duration
  pp_depends_on :: "object_reference list"
  pp_prune :: bool
  pp_data_policy :: data_policy
  pp_suspend :: bool
  pp_service_account :: string
  pp_rollout :: "rollout_spec option"

record package_status =
  ps_observed_generation :: int64
  ps_instance_uuid :: string
  ps_previous_instance_uuid :: string
  ps_conditions :: "cond list"
  ps_source :: "source_status option"
  ps_last_attempted_action :: string
  ps_last_attempted_at :: "time option"
  ps_last_attempted_duration :: "duration option"
  ps_last_attempted_source_digest :: string
  ps_last_attempted_config_digest :: string
  ps_last_attempted_render_digest :: string
  ps_last_applied_at :: "time option"
  ps_last_applied_source_digest :: string
  ps_last_applied_version :: string
  ps_last_applied_inputs :: "render_inputs option"
  ps_last_applied_config_digest :: string
  ps_last_applied_render_digest :: string
  ps_failure_counters :: "failure_counters option"
  ps_inventory :: "inventory option"
  ps_history :: "history_entry list"
  ps_next_retry_at :: "time option"

record module_package =
  pk_name :: string
  pk_namespace :: string
  pk_generation :: int64
  pk_annotations :: "(string \<times> string) list"
  pk_finalizers :: "string list"
  pk_deletion_timestamp :: "time option"
  pk_spec :: package_spec
  pk_status :: package_status


section \<open>transformerregistration_types.go\<close>

record provider_reference =
  pv_namespace :: string
  pv_name :: string

record registration_spec =
  rg_catalog :: string
  rg_version :: string
  rg_provides :: "string list"
  rg_provider :: provider_reference

record registration_status =
  rt_observed_generation :: int64
  rt_conditions :: "cond list"
  rt_accepted :: bool
  rt_active :: bool

record registration =
  tr_name :: string
  tr_generation :: int64
  tr_created :: time
  tr_finalizers :: "string list"
  tr_deletion_timestamp :: "time option"
  tr_spec :: registration_spec
  tr_status :: registration_status


section \<open>platform_types.go\<close>

record subscription =
  sub_enable :: "bool option"
  sub_version :: string

text \<open>RegistryEntrySource.\<close>

type_synonym entry_source = string

definition registry_entry_subscription :: entry_source where "registry_entry_subscription = ''Subscription''"
definition registry_entry_registration :: entry_source where "registry_entry_registration = ''Registration''"

record resolved_entry =
  re_catalog :: string
  re_version :: string
  re_enabled :: bool
  re_source :: entry_source

text \<open>The Go map \<open>registry\<close> is an association list with distinct keys, in the order of an iteration.\<close>

record platform_spec =
  pf_type :: string
  pf_registry :: "(string \<times> subscription) list"
  pf_policy :: "string option"

record platform_status =
  pf_observed_generation :: int64
  pf_identity :: string
  pf_resolved :: "resolved_entry list"
  pf_conditions :: "cond list"
  pf_controller_version :: string

record platform =
  pf_name :: string
  pf_generation :: int64
  pf_deletion_timestamp :: "time option"
  pf_spec :: platform_spec
  pf_status :: platform_status

end
