(* ===== verification/Status_Notes.thy ===== *)
theory Status_Notes
  imports Api
begin

text \<open>
  The texts of internal/status/claims.go, deletion.go and ownership.go and the
  length limits of internal/render/findings.go: what an event note or a condition
  message says, and why no note exceeds what events.k8s.io/v1 accepts.
\<close>

section \<open>Go formatting\<close>

text \<open>time.Duration.String\<close>

fun fixed_digits :: "nat \<Rightarrow> nat \<Rightarrow> string" where
  "fixed_digits 0 n = []"
| "fixed_digits (Suc k) n = fixed_digits k (n div 10) @ [digit_char (n mod 10)]"

definition frac_digits :: "nat \<Rightarrow> nat \<Rightarrow> string" where
  "frac_digits prec v =
     (let ds = rev (dropWhile (\<lambda>c. c = CHR ''0'') (rev (fixed_digits prec (v mod 10 ^ prec))))
      in if ds = [] then [] else ''.'' @ ds)"

definition duration_string :: "duration \<Rightarrow> string" where
  "duration_string d =
     (let u = nat \<bar>d\<bar>; sign = (if d < 0 then ''-'' else []) in
      if u = 0 then ''0s''
      else if u < 1000 then sign @ itoa u @ ''ns''
      else if u < 1000000 then sign @ itoa (u div 1000) @ frac_digits 3 u @ [CHR 0xC2, CHR 0xB5] @ ''s''
      else if u < 1000000000 then sign @ itoa (u div 1000000) @ frac_digits 6 u @ ''ms''
      else let secs = u div 1000000000; mins = secs div 60; hours = mins div 60 in
        sign @ (if 0 < hours then itoa hours @ ''h'' else [])
             @ (if 0 < mins then itoa (mins mod 60) @ ''m'' else [])
             @ itoa (secs mod 60) @ frac_digits 9 u @ ''s'')"

text \<open>strconv.Quote on ASCII text; the quoted values are names, which the API restricts to ASCII.\<close>

definition hex_digit :: "nat \<Rightarrow> char" where
  "hex_digit d = (if d < 10 then digit_char d else char_of (87 + d))"

definition quote_char :: "char \<Rightarrow> string" where
  "quote_char c =
     (let n = of_char c :: nat in
      if n = 34 \<or> n = 92 then [CHR 0x5C, c]
      else if n = 7 then [CHR 0x5C] @ ''a'' else if n = 8 then [CHR 0x5C] @ ''b''
      else if n = 12 then [CHR 0x5C] @ ''f'' else if n = 10 then [CHR 0x5C] @ ''n''
      else if n = 13 then [CHR 0x5C] @ ''r'' else if n = 9 then [CHR 0x5C] @ ''t''
      else if n = 11 then [CHR 0x5C] @ ''v''
      else if n < 32 \<or> n = 127 then [CHR 0x5C, CHR ''x'', hex_digit (n div 16), hex_digit (n mod 16)]
      else [c])"

definition quote :: "string \<Rightarrow> string" where
  "quote s = [CHR 0x22] @ concat (map quote_char s) @ [CHR 0x22]"

text \<open>strings.TrimSpace: the UTF-8 encodings of the code points unicode.IsSpace accepts.\<close>

definition space_runes :: "string list" where
  "space_runes =
     [[CHR 0x09], [CHR 0x0A], [CHR 0x0B], [CHR 0x0C], [CHR 0x0D], [CHR 0x20],
      [CHR 0xC2, CHR 0x85], [CHR 0xC2, CHR 0xA0], [CHR 0xE1, CHR 0x9A, CHR 0x80]]
     @ map (\<lambda>n. [CHR 0xE2, CHR 0x80, char_of (0x80 + n)]) [0..<11]
     @ [[CHR 0xE2, CHR 0x80, CHR 0xA8], [CHR 0xE2, CHR 0x80, CHR 0xA9], [CHR 0xE2, CHR 0x80, CHR 0xAF],
        [CHR 0xE2, CHR 0x81, CHR 0x9F], [CHR 0xE3, CHR 0x80, CHR 0x80]]"

fun trim_runes :: "string list \<Rightarrow> string \<Rightarrow> string" where
  "trim_runes ps [] = []"
| "trim_runes ps (c # cs) =
     (case find (\<lambda>p. p \<noteq> [] \<and> prefix p (c # cs)) ps of
        None \<Rightarrow> c # cs
      | Some p \<Rightarrow> trim_runes ps (drop (length p - 1) cs))"

definition trim_space :: "string \<Rightarrow> string" where
  "trim_space s =
     rev (trim_runes (map rev space_runes) (rev (trim_runes space_runes s)))"


section \<open>Bounded lists of messages\<close>

definition event_note_limit :: nat where "event_note_limit = 1024"

text \<open>
  The loop ClaimsKeptNote and listMessages share: keep taking texts, at most
  \<open>most\<close> of them, while the joined text stays within the budget (an int, since
  the fixed text may already be over the limit).
\<close>
fun fit_messages :: "nat \<Rightarrow> string \<Rightarrow> int \<Rightarrow> string list \<Rightarrow> int \<Rightarrow> string list \<Rightarrow> string list" where
  "fit_messages most sep budget taken used [] = taken"
| "fit_messages most sep budget taken used (m # ms) =
     (if length taken = most then taken
      else let cost = int (length m) + (if length taken > 0 then int (length sep) else 0)
           in if used + cost > budget then taken
              else fit_messages most sep budget (taken @ [m]) (used + cost) ms)"

lemma length_join_snoc:
  "length (join sep (xs @ [y])) =
   length (join sep xs) + length y + (if xs = [] then 0 else length sep)"
  by (induction sep xs rule: join.induct) auto

lemma fit_messages_step:
  obtains (stop) "fit_messages most sep budget taken used (m # ms) = taken"
  | (go) u where "fit_messages most sep budget taken used (m # ms) = fit_messages most sep budget (taken @ [m]) u ms"
      and "u = used + int (length m) + (if taken = [] then 0 else int (length sep))"
      and "u \<le> budget" and "length taken \<noteq> most"
proof -
  let ?u = "used + int (length m) + (if taken = [] then 0 else int (length sep))"
  show thesis
  proof (cases "length taken = most \<or> ?u > budget")
    case True
    then show thesis by (intro stop) (auto simp: Let_def)
  next
    case False
    then show thesis by (intro go [of ?u]) (auto simp: Let_def add.assoc)
  qed
qed

declare fit_messages.simps(2) [simp del]

lemma fit_messages_length:
  "used = int (length (join sep taken)) \<Longrightarrow> taken = [] \<or> used \<le> budget \<Longrightarrow>
   r = fit_messages most sep budget taken used ms \<Longrightarrow>
   r = [] \<or> int (length (join sep r)) \<le> budget"
proof (induction ms arbitrary: taken used)
  case (Cons m ms)
  show ?case
  proof (cases rule: fit_messages_step [of most sep budget taken used m ms])
    case (go u)
    have "u = int (length (join sep (taken @ [m])))"
      using go(2) Cons.prems(1) by (simp add: length_join_snoc)
    then show ?thesis
      using go(3) Cons.prems(3) unfolding go(1) by (intro Cons.IH [of u "taken @ [m]"]) simp_all
  qed (use Cons.prems in auto)
qed auto

lemma fit_messages_prefix:
  "\<exists>k. fit_messages most sep budget taken used ms = taken @ take k ms"
proof (induction ms arbitrary: taken used)
  case (Cons m ms)
  show ?case
  proof (cases rule: fit_messages_step [of most sep budget taken used m ms])
    case stop
    then have "fit_messages most sep budget taken used (m # ms) = taken @ take 0 (m # ms)" by simp
    then show ?thesis by blast
  next
    case (go u)
    from Cons.IH [of "taken @ [m]" u] obtain k where
      "fit_messages most sep budget (taken @ [m]) u ms = (taken @ [m]) @ take k ms" by blast
    with go have "fit_messages most sep budget taken used (m # ms) = taken @ take (Suc k) (m # ms)" by simp
    then show ?thesis by blast
  qed
qed simp

lemma fit_messages_bound:
  "r = fit_messages most sep budget [] 0 ms \<Longrightarrow> r \<noteq> [] \<Longrightarrow> int (length (join sep r)) \<le> budget"
  using fit_messages_length [of 0 sep "[]" budget r most ms] by simp

lemma fit_messages_most:
  "length taken \<le> most \<Longrightarrow> length (fit_messages most sep budget taken used ms) \<le> most"
proof (induction ms arbitrary: taken used)
  case (Cons m ms)
  show ?case
  proof (cases rule: fit_messages_step [of most sep budget taken used m ms])
    case (go u)
    with Cons show ?thesis by simp
  qed (use Cons.prems in simp)
qed simp

lemma fit_messages_count:
  "length (fit_messages most sep budget [] 0 ms) \<le> length ms"
  using fit_messages_prefix [of most sep budget "[]" 0 ms] by (auto simp: min_def)


section \<open>claims.go\<close>

definition claims_kept_max_names :: nat where "claims_kept_max_names = 10"
definition claim_refusal_limit :: nat where "claim_refusal_limit = 300"

definition claim_conflict_advice :: string where
  "claim_conflict_advice =
     '' The claim and its data are kept. Revert the change, or move the data and delete '' @
     ''the claim yourself, or set spec.dataPolicy to Delete to let the controller delete and recreate the claim.''"

definition claims_kept_advice :: string where
  "claims_kept_advice =
     '' They are no longer tracked. Delete one with: kubectl delete pvc <name> -n <namespace>. '' @
     ''To let the controller delete claims from now on, set spec.dataPolicy to Delete.''"

definition claims_kept_note :: "inventory_entry list \<Rightarrow> string" where
  "claims_kept_note kept =
     (let head = ''Kept '' @ itoa (length kept) @ '' PersistentVolumeClaim(s) and the data on them: '';
          budget = int event_note_limit - int (length head) - int (length claims_kept_advice)
                     - int (length ('' and '' @ itoa (length kept) @ '' more.''));
          names = fit_messages claims_kept_max_names '', '' budget [] 0
                    (map (\<lambda>e. ie_namespace e @ ''/'' @ ie_name e) kept);
          rest = length kept - length names
      in head @ join '', '' names @
         (if rest = 0 then ''.''
          else if names = [] then itoa rest @ '' claims, names too long to list.''
          else '' and '' @ itoa rest @ '' more.'') @
         claims_kept_advice)"

definition first_line :: "string \<Rightarrow> string" where
  "first_line s = takeWhile (\<lambda>c. c \<noteq> CHR 0x0A) s"

definition claim_conflict_note :: "string \<Rightarrow> string \<Rightarrow> string list \<Rightarrow> string \<Rightarrow> string" where
  "claim_conflict_note namespace name flds refusal =
     (let head = ''PersistentVolumeClaim '' @ namespace @ ''/'' @ name @ '': '' in
      if refusal = []
      then head @ ''the update needs the claim deleted and created again.'' @ claim_conflict_advice
      else let line0 = first_line (trim_space refusal);
               line = (if length line0 > claim_refusal_limit
                       then take claim_refusal_limit line0 @ ''...'' else line0)
           in head @ ''the API server refused the update'' @
              (if flds \<noteq> [] then '' of '' @ join '', '' flds else []) @
              '' ('' @ line @ ''). Nothing was applied.'' @ claim_conflict_advice)"

text \<open>A ClaimsKept note is never longer than an event note may be, names a prefix of the
  kept claims, at most ten of them, and its count plus the names is every kept claim.\<close>

lemma claims_kept_note_fits:
  assumes "length kept < 10 ^ 19"
  shows "length (claims_kept_note kept) \<le> event_note_limit"
proof -
  define head where "head = ''Kept '' @ itoa (length kept) @ '' PersistentVolumeClaim(s) and the data on them: ''"
  define more where "more = '' and '' @ itoa (length kept) @ '' more.''"
  define budget where "budget = int event_note_limit - int (length head)
                     - int (length claims_kept_advice) - int (length more)"
  define names where "names = fit_messages claims_kept_max_names '', '' budget [] 0
                    (map (\<lambda>e. ie_namespace e @ ''/'' @ ie_name e) kept)"
  define rest where "rest = length kept - length names"
  have worded: "claims_kept_note kept = head @ join '', '' names @
         (if rest = 0 then ''.''
          else if names = [] then itoa rest @ '' claims, names too long to list.''
          else '' and '' @ itoa rest @ '' more.'') @ claims_kept_advice"
    by (simp only: claims_kept_note_def Let_def head_def budget_def names_def rest_def more_def)
  have kept: "length (itoa (length kept)) \<le> 19"
    using assms by (intro length_itoa) simp_all
  have rest: "length (itoa rest) \<le> length (itoa (length kept))"
    by (rule length_itoa_mono) (simp add: rest_def)
  have sizes: "length head \<le> 75" "length claims_kept_advice \<le> 200"
    using kept by (simp_all add: head_def claims_kept_advice_def)
  show ?thesis
  proof (cases "names = []")
    case True
    then show ?thesis
      using kept rest sizes by (simp add: worded event_note_limit_def)
  next
    case False
    then have "int (length (join '', '' names)) \<le> budget"
      using fit_messages_bound [OF names_def] by simp
    then show ?thesis
      using rest False by (auto simp: worded budget_def more_def)
  qed
qed

lemma claims_kept_note_fits_witness:
  "length (claims_kept_note (replicate 3 \<lparr>ie_group = [], ie_kind = ''PersistentVolumeClaim'',
      ie_namespace = ''db'', ie_name = ''data'', ie_version = ''v1'', ie_component = []\<rparr>)) \<le> event_note_limit"
  by (rule claims_kept_note_fits) simp


section \<open>ownership.go\<close>

definition left_behind_max_messages :: nat where "left_behind_max_messages = 10"

definition list_messages :: "string \<Rightarrow> string list \<Rightarrow> string" where
  "list_messages head all =
     (let budget = int event_note_limit - int (length head)
                     - int (length (''; and '' @ itoa (length all) @ '' more.''));
          messages = fit_messages left_behind_max_messages ''; '' budget [] 0 all;
          rest = length all - length messages
      in head @ join ''; '' messages @
         (if rest = 0 then ''.''
          else if messages = [] then itoa rest @ '' objects, messages too long to list.''
          else ''; and '' @ itoa rest @ '' more.''))"

definition apply_refused_note :: "string list \<Rightarrow> string" where
  "apply_refused_note messages =
     list_messages (''Refused to apply over '' @ itoa (length messages) @
                    '' object(s), nothing was applied: '') messages"

definition adopted_elsewhere_note :: "string list \<Rightarrow> string" where
  "adopted_elsewhere_note messages =
     list_messages (itoa (length messages) @
                    '' rendered object(s) are adopted by another instance and are not applied: '') messages"

definition adopted_elsewhere_suffix :: string where
  "adopted_elsewhere_suffix =
     '' rendered object(s) are adopted by another instance and are not applied.''"

definition trim_right_dots :: "string \<Rightarrow> string" where
  "trim_right_dots s = rev (dropWhile (\<lambda>c. c \<in> set ''. '') (rev s))"

definition ready_message :: "string \<Rightarrow> int \<Rightarrow> string" where
  "ready_message base adopted =
     (if adopted \<le> 0 then base
      else trim_right_dots base @ ''. '' @ itoa_int adopted @ adopted_elsewhere_suffix)"

text \<open>strconv.Atoi on a non-empty run of digits fails only above the int64 range.\<close>

definition digits_value :: "string \<Rightarrow> nat" where
  "digits_value ds = foldl (\<lambda>n c. 10 * n + (of_char c - 48)) 0 ds"

definition atoi :: "string \<Rightarrow> nat option" where
  "atoi ds = (if digits_value ds < 2 ^ 63 then Some (digits_value ds) else None)"

text \<open>
  The regular expression matches at the end of the message only, and its digits
  are the longest run of digits in front of the fixed text: FindStringSubmatch
  takes the leftmost match.
\<close>
definition adopted_elsewhere_count :: "string \<Rightarrow> nat" where
  "adopted_elsewhere_count msg =
     (if \<not> suffix adopted_elsewhere_suffix msg then 0
      else let front = take (length msg - length adopted_elsewhere_suffix) msg;
               ds = rev (takeWhile is_digit (rev front))
           in if ds = [] then 0 else (case atoi ds of None \<Rightarrow> 0 | Some n \<Rightarrow> n))"

definition identity_change_unsettled_note :: "string \<Rightarrow> string \<Rightarrow> string \<Rightarrow> string" where
  "identity_change_unsettled_note current previous rendered =
     ''An earlier change of the instance identity, from '' @ previous @ '' to '' @ current @
     '', is not finished, and the module path changed again: the render now carries identity '' @ rendered @
     ''. Nothing was applied or pruned. Restore the earlier module path, wait until the object is Ready, '' @
     ''then change the module path again.''"

lemma list_messages_fits:
  assumes "length head + length (itoa (length all)) + 50 \<le> event_note_limit"
  shows "length (list_messages head all) \<le> event_note_limit"
proof -
  define tail where "tail = ''; and '' @ itoa (length all) @ '' more.''"
  define budget where "budget = int event_note_limit - int (length head) - int (length tail)"
  define messages where "messages = fit_messages left_behind_max_messages ''; '' budget [] 0 all"
  define rest where "rest = length all - length messages"
  have worded: "list_messages head all = head @ join ''; '' messages @
         (if rest = 0 then ''.''
          else if messages = [] then itoa rest @ '' objects, messages too long to list.''
          else ''; and '' @ itoa rest @ '' more.'')"
    by (simp only: list_messages_def Let_def budget_def messages_def rest_def tail_def)
  have rest: "length (itoa rest) \<le> length (itoa (length all))"
    by (rule length_itoa_mono) (simp add: rest_def)
  show ?thesis
  proof (cases "messages = []")
    case True
    then show ?thesis using assms rest by (simp add: worded)
  next
    case False
    then have "int (length (join ''; '' messages)) \<le> budget"
      using fit_messages_bound [OF messages_def] by simp
    then show ?thesis using rest False by (auto simp: worded budget_def tail_def)
  qed
qed

text \<open>The reasons of the library's delete verdict that the source names; a verdict that
  proceeds has none.\<close>

datatype skip_reason =
    SkipNone | SkipAlreadyAbsent | SkipOwnerMismatch | SkipAdoptedElsewhere
  | SkipSafetyExcluded | SkipOther string

text \<open>One object a prune left in the cluster.\<close>

record left_object =
  lo_reason :: skip_reason
  lo_message :: string

definition left_behind_event_type :: "left_object list \<Rightarrow> string" where
  "left_behind_event_type left =
     (if \<exists>l \<in> set left. lo_reason l \<noteq> SkipSafetyExcluded then ''Warning'' else ''Normal'')"

definition left_behind_note :: "left_object list \<Rightarrow> string" where
  "left_behind_note left =
     (let ordered = filter (\<lambda>l. lo_reason l \<noteq> SkipSafetyExcluded) left @
                    filter (\<lambda>l. lo_reason l = SkipSafetyExcluded) left
      in list_messages (''Left '' @ itoa (length ordered) @ '' object(s) in the cluster: '')
           (map lo_message ordered))"

text \<open>The notes of a refused apply, of objects adopted elsewhere and of objects left behind
  all fit the length limit of an event note, whatever the library's messages.\<close>

lemma ownership_notes_fit:
  assumes "length messages < 10 ^ 19" and "length left < 10 ^ 19"
  shows "length (apply_refused_note messages) \<le> event_note_limit \<and>
         length (adopted_elsewhere_note messages) \<le> event_note_limit \<and>
         length (left_behind_note left) \<le> event_note_limit"
proof -
  have m: "length (itoa (length messages)) \<le> 19"
    using assms by (intro length_itoa) simp_all
  define ordered where "ordered = filter (\<lambda>l. lo_reason l \<noteq> SkipSafetyExcluded) left @
                    filter (\<lambda>l. lo_reason l = SkipSafetyExcluded) left"
  have "length ordered = length left"
    unfolding ordered_def using sum_length_filter_compl [of "\<lambda>l. lo_reason l = SkipSafetyExcluded" left]
    by simp
  then have l: "length (itoa (length ordered)) \<le> 19"
    using assms by (intro length_itoa) simp_all
  show ?thesis
    unfolding apply_refused_note_def adopted_elsewhere_note_def left_behind_note_def Let_def
      ordered_def [symmetric]
    using m l by (intro conjI list_messages_fits) (simp_all add: event_note_limit_def)
qed

lemma ownership_notes_fit_witness:
  "length (apply_refused_note (replicate 12 ''ConfigMap a/b belongs to another instance'')) \<le> event_note_limit"
proof -
  let ?m = "replicate 12 ''ConfigMap a/b belongs to another instance''"
  have "length ?m < 10 ^ 19" and "length ([] :: left_object list) < 10 ^ 19" by simp_all
  from ownership_notes_fit [OF this] show ?thesis by blast
qed

lemma digits_value_snoc: "digits_value (ds @ [c]) = 10 * digits_value ds + (of_char c - 48)"
  by (simp add: digits_value_def)

lemma digits_value_itoa [simp]: "digits_value (itoa n) = n"
proof (induction n rule: itoa.induct)
  case (1 n)
  then show ?case
    by (cases "n < 10") (simp_all add: itoa.simps [of n] digits_value_snoc digits_value_def [of "[_]"])
qed

lemma adopted_elsewhere_count_shape:
  assumes "\<not> is_digit c"
  shows "adopted_elsewhere_count (front @ c # itoa n @ adopted_elsewhere_suffix) =
         (case atoi (itoa n) of None \<Rightarrow> 0 | Some k \<Rightarrow> k)"
proof -
  have all: "\<forall>x \<in> set (rev (itoa n)). is_digit x" by (auto dest: itoa_digits)
  have "takeWhile is_digit (rev (front @ c # itoa n)) = rev (itoa n)"
    using all assms by (simp add: takeWhile_append)
  then show ?thesis
    by (simp add: adopted_elsewhere_count_def Let_def suffix_def)
qed

text \<open>The number of objects adopted elsewhere that a Ready message states is read back
  exactly by the next reconcile, for any base text, so the AdoptedElsewhere event is
  repeated only when that number changes.\<close>

theorem ready_message_count_roundtrip:
  assumes "0 < n" and "n < 2 ^ 63"
  shows "adopted_elsewhere_count (ready_message base (int n)) = n"
proof -
  have "ready_message base (int n) =
        (trim_right_dots base @ ''.'') @ CHR '' '' # itoa n @ adopted_elsewhere_suffix"
    using assms by (simp add: ready_message_def itoa_int_def)
  moreover have "\<not> is_digit (CHR '' '')" by (simp add: is_digit_def)
  ultimately have "adopted_elsewhere_count (ready_message base (int n)) =
      (case atoi (itoa n) of None \<Rightarrow> 0 | Some k \<Rightarrow> k)"
    by (simp only: adopted_elsewhere_count_shape not_False_eq_True)
  then show ?thesis using assms by (simp add: atoi_def)
qed

theorem ready_message_count_roundtrip_witness:
  "adopted_elsewhere_count (ready_message ''Applied 7 resources.'' 12) = 12"
  using ready_message_count_roundtrip [of 12 "''Applied 7 resources.''"] by simp


section \<open>deletion.go\<close>

datatype unread = UnreadIdentityMissing | UnreadIdentityFailed

fun unread_text :: "unread \<Rightarrow> string" where
  "unread_text UnreadIdentityMissing = ''is missing''"
| "unread_text UnreadIdentityFailed = ''cannot be impersonated''"

definition unread_cause :: "string \<Rightarrow> unread \<Rightarrow> string" where
  "unread_cause identity why =
     (if identity = [] then ''the controller '' @ unread_text why
      else ''ServiceAccount '' @ quote identity @ '' '' @ unread_text why)"

definition deletion_unconfirmed_note :: "nat \<Rightarrow> string \<Rightarrow> unread \<Rightarrow> string" where
  "deletion_unconfirmed_note count identity why =
     ''Removed the cleanup finalizer without confirming that '' @ itoa count @
     '' object(s) are gone: '' @ unread_cause identity why @ ''. '' @
     ''Every delete was sent before; the objects may still exist. Check the namespace for leftovers.''"

definition claims_unread_note :: "nat \<Rightarrow> string \<Rightarrow> unread \<Rightarrow> string" where
  "claims_unread_note count identity why =
     ''Removed the cleanup finalizer without reading '' @ itoa count @ '' PersistentVolumeClaim(s) '' @
     ''that spec.dataPolicy keeps: '' @ unread_cause identity why @
     ''. The claims were left in place and may still exist.''"

definition waiting_max_objects :: nat where "waiting_max_objects = 10"
definition waiting_max_finalizers :: nat where "waiting_max_finalizers = 3"

text \<open>metav1.FinalizerDeleteDependents\<close>

definition finalizer_delete_dependents :: string where
  "finalizer_delete_dependents = ''foregroundDeletion''"

record waiting_object =
  wo_kind :: string
  wo_namespace :: string
  wo_name :: string
  wo_finalizers :: "string list"

definition waiting_string :: "waiting_object \<Rightarrow> string" where
  "waiting_string w =
     (let name = (if wo_namespace w \<noteq> []
                  then wo_kind w @ ''/'' @ wo_namespace w @ ''/'' @ wo_name w
                  else wo_kind w @ ''/'' @ wo_name w);
          others = filter (\<lambda>f. f \<noteq> finalizer_delete_dependents) (wo_finalizers w);
          foreground = (finalizer_delete_dependents \<in> set (wo_finalizers w))
      in if others = [] \<and> foreground then name @ '' (waits for its dependents to be deleted)''
         else if others = [] then name @ '' (terminating, no finalizer)''
         else let others' = (if foreground then others @ [finalizer_delete_dependents] else others);
                  named = take waiting_max_finalizers others';
                  rest = length others' - length named
              in name @ '' (finalizers: '' @ join '', '' named @
                 (if rest > 0 then '' and '' @ itoa rest @ '' more'' else []) @ '')'')"

definition list_waiting :: "waiting_object list \<Rightarrow> string" where
  "list_waiting objs =
     (let named = take waiting_max_objects objs;
          rest = length objs - length named
      in join ''; '' (map waiting_string named) @
         (if rest > 0 then ''; and '' @ itoa rest @ '' more'' else []))"

definition deletion_in_progress_note :: "waiting_object list \<Rightarrow> string" where
  "deletion_in_progress_note objs =
     ''Every delete was sent; waiting for '' @ itoa (length objs) @
     '' object(s) to be gone: '' @ list_waiting objs @ ''.''"

definition deletion_blocked_note :: "waiting_object list \<Rightarrow> duration \<Rightarrow> string" where
  "deletion_blocked_note objs after =
     itoa (length objs) @ '' deleted object(s) are still terminating after more than '' @
     duration_string after @ '': '' @ list_waiting objs @ ''. '' @
     ''Ways out: (1) remove what holds each object: delete the dependent that cannot stop, '' @
     ''or fix or remove the controller that owns the named finalizer; '' @
     ''(2) set spec.prune=false on this object to remove its finalizer and leave the objects as they are. '' @
     ''The annotation '' @ annotation_force_delete_orphan @ '' does not release this wait.''"

definition deletion_check_failed_note :: "string \<Rightarrow> string" where
  "deletion_check_failed_note what =
     ''Every delete was sent; the deleted objects could not be checked: '' @ what @ ''. The check is retried.''"

definition deletion_check_blocked_note :: "string \<Rightarrow> duration \<Rightarrow> string" where
  "deletion_check_blocked_note what after =
     ''Every delete was sent more than '' @ duration_string after @
     '' ago and the deleted objects could not be checked: '' @ what @ ''. '' @
     ''The check is retried. Ways out: (1) restore what the check needs: the API server, the rights of the '' @
     ''ServiceAccount, or the controller's right to impersonate it; '' @
     ''(2) set spec.prune=false on this object to remove its finalizer and leave the objects as they are. '' @
     ''The annotation '' @ annotation_force_delete_orphan @ '' does not release this wait.''"

definition event_note :: "string \<Rightarrow> string" where
  "event_note message =
     (if length message \<le> event_note_limit then message
      else take (event_note_limit - 3) message @ ''...'')"

lemma event_note_fits: "length (event_note m) \<le> event_note_limit"
  by (simp add: event_note_def event_note_limit_def)


section \<open>findings.go\<close>

definition condition_message_limit :: nat where "condition_message_limit = 32768"

definition more_findings :: "nat \<Rightarrow> string" where
  "more_findings n = ''; and '' @ itoa n @ '' more findings''"

fun count_fitting :: "int \<Rightarrow> nat \<Rightarrow> int \<Rightarrow> string list \<Rightarrow> nat" where
  "count_fitting room kept used [] = kept"
| "count_fitting room kept used (item # items) =
     (let cost = int (length item) + (if kept > 0 then 2 else 0)
      in if used + cost > room then kept
         else count_fitting room (kept + 1) (used + cost) items)"

definition list_within :: "string list \<Rightarrow> int \<Rightarrow> string option" where
  "list_within items budget =
     (let full = join ''; '' items in
      if int (length full) \<le> budget then Some full
      else let room = budget - int (length (more_findings (length items)));
               kept = count_fitting room 0 0 items
           in if kept = 0 then None
              else Some (join ''; '' (take kept items) @ more_findings (length items - kept)))"

text \<open>utf8.RuneStart, and utf8.RuneCountInString by the sizes utf8.DecodeRuneInString
  reports: a byte that starts no valid encoding is one rune of size one.\<close>

definition rune_start :: "char \<Rightarrow> bool" where
  "rune_start c = ((of_char c :: nat) < 0x80 \<or> 0xC0 \<le> (of_char c :: nat))"

definition in_range :: "nat \<Rightarrow> nat \<Rightarrow> char \<Rightarrow> bool" where
  "in_range lo hi c = (lo \<le> of_char c \<and> of_char c \<le> hi)"

definition second_range :: "nat \<Rightarrow> nat \<times> nat" where
  "second_range b = (if b = 0xE0 then (0xA0, 0xBF) else if b = 0xED then (0x80, 0x9F)
     else if b = 0xF0 then (0x90, 0xBF) else if b = 0xF4 then (0x80, 0x8F) else (0x80, 0xBF))"

definition rune_size :: "string \<Rightarrow> nat" where
  "rune_size s =
     (case s of [] \<Rightarrow> 0
      | c # cs \<Rightarrow>
          let b = of_char c :: nat; (lo, hi) = second_range b;
              need = (if 0xC2 \<le> b \<and> b \<le> 0xDF then 1 else if 0xE0 \<le> b \<and> b \<le> 0xEF then 2
                      else if 0xF0 \<le> b \<and> b \<le> 0xF4 then 3 else 0 :: nat)
          in if need \<noteq> 0 \<and> need \<le> length cs \<and> in_range lo hi (hd cs) \<and>
                list_all (in_range 0x80 0xBF) (take (need - 1) (tl cs))
             then need + 1 else 1)"

fun rune_count :: "string \<Rightarrow> nat" where
  "rune_count [] = 0"
| "rune_count (c # cs) = Suc (rune_count (drop (rune_size (c # cs) - 1) cs))"

fun back_to_rune_start :: "string \<Rightarrow> nat \<Rightarrow> nat" where
  "back_to_rune_start text 0 = 0"
| "back_to_rune_start text (Suc k) =
     (if \<not> rune_start (text ! Suc k) then back_to_rune_start text k else Suc k)"

definition cut_tail :: "nat \<Rightarrow> string" where
  "cut_tail n = '' ... ('' @ itoa n @ '' more characters)''"

text \<open>Where the text is longer than the limit the index stays below its length, as the
  fixed tail is longer than nothing.\<close>

definition cut_text :: "string \<Rightarrow> nat \<Rightarrow> string" where
  "cut_text text limit =
     (if length text \<le> limit then text
      else let keep = back_to_rune_start text (limit - length (cut_tail (length text)))
           in take keep text @ cut_tail (rune_count (drop keep text)))"

text \<open>A render failure with its findings. \<open>fe_err\<close>, the wrapped error, is whatever the caller passed.\<close>

record 'e findings_error =
  fe_frame :: string
  fe_findings :: "string list"
  fe_err :: 'e

definition within :: "'e findings_error \<Rightarrow> nat \<Rightarrow> string" where
  "within e limit =
     (case list_within (fe_findings e) (int limit - int (length (fe_frame e))) of
        Some text \<Rightarrow> fe_frame e @ text
      | None \<Rightarrow> cut_text (fe_frame e @ join ''; '' (fe_findings e)) limit)"

definition findings_error_text :: "'e findings_error \<Rightarrow> string" where
  "findings_error_text e = within e condition_message_limit"

lemma join_take_Suc:
  "k < length xs \<Longrightarrow> length (join sep (take (Suc k) xs)) =
   length (join sep (take k xs)) + length (xs ! k) + (if k = 0 then 0 else length sep)"
  by (auto simp: take_Suc_conv_app_nth length_join_snoc)

lemma count_fitting_bound:
  "used = int (length (join ''; '' sofar)) \<Longrightarrow> kept = length sofar \<Longrightarrow>
   kept = 0 \<or> used \<le> room \<Longrightarrow> r = count_fitting room kept used items \<Longrightarrow>
   r = 0 \<or> (r \<le> length (sofar @ items) \<and> int (length (join ''; '' (take r (sofar @ items)))) \<le> room)"
proof (induction items arbitrary: sofar kept used)
  case (Cons item items)
  define cost where "cost = int (length item) + (if kept > 0 then 2 else 0)"
  show ?case
  proof (cases "used + cost > room")
    case True
    then have "r = kept" using Cons.prems(4) by (simp add: cost_def)
    then show ?thesis using Cons.prems by auto
  next
    case False
    then have "r = count_fitting room (kept + 1) (used + cost) items"
      using Cons.prems(4) by (simp add: cost_def)
    moreover have "used + cost = int (length (join ''; '' (sofar @ [item])))"
      using Cons.prems(1,2) by (simp add: length_join_snoc cost_def)
    ultimately show ?thesis
      using Cons.IH [of "used + cost" "sofar @ [item]" "kept + 1"] Cons.prems(2) False by simp
  qed
qed auto

lemma list_within_fits: "list_within items budget = Some text \<Longrightarrow> int (length text) \<le> budget"
proof -
  assume some: "list_within items budget = Some text"
  define room where "room = budget - int (length (more_findings (length items)))"
  define kept where "kept = count_fitting room 0 0 items"
  have tail: "length (more_findings (length items - kept)) \<le> length (more_findings (length items))"
    by (simp add: more_findings_def length_itoa_mono)
  have "kept = 0 \<or> int (length (join ''; '' (take kept items))) \<le> room"
    using count_fitting_bound [of 0 "[]" 0 room kept items] by (auto simp: kept_def)
  with tail some show ?thesis
    by (auto simp: list_within_def Let_def room_def [symmetric] kept_def [symmetric] split: if_splits)
       (simp add: room_def)
qed

lemma rune_count_le: "rune_count s \<le> length s"
proof (induction s rule: rune_count.induct)
  case (2 c cs)
  then show ?case by simp
qed simp

lemma back_to_rune_start_le: "back_to_rune_start s k \<le> k"
  by (induction s k rule: back_to_rune_start.induct) auto

lemma cut_text_fits:
  assumes "length text < 10 ^ 19" and "43 \<le> limit"
  shows "length (cut_text text limit) \<le> limit"
proof (cases "length text \<le> limit")
  case False
  define keep where "keep = back_to_rune_start text (limit - length (cut_tail (length text)))"
  have tail: "length (cut_tail (length text)) \<le> limit"
    using length_itoa [of "length text" 19] assms by (simp add: cut_tail_def)
  have "rune_count (drop keep text) \<le> length text"
    using rune_count_le [of "drop keep text"] by simp
  then have "length (cut_tail (rune_count (drop keep text))) \<le> length (cut_tail (length text))"
    by (simp add: cut_tail_def length_itoa_mono)
  moreover have "keep \<le> limit - length (cut_tail (length text))"
    unfolding keep_def by (rule back_to_rune_start_le)
  ultimately show ?thesis
    using False tail by (simp add: cut_text_def Let_def keep_def [symmetric])
qed (simp add: cut_text_def)

text \<open>The wording of a render failure keeps within the requested length, so its
  condition message is always accepted by the API and its event is never lost.\<close>

lemma findings_within_limit:
  assumes "length (fe_frame e @ join ''; '' (fe_findings e)) < 10 ^ 19" and "43 \<le> limit"
  shows "length (within e limit) \<le> limit"
proof (cases "list_within (fe_findings e) (int limit - int (length (fe_frame e)))")
  case None
  then show ?thesis using cut_text_fits [OF assms] by (simp add: within_def)
next
  case (Some worded)
  from list_within_fits [OF this] Some show ?thesis by (simp add: within_def)
qed

lemma findings_within_limit_witness:
  "length (within \<lparr>fe_frame = ''loading the instance: '',
       fe_findings = [''spec.image: field not allowed'', ''spec.port: conflicting values''], fe_err = ()\<rparr> 60) \<le> 60"
  by (rule findings_within_limit) simp_all

end
