(* ===== verification/Errors.thy ===== *)
theory Errors
  imports Api Status_Notes
begin

text \<open>
  Go errors, and how the operator classifies them: internal/reconcile/resolution.go
  and rendertimeout.go, internal/apply/impersonate.go and the error types of
  internal/apply, internal/render and internal/reconcile/converted.go.

  An error value is a tree: \<open>errors.Is\<close> and \<open>errors.As\<close> of Go's standard library
  walk it depth first, the value before what it unwraps to. A leaf \<open>Ext x\<close> is an
  error of a library (the OPM library, the Kubernetes client); what the source asks
  of such a leaf is a field of \<open>errlib\<close>.
\<close>

section \<open>Error values\<close>

text \<open>The package-level errors of the source and of package context. \<open>LoopNotEnded\<close> is no error
  of the program: it marks a loop of the model that used up its bound.\<close>

datatype sentinel =
    ErrAcquire | ErrPlatformNotReady | ErrRenderTimedOut | ErrRenderStillRunning
  | ErrUnsupportedKind | ErrNoIdentity | ErrReplaced | ErrCollectionDelete
  | ErrSourceNotFound | ErrSourceNotReady | ErrUnsupportedSourceKind | ErrMissingCUEModule
  | ErrInstanceFileMissing | ContextCanceled | ContextDeadlineExceeded | LoopNotEnded

fun sentinel_text :: "sentinel \<Rightarrow> string" where
  "sentinel_text ErrAcquire = ''acquiring module source''"
| "sentinel_text ErrPlatformNotReady = ''platform not ready: no generated platform module''"
| "sentinel_text ErrRenderTimedOut = ''render timed out''"
| "sentinel_text ErrRenderStillRunning = ''the previous render of this object is still running''"
| "sentinel_text ErrUnsupportedKind = ''unsupported instance kind''"
| "sentinel_text ErrNoIdentity = ''the apply verdict cannot be asked without an instance identity''"
| "sentinel_text ErrReplaced = ''object was replaced since it was read''"
| "sentinel_text ErrCollectionDelete =
     ''a delete of a collection of objects is not allowed: it cannot name the objects that were read''"
| "sentinel_text ErrSourceNotFound = ''source not found''"
| "sentinel_text ErrSourceNotReady = ''source not ready''"
| "sentinel_text ErrUnsupportedSourceKind = ''unsupported source kind''"
| "sentinel_text ErrMissingCUEModule = ''artifact does not contain a cue module''"
| "sentinel_text ErrInstanceFileMissing = ''instance.cue not found''"
| "sentinel_text ContextCanceled = ''context canceled''"
| "sentinel_text ContextDeadlineExceeded = ''context deadline exceeded''"
| "sentinel_text LoopNotEnded = ''loop not ended''"

text \<open>The library's ownership.Object: what a verdict is asked about.\<close>

record object_ref =
  or_group :: string
  or_kind :: string
  or_namespace :: string
  or_name :: string

text \<open>
  \<open>Fmt msg es\<close> is what fmt.Errorf returns: the formatted message and the operands of
  its percent-w verbs (errors.New has none). \<open>Joined\<close> is errors.Join of errors that are
  not nil. The others are the error structs of the source.
\<close>

datatype 'x goerr =
    Ext 'x
  | Fmt string "'x goerr list"
  | Joined "'x goerr list"
  | Sentinel sentinel
  | AcquireErr string "'x goerr"
  | FindingsErr string "string list" "'x goerr"
  | ConversionErr string string "'x goerr"
  | ClaimConflictErr string string "string list" "'x goerr option"
  | TakenInConflictErr object_ref "string list" "'x goerr option"
  | GuardReadErr object_ref "'x goerr"

fun children :: "'x goerr \<Rightarrow> 'x goerr list" where
  "children (Ext x) = []"
| "children (Fmt m es) = es"
| "children (Joined es) = es"
| "children (Sentinel s) = []"
| "children (AcquireErr m e) = [Sentinel ErrAcquire, e]"
| "children (FindingsErr f fs e) = [e]"
| "children (ConversionErr r s e) = [e]"
| "children (ClaimConflictErr ns n fs c) = (case c of None \<Rightarrow> [] | Some e \<Rightarrow> [e])"
| "children (TakenInConflictErr r fs c) = (case c of None \<Rightarrow> [] | Some e \<Rightarrow> [e])"
| "children (GuardReadErr r e) = [e]"


function chain :: "'x goerr \<Rightarrow> 'x goerr list" where
  "chain e = e # concat (map chain (children e))"
  by pat_completeness auto

fun err_depth :: "'x goerr \<Rightarrow> nat" where
  "err_depth (Ext x) = 0"
| "err_depth (Fmt m es) = Suc (sum_list (map err_depth es))"
| "err_depth (Joined es) = Suc (sum_list (map err_depth es))"
| "err_depth (Sentinel s) = 0"
| "err_depth (AcquireErr m e) = Suc (err_depth e)"
| "err_depth (FindingsErr f fs e) = Suc (err_depth e)"
| "err_depth (ConversionErr r s e) = Suc (err_depth e)"
| "err_depth (ClaimConflictErr ns n fs c) = (case c of None \<Rightarrow> 0 | Some e \<Rightarrow> Suc (err_depth e))"
| "err_depth (TakenInConflictErr r fs c) = (case c of None \<Rightarrow> 0 | Some e \<Rightarrow> Suc (err_depth e))"
| "err_depth (GuardReadErr r e) = Suc (err_depth e)"

lemma err_depth_children: "c \<in> set (children e) \<Longrightarrow> err_depth c < err_depth e"
  by (cases e) (auto split: option.splits simp: less_Suc_eq_le intro: member_le_sum_list)

termination chain
  by (relation "measure err_depth") (auto simp: err_depth_children)

declare chain.simps [simp del]

text \<open>errors.Is and errors.As hold of a tree when they hold of one node.\<close>

definition some_node :: "('x goerr \<Rightarrow> bool) \<Rightarrow> 'x goerr \<Rightarrow> bool" where
  "some_node p e = list_ex p (chain e)"

lemma some_node_simp: "some_node p e = (p e \<or> list_ex (some_node p) (children e))"
proof -
  have "list_ex p (concat (map chain es)) = list_ex (some_node p) es" for es
    by (induction es) (simp_all add: some_node_def)
  then show ?thesis unfolding some_node_def [of p e] by (simp add: chain.simps [of e])
qed

lemma some_node_simps [simp]:
  "some_node p (Ext x) = p (Ext x)"
  "some_node p (Fmt m es) = (p (Fmt m es) \<or> list_ex (some_node p) es)"
  "some_node p (Joined es) = (p (Joined es) \<or> list_ex (some_node p) es)"
  "some_node p (Sentinel s) = p (Sentinel s)"
  "some_node p (AcquireErr m e) = (p (AcquireErr m e) \<or> p (Sentinel ErrAcquire) \<or> some_node p e)"
  "some_node p (FindingsErr f fs e) = (p (FindingsErr f fs e) \<or> some_node p e)"
  "some_node p (ConversionErr r stp e) = (p (ConversionErr r stp e) \<or> some_node p e)"
  "some_node p (GuardReadErr o' e) = (p (GuardReadErr o' e) \<or> some_node p e)"
  by (subst some_node_simp; simp add: some_node_simp [of p "Sentinel ErrAcquire"])+

text \<open>What the source asks of an error of a library. The API server's status of an
  apierrors.StatusError, with the details of its answer.\<close>

record api_details =
  ad_group :: string
  ad_kind :: string
  ad_name :: string
  ad_cause_fields :: "string list"

record api_status =
  as_reason :: string
  as_code :: int
  as_details :: "api_details option"

text \<open>
  \<open>el_is\<close> is errors.Is with a sentinel the source compares, \<open>el_status\<close> is errors.As with
  *apierrors.StatusError, and the rest are errors.Is or errors.AsType with one error of
  the OPM library, all of a library's error value. The \<open>ae_\<close> fields are the
  predicates of k8s.io/apimachinery and fluxcd/pkg/ssa, which take any error, and
  \<open>el_object\<close> is the String method of the library's ownership.Object. The two no-match fields
  are the group and kind of a meta.NoKindMatchError and the group of a
  meta.NoResourceMatchError.
\<close>

record 'x errlib =
  el_text :: "'x \<Rightarrow> string"
  el_is :: "'x \<Rightarrow> sentinel \<Rightarrow> bool"
  el_status :: "'x \<Rightarrow> api_status option"
  el_identity :: "'x \<Rightarrow> bool"
  el_unresolved_demands :: "'x \<Rightarrow> bool"
  el_unmatched_components :: "'x \<Rightarrow> bool"
  el_wrong_kind :: "'x \<Rightarrow> bool"
  el_invalid_package :: "'x \<Rightarrow> bool"
  el_missing_required_field :: "'x \<Rightarrow> bool"
  el_fetch :: "'x \<Rightarrow> bool"
  el_skew :: "'x \<Rightarrow> bool"
  el_duplicate_identities :: "'x \<Rightarrow> bool"
  ae_not_found :: "'x goerr \<Rightarrow> bool"
  ae_forbidden :: "'x goerr \<Rightarrow> bool"
  ae_conflict :: "'x goerr \<Rightarrow> bool"
  ae_no_match :: "'x goerr \<Rightarrow> bool"
  ae_immutable :: "'x goerr \<Rightarrow> bool"
  ae_reason :: "'x goerr \<Rightarrow> string"
  el_object :: "object_ref \<Rightarrow> string"
  el_no_kind_match :: "'x \<Rightarrow> (string \<times> string) option"
  el_no_resource_match :: "'x \<Rightarrow> string option"

definition as_lib :: "('x \<Rightarrow> bool) \<Rightarrow> 'x goerr \<Rightarrow> bool" where
  "as_lib p e = some_node (\<lambda>n. case n of Ext x \<Rightarrow> p x | _ \<Rightarrow> False) e"

definition errors_is :: "'x errlib \<Rightarrow> sentinel \<Rightarrow> 'x goerr \<Rightarrow> bool" where
  "errors_is L s e =
     some_node (\<lambda>n. case n of Sentinel t \<Rightarrow> t = s | Ext x \<Rightarrow> el_is L x s | _ \<Rightarrow> False) e"

fun first_some :: "('a \<Rightarrow> 'b option) \<Rightarrow> 'a list \<Rightarrow> 'b option" where
  "first_some f [] = None"
| "first_some f (x # xs) = (case f x of None \<Rightarrow> first_some f xs | Some y \<Rightarrow> Some y)"

text \<open>errors.As with a type of a library: the first value of that type in the tree.\<close>

definition as_first :: "('x \<Rightarrow> 'b option) \<Rightarrow> 'x goerr \<Rightarrow> 'b option" where
  "as_first f e = first_some (\<lambda>n. case n of Ext x \<Rightarrow> f x | _ \<Rightarrow> None) (chain e)"

definition as_status :: "'x errlib \<Rightarrow> 'x goerr \<Rightarrow> ('x \<times> api_status) option" where
  "as_status L e = as_first (\<lambda>x. map_option (Pair x) (el_status L x)) e"


section \<open>Error texts\<close>

text \<open>The errors of internal/render that word themselves within a length: the interface
  \<open>bounded\<close>. Only such an error is asked for its wording within a length.\<close>

fun is_bounded :: "'x goerr \<Rightarrow> bool" where
  "is_bounded (FindingsErr f fs e) = True"
| "is_bounded (AcquireErr m e) = True"
| "is_bounded _ = False"

definition claim_kind :: string where "claim_kind = ''PersistentVolumeClaim''"

definition taken_in_rule :: string where
  "taken_in_rule = ''OPM does not delete and create again an object it is taking in''"

fun err_text :: "'x errlib \<Rightarrow> 'x goerr \<Rightarrow> string"
  and err_within :: "'x errlib \<Rightarrow> 'x goerr \<Rightarrow> nat \<Rightarrow> string" where
  "err_text L (Ext x) = el_text L x"
| "err_text L (Fmt m es) = m"
| "err_text L (Joined es) = join [CHR 0x0A] (map (err_text L) es)"
| "err_text L (Sentinel s) = sentinel_text s"
| "err_text L (AcquireErr m e) =
     (let head = m @ '': ''; limit = condition_message_limit in
      if is_bounded e \<and> limit > length head then head @ err_within L e (limit - length head)
      else cut_text (head @ err_text L e) limit)"
| "err_text L (FindingsErr f fs e) =
     findings_error_text \<lparr>fe_frame = f, fe_findings = fs, fe_err = e\<rparr>"
| "err_text L (ConversionErr reason stp e) = stp @ '': '' @ err_text L e"
| "err_text L (ClaimConflictErr ns n flds cause) =
     (case cause of
        None \<Rightarrow> claim_kind @ '' '' @ ns @ ''/'' @ n @ '' was not deleted: the apply may not delete data''
      | Some e \<Rightarrow> claim_kind @ '' '' @ ns @ ''/'' @ n @
                  '' was not recreated, the apply may not delete data: '' @ err_text L e)"
| "err_text L (TakenInConflictErr obj flds cause) =
     (case cause of
        None \<Rightarrow> el_object L obj @ '' was not deleted: '' @ taken_in_rule
      | Some e \<Rightarrow>
          el_object L obj @ '' exists and the API server refuses the update'' @
          (if flds \<noteq> [] then '' of '' @ join '', '' flds else []) @ '': '' @ taken_in_rule @
          ''. Change the object so that the update is accepted, or delete it: '' @ err_text L e)"
| "err_text L (GuardReadErr obj e) =
     (if ae_reason L e \<noteq> []
      then ''reading '' @ el_object L obj @ '' before the apply ('' @ ae_reason L e @ ''): '' @ err_text L e
      else ''reading '' @ el_object L obj @ '' before the apply: '' @ err_text L e)"
| "err_within L (FindingsErr f fs e) limit =
     within \<lparr>fe_frame = f, fe_findings = fs, fe_err = e\<rparr> limit"
| "err_within L (AcquireErr m e) limit =
     (let head = m @ '': '' in
      if is_bounded e \<and> limit > length head then head @ err_within L e (limit - length head)
      else cut_text (head @ err_text L e) limit)"
| "err_within L (Ext x) limit = []"
| "err_within L (Fmt m es) limit = []"
| "err_within L (Joined es) limit = []"
| "err_within L (Sentinel s) limit = []"
| "err_within L (ConversionErr r stp e) limit = []"
| "err_within L (ClaimConflictErr ns n flds c) limit = []"
| "err_within L (TakenInConflictErr r flds c) limit = []"
| "err_within L (GuardReadErr r e) limit = []"

definition failure_event_note :: "'x errlib \<Rightarrow> 'x goerr \<Rightarrow> string" where
  "failure_event_note L err =
     (let txt = err_text L err in
      if length txt \<le> event_note_limit then txt
      else case find is_bounded (chain err) of
             Some b \<Rightarrow> if err_text L b = txt then err_within L b event_note_limit
                       else cut_text txt event_note_limit
           | None \<Rightarrow> cut_text txt event_note_limit)"

definition acquire_failed :: "string \<Rightarrow> 'x goerr \<Rightarrow> 'x goerr" where
  "acquire_failed msg err = AcquireErr msg err"


section \<open>resolution.go\<close>

definition is_typed_resolution_error :: "'x errlib \<Rightarrow> 'x goerr \<Rightarrow> bool" where
  "is_typed_resolution_error L err =
     (as_lib (el_identity L) err \<or> as_lib (el_unresolved_demands L) err \<or>
      as_lib (el_unmatched_components L) err)"

definition is_terminal_cause :: "'x errlib \<Rightarrow> 'x goerr \<Rightarrow> bool" where
  "is_terminal_cause L err =
     (if as_lib (el_wrong_kind L) err \<or> as_lib (el_invalid_package L) err \<or>
         as_lib (el_missing_required_field L) err then True
      else is_typed_resolution_error L err)"

definition is_transient_failure :: "'x errlib \<Rightarrow> 'x goerr option \<Rightarrow> bool" where
  "is_transient_failure L err =
     (case err of None \<Rightarrow> False
      | Some e \<Rightarrow> if is_terminal_cause L e then False else as_lib (el_fetch L) e)"

definition is_skew_refusal :: "'x errlib \<Rightarrow> 'x goerr \<Rightarrow> bool" where
  "is_skew_refusal L err = as_lib (el_skew L) err"

definition is_duplicate_identities :: "'x errlib \<Rightarrow> 'x goerr \<Rightarrow> bool" where
  "is_duplicate_identities L err = as_lib (el_duplicate_identities L) err"

definition render_failure_reason :: "'x errlib \<Rightarrow> 'x goerr \<Rightarrow> string" where
  "render_failure_reason L err =
     (if is_skew_refusal L err then ''SkewRefused''
      else if is_duplicate_identities L err then ''DuplicateIdentities''
      else if is_typed_resolution_error L err \<or> errors_is L ErrAcquire err then ''ResolutionFailed''
      else ''RenderFailed'')"

definition render_key :: "string \<Rightarrow> string \<Rightarrow> string \<Rightarrow> string" where
  "render_key kind namespace name = kind @ ''/'' @ namespace @ ''/'' @ name"

definition render_timeout_message :: "'x errlib \<Rightarrow> 'x goerr \<Rightarrow> duration \<Rightarrow> string option" where
  "render_timeout_message L err timeout =
     (if errors_is L ErrRenderTimedOut err
      then Some (''render did not finish within '' @ duration_string timeout @
                 ''; its render slot stays held until the render returns'')
      else if errors_is L ErrRenderStillRunning err
      then Some (''the previous render of this object did not finish within '' @ duration_string timeout @
                 '' and is still running; no new render was started'')
      else None)"


section \<open>impersonate.go\<close>

definition is_service_account_not_found :: "'x errlib \<Rightarrow> 'x goerr \<Rightarrow> bool" where
  "is_service_account_not_found L err = ae_not_found L err"

definition is_service_account_gone :: "'x errlib \<Rightarrow> 'x goerr \<Rightarrow> string \<Rightarrow> bool" where
  "is_service_account_gone L err name =
     (case as_status L err of
        None \<Rightarrow> False
      | Some (x, st) \<Rightarrow>
          if \<not> ae_not_found L (Ext x) then False
          else case as_details st of
                 None \<Rightarrow> False
               | Some d \<Rightarrow> ad_group d = [] \<and> ad_kind d = ''serviceaccounts'' \<and> ad_name d = name)"


section \<open>Classification through wraps and joins\<close>

lemma as_lib_simps [simp]:
  "as_lib p (Ext x) = p x"
  "as_lib p (Fmt m es) = list_ex (as_lib p) es"
  "as_lib p (Joined es) = list_ex (as_lib p) es"
  "as_lib p (Sentinel s) = False"
  "as_lib p (AcquireErr m e) = as_lib p e"
  "as_lib p (FindingsErr f fs e) = as_lib p e"
  "as_lib p (ConversionErr r stp e) = as_lib p e"
  "as_lib p (GuardReadErr obj e) = as_lib p e"
  by (simp_all add: as_lib_def [abs_def])

lemma errors_is_simps [simp]:
  "errors_is L s (Ext x) = el_is L x s"
  "errors_is L s (Fmt m es) = list_ex (errors_is L s) es"
  "errors_is L s (Joined es) = list_ex (errors_is L s) es"
  "errors_is L s (Sentinel t) = (t = s)"
  "errors_is L s (AcquireErr m e) = (s = ErrAcquire \<or> errors_is L s e)"
  "errors_is L s (FindingsErr f fs e) = errors_is L s e"
  "errors_is L s (ConversionErr r stp e) = errors_is L s e"
  "errors_is L s (GuardReadErr obj e) = errors_is L s e"
  by (auto simp: errors_is_def [abs_def])


section \<open>The causes of an error\<close>

text \<open>What an error unwraps to, in any number of steps and through any join.\<close>

inductive unwraps_to :: "'x goerr \<Rightarrow> 'x goerr \<Rightarrow> bool" where
  itself: "unwraps_to e e"
| unwrap: "c \<in> set (children e) \<Longrightarrow> unwraps_to c n \<Longrightarrow> unwraps_to e n"

text \<open>An error carries a cause when it unwraps to a library's error of that kind.\<close>

definition carries :: "'x goerr \<Rightarrow> ('x \<Rightarrow> bool) \<Rightarrow> bool" where
  "carries e p = (\<exists>x. unwraps_to e (Ext x) \<and> p x)"

definition carries_sentinel :: "'x errlib \<Rightarrow> 'x goerr \<Rightarrow> sentinel \<Rightarrow> bool" where
  "carries_sentinel L e s = (unwraps_to e (Sentinel s) \<or> carries e (\<lambda>x. el_is L x s))"

lemma chain_unwraps: "set (chain e) = Collect (unwraps_to e)"
proof (intro set_eqI iffI)
  show "n \<in> Collect (unwraps_to e)" if "n \<in> set (chain e)" for n
    using that
  proof (induction e rule: chain.induct)
    case (1 e)
    then show ?case
      unfolding chain.simps [of e] by (auto intro: unwraps_to.intros)
  qed
  show "n \<in> set (chain e)" if "n \<in> Collect (unwraps_to e)" for n
  proof -
    from that have "unwraps_to e n" by simp
    then show ?thesis by induction (subst chain.simps; auto)+
  qed
qed

lemma node_is_lib: "(case n of Ext x \<Rightarrow> p x | _ \<Rightarrow> False) = (\<exists>x. n = Ext x \<and> p x)"
  by (cases n) simp_all

lemma node_is_sentinel:
  "(case n of Sentinel t \<Rightarrow> t = s | Ext x \<Rightarrow> p x | _ \<Rightarrow> False) = (n = Sentinel s \<or> (\<exists>x. n = Ext x \<and> p x))"
  by (cases n) simp_all

lemma as_lib_carries: "as_lib p e = carries e p"
  unfolding as_lib_def some_node_def carries_def list_ex_iff chain_unwraps node_is_lib by blast

lemma errors_is_carries: "errors_is L s e = carries_sentinel L e s"
  unfolding errors_is_def some_node_def carries_sentinel_def carries_def list_ex_iff chain_unwraps node_is_sentinel
  by blast

lemma carries_disj: "carries e (\<lambda>x. p x \<or> q x) = (carries e p \<or> carries e q)"
  by (auto simp: carries_def)

end
