(* ===== verification/Slots.thy ===== *)
theory Slots
  imports Errors
begin

text \<open>
  internal/render/slots.go and internal/reconcile/rendertimeout.go: the pool that bounds the renders in
  flight. Every call of Run is a thread with a program counter for the caller and one for the
  goroutine of its render; a step of the pool is one step of one of them, so a run of the relation is an
  interleaving of the calls of every reconcile worker.
\<close>

section \<open>The pool\<close>

text \<open>A nil pool is \<open>None\<close>. \<open>sl_held\<close> is the length of the channel.\<close>

record slots =
  sl_cap :: nat
  sl_held :: nat
  sl_running :: "string set"

text \<open>The left side is the value of the panic.\<close>

definition new_slots :: "int \<Rightarrow> string + slots" where
  "new_slots n =
     (if n < 1 then Inl (''render.NewSlots: n must be at least 1, got '' @ itoa_int n)
      else Inr \<lparr>sl_cap = nat n, sl_held = 0, sl_running = {}\<rparr>)"

definition slots_held :: "slots option \<Rightarrow> nat" where
  "slots_held s = (case s of None \<Rightarrow> 0 | Some p \<Rightarrow> sl_held p)"

definition has_room :: "slots \<Rightarrow> bool" where
  "has_room p = (sl_held p < sl_cap p)"

definition take_slot :: "slots \<Rightarrow> slots" where
  "take_slot p = p\<lparr>sl_held := sl_held p + 1\<rparr>"

definition give_back :: "slots \<Rightarrow> slots" where
  "give_back p = p\<lparr>sl_held := sl_held p - 1\<rparr>"

definition is_running :: "slots option \<Rightarrow> string \<Rightarrow> bool" where
  "is_running s key = (case s of None \<Rightarrow> False | Some p \<Rightarrow> key \<noteq> [] \<and> key \<in> sl_running p)"

definition mark_running :: "string \<Rightarrow> slots \<Rightarrow> slots" where
  "mark_running key p = (if key = [] then p else p\<lparr>sl_running := insert key (sl_running p)\<rparr>)"

definition clear_running :: "string \<Rightarrow> slots \<Rightarrow> slots" where
  "clear_running key p = (if key = [] then p else p\<lparr>sl_running := sl_running p - {key}\<rparr>)"


section \<open>A call of Run\<close>

text \<open>How Run ended: nil, one of its two sentinels, the error of the context, or the panic of the
  render raised again.\<close>

datatype run_end = RunNil | RunTimedOut | RunStillRunning | RunContext | RunPanicked

datatype caller_pc =
    Entered            \<comment> \<open>before the check of the key\<close>
  | Checked            \<comment> \<open>in Acquire, before it reads the context\<close>
  | Selecting          \<comment> \<open>in Acquire, at the select\<close>
  | Acquired           \<comment> \<open>holds a slot\<close>
  | Inline             \<comment> \<open>runs fn on its own goroutine\<close>
  | InlineEnded bool   \<comment> \<open>fn returned, or panicked, before the deferred release\<close>
  | Marked             \<comment> \<open>the key is marked, before the go statement\<close>
  | Waiting            \<comment> \<open>at the outer select\<close>
  | Expired            \<comment> \<open>past the inner select, before it reads the context\<close>
  | LastWait           \<comment> \<open>the parent was cancelled: waits for fn\<close>
  | Returned run_end

datatype render_pc =
    NotStarted
  | Rendering
  | Ended bool         \<comment> \<open>fn returned, or panicked\<close>
  | Cleared bool       \<comment> \<open>the key is free\<close>
  | Released bool      \<comment> \<open>the slot is free\<close>
  | Sent bool          \<comment> \<open>its return waits in the done channel\<close>
  | Taken

text \<open>\<open>cl_called\<close> and \<open>cl_done\<close> record that fn was called and that it returned.\<close>

record call =
  cl_key :: string
  cl_timeout :: duration
  cl_parent_done :: bool
  cl_deadline :: bool
  cl_caller :: caller_pc
  cl_render :: render_pc
  cl_called :: bool
  cl_done :: bool

definition new_call :: "string \<Rightarrow> duration \<Rightarrow> bool \<Rightarrow> call" where
  "new_call key timeout cancelled =
     \<lparr>cl_key = key, cl_timeout = timeout, cl_parent_done = cancelled, cl_deadline = False,
      cl_caller = Entered, cl_render = NotStarted, cl_called = False, cl_done = False\<rparr>"

text \<open>The context of the render is done with the deadline or with its parent; its error is
  DeadlineExceeded when the deadline came first.\<close>

definition render_context_done :: "call \<Rightarrow> bool" where
  "render_context_done c = (cl_deadline c \<or> cl_parent_done c)"

definition returned :: "call \<Rightarrow> bool \<Rightarrow> run_end" where
  "returned c panicked =
     (if panicked then RunPanicked
      else if cl_deadline c \<and> \<not> cl_parent_done c then RunTimedOut else RunNil)"

text \<open>One step of a call, with the pool it leaves.\<close>

inductive call_step :: "slots option \<times> call \<Rightarrow> slots option \<times> call \<Rightarrow> bool" where
  still_running: "cl_caller c = Entered \<Longrightarrow> is_running s (cl_key c) \<Longrightarrow>
    call_step (s, c) (s, c\<lparr>cl_caller := Returned RunStillRunning\<rparr>)"
| free_key: "cl_caller c = Entered \<Longrightarrow> \<not> is_running s (cl_key c) \<Longrightarrow>
    call_step (s, c) (s, c\<lparr>cl_caller := Checked\<rparr>)"
| no_pool: "cl_caller c = Checked \<Longrightarrow>
    call_step (None, c) (None, c\<lparr>cl_caller := Acquired\<rparr>)"
| cancelled_early: "cl_caller c = Checked \<Longrightarrow> cl_parent_done c \<Longrightarrow>
    call_step (Some p, c) (Some p, c\<lparr>cl_caller := Returned RunContext\<rparr>)"
| selects: "cl_caller c = Checked \<Longrightarrow> \<not> cl_parent_done c \<Longrightarrow>
    call_step (Some p, c) (Some p, c\<lparr>cl_caller := Selecting\<rparr>)"
| takes: "cl_caller c = Selecting \<Longrightarrow> has_room p \<Longrightarrow>
    call_step (Some p, c) (Some (take_slot p), c\<lparr>cl_caller := Acquired\<rparr>)"
| gives_up: "cl_caller c = Selecting \<Longrightarrow> cl_parent_done c \<Longrightarrow>
    call_step (s, c) (s, c\<lparr>cl_caller := Returned RunContext\<rparr>)"
| runs_inline: "cl_caller c = Acquired \<Longrightarrow> cl_timeout c \<le> 0 \<Longrightarrow>
    call_step (s, c) (s, c\<lparr>cl_caller := Inline, cl_called := True\<rparr>)"
| inline_ends: "cl_caller c = Inline \<Longrightarrow>
    call_step (s, c) (s, c\<lparr>cl_caller := InlineEnded panicked, cl_done := True\<rparr>)"
| inline_releases: "cl_caller c = InlineEnded panicked \<Longrightarrow>
    call_step (s, c) (map_option give_back s,
      c\<lparr>cl_caller := Returned (if panicked then RunPanicked else RunNil)\<rparr>)"
| marks: "cl_caller c = Acquired \<Longrightarrow> 0 < cl_timeout c \<Longrightarrow>
    call_step (s, c) (map_option (mark_running (cl_key c)) s, c\<lparr>cl_caller := Marked\<rparr>)"
| spawns: "cl_caller c = Marked \<Longrightarrow>
    call_step (s, c) (s, c\<lparr>cl_caller := Waiting, cl_render := Rendering, cl_called := True\<rparr>)"
| fn_ends: "cl_render c = Rendering \<Longrightarrow>
    call_step (s, c) (s, c\<lparr>cl_render := Ended panicked, cl_done := True\<rparr>)"
| clears: "cl_render c = Ended panicked \<Longrightarrow>
    call_step (s, c) (map_option (clear_running (cl_key c)) s, c\<lparr>cl_render := Cleared panicked\<rparr>)"
| releases: "cl_render c = Cleared panicked \<Longrightarrow>
    call_step (s, c) (map_option give_back s, c\<lparr>cl_render := Released panicked\<rparr>)"
| sends: "cl_render c = Released panicked \<Longrightarrow>
    call_step (s, c) (s, c\<lparr>cl_render := Sent panicked\<rparr>)"
| receives: "cl_caller c = Waiting \<or> cl_caller c = LastWait \<Longrightarrow> cl_render c = Sent panicked \<Longrightarrow>
    call_step (s, c) (s, c\<lparr>cl_caller := Returned (returned c panicked), cl_render := Taken\<rparr>)"
| expires: "cl_caller c = Waiting \<Longrightarrow> render_context_done c \<Longrightarrow> \<forall>b. cl_render c \<noteq> Sent b \<Longrightarrow>
    call_step (s, c) (s, c\<lparr>cl_caller := Expired\<rparr>)"
| waits_on: "cl_caller c = Expired \<Longrightarrow> cl_parent_done c \<Longrightarrow>
    call_step (s, c) (s, c\<lparr>cl_caller := LastWait\<rparr>)"
| abandons: "cl_caller c = Expired \<Longrightarrow> \<not> cl_parent_done c \<Longrightarrow>
    call_step (s, c) (s, c\<lparr>cl_caller := Returned RunTimedOut\<rparr>)"
| logs_abandoned: "cl_caller c = Returned RunTimedOut \<Longrightarrow> cl_render c = Sent panicked \<Longrightarrow>
    call_step (s, c) (s, c\<lparr>cl_render := Taken\<rparr>)"
| deadline: "cl_caller c \<in> {Marked, Waiting, Expired, LastWait} \<Longrightarrow>
    call_step (s, c) (s, c\<lparr>cl_deadline := True\<rparr>)"
| cancel: "call_step (s, c) (s, c\<lparr>cl_parent_done := True\<rparr>)"

text \<open>The process: the pool and every call made so far. \<open>admits\<close> says which key a worker may take
  next: the workqueue of controller-runtime.\<close>

record render_pool =
  rp_slots :: "slots option"
  rp_calls :: "call list"

inductive pool_step :: "(render_pool \<Rightarrow> string \<Rightarrow> bool) \<Rightarrow> render_pool \<Rightarrow> render_pool \<Rightarrow> bool" for admits where
  enter: "admits P key \<Longrightarrow>
    pool_step admits P (P\<lparr>rp_calls := rp_calls P @ [new_call key timeout cancelled]\<rparr>)"
| moves: "i < length (rp_calls P) \<Longrightarrow> call_step (rp_slots P, rp_calls P ! i) (s', c') \<Longrightarrow>
    pool_step admits P \<lparr>rp_slots = s', rp_calls = (rp_calls P)[i := c']\<rparr>"

inductive pool_reachable :: "(render_pool \<Rightarrow> string \<Rightarrow> bool) \<Rightarrow> slots option \<Rightarrow> render_pool \<Rightarrow> bool"
  for admits s0 where
  built: "pool_reachable admits s0 \<lparr>rp_slots = s0, rp_calls = []\<rparr>"
| stepped: "pool_reachable admits s0 P \<Longrightarrow> pool_step admits P P' \<Longrightarrow> pool_reachable admits s0 P'"

inductive_cases call_stepE: "call_step (s, c) (s', c')"
inductive_cases pool_stepE: "pool_step admits P P'"


section \<open>Capacity\<close>

text \<open>The calls that hold a slot.\<close>

fun caller_holds :: "caller_pc \<Rightarrow> bool" where
  "caller_holds Acquired = True"
| "caller_holds Inline = True"
| "caller_holds (InlineEnded _) = True"
| "caller_holds Marked = True"
| "caller_holds _ = False"

fun render_holds :: "render_pc \<Rightarrow> bool" where
  "render_holds Rendering = True"
| "render_holds (Ended _) = True"
| "render_holds (Cleared _) = True"
| "render_holds _ = False"

definition holds_slot :: "call \<Rightarrow> bool" where
  "holds_slot c = (caller_holds (cl_caller c) \<or> render_holds (cl_render c))"

text \<open>What relates the two program counters of a call and its history.\<close>

definition call_ok :: "call \<Rightarrow> bool" where
  "call_ok c =
     ((case cl_caller c of
         Returned r \<Rightarrow>
           (cl_called c = (r = RunNil \<or> r = RunTimedOut \<or> r = RunPanicked)) \<and>
           (r = RunNil \<or> r = RunPanicked \<longrightarrow> cl_done c \<and> (cl_render c = NotStarted \<or> cl_render c = Taken)) \<and>
           (r = RunStillRunning \<or> r = RunContext \<longrightarrow> cl_render c = NotStarted) \<and>
           (r = RunTimedOut \<longrightarrow> cl_render c \<noteq> NotStarted)
       | Waiting \<Rightarrow> cl_called c \<and> cl_render c \<notin> {NotStarted, Taken}
       | Expired \<Rightarrow> cl_called c \<and> cl_render c \<notin> {NotStarted, Taken}
       | LastWait \<Rightarrow> cl_called c \<and> cl_render c \<notin> {NotStarted, Taken}
       | Inline \<Rightarrow> cl_called c \<and> \<not> cl_done c \<and> cl_render c = NotStarted
       | InlineEnded b \<Rightarrow> cl_called c \<and> cl_done c \<and> cl_render c = NotStarted
       | _ \<Rightarrow> \<not> cl_called c \<and> \<not> cl_done c \<and> cl_render c = NotStarted) \<and>
      (case cl_render c of
         NotStarted \<Rightarrow> True | Rendering \<Rightarrow> cl_called c \<and> \<not> cl_done c | _ \<Rightarrow> cl_called c \<and> cl_done c))"

lemma call_ok_new [simp]: "call_ok (new_call key timeout cancelled)"
  by (simp add: call_ok_def new_call_def)

lemma call_ok_step: "call_step (s, c) (s', c') \<Longrightarrow> call_ok c \<Longrightarrow> call_ok c'"
  by (erule call_stepE) (auto simp: call_ok_def returned_def split: caller_pc.splits render_pc.splits)

text \<open>A step moves the channel by what the call takes or gives.\<close>

lemma capacity_step: "call_step (Some p, c) (s', c') \<Longrightarrow> \<exists>p'. s' = Some p' \<and> sl_cap p' = sl_cap p"
  by (erule call_stepE) (simp_all add: take_slot_def give_back_def mark_running_def clear_running_def)

lemma call_ok_holds:
  "call_ok c \<Longrightarrow> caller_holds (cl_caller c) \<or> cl_caller c = Selecting \<Longrightarrow> cl_render c = NotStarted"
  by (auto simp: call_ok_def split: caller_pc.splits)

lemma held_step:
  "call_step (Some p, c) (Some p', c') \<Longrightarrow> call_ok c \<Longrightarrow> (holds_slot c \<Longrightarrow> 0 < sl_held p) \<Longrightarrow>
   sl_held p' + of_bool (holds_slot c) = sl_held p + of_bool (holds_slot c')"
  by (erule call_stepE)
    (use call_ok_holds [of c] in
      \<open>auto simp: holds_slot_def take_slot_def give_back_def mark_running_def clear_running_def\<close>)

lemma room_step:
  "call_step (Some p, c) (Some p', c') \<Longrightarrow> sl_held p \<le> sl_cap p \<Longrightarrow> sl_held p' \<le> sl_cap p'"
  by (erule call_stepE)
    (simp_all add: take_slot_def give_back_def has_room_def mark_running_def clear_running_def)

lemma holds_new [simp]: "\<not> holds_slot (new_call key timeout cancelled)"
  by (simp add: holds_slot_def new_call_def)

lemma holders_update:
  "i < length cs \<Longrightarrow>
   length (filter P (cs[i := c'])) + of_bool (P (cs ! i)) = length (filter P cs) + of_bool (P c')"
proof (induction cs arbitrary: i)
  case (Cons c cs)
  then show ?case by (cases i) (auto split: if_splits)
qed simp

definition pool_ok :: "nat \<Rightarrow> render_pool \<Rightarrow> bool" where
  "pool_ok n P =
     (list_all call_ok (rp_calls P) \<and>
      (\<exists>p. rp_slots P = Some p \<and> sl_cap p = n \<and> sl_held p \<le> n \<and>
           sl_held p = length (filter holds_slot (rp_calls P))))"

lemma pool_ok_step:
  assumes "pool_step admits P P'" and "pool_ok n P"
  shows "pool_ok n P'"
  using assms(1)
proof cases
  case (enter key timeout cancelled)
  then show ?thesis using assms(2) by (simp add: pool_ok_def)
next
  case (moves i s' c')
  obtain p where p: "rp_slots P = Some p" "sl_cap p = n" "sl_held p \<le> n"
    "sl_held p = length (filter holds_slot (rp_calls P))" and calls: "list_all call_ok (rp_calls P)"
    using assms(2) by (auto simp: pool_ok_def)
  let ?c = "rp_calls P ! i"
  have step: "call_step (Some p, ?c) (s', c')" using moves(3) p(1) by simp
  obtain p' where p': "s' = Some p'" "sl_cap p' = sl_cap p" using capacity_step [OF step] by blast
  have ok: "call_ok ?c" using calls moves(2) by (simp add: list_all_length)
  have "0 < sl_held p" if "holds_slot ?c"
    using that moves(2) p(4) by (auto simp: filter_empty_conv)
  from held_step [OF step [unfolded p'(1)] ok this]
  have "sl_held p' + of_bool (holds_slot ?c) = sl_held p + of_bool (holds_slot c')" .
  then have "sl_held p' = length (filter holds_slot ((rp_calls P)[i := c']))"
    using holders_update [OF moves(2), of holds_slot c'] p(4) by simp
  moreover have "sl_held p' \<le> n" using room_step [OF step [unfolded p'(1)]] p p'(2) by simp
  moreover have "list_all call_ok ((rp_calls P)[i := c'])"
    using calls call_ok_step [OF step ok] by (auto simp: list_all_iff dest!: set_update_subset_insert [THEN subsetD])
  ultimately show ?thesis using moves(1) p p' by (simp add: pool_ok_def)
qed

lemma pool_reachable_ok:
  assumes "pool_reachable admits s0 P" and "new_slots n = Inr p" and "s0 = Some p"
  shows "pool_ok (nat n) P"
  using assms
proof (induction rule: pool_reachable.induct)
  case built
  then show ?case by (auto simp: pool_ok_def new_slots_def split: if_splits)
qed (simp add: pool_ok_step)

text \<open>C35: however the renders of the process interleave, time out, panic or are cancelled, at most as
  many as the pool has slots hold one, and the channel holds exactly one token per call that does:
  a slot is neither lost nor freed twice. A call returns nil or a panic only after fn returned, and
  fn was called exactly when Run returned nil or ErrRenderTimedOut or panicked.\<close>

theorem render_slots_bounded:
  assumes "new_slots n = Inr p" and "pool_reachable admits (Some p) P"
  shows "slots_held (rp_slots P) = length (filter holds_slot (rp_calls P)) \<and>
    length (filter holds_slot (rp_calls P)) \<le> nat n \<and>
    (\<forall>c \<in> set (rp_calls P). \<forall>r. cl_caller c = Returned r \<longrightarrow>
       cl_called c = (r \<in> {RunNil, RunTimedOut, RunPanicked}) \<and> (r \<in> {RunNil, RunPanicked} \<longrightarrow> cl_done c))"
proof -
  have ok: "pool_ok (nat n) P" using pool_reachable_ok [OF assms(2,1) refl] .
  have "call_ok c" if "c \<in> set (rp_calls P)" for c
    using ok that by (simp add: pool_ok_def list_all_iff)
  then show ?thesis using ok by (fastforce simp: pool_ok_def slots_held_def call_ok_def)
qed



section \<open>Progress\<close>

definition call_finished :: "call \<Rightarrow> bool" where
  "call_finished c = ((\<exists>r. cl_caller c = Returned r) \<and> (cl_render c = NotStarted \<or> cl_render c = Taken))"

text \<open>A call that goes on: a step of its caller or of its render, not of the clock or of its context.\<close>

definition goes_on :: "slots option \<Rightarrow> call \<Rightarrow> bool" where
  "goes_on s c =
     (\<exists>s' c'. call_step (s, c) (s', c') \<and> (cl_caller c', cl_render c') \<noteq> (cl_caller c, cl_render c))"

lemma goes_onI:
  "call_step (s, c) (s', c') \<Longrightarrow> (cl_caller c', cl_render c') \<noteq> (cl_caller c, cl_render c) \<Longrightarrow> goes_on s c"
  unfolding goes_on_def by blast

lemma render_goes_on: "render_holds (cl_render c) \<or> (\<exists>b. cl_render c = Released b) \<Longrightarrow> goes_on s c"
  by (cases "cl_render c") (auto intro: goes_onI [OF fn_ends] goes_onI [OF clears] goes_onI [OF releases] goes_onI [OF sends])

lemma holder_goes_on: "holds_slot c \<Longrightarrow> goes_on s c"
  by (cases "cl_caller c"; cases "0 < cl_timeout c")
    (auto simp: holds_slot_def intro: render_goes_on goes_onI [OF runs_inline] goes_onI [OF marks]
      goes_onI [OF inline_ends] goes_onI [OF inline_releases] goes_onI [OF spawns])

lemma sent_goes_on:
  "call_ok c \<Longrightarrow> cl_render c = Sent b \<Longrightarrow> goes_on s c"
  by (cases "cl_caller c"; cases "cl_parent_done c")
    (auto simp: call_ok_def intro: goes_onI [OF receives] goes_onI [OF waits_on] goes_onI [OF abandons]
      goes_onI [OF logs_abandoned])

lemma started_goes_on:
  assumes "call_ok c" and "cl_render c \<notin> {NotStarted, Taken}"
  shows "goes_on s c"
  using assms sent_goes_on [of c] render_goes_on [of c] by (cases "cl_render c") auto

lemma caller_goes_on:
  assumes "call_ok c" and "\<not> call_finished c" and "cl_caller c \<noteq> Selecting"
  shows "goes_on s c"
proof (cases "cl_render c \<in> {NotStarted, Taken}")
  case True
  then have "cl_caller c \<in> {Entered, Checked} \<or> holds_slot c"
    using assms by (cases "cl_caller c") (auto simp: call_ok_def call_finished_def holds_slot_def)
  moreover have "goes_on s c" if "cl_caller c = Entered"
    using that by (cases "is_running s (cl_key c)") (auto intro: goes_onI [OF still_running] goes_onI [OF free_key])
  moreover have "goes_on s c" if "cl_caller c = Checked"
    using that by (cases s; cases "cl_parent_done c")
      (auto intro: goes_onI [OF no_pool] goes_onI [OF cancelled_early] goes_onI [OF selects])
  ultimately show ?thesis using holder_goes_on by blast
qed (use started_goes_on assms in blast)

text \<open>C36: the pool never blocks for good: whatever happened, as long as a call or a render has not
  finished, one of them can go on, a render that still runs by returning. No call waits for a slot
  that was lost.\<close>

theorem render_pool_never_stuck:
  assumes "new_slots n = Inr p" and "pool_reachable admits (Some p) P" and "\<not> list_all call_finished (rp_calls P)"
  shows "\<exists>c \<in> set (rp_calls P). goes_on (rp_slots P) c"
proof -
  obtain c where c: "c \<in> set (rp_calls P)" "\<not> call_finished c" using assms(3) by (auto simp: list_all_iff)
  obtain q where ok: "list_all call_ok (rp_calls P)" and q: "rp_slots P = Some q" "sl_cap q = nat n"
    "sl_held q = length (filter holds_slot (rp_calls P))"
    using pool_reachable_ok [OF assms(2,1) refl] by (auto simp: pool_ok_def)
  have n: "0 < nat n" using assms(1) by (auto simp: new_slots_def split: if_splits)
  show ?thesis
  proof (cases "cl_caller c = Selecting")
    case True
    show ?thesis
    proof (cases "has_room q")
      case True
      then have "goes_on (Some q) c" using \<open>cl_caller c = Selecting\<close> by (auto intro: goes_onI [OF takes])
      then show ?thesis using c q by auto
    next
      case False
      then have "filter holds_slot (rp_calls P) \<noteq> []" using q n by (auto simp: has_room_def)
      then obtain h where "h \<in> set (rp_calls P)" "holds_slot h" by (auto simp: filter_empty_conv)
      then show ?thesis using holder_goes_on by blast
    qed
  next
    case False
    then show ?thesis using caller_goes_on ok c by (auto simp: list_all_iff)
  qed
qed



section \<open>One render per object\<close>

text \<open>The workqueue never hands an object to two workers at once: a key enters only when every earlier
  call of it has returned.\<close>

definition call_live :: "call \<Rightarrow> bool" where
  "call_live c = (\<forall>r. cl_caller c \<noteq> Returned r)"

definition serial :: "(render_pool \<Rightarrow> string \<Rightarrow> bool) \<Rightarrow> bool" where
  "serial admits = (\<forall>P key. admits P key \<longrightarrow> (\<forall>c \<in> set (rp_calls P). cl_key c = key \<longrightarrow> \<not> call_live c))"

text \<open>A render that runs, up to the clearing of its key.\<close>

definition call_active :: "call \<Rightarrow> bool" where
  "call_active c = (cl_caller c = Inline \<or> cl_render c = Rendering \<or> (\<exists>b. cl_render c = Ended b))"

text \<open>A call past the check of its key.\<close>

definition call_busy :: "call \<Rightarrow> bool" where
  "call_busy c = (call_active c \<or> call_live c \<and> cl_caller c \<noteq> Entered)"

definition apart :: "call \<Rightarrow> call \<Rightarrow> bool" where
  "apart c d = (cl_key c = cl_key d \<and> cl_key c \<noteq> [] \<longrightarrow>
     \<not> (call_live c \<and> call_live d) \<and> \<not> (call_busy c \<and> call_active d) \<and> \<not> (call_active c \<and> call_busy d))"

text \<open>A running bounded render has its key marked.\<close>

definition key_marked :: "slots option \<Rightarrow> call \<Rightarrow> bool" where
  "key_marked s c =
     ((cl_caller c = Marked \<or> cl_render c = Rendering \<or> (\<exists>b. cl_render c = Ended b)) \<and> cl_key c \<noteq> [] \<longrightarrow>
      is_running s (cl_key c))"

lemma apart_sym: "apart c d \<Longrightarrow> apart d c"
  by (auto simp: apart_def)

lemma call_step_key: "call_step (s, c) (s', c') \<Longrightarrow> cl_key c' = cl_key c"
  by (erule call_stepE) simp_all

lemma call_step_live: "call_step (s, c) (s', c') \<Longrightarrow> call_live c' \<Longrightarrow> call_live c"
  by (erule call_stepE) (auto simp: call_live_def)

lemma call_step_active:
  "call_step (s, c) (s', c') \<Longrightarrow> call_active c' \<Longrightarrow> call_active c \<or> call_live c \<and> cl_caller c \<noteq> Entered"
  by (erule call_stepE) (auto simp: call_active_def call_live_def)

lemma call_step_busy:
  "call_step (s, c) (s', c') \<Longrightarrow> call_busy c' \<Longrightarrow> call_busy c \<or> \<not> is_running s (cl_key c)"
  by (erule call_stepE) (auto simp: call_busy_def call_active_def call_live_def)

text \<open>The other calls stay apart from the one that moves: a call passes the check only when no
  render of its key has its mark.\<close>

lemma apart_step:
  assumes step: "call_step (s, c) (s', c')" and apart: "apart c d"
    and marked: "cl_caller d = Inline \<Longrightarrow> call_live d" "key_marked s d"
  shows "apart c' d"
proof -
  have "\<not> call_active d" if "cl_key c = cl_key d" "cl_key c \<noteq> []" "\<not> is_running s (cl_key c)" "call_live c" 
    using that apart marked by (auto simp: apart_def call_active_def key_marked_def)
  then show ?thesis
    using apart call_step_key [OF step] call_step_live [OF step] call_step_active [OF step] call_step_busy [OF step]
    unfolding apart_def by (metis call_busy_def)
qed

lemma key_marked_step:
  "call_step (Some p, c) (s', c') \<Longrightarrow> key_marked (Some p) c \<Longrightarrow> call_ok c \<Longrightarrow> key_marked s' c'"
  by (erule call_stepE)
    (auto simp: key_marked_def is_running_def call_ok_def mark_running_def clear_running_def take_slot_def
      give_back_def)

lemma key_marked_other:
  assumes "call_step (Some p, c) (s', c')" and "key_marked (Some p) d" and "apart c d"
  shows "key_marked s' d"
  using assms
  by (cases rule: call_step.cases)
    (auto simp: key_marked_def is_running_def mark_running_def clear_running_def take_slot_def
      give_back_def apart_def call_active_def call_busy_def call_live_def)

definition keys_ok :: "render_pool \<Rightarrow> bool" where
  "keys_ok P =
     ((\<forall>i < length (rp_calls P). \<forall>j < length (rp_calls P). i \<noteq> j \<longrightarrow> apart (rp_calls P ! i) (rp_calls P ! j)) \<and>
      (\<forall>c \<in> set (rp_calls P). key_marked (rp_slots P) c))"

lemma keys_ok_enter:
  assumes "serial admits" and "admits P key" and "keys_ok P"
  shows "keys_ok (P\<lparr>rp_calls := rp_calls P @ [new_call key timeout cancelled]\<rparr>)"
proof -
  let ?c = "new_call key timeout cancelled"
  have new: "apart c ?c" "apart ?c c" if "c \<in> set (rp_calls P)" for c
  proof -
    show "apart c ?c"
      using assms(1,2) that
      by (auto simp: serial_def apart_def call_live_def call_busy_def call_active_def new_call_def)
    then show "apart ?c c" by (rule apart_sym)
  qed
  have "key_marked s ?c" for s by (simp add: key_marked_def new_call_def)
  moreover have "apart ((rp_calls P @ [?c]) ! i) ((rp_calls P @ [?c]) ! j)"
    if "i \<noteq> j" "i < Suc (length (rp_calls P))" "j < Suc (length (rp_calls P))" for i j
    using that new assms(3) by (cases "i < length (rp_calls P)"; cases "j < length (rp_calls P)")
      (simp_all add: nth_append keys_ok_def less_Suc_eq)
  ultimately show ?thesis using assms(3) by (simp add: keys_ok_def)
qed

lemma keys_ok_moves:
  assumes i: "i < length (rp_calls P)" and step: "call_step (Some p, rp_calls P ! i) (s', c')"
    and p: "rp_slots P = Some p" and keys: "keys_ok P" and calls: "list_all call_ok (rp_calls P)"
  shows "keys_ok \<lparr>rp_slots = s', rp_calls = (rp_calls P)[i := c']\<rparr>"
proof -
  let ?cs = "rp_calls P"
  have apart: "apart (?cs ! i) (?cs ! j)" if "j < length ?cs" "i \<noteq> j" for j
    using keys i that by (simp add: keys_ok_def)
  have marked: "key_marked (Some p) (?cs ! j)" if "j < length ?cs" for j
    using keys p that by (simp add: keys_ok_def)
  have moved: "apart c' (?cs ! j)" "apart (?cs ! j) c'" if "j < length ?cs" "i \<noteq> j" for j
  proof -
    show "apart c' (?cs ! j)"
      using apart_step [OF step apart [OF that] _ marked [OF that(1)]] by (simp add: call_live_def)
    then show "apart (?cs ! j) c'" by (rule apart_sym)
  qed
  have pairs: "apart (?cs[i := c'] ! j) (?cs[i := c'] ! k)" if "j \<noteq> k" "j < length ?cs" "k < length ?cs" for j k
    using that moved keys by (cases "j = i"; cases "k = i") (simp_all add: keys_ok_def)
  have marks: "key_marked s' (?cs[i := c'] ! j)" if "j < length ?cs" for j
  proof (cases "j = i")
    case True
    then show ?thesis using key_marked_step [OF step marked [OF i]] calls i by (simp add: list_all_length)
  next
    case False
    then show ?thesis using key_marked_other [OF step marked [OF that] apart [OF that]] by simp
  qed
  have "key_marked s' d" if "d \<in> set (?cs[i := c'])" for d
    using that marks unfolding in_set_conv_nth by force
  then show ?thesis using pairs by (simp add: keys_ok_def)
qed

lemma keys_reachable:
  assumes "pool_reachable admits s0 P" and "new_slots n = Inr p" and "s0 = Some p" and "serial admits"
  shows "keys_ok P"
  using assms
proof (induction rule: pool_reachable.induct)
  case (stepped P P')
  have ok: "pool_ok (nat n) P" using pool_reachable_ok stepped by blast
  from stepped.hyps(2) show ?case
  proof cases
    case enter
    then show ?thesis using keys_ok_enter stepped by blast
  next
    case (moves i s' c')
    then show ?thesis using keys_ok_moves [of i P _ s' c'] stepped ok by (auto simp: pool_ok_def)
  qed
qed (simp add: keys_ok_def)

lemma inside_fn_active: "call_ok c \<Longrightarrow> cl_called c \<Longrightarrow> \<not> cl_done c \<Longrightarrow> call_active c"
  by (cases "cl_caller c"; cases "cl_render c") (auto simp: call_ok_def call_active_def)

text \<open>C37: no object ever runs two renders: under a workqueue that hands out an object to one worker at a
  time, of the calls with one key at most one is inside fn, also after earlier ones timed out and
  were abandoned.\<close>

theorem one_render_per_object:
  assumes "new_slots n = Inr p" and "serial admits" and "pool_reachable admits (Some p) P"
    and "i < length (rp_calls P)" and "j < length (rp_calls P)" and "i \<noteq> j"
    and "cl_key (rp_calls P ! i) = cl_key (rp_calls P ! j)" and "cl_key (rp_calls P ! i) \<noteq> []"
  shows "\<not> (cl_called (rp_calls P ! i) \<and> \<not> cl_done (rp_calls P ! i) \<and>
            cl_called (rp_calls P ! j) \<and> \<not> cl_done (rp_calls P ! j))"
proof -
  have "call_active c" if "c \<in> set (rp_calls P)" "cl_called c" "\<not> cl_done c" for c
    using pool_reachable_ok [OF assms(3,1) refl] that inside_fn_active by (simp add: pool_ok_def list_all_iff)
  note active = this [OF nth_mem [OF assms(4)]] this [OF nth_mem [OF assms(5)]]
  have "apart (rp_calls P ! i) (rp_calls P ! j)"
    using keys_reachable [OF assms(3,1) refl assms(2)] assms(4-6) by (simp add: keys_ok_def)
  then have "\<not> (call_active (rp_calls P ! i) \<and> call_active (rp_calls P ! j))"
    using assms(7,8) by (auto simp: apart_def call_busy_def)
  then show ?thesis using active by blast
qed



section \<open>Concrete runs\<close>

text \<open>A pool of one slot; the first render of an object times out and is abandoned, its second call
  is refused while the render still runs.\<close>

definition serial_queue :: "render_pool \<Rightarrow> string \<Rightarrow> bool" where
  "serial_queue P key = list_all (\<lambda>c. cl_key c = key \<longrightarrow> \<not> call_live c) (rp_calls P)"

definition one_slot :: slots where
  "one_slot = \<lparr>sl_cap = 1, sl_held = 0, sl_running = {}\<rparr>"

definition abandoned_call :: call where
  "abandoned_call = \<lparr>cl_key = ''k'', cl_timeout = 1, cl_parent_done = False, cl_deadline = True,
     cl_caller = Returned RunTimedOut, cl_render = Rendering, cl_called = True, cl_done = False\<rparr>"

definition abandoned_pool :: render_pool where
  "abandoned_pool =
     \<lparr>rp_slots = Some \<lparr>sl_cap = 1, sl_held = 1, sl_running = {''k''}\<rparr>,
      rp_calls = [abandoned_call, new_call ''k'' 1 False]\<rparr>"

lemma serial_queue: "serial serial_queue"
  by (auto simp: serial_def serial_queue_def list_all_iff)

lemma new_one_slot: "new_slots 1 = Inr one_slot"
  by (simp add: new_slots_def one_slot_def)

lemma pool_moves:
  "pool_reachable admits s0 P \<Longrightarrow> i < length (rp_calls P) \<Longrightarrow>
   call_step (rp_slots P, rp_calls P ! i) (s', c') \<Longrightarrow>
   pool_reachable admits s0 \<lparr>rp_slots = s', rp_calls = (rp_calls P)[i := c']\<rparr>"
  by (rule stepped [OF _ moves])

lemma single_moves:
  "pool_reachable admits s0 \<lparr>rp_slots = s, rp_calls = [c]\<rparr> \<Longrightarrow> call_step (s, c) (s', c') \<Longrightarrow>
   pool_reachable admits s0 \<lparr>rp_slots = s', rp_calls = [c']\<rparr>"
  using pool_moves [of admits s0 "\<lparr>rp_slots = s, rp_calls = [c]\<rparr>" 0] by simp

lemmas call_eval = new_call_def is_running_def has_room_def take_slot_def mark_running_def render_context_done_def

lemma abandoned_reachable: "pool_reachable serial_queue (Some one_slot) abandoned_pool"
proof -
  have "pool_reachable serial_queue (Some one_slot)
      \<lparr>rp_slots = Some \<lparr>sl_cap = 1, sl_held = 0, sl_running = {}\<rparr>, rp_calls = [new_call ''k'' 1 False]\<rparr>"
    using stepped [OF built enter, of serial_queue "Some one_slot" "''k''"]
    by (simp add: serial_queue_def one_slot_def)
  note r1 = this [unfolded call_eval]
  note r2 = single_moves [OF r1 free_key, simplified call_eval, simplified]
  note r3 = single_moves [OF r2 selects, simplified call_eval, simplified]
  note r4 = single_moves [OF r3 takes, simplified call_eval, simplified]
  note r5 = single_moves [OF r4 marks, simplified call_eval, simplified]
  note r6 = single_moves [OF r5 spawns, simplified call_eval, simplified]
  note r7 = single_moves [OF r6 deadline, simplified call_eval, simplified]
  note r8 = single_moves [OF r7 expires, simplified call_eval, simplified]
  note r9 = single_moves [OF r8 abandons, simplified call_eval, simplified]
  show ?thesis
    using stepped [OF r9 enter [where key = "''k''" and timeout = 1 and cancelled = False]]
    by (simp add: serial_queue_def call_live_def abandoned_pool_def abandoned_call_def call_eval)
qed

theorem render_slots_bounded_witness:
  "slots_held (rp_slots abandoned_pool) = length (filter holds_slot (rp_calls abandoned_pool)) \<and>
   length (filter holds_slot (rp_calls abandoned_pool)) \<le> 1"
  using render_slots_bounded [OF new_one_slot abandoned_reachable] by simp

theorem render_pool_never_stuck_witness:
  "\<exists>c \<in> set (rp_calls abandoned_pool). goes_on (rp_slots abandoned_pool) c"
  by (rule render_pool_never_stuck [OF new_one_slot abandoned_reachable])
    (simp add: abandoned_pool_def abandoned_call_def call_finished_def)

theorem one_render_per_object_witness:
  "cl_called (rp_calls abandoned_pool ! 0) \<and> \<not> cl_done (rp_calls abandoned_pool ! 0) \<and>
   \<not> (cl_called (rp_calls abandoned_pool ! 1) \<and> \<not> cl_done (rp_calls abandoned_pool ! 1))"
  using one_render_per_object [OF new_one_slot serial_queue abandoned_reachable, of 0 1]
  by (simp add: abandoned_pool_def abandoned_call_def new_call_def)

end
