(* ===== verification/Files.thy ===== *)
theory Files
  imports Errors
begin

text \<open>
  The parts of Go's path/filepath and os that internal/source and resolvePackagePath call, over a file
  system with symbolic links: lexical paths, the resolution of a path by the kernel, and the operations
  that read and change the tree. Permissions and times are not modelled.
\<close>

section \<open>Lexical paths\<close>

fun split_path :: "string \<Rightarrow> string list" where
  "split_path [] = [[]]"
| "split_path (c # cs) =
     (if c = CHR ''/'' then [] # split_path cs
      else (case split_path cs of [] \<Rightarrow> [[c]] | x # xs \<Rightarrow> (c # x) # xs))"

definition is_abs :: "string \<Rightarrow> bool" where
  "is_abs s = prefix ''/'' s"

text \<open>One component of filepath.Clean, on the components kept so far.\<close>

definition clean_step :: "bool \<Rightarrow> string list \<Rightarrow> string \<Rightarrow> string list" where
  "clean_step rooted kept c =
     (if c = [] \<or> c = ''.'' then kept
      else if c = ''..'' then
        (if kept \<noteq> [] \<and> last kept \<noteq> ''..'' then butlast kept
         else if rooted then kept else kept @ [c])
      else kept @ [c])"

definition clean_list :: "bool \<Rightarrow> string list \<Rightarrow> string list" where
  "clean_list rooted cs = foldl (clean_step rooted) [] cs"

definition path_clean :: "string \<Rightarrow> string" where
  "path_clean s =
     (let cs = clean_list (is_abs s) (split_path s)
      in if is_abs s then ''/'' @ join ''/'' cs else if cs = [] then ''.'' else join ''/'' cs)"

definition path_join :: "string list \<Rightarrow> string" where
  "path_join elems =
     (case dropWhile (\<lambda>e. e = []) elems of [] \<Rightarrow> [] | es \<Rightarrow> path_clean (join ''/'' es))"

text \<open>filepath.Dir: clean what stands before the last separator, the separator included.\<close>

definition path_dir :: "string \<Rightarrow> string" where
  "path_dir s = path_clean (rev (dropWhile (\<lambda>c. c \<noteq> CHR ''/'') (rev s)))"

text \<open>A name the kernel takes literally, and the text of an absolute path.\<close>

definition plain_name :: "string \<Rightarrow> bool" where
  "plain_name c = (c \<noteq> [] \<and> c \<noteq> ''.'' \<and> c \<noteq> ''..'' \<and> CHR ''/'' \<notin> set c)"

definition path_text :: "string list \<Rightarrow> string" where
  "path_text p = ''/'' @ join ''/'' p"

lemma split_path_not_Nil [simp]: "split_path s \<noteq> []"
  by (induction s rule: split_path.induct) (auto split: list.splits)

lemma split_path_no_slash: "CHR ''/'' \<notin> set x \<Longrightarrow> split_path x = [x]"
  by (induction x) auto

lemma split_path_append: "CHR ''/'' \<notin> set x \<Longrightarrow> split_path (x @ CHR ''/'' # s) = x # split_path s"
  by (induction x) auto

lemma split_path_names: "c \<in> set (split_path s) \<Longrightarrow> CHR ''/'' \<notin> set c"
  by (induction s arbitrary: c rule: split_path.induct) (auto split: list.splits if_splits)

lemma split_path_join:
  "xs \<noteq> [] \<Longrightarrow> list_all (\<lambda>x. CHR ''/'' \<notin> set x) xs \<Longrightarrow> split_path (join ''/'' xs) = xs"
  by (induction xs rule: induct_list012) (simp_all add: split_path_no_slash split_path_append)

lemma split_path_text:
  "list_all plain_name p \<Longrightarrow> split_path (path_text p) = (if p = [] then [[], []] else [] # p)"
  using split_path_join [of p] by (simp add: path_text_def plain_name_def list_all_iff)

lemma is_abs_path_text [simp]: "is_abs (path_text p)"
  by (simp add: is_abs_def path_text_def)

lemma clean_list_append: "clean_list r (xs @ ys) = foldl (clean_step r) (clean_list r xs) ys"
  by (simp add: clean_list_def)

lemma clean_plain: "list_all plain_name ns \<Longrightarrow> foldl (clean_step r) kept ns = kept @ ns"
  by (induction ns arbitrary: kept) (auto simp: clean_step_def plain_name_def)

lemma clean_step_shape:
  assumes "kept = replicate k ''..'' @ ns" and "list_all plain_name ns" and "CHR ''/'' \<notin> set c"
    and "r \<longrightarrow> k = 0"
  shows "\<exists>k' ns'. clean_step r kept c = replicate k' ''..'' @ ns' \<and> list_all plain_name ns' \<and> (r \<longrightarrow> k' = 0)"
proof (cases "c = ''..''")
  case True
  show ?thesis
  proof (cases ns rule: rev_cases)
    case Nil
    then have "clean_step r kept c = replicate (if r then 0 else Suc k) ''..'' @ []"
      using assms True by (cases k) (auto simp: clean_step_def replicate_append_same)
    then show ?thesis by (metis list.pred_inject(1))
  next
    case (snoc ms m)
    then have "clean_step r kept c = replicate k ''..'' @ ms"
      using assms True by (auto simp: clean_step_def butlast_append plain_name_def)
    then show ?thesis using assms snoc by (auto simp: list_all_append)
  qed
next
  case False
  then have "clean_step r kept c = kept \<or> clean_step r kept c = kept @ [c] \<and> plain_name c"
    using assms(3) by (auto simp: clean_step_def plain_name_def)
  then consider "clean_step r kept c = replicate k ''..'' @ ns"
    | "clean_step r kept c = replicate k ''..'' @ (ns @ [c])" "list_all plain_name (ns @ [c])"
    using assms by (auto simp: list_all_append)
  then show ?thesis using assms by cases blast+
qed

lemma clean_list_shape:
  assumes "list_all (\<lambda>c. CHR ''/'' \<notin> set c) cs"
  shows "\<exists>k ns. clean_list r cs = replicate k ''..'' @ ns \<and> list_all plain_name ns \<and> (r \<longrightarrow> k = 0)"
  using assms
proof (induction cs rule: rev_induct)
  case (snoc c cs)
  then obtain k ns where "clean_list r cs = replicate k ''..'' @ ns" "list_all plain_name ns" "r \<longrightarrow> k = 0"
    by auto
  from clean_step_shape [OF this(1,2) _ this(3), of c] snoc.prems show ?case
    by (simp add: clean_list_append)
qed (auto simp: clean_list_def)

text \<open>A relative name that does not start with dots once cleaned is a list of plain names.\<close>

lemma clean_inside:
  assumes "\<not> is_abs (path_clean s)" and "\<not> prefix ''..'' (path_clean s)"
  obtains ns where "list_all plain_name ns" and "split_path (path_clean s) = (if ns = [] then [''.''] else ns)"
    and "path_clean s = (if ns = [] then ''.'' else join ''/'' ns)"
proof -
  have rel: "\<not> is_abs s" using assms(1) by (auto simp: path_clean_def is_abs_def Let_def)
  obtain k ns where cs: "clean_list False (split_path s) = replicate k ''..'' @ ns" and ns: "list_all plain_name ns"
    using clean_list_shape [of "split_path s" False] split_path_names by (auto simp: list_all_iff)
  have "k = 0"
  proof (rule ccontr)
    assume "k \<noteq> 0"
    then obtain j where "k = Suc j" by (cases k) auto
    then have "path_clean s = join ''/'' (''..'' # replicate j ''..'' @ ns)"
      using cs rel by (simp add: path_clean_def Let_def)
    moreover have "prefix ''..'' (join ''/'' (''..'' # xs))" for xs by (cases xs) auto
    ultimately show False using assms(2) by metis
  qed
  then have clean: "path_clean s = (if ns = [] then ''.'' else join ''/'' ns)"
    using cs rel by (simp add: path_clean_def Let_def)
  moreover have "split_path (join ''/'' ns) = ns" if "ns \<noteq> []"
    using that ns by (intro split_path_join) (auto simp: list_all_iff plain_name_def)
  ultimately show ?thesis using that ns by (simp add: split_path_no_slash)
qed

lemma clean_text:
  assumes "list_all plain_name p"
  shows "path_clean (path_text p) = path_text p"
proof -
  have "clean_list True (split_path (path_text p)) = p"
    using clean_plain [OF assms, of True "[]"] split_path_text [OF assms] by (simp add: clean_list_def clean_step_def)
  then show ?thesis by (simp add: path_clean_def Let_def) (simp add: path_text_def)
qed

lemma split_path_text_append:
  assumes "list_all plain_name p"
  shows "split_path (path_text p @ CHR ''/'' # s) = (if p = [] then [[], []] else [] # p) @ split_path s"
proof -
  have "split_path (join ''/'' (q # qs) @ CHR ''/'' # s) = (q # qs) @ split_path s"
    if "list_all plain_name (q # qs)" for q qs
    using that
  proof (induction qs arbitrary: q)
    case (Cons a qs)
    then show ?case using split_path_append [of q] by (simp add: plain_name_def)
  qed (simp add: split_path_append plain_name_def)
  then show ?thesis using assms by (cases p) (auto simp: path_text_def)
qed

text \<open>Joining such a name to an absolute directory stays lexically below it.\<close>

lemma join_inside:
  assumes p: "list_all plain_name p" and ns: "list_all plain_name ns"
    and s: "split_path s = (if ns = [] then [''.''] else ns)"
  shows "path_join [path_text p, s] = path_text (p @ ns)"
proof -
  have "path_text p \<noteq> []" by (simp add: path_text_def)
  then have "path_join [path_text p, s] = path_clean (path_text p @ CHR ''/'' # s)"
    by (simp add: path_join_def)
  also have "clean_list True (split_path (path_text p @ CHR ''/'' # s)) = p @ ns"
    unfolding split_path_text_append [OF p] s
    using clean_plain [OF p, of True "[]"] clean_plain [OF ns, of True p]
    by (auto simp: clean_list_def clean_step_def)
  then have "path_clean (path_text p @ CHR ''/'' # s) = path_text (p @ ns)"
    by (simp add: path_clean_def is_abs_def Let_def path_text_def)
  finally show ?thesis .
qed

lemma dir_text:
  assumes "list_all plain_name (p @ [c])"
  shows "path_dir (path_text (p @ [c])) = path_text p"
proof -
  have c: "CHR ''/'' \<notin> set c" using assms by (simp add: plain_name_def)
  have "join ''/'' (p @ [c]) = (if p = [] then c else join ''/'' p @ CHR ''/'' # c)"
    by (induction p rule: induct_list012) simp_all
  then have "rev (path_text (p @ [c])) = rev c @ CHR ''/'' # rev (if p = [] then [] else path_text p)"
    by (simp add: path_text_def)
  then have "rev (dropWhile (\<lambda>x. x \<noteq> CHR ''/'') (rev (path_text (p @ [c])))) =
      (if p = [] then [] else path_text p) @ ''/''"
    using c by (simp add: dropWhile_append)
  moreover have "path_clean (path_text p @ ''/'') = path_text p"
  proof -
    have "clean_list True (split_path (path_text p @ ''/'')) = p"
      using split_path_text_append [of p "[]"] clean_plain [of p True "[]"] assms
      by (simp add: clean_list_def clean_step_def)
    then show ?thesis by (simp add: path_clean_def is_abs_def Let_def path_text_def)
  qed
  moreover have "path_clean ''/'' = path_text []"
    by (simp add: path_clean_def path_text_def is_abs_def clean_list_def clean_step_def)
  ultimately show ?thesis by (simp add: path_dir_def)
qed



section \<open>The tree\<close>

datatype fnode = DirNode | FileNode string | LinkNode string

type_synonym tree = "string list \<rightharpoonup> fnode"

text \<open>The tree, the working directory, and the number of system calls made, for the fault oracle.\<close>

record host =
  ho_tree :: tree
  ho_cwd :: "string list"
  ho_calls :: nat

datatype errno = ENOENT | ENOTDIR | EISDIR | EEXIST | ELOOP

text \<open>The kernel walks a path from a directory, name by name, and follows symbolic links, the last
  one only when it is asked to. It gives up after forty links.\<close>

definition max_links :: nat where "max_links = 40"

function walk :: "tree \<Rightarrow> bool \<Rightarrow> nat \<Rightarrow> string list \<Rightarrow> string list \<Rightarrow> errno + string list" where
  "walk t follow n here [] = Inr here"
| "walk t follow n here (c # cs) =
     (if c = [] \<or> c = ''.'' then walk t follow n here cs
      else if c = ''..'' then walk t follow n (butlast here) cs
      else case t (here @ [c]) of
             None \<Rightarrow> if cs = [] then Inr (here @ [c]) else Inl ENOENT
           | Some DirNode \<Rightarrow> walk t follow n (here @ [c]) cs
           | Some (FileNode _) \<Rightarrow> if cs = [] then Inr (here @ [c]) else Inl ENOTDIR
           | Some (LinkNode target) \<Rightarrow>
               if cs = [] \<and> \<not> follow then Inr (here @ [c])
               else if n = 0 then Inl ELOOP
               else walk t follow (n - 1) (if is_abs target then [] else here) (split_path target @ cs))"
  by pat_completeness auto

termination walk
  by (relation "measures [\<lambda>(t, f, n, h, cs). n, \<lambda>(t, f, n, h, cs). length cs]") auto

definition walk_text :: "host \<Rightarrow> bool \<Rightarrow> string \<Rightarrow> errno + string list" where
  "walk_text h follow s =
     (if s = [] then Inl ENOENT
      else walk (ho_tree h) follow max_links (if is_abs s then [] else ho_cwd h) (split_path s))"

text \<open>os.Stat and os.Lstat.\<close>

definition stat_with :: "host \<Rightarrow> bool \<Rightarrow> string \<Rightarrow> errno + fnode" where
  "stat_with h follow s =
     (case walk_text h follow s of
        Inl e \<Rightarrow> Inl e
      | Inr p \<Rightarrow> if p = [] then Inr DirNode
                  else case ho_tree h p of None \<Rightarrow> Inl ENOENT | Some nd \<Rightarrow> Inr nd)"

definition os_stat :: "host \<Rightarrow> string \<Rightarrow> errno + fnode" where "os_stat h s = stat_with h True s"
definition os_lstat :: "host \<Rightarrow> string \<Rightarrow> errno + fnode" where "os_lstat h s = stat_with h False s"

type_synonym 'a host_prog = "(host, 'a) state"

text \<open>A system call that changes the tree: the oracle may let it fail without a change.\<close>

definition sys_call ::
    "(nat \<Rightarrow> 'x option) \<Rightarrow> (host \<Rightarrow> 'x goerr option \<times> tree) \<Rightarrow> 'x goerr option host_prog" where
  "sys_call F act =
     State (\<lambda>h. case F (ho_calls h) of
                  Some x \<Rightarrow> (Some (Ext x), h\<lparr>ho_calls := ho_calls h + 1\<rparr>)
                | None \<Rightarrow> (let (err, t) = act h in (err, h\<lparr>ho_tree := t, ho_calls := ho_calls h + 1\<rparr>)))"

fun errno_text :: "errno \<Rightarrow> string" where
  "errno_text ENOENT = ''no such file or directory''"
| "errno_text ENOTDIR = ''not a directory''"
| "errno_text EISDIR = ''is a directory''"
| "errno_text EEXIST = ''file exists''"
| "errno_text ELOOP = ''too many levels of symbolic links''"

definition path_error :: "string \<Rightarrow> string \<Rightarrow> errno \<Rightarrow> 'x goerr" where
  "path_error what s e = Fmt (what @ '' '' @ s @ '': '' @ errno_text e) []"

text \<open>mkdir(2), and os.MkdirAll on it. A name is put in place only where none is.\<close>

definition os_mkdir :: "(nat \<Rightarrow> 'x option) \<Rightarrow> string \<Rightarrow> 'x goerr option host_prog" where
  "os_mkdir F s = sys_call F (\<lambda>h.
     case walk_text h False s of
       Inl e \<Rightarrow> (Some (path_error ''mkdir'' s e), ho_tree h)
     | Inr p \<Rightarrow> if p = [] \<or> ho_tree h p \<noteq> None then (Some (path_error ''mkdir'' s EEXIST), ho_tree h)
                 else (None, (ho_tree h)(p \<mapsto> DirNode)))"

definition get_host :: "host host_prog" where
  "get_host = State (\<lambda>h. (h, h))"

text \<open>os.MkdirAll of the path with the given components, longest prefix that exists first.\<close>

fun mkdir_all_text :: "(nat \<Rightarrow> 'x option) \<Rightarrow> string list \<Rightarrow> 'x goerr option host_prog" where
  "mkdir_all_text F p =
     do { h \<leftarrow> get_host;
          case os_stat h (path_text p) of
            Inr DirNode \<Rightarrow> State_Monad.return None
          | Inr _ \<Rightarrow> State_Monad.return (Some (path_error ''mkdir'' (path_text p) ENOTDIR))
          | Inl _ \<Rightarrow>
              do { err \<leftarrow> (if length p \<le> 1 then State_Monad.return None else mkdir_all_text F (butlast p));
                   case err of
                     Some e \<Rightarrow> State_Monad.return (Some e)
                   | None \<Rightarrow>
                       do { made \<leftarrow> os_mkdir F (path_text p);
                            case made of
                              None \<Rightarrow> State_Monad.return None
                            | Some e \<Rightarrow>
                                do { h \<leftarrow> get_host;
                                     State_Monad.return
                                       (if os_lstat h (path_text p) = Inr DirNode then None else Some e) } } } }"

declare mkdir_all_text.simps [simp del]

text \<open>os.MkdirAll of an absolute clean path.\<close>

definition os_mkdir_all :: "(nat \<Rightarrow> 'x option) \<Rightarrow> string \<Rightarrow> 'x goerr option host_prog" where
  "os_mkdir_all F s = mkdir_all_text F (filter (\<lambda>c. c \<noteq> []) (split_path s))"

text \<open>os.Create or os.OpenFile for writing, and io.Copy of a reader that gives some bytes and may
  then fail. Opening empties the file; a failed copy leaves what was written.\<close>

definition os_create :: "(nat \<Rightarrow> 'x option) \<Rightarrow> string \<Rightarrow> 'x goerr option host_prog" where
  "os_create F s = sys_call F (\<lambda>h.
     case walk_text h True s of
       Inl e \<Rightarrow> (Some (path_error ''open'' s e), ho_tree h)
     | Inr p \<Rightarrow>
         if p = [] \<or> ho_tree h p = Some DirNode then (Some (path_error ''open'' s EISDIR), ho_tree h)
         else (None, (ho_tree h)(p \<mapsto> FileNode [])))"

definition os_write :: "(nat \<Rightarrow> 'x option) \<Rightarrow> string \<Rightarrow> string \<Rightarrow> 'x goerr option host_prog" where
  "os_write F s bytes = sys_call F (\<lambda>h.
     case walk_text h True s of
       Inr p \<Rightarrow> (if p = [] \<or> ho_tree h p = Some DirNode then (None, ho_tree h)
                 else (None, (ho_tree h)(p \<mapsto> FileNode bytes)))
     | Inl _ \<Rightarrow> (None, ho_tree h))"

definition os_symlink :: "(nat \<Rightarrow> 'x option) \<Rightarrow> string \<Rightarrow> string \<Rightarrow> 'x goerr option host_prog" where
  "os_symlink F target s = sys_call F (\<lambda>h.
     if target = [] then (Some (path_error ''symlink'' s ENOENT), ho_tree h)
     else case walk_text h False s of
       Inl e \<Rightarrow> (Some (path_error ''symlink'' s e), ho_tree h)
     | Inr p \<Rightarrow> if p = [] \<or> ho_tree h p \<noteq> None then (Some (path_error ''symlink'' s EEXIST), ho_tree h)
                 else (None, (ho_tree h)(p \<mapsto> LinkNode target)))"



section \<open>Confinement\<close>

text \<open>A directory that is its own real path, with no symbolic link in it.\<close>

definition jail :: "string list \<Rightarrow> tree \<Rightarrow> bool" where
  "jail d t =
     (list_all plain_name d \<and> (\<forall>p. prefix p d \<longrightarrow> p \<noteq> [] \<longrightarrow> t p = Some DirNode) \<and>
      (\<forall>p x. prefix d p \<longrightarrow> t p \<noteq> Some (LinkNode x)))"

definition same_outside :: "string list \<Rightarrow> tree \<Rightarrow> tree \<Rightarrow> bool" where
  "same_outside d t t' = (\<forall>p. \<not> strict_prefix d p \<longrightarrow> t' p = t p)"

text \<open>A program that, started with such a directory, keeps it and changes nothing but what is below
  it.\<close>

definition confined :: "string list \<Rightarrow> 'a host_prog \<Rightarrow> bool" where
  "confined d m =
     (\<forall>h. jail d (ho_tree h) \<longrightarrow>
        jail d (ho_tree (snd (run_state m h))) \<and> same_outside d (ho_tree h) (ho_tree (snd (run_state m h))))"

lemma walk_plain:
  "list_all plain_name cs \<Longrightarrow> (\<And>q x. q \<noteq> [] \<Longrightarrow> prefix q cs \<Longrightarrow> t (here @ q) \<noteq> Some (LinkNode x)) \<Longrightarrow>
   walk t follow n here cs = Inr p \<Longrightarrow> p = here @ cs"
proof (induction cs arbitrary: here)
  case (Cons c cs)
  have c: "plain_name c" using Cons.prems(1) by simp
  have "t (here @ [c]) \<noteq> Some (LinkNode x)" for x using Cons.prems(2) [of "[c]" x] by simp
  moreover have "t ((here @ [c]) @ q) \<noteq> Some (LinkNode x)" if "q \<noteq> []" "prefix q cs" for q x
    using Cons.prems(2) [of "c # q" x] that by simp
  ultimately show ?case
    using Cons.prems(1,3) Cons.IH [of "here @ [c]"] c
    by (auto simp: plain_name_def split: option.splits fnode.splits if_splits)
qed simp

text \<open>The paths that lead to the directory or below it.\<close>

definition on_way :: "string list \<Rightarrow> string list \<Rightarrow> bool" where
  "on_way d p = (list_all plain_name p \<and> (prefix p d \<or> prefix d p))"

lemma jail_no_link: "jail d t \<Longrightarrow> on_way d p \<Longrightarrow> prefix q p \<Longrightarrow> q \<noteq> [] \<Longrightarrow> t q \<noteq> Some (LinkNode x)"
  unfolding jail_def on_way_def by (metis fnode.distinct(3) option.inject prefix_order.trans prefix_same_cases)

lemma walk_on_way:
  assumes "jail d (ho_tree h)" and "on_way d p" and "walk_text h follow (path_text p) = Inr q"
  shows "q = p"
proof -
  have "walk (ho_tree h) follow max_links [] p = Inr q"
    using assms(2,3) split_path_text [of p]
    by (cases p) (auto simp: walk_text_def on_way_def path_text_def is_abs_def split: if_splits)
  then show ?thesis
    using walk_plain [of p "ho_tree h" "[]"] assms(2) jail_no_link [OF assms(1,2)] by (simp add: on_way_def)
qed

lemma jail_update:
  assumes "jail d t" and "on_way d p" and "p \<noteq> []" and "t p \<noteq> Some DirNode" and "\<And>x. nd \<noteq> LinkNode x"
  shows "jail d (t(p \<mapsto> nd)) \<and> same_outside d t (t(p \<mapsto> nd))"
proof -
  have "\<not> prefix p d" using assms(1,3,4) by (auto simp: jail_def)
  then have below: "strict_prefix d p" using assms(2) by (auto simp: on_way_def strict_prefix_def)
  have "p \<noteq> q" if "prefix q d" for q using that \<open>\<not> prefix p d\<close> by blast
  then show ?thesis using assms below by (auto simp: jail_def same_outside_def)
qed

lemma same_outside_refl [simp]: "same_outside d t t"
  by (simp add: same_outside_def)

lemma confined_return [intro]: "confined d (State_Monad.return x)"
  by (simp add: confined_def State_Monad.return_def)

lemma confined_get_host [intro]: "confined d get_host"
  by (simp add: confined_def get_host_def)

lemma confined_bind [intro]:
  assumes "confined d m" and "\<And>x. confined d (f x)"
  shows "confined d (m \<bind> f)"
  unfolding confined_def
proof (intro allI impI)
  fix h :: host assume jail: "jail d (ho_tree h)"
  obtain x h1 where m: "run_state m h = (x, h1)" by fastforce
  have one: "jail d (ho_tree h1)" "same_outside d (ho_tree h) (ho_tree h1)"
    using assms(1) jail m by (auto simp: confined_def)
  then have "jail d (ho_tree (snd (run_state (f x) h1))) \<and>
      same_outside d (ho_tree h1) (ho_tree (snd (run_state (f x) h1)))"
    using assms(2) [of x] by (simp add: confined_def)
  then show "jail d (ho_tree (snd (run_state (m \<bind> f) h))) \<and>
      same_outside d (ho_tree h) (ho_tree (snd (run_state (m \<bind> f) h)))"
    using one m by (simp add: same_outside_def)
qed

lemma confined_if: "(b \<Longrightarrow> confined d m) \<Longrightarrow> (\<not> b \<Longrightarrow> confined d n) \<Longrightarrow> confined d (if b then m else n)"
  by simp

lemma confined_case_option:
  "(x = None \<Longrightarrow> confined d m) \<Longrightarrow> (\<And>y. x = Some y \<Longrightarrow> confined d (f y)) \<Longrightarrow>
   confined d (case x of None \<Rightarrow> m | Some y \<Rightarrow> f y)"
  by (cases x) simp_all

lemma confined_case_sum:
  "(\<And>a. x = Inl a \<Longrightarrow> confined d (f a)) \<Longrightarrow> (\<And>b. x = Inr b \<Longrightarrow> confined d (g b)) \<Longrightarrow>
   confined d (case x of Inl a \<Rightarrow> f a | Inr b \<Rightarrow> g b)"
  by (cases x) simp_all

lemma confined_case_fnode:
  "confined d m \<Longrightarrow> (\<And>s. confined d (f s)) \<Longrightarrow> (\<And>s. confined d (g s)) \<Longrightarrow>
   confined d (case x of DirNode \<Rightarrow> m | FileNode s \<Rightarrow> f s | LinkNode s \<Rightarrow> g s)"
  by (cases x) simp_all

lemmas confined_rules =
  confined_bind confined_get_host confined_return confined_if confined_case_option confined_case_sum
  confined_case_fnode

lemma confined_sys_call:
  assumes "\<And>h. jail d (ho_tree h) \<Longrightarrow> jail d (snd (act h)) \<and> same_outside d (ho_tree h) (snd (act h))"
  shows "confined d (sys_call F act)"
  using assms by (auto simp: confined_def sys_call_def split_beta Let_def split: option.split)

lemma confined_path_call:
  assumes "on_way d p"
    and "\<And>h. snd (act h) = ho_tree h \<or>
      (\<exists>q nd. walk_text h follow (path_text p) = Inr q \<and> q \<noteq> [] \<and> ho_tree h q \<noteq> Some DirNode \<and>
         (\<forall>x. nd \<noteq> LinkNode x) \<and> snd (act h) = (ho_tree h)(q \<mapsto> nd))"
  shows "confined d (sys_call F act)"
proof (rule confined_sys_call)
  fix h :: host assume jail: "jail d (ho_tree h)"
  from assms(2) [of h] show "jail d (snd (act h)) \<and> same_outside d (ho_tree h) (snd (act h))"
  proof (elim disjE exE conjE)
    fix q nd
    assume q: "walk_text h follow (path_text p) = Inr q" "q \<noteq> []" "ho_tree h q \<noteq> Some DirNode"
      and nd: "\<forall>x. nd \<noteq> LinkNode x" "snd (act h) = (ho_tree h)(q \<mapsto> nd)"
    show ?thesis
      unfolding nd(2) walk_on_way [OF jail assms(1) q(1)]
      by (rule jail_update) (use jail assms(1) q nd walk_on_way [OF jail assms(1) q(1)] in auto)
  qed (simp add: jail)
qed

lemma confined_mkdir: "on_way d p \<Longrightarrow> confined d (os_mkdir F (path_text p))"
  unfolding os_mkdir_def by (rule confined_path_call [where follow = False]) (auto split: sum.split)

lemma confined_create: "on_way d p \<Longrightarrow> confined d (os_create F (path_text p))"
  unfolding os_create_def by (rule confined_path_call [where follow = True]) (auto split: sum.split)

lemma confined_write: "on_way d p \<Longrightarrow> confined d (os_write F (path_text p) bytes)"
  unfolding os_write_def by (rule confined_path_call [where follow = True]) (auto split: sum.split)

lemma on_way_butlast: "on_way d p \<Longrightarrow> on_way d (butlast p)"
  unfolding on_way_def
  by (metis append_butlast_last_id butlast.simps(1) list_all_append prefix_order.order_refl prefix_order.trans
      prefix_snoc prefixeq_butlast)

lemma confined_mkdir_all_text: "on_way d p \<Longrightarrow> confined d (mkdir_all_text F p)"
proof (induction F p rule: mkdir_all_text.induct)
  case (1 F p)
  have parent: "confined d (if length p \<le> 1 then State_Monad.return None else mkdir_all_text F (butlast p))"
    if "os_stat h (path_text p) = Inl e" for h e
    using "1.IH" [OF that] on_way_butlast [OF "1.prems"] by (cases "length p \<le> 1") auto
  show ?case
    unfolding mkdir_all_text.simps [of F p]
    by (rule parent confined_mkdir "1.prems" confined_rules | assumption)+
qed

lemma confined_mkdir_all: 
  assumes "on_way d p"
  shows "confined d (os_mkdir_all F (path_text p))"
proof -
  have "filter (\<lambda>c. c \<noteq> []) (split_path (path_text p)) = p"
    using assms split_path_text [of p] by (auto simp: on_way_def plain_name_def list_all_iff intro!: filter_True)
  then show ?thesis using confined_mkdir_all_text [OF assms] by (simp add: os_mkdir_all_def)
qed

end
