(* ===== verification/Artifact.thy ===== *)
theory Artifact
  imports Files
begin

text \<open>
  internal/source: the download, the verification and the extraction of a Flux artifact, and the check of
  a CUE module. The decoders of archive/zip and archive/tar, the HTTP client and SHA-256 are
  parameters: an archive is the sequence of entries its decoder yields.
\<close>

section \<open>Extraction\<close>

definition max_zip_files :: nat where "max_zip_files = 10000"
definition max_tar_files :: nat where "max_tar_files = 10000"

text \<open>A body is the bytes its reader gives and the error it may then end with.\<close>

record 'x zip_entry =
  ze_name :: string
  ze_is_dir :: bool
  ze_open :: "'x goerr option"
  ze_body :: string
  ze_body_err :: "'x goerr option"

datatype tar_type = TypeDir | TypeReg | TypeSymlink | TypeOther

record 'x tar_entry =
  te_name :: string
  te_type :: tar_type
  te_link :: string
  te_body :: string
  te_body_err :: "'x goerr option"

definition wrapped :: "'x errlib \<Rightarrow> string \<Rightarrow> 'x goerr \<Rightarrow> 'x goerr" where
  "wrapped E what e = Fmt (what @ '': '' @ err_text E e) [e]"

text \<open>io.Copy of a body into a file that was just opened.\<close>

definition copy_body ::
    "'x errlib \<Rightarrow> (nat \<Rightarrow> 'x option) \<Rightarrow> string \<Rightarrow> string \<Rightarrow> string \<Rightarrow> 'x goerr option \<Rightarrow> 'x goerr option host_prog" where
  "copy_body E F target what body body_err =
     do { err \<leftarrow> os_create F target;
          case err of
            Some e \<Rightarrow> State_Monad.return (Some (wrapped E (''creating file '' @ target) e))
          | None \<Rightarrow>
              do { failed \<leftarrow> os_write F target body;
                   State_Monad.return
                     (map_option (wrapped E (''extracting '' @ what))
                        (case failed of Some e \<Rightarrow> Some e | None \<Rightarrow> body_err)) } }"

definition extract_zip_file ::
    "'x errlib \<Rightarrow> (nat \<Rightarrow> 'x option) \<Rightarrow> 'x zip_entry \<Rightarrow> string \<Rightarrow> 'x goerr option host_prog" where
  "extract_zip_file E F f target =
     (case ze_open f of
        Some e \<Rightarrow> State_Monad.return (Some (wrapped E (''opening zip entry '' @ ze_name f) e))
      | None \<Rightarrow> copy_body E F target (ze_name f) (ze_body f) (ze_body_err f))"

fun zip_loop ::
    "'x errlib \<Rightarrow> (nat \<Rightarrow> 'x option) \<Rightarrow> string \<Rightarrow> 'x zip_entry list \<Rightarrow> 'x goerr option host_prog" where
  "zip_loop E F dest [] = State_Monad.return None"
| "zip_loop E F dest (f # fs) =
     (let name = path_clean (ze_name f); target = path_join [dest, name]
      in if is_abs name \<or> has_prefix name ''..''
         then State_Monad.return (Some (Fmt (''zip entry '' @ quote (ze_name f) @ '' contains path traversal'') []))
         else if ze_is_dir f then
           do { err \<leftarrow> os_mkdir_all F target;
                case err of
                  Some e \<Rightarrow> State_Monad.return (Some (wrapped E (''creating directory '' @ target) e))
                | None \<Rightarrow> zip_loop E F dest fs }
         else
           do { err \<leftarrow> os_mkdir_all F (path_dir target);
                case err of
                  Some e \<Rightarrow> State_Monad.return (Some (wrapped E (''creating parent directory for '' @ target) e))
                | None \<Rightarrow>
                    do { err \<leftarrow> extract_zip_file E F f target;
                         case err of
                           Some e \<Rightarrow> State_Monad.return (Some e)
                         | None \<Rightarrow> zip_loop E F dest fs } })"

definition extract_zip ::
    "'x errlib \<Rightarrow> (nat \<Rightarrow> 'x option) \<Rightarrow> 'x goerr + 'x zip_entry list \<Rightarrow> string \<Rightarrow> 'x goerr option host_prog" where
  "extract_zip E F opened dest =
     (case opened of
        Inl e \<Rightarrow> State_Monad.return (Some (wrapped E ''opening zip archive'' e))
      | Inr files \<Rightarrow>
          if length files > max_zip_files
          then State_Monad.return (Some (Fmt (''zip archive contains '' @ itoa (length files) @
                 '' files, exceeds limit of '' @ itoa max_zip_files) []))
          else zip_loop E F dest files)"

definition extract_tar_file ::
    "'x errlib \<Rightarrow> (nat \<Rightarrow> 'x option) \<Rightarrow> 'x tar_entry \<Rightarrow> string \<Rightarrow> 'x goerr option host_prog" where
  "extract_tar_file E F hdr target = copy_body E F target target (te_body hdr) (te_body_err hdr)"

text \<open>The place a symbolic link of the archive leads to, as the check computes it.\<close>

definition link_inside :: "string \<Rightarrow> string \<Rightarrow> string \<Rightarrow> bool" where
  "link_inside dest target link =
     (let link_target = path_clean (path_join [path_dir target, link])
      in has_prefix link_target (path_clean dest @ ''/'') \<or> link_target = path_clean dest)"

definition tar_symlink ::
    "'x errlib \<Rightarrow> (nat \<Rightarrow> 'x option) \<Rightarrow> string \<Rightarrow> 'x tar_entry \<Rightarrow> string \<Rightarrow> 'x goerr option host_prog" where
  "tar_symlink E F dest hdr target =
     (if \<not> link_inside dest target (te_link hdr)
      then State_Monad.return (Some (Fmt (''tar symlink '' @ quote (te_name hdr) @ '' escapes destination'') []))
      else do { err \<leftarrow> os_symlink F (te_link hdr) target;
                State_Monad.return (map_option (wrapped E (''creating symlink '' @ target)) err) })"

definition tar_entry_step ::
    "'x errlib \<Rightarrow> (nat \<Rightarrow> 'x option) \<Rightarrow> string \<Rightarrow> 'x tar_entry \<Rightarrow> 'x goerr option host_prog" where
  "tar_entry_step E F dest hdr =
     (let name = path_clean (te_name hdr); target = path_join [dest, name];
          in_parent = (\<lambda>m. do { err \<leftarrow> os_mkdir_all F (path_dir target);
                                case err of
                                  Some e \<Rightarrow> State_Monad.return
                                    (Some (wrapped E (''creating parent directory for '' @ target) e))
                                | None \<Rightarrow> m })
      in if is_abs name \<or> has_prefix name ''..'' \<or> name = ''..''
         then State_Monad.return (Some (Fmt (''tar entry '' @ quote (te_name hdr) @ '' contains path traversal'') []))
         else case te_type hdr of
                TypeDir \<Rightarrow>
                  do { err \<leftarrow> os_mkdir_all F target;
                       State_Monad.return (map_option (wrapped E (''creating directory '' @ target)) err) }
              | TypeReg \<Rightarrow> in_parent (extract_tar_file E F hdr target)
              | TypeSymlink \<Rightarrow> in_parent (tar_symlink E F dest hdr target)
              | TypeOther \<Rightarrow> State_Monad.return None)"

text \<open>The items a tar.Reader yields before io.EOF: an entry, or the error of Next.\<close>

fun tar_loop ::
    "'x errlib \<Rightarrow> (nat \<Rightarrow> 'x option) \<Rightarrow> string \<Rightarrow> nat \<Rightarrow> ('x goerr + 'x tar_entry) list \<Rightarrow> 'x goerr option host_prog" where
  "tar_loop E F dest seen [] = State_Monad.return None"
| "tar_loop E F dest seen (Inl e # items) = State_Monad.return (Some (wrapped E ''reading tar entry'' e))"
| "tar_loop E F dest seen (Inr hdr # items) =
     (if seen + 1 > max_tar_files
      then State_Monad.return (Some (Fmt (''tar archive contains more than '' @ itoa max_tar_files @ '' files'') []))
      else do { err \<leftarrow> tar_entry_step E F dest hdr;
                case err of
                  Some e \<Rightarrow> State_Monad.return (Some e)
                | None \<Rightarrow> tar_loop E F dest (seen + 1) items })"

text \<open>os.Open of the archive and gzip.NewReader come first.\<close>

record 'x tar_archive =
  ta_open :: "'x goerr option"
  ta_gzip :: "'x goerr option"
  ta_items :: "('x goerr + 'x tar_entry) list"

definition extract_tar_gz ::
    "'x errlib \<Rightarrow> (nat \<Rightarrow> 'x option) \<Rightarrow> 'x tar_archive \<Rightarrow> string \<Rightarrow> 'x goerr option host_prog" where
  "extract_tar_gz E F archive dest =
     (case ta_open archive of
        Some e \<Rightarrow> State_Monad.return (Some (wrapped E ''opening tar.gz archive'' e))
      | None \<Rightarrow>
          (case ta_gzip archive of
             Some e \<Rightarrow> State_Monad.return (Some (wrapped E ''opening gzip stream'' e))
           | None \<Rightarrow> tar_loop E F dest 0 (ta_items archive)))"



section \<open>What extraction may touch\<close>

text \<open>The target of an accepted entry and the directory it is in.\<close>

lemma accepted_target:
  assumes d: "list_all plain_name d" and "\<not> is_abs (path_clean s)" and "\<not> has_prefix (path_clean s) ''..''"
  obtains p where "path_join [path_text d, path_clean s] = path_text p" and "on_way d p"
    and "on_way d (butlast p)" and "path_dir (path_text p) = path_text (butlast p)"
proof -
  obtain ns where ns: "list_all plain_name ns" "split_path (path_clean s) = (if ns = [] then [''.''] else ns)"
    using clean_inside [of s] assms(2,3) unfolding has_prefix_def by metis
  let ?p = "d @ ns"
  have plain: "list_all plain_name ?p" using d ns(1) by simp
  then have way: "on_way d ?p" by (simp add: on_way_def)
  have "path_dir (path_text ?p) = path_text (butlast ?p)"
  proof (cases "?p" rule: rev_cases)
    case Nil
    then show ?thesis by (simp add: path_dir_def path_clean_def path_text_def is_abs_def clean_list_def clean_step_def)
  next
    case (snoc q c)
    then show ?thesis using dir_text [of q c] plain by simp
  qed
  then show ?thesis using that join_inside [OF d ns] way on_way_butlast [OF way] by blast
qed

lemma confined_copy_body: "on_way d p \<Longrightarrow> confined d (copy_body E F (path_text p) what body err)"
  unfolding copy_body_def
  by (rule confined_create confined_write confined_rules | assumption)+

lemma confined_zip_loop: "list_all plain_name d \<Longrightarrow> confined d (zip_loop E F (path_text d) fs)"
proof (induction fs)
  case (Cons f fs)
  let ?name = "path_clean (ze_name f)"
  show ?case
  proof (cases "is_abs ?name \<or> has_prefix ?name ''..''")
    case False
    then obtain p where p: "path_join [path_text d, ?name] = path_text p" "on_way d p" "on_way d (butlast p)"
      "path_dir (path_text p) = path_text (butlast p)"
      using accepted_target [OF Cons.prems] by blast
    show ?thesis
      unfolding zip_loop.simps Let_def p(1,4) extract_zip_file_def
      by (rule confined_mkdir_all confined_copy_body p Cons confined_rules | assumption)+
  qed (auto simp: Let_def)
qed auto

text \<open>An entry that is not a symbolic link.\<close>

definition no_link :: "'x goerr + 'x tar_entry \<Rightarrow> bool" where
  "no_link item = (case item of Inl _ \<Rightarrow> True | Inr hdr \<Rightarrow> te_type hdr \<noteq> TypeSymlink)"

lemma confined_tar_entry:
  assumes d: "list_all plain_name d" and "te_type hdr \<noteq> TypeSymlink"
  shows "confined d (tar_entry_step E F (path_text d) hdr)"
proof (cases "is_abs (path_clean (te_name hdr)) \<or> has_prefix (path_clean (te_name hdr)) ''..'' \<or>
    path_clean (te_name hdr) = ''..''")
  case False
  then obtain p where p: "path_join [path_text d, path_clean (te_name hdr)] = path_text p" "on_way d p"
    "on_way d (butlast p)" "path_dir (path_text p) = path_text (butlast p)"
    using accepted_target [OF d] by blast
  show ?thesis
    unfolding tar_entry_step_def Let_def p(1,4) extract_tar_file_def
    using assms(2) False
    by (cases "te_type hdr") (auto intro!: confined_mkdir_all confined_copy_body confined_bind confined_case_option p)
qed (auto simp: tar_entry_step_def Let_def)

lemma confined_tar_loop:
  "list_all plain_name d \<Longrightarrow> list_all no_link items \<Longrightarrow> confined d (tar_loop E F (path_text d) n items)"
proof (induction items arbitrary: n)
  case (Cons item items)
  then show ?case
    by (cases item) (auto simp: no_link_def intro!: confined_tar_entry confined_bind confined_case_option)
qed auto

text \<open>C39: extraction stays in its directory: into a directory without symbolic links, a zip archive of
  any names, and a tar archive without symbolic links, changes nothing outside, whatever fails on
  the way.\<close>

theorem extraction_confined:
  assumes "jail d (ho_tree h)" and "list_all no_link (ta_items archive)"
  shows "same_outside d (ho_tree h) (ho_tree (snd (run_state (extract_zip E F opened (path_text d)) h))) \<and>
    same_outside d (ho_tree h) (ho_tree (snd (run_state (extract_tar_gz E F archive (path_text d)) h)))"
proof -
  have d: "list_all plain_name d" using assms(1) by (simp add: jail_def)
  have "confined d (extract_zip E F opened (path_text d))"
    unfolding extract_zip_def by (rule confined_zip_loop d confined_rules)+
  moreover have "confined d (extract_tar_gz E F archive (path_text d))"
    unfolding extract_tar_gz_def by (rule confined_tar_loop d assms(2) confined_rules)+
  ultimately show ?thesis using assms(1) by (simp add: confined_def)
qed

text \<open>A host with two directories: /t/d, the destination, and /e.\<close>

definition sample_host :: host where
  "sample_host =
     \<lparr>ho_tree = [[''t''] \<mapsto> DirNode, [''t'', ''d''] \<mapsto> DirNode, [''e''] \<mapsto> DirNode,
                 [''e'', ''p''] \<mapsto> FileNode ''old''],
      ho_cwd = [], ho_calls = 0\<rparr>"

definition tar_file :: "string \<Rightarrow> string \<Rightarrow> unit goerr + unit tar_entry" where
  "tar_file name body =
     Inr \<lparr>te_name = name, te_type = TypeReg, te_link = [], te_body = body, te_body_err = None\<rparr>"

definition tar_link :: "string \<Rightarrow> string \<Rightarrow> unit goerr + unit tar_entry" where
  "tar_link name link =
     Inr \<lparr>te_name = name, te_type = TypeSymlink, te_link = link, te_body = [], te_body_err = None\<rparr>"

definition tar_of :: "(unit goerr + unit tar_entry) list \<Rightarrow> unit tar_archive" where
  "tar_of items = \<lparr>ta_open = None, ta_gzip = None, ta_items = items\<rparr>"

definition no_faults :: "nat \<Rightarrow> unit option" where "no_faults n = None"

lemma sample_jail: "jail [''t'', ''d''] (ho_tree sample_host)"
  by (auto simp: jail_def sample_host_def plain_name_def prefix_Cons)

theorem extraction_confined_witness:
  "\<forall>E. same_outside [''t'', ''d''] (ho_tree sample_host)
     (ho_tree (snd (run_state (extract_tar_gz E no_faults (tar_of [tar_file ''a/b'' ''x'']) ''/t/d'') sample_host)))"
  using extraction_confined [OF sample_jail, of "tar_of [tar_file ''a/b'' ''x'']"]
  by (simp add: tar_of_def tar_file_def no_link_def path_text_def)

text \<open>A tar archive with symbolic links does leave its directory. The check joins an absolute
  link to the directory of the entry, where it looks contained, but the link that is made is
  absolute; and it takes the name of the entry literally, also when a directory in it is itself a link,
  so a relative link is made one level higher than it was judged. A file entry then writes through
  the link.\<close>

theorem tar_symlink_escapes:
  "(\<exists>h'. run_state (extract_tar_gz E no_faults
      (tar_of [tar_link ''x'' ''/e'', tar_file ''x/p'' ''new'']) ''/t/d'') sample_host = (None, h') \<and>
      ho_tree h' [''e'', ''p''] = Some (FileNode ''new'')) \<and>
   (\<exists>h'. run_state (extract_tar_gz E no_faults
      (tar_of [tar_link ''s'' ''.'', tar_link ''s/l'' ''..'', tar_file ''l/f'' ''new'']) ''/t/d'') sample_host = (None, h') \<and>
      ho_tree h' [''t'', ''f''] = Some (FileNode ''new''))"
proof
  have "(case run_state (extract_tar_gz E no_faults
      (tar_of [tar_link ''x'' ''/e'', tar_file ''x/p'' ''new'']) ''/t/d'') sample_host of (r, h') \<Rightarrow>
      r = None \<and> ho_tree h' [''e'', ''p''] = Some (FileNode ''new''))"
    by code_simp
  then show "\<exists>h'. run_state (extract_tar_gz E no_faults
      (tar_of [tar_link ''x'' ''/e'', tar_file ''x/p'' ''new'']) ''/t/d'') sample_host = (None, h') \<and>
      ho_tree h' [''e'', ''p''] = Some (FileNode ''new'')" by (simp add: split_beta) (metis prod.collapse)
  have "(case run_state (extract_tar_gz E no_faults
      (tar_of [tar_link ''s'' ''.'', tar_link ''s/l'' ''..'', tar_file ''l/f'' ''new'']) ''/t/d'') sample_host of (r, h') \<Rightarrow>
      r = None \<and> ho_tree h' [''t'', ''f''] = Some (FileNode ''new''))"
    by code_simp
  then show "\<exists>h'. run_state (extract_tar_gz E no_faults
      (tar_of [tar_link ''s'' ''.'', tar_link ''s/l'' ''..'', tar_file ''l/f'' ''new'']) ''/t/d'') sample_host = (None, h') \<and>
      ho_tree h' [''t'', ''f''] = Some (FileNode ''new'')" by (simp add: split_beta) (metis prod.collapse)
qed



section \<open>The CUE module check\<close>

text \<open>\<open>dir_size\<close> is what the file system reports as the size of a directory.\<close>

definition validate_cue_module :: "'x errlib \<Rightarrow> nat \<Rightarrow> host \<Rightarrow> string \<Rightarrow> 'x goerr option" where
  "validate_cue_module E dir_size h dir =
     (let mod_dir = path_join [dir, ''cue.mod'']; module_cue = path_join [mod_dir, ''module.cue''];
          missing = (\<lambda>what. Some (wrapped E what (Sentinel ErrMissingCUEModule)))
      in case os_stat h mod_dir of
           Inl e \<Rightarrow> if e = ENOENT then missing ''cue.mod directory missing''
                     else Some (wrapped E ''checking cue.mod'' (path_error ''stat'' mod_dir e))
         | Inr nd \<Rightarrow>
             if nd \<noteq> DirNode then missing ''cue.mod is not a directory''
             else case os_stat h module_cue of
                    Inl e \<Rightarrow> if e = ENOENT then missing ''cue.mod/module.cue missing''
                              else Some (wrapped E ''checking cue.mod/module.cue'' (path_error ''stat'' module_cue e))
                  | Inr fi \<Rightarrow>
                      if (case fi of FileNode body \<Rightarrow> length body | _ \<Rightarrow> dir_size) = 0
                      then missing ''cue.mod/module.cue is empty'' else None)"


section \<open>Fetching\<close>

definition max_artifact_size :: int64 where "max_artifact_size = push_bit 20 64"

datatype archive_format = ArchiveFormatZip | ArchiveFormatTarGz | ArchiveFormatOther int

record fetch_options =
  fo_format :: archive_format
  fo_skip_root_validation :: bool

definition format_for_kind :: "string \<Rightarrow> archive_format" where
  "format_for_kind kind = ArchiveFormatTarGz"

text \<open>
  What a fetch asks of the outside: http.NewRequest and the HTTP client, with the status and the body
  of the answer, os.CreateTemp and the writes to the temporary file, SHA-256 in hexadecimal, and the
  decoders. The temporary file lies outside every directory below and is gone when Fetch returns.
\<close>

record 'x fetch_env =
  fe_request :: "string \<Rightarrow> 'x goerr option"
  fe_do :: "string \<Rightarrow> 'x goerr + nat \<times> string \<times> 'x goerr option"
  fe_temp :: "'x goerr option"
  fe_copy :: "'x goerr option"
  fe_sha256 :: "string \<Rightarrow> string"
  fe_zip :: "string \<Rightarrow> 'x goerr + 'x zip_entry list"
  fe_tar :: "string \<Rightarrow> 'x tar_archive"
  fe_dir_size :: nat

text \<open>What io.LimitReader lets through, and the error of the body when it ends before the limit.\<close>

definition limited :: "int64 \<Rightarrow> string \<Rightarrow> 'x goerr option \<Rightarrow> string \<times> 'x goerr option" where
  "limited n body err =
     (let k = nat (sint n) in (take k body, if k \<le> length body then None else err))"

definition effective_max :: "int64 \<Rightarrow> int64" where
  "effective_max max_size = (if max_size = 0 then max_artifact_size else max_size)"

text \<open>The download: the bytes, once they are complete, within the limit and of the right digest.\<close>

definition download ::
    "'x errlib \<Rightarrow> 'x fetch_env \<Rightarrow> int64 \<Rightarrow> string \<Rightarrow> string \<Rightarrow> 'x goerr + string" where
  "download E X max_size url digest =
     (case fe_request X url of
        Some e \<Rightarrow> Inl (wrapped E ''creating request'' e)
      | None \<Rightarrow>
          (case fe_do X url of
             Inl e \<Rightarrow> Inl (wrapped E ''downloading artifact'' e)
           | Inr (status, body, body_err) \<Rightarrow>
               if status \<noteq> 200 then Inl (Fmt (''downloading artifact: status '' @ itoa status) [])
               else case fe_temp X of
                      Some e \<Rightarrow> Inl (wrapped E ''creating temp file'' e)
                    | None \<Rightarrow>
                        (let (bytes, read_err) = limited (effective_max max_size + 1) body body_err;
                             err = (case fe_copy X of Some e \<Rightarrow> Some e | None \<Rightarrow> read_err);
                             got = ''sha256:'' @ fe_sha256 X bytes
                         in case err of
                              Some e \<Rightarrow> Inl (wrapped E ''downloading artifact'' e)
                            | None \<Rightarrow>
                                if int (length bytes) > sint (effective_max max_size)
                                then Inl (Fmt (''artifact size exceeds limit of '' @
                                       itoa_int (sint (effective_max max_size)) @ '' bytes'') [])
                                else if got \<noteq> digest
                                then Inl (Fmt (''artifact digest mismatch: got '' @ got @ '', want '' @ digest) [])
                                else Inr bytes)))"

definition fetch ::
    "'x errlib \<Rightarrow> (nat \<Rightarrow> 'x option) \<Rightarrow> 'x fetch_env \<Rightarrow> int64 \<Rightarrow> string \<Rightarrow> string \<Rightarrow> string \<Rightarrow> fetch_options \<Rightarrow>
     'x goerr option host_prog" where
  "fetch E F X max_size url digest dir opts =
     (case download E X max_size url digest of
        Inl e \<Rightarrow> State_Monad.return (Some e)
      | Inr bytes \<Rightarrow>
          do { err \<leftarrow> (case fo_format opts of
                        ArchiveFormatZip \<Rightarrow>
                          do { e \<leftarrow> extract_zip E F (fe_zip X bytes) dir;
                               State_Monad.return (map_option (wrapped E ''extracting artifact'') e) }
                      | ArchiveFormatTarGz \<Rightarrow>
                          do { e \<leftarrow> extract_tar_gz E F (fe_tar X bytes) dir;
                               State_Monad.return (map_option (wrapped E ''extracting artifact'') e) }
                      | ArchiveFormatOther n \<Rightarrow>
                          State_Monad.return (Some (Fmt (''unknown archive format: '' @ itoa_int n) [])));
               case err of
                 Some e \<Rightarrow> State_Monad.return (Some e)
               | None \<Rightarrow>
                   if fo_skip_root_validation opts then State_Monad.return None
                   else do { h \<leftarrow> get_host;
                             State_Monad.return (validate_cue_module E (fe_dir_size X) h dir) } })"

text \<open>An artifact that was served whole, within the limit and with the digest asked for.\<close>

definition verified :: "'x fetch_env \<Rightarrow> int64 \<Rightarrow> string \<Rightarrow> string \<Rightarrow> string \<Rightarrow> bool" where
  "verified X max_size url digest bytes =
     ((\<exists>err. fe_do X url = Inr (200, bytes, err)) \<and>
      int (length bytes) \<le> sint (effective_max max_size) \<and> digest = ''sha256:'' @ fe_sha256 X bytes)"

lemma sint_next:
  fixes m :: int64
  assumes "0 < sint (m + 1)"
  shows "sint (m + 1) = sint m + 1"
proof -
  have range: "- (2 ^ 63) \<le> sint m" "sint m < 2 ^ 63"
    using sint_range_size [of m] by (simp_all add: size_word_def)
  have next_def: "sint (m + 1) = signed_take_bit 63 (sint m + 1)" by (simp add: sint_word_ariths(1))
  show ?thesis
  proof (cases "sint m + 1 < 2 ^ 63")
    case True
    then show ?thesis using range unfolding next_def by (intro signed_take_bit_int_eq_self) simp_all
  next
    case False
    then have "sint m + 1 = 2 ^ 63" using range by simp
    then show ?thesis using assms unfolding next_def by (simp add: signed_take_bit_def not_int_def mask_eq_exp_minus_1)
  qed
qed

lemma limited_whole:
  assumes "limited (m + 1) body err = (bytes, None)" and "int (length bytes) \<le> sint m" and "0 < sint (m + 1)"
  shows "bytes = body \<and> err = None"
  using assms sint_next [OF assms(3)] by (auto simp: limited_def Let_def split: if_splits)

lemma download_verified:
  assumes "download E X max_size url digest = Inr bytes" and "0 < sint (effective_max max_size + 1)"
  shows "verified X max_size url digest bytes"
proof -
  obtain body body_err where body: "fe_do X url = Inr (200, body, body_err)"
    and lim: "limited (effective_max max_size + 1) body body_err = (bytes, None)"
    and ok: "int (length bytes) \<le> sint (effective_max max_size)" "digest = ''sha256:'' @ fe_sha256 X bytes"
    using assms(1)
    by (auto simp: download_def Let_def split_beta not_less prod_eq_iff split: option.splits sum.splits prod.splits if_splits)
  then show ?thesis using limited_whole [OF lim ok(1) assms(2)] by (auto simp: verified_def)
qed

text \<open>C40: nothing of an artifact reaches the disk, and no fetch succeeds, before the artifact was
  received whole, is within the size limit and has the digest the source names. The limit is an
  int64 below its maximum, as the default is.\<close>

theorem fetch_verifies_first:
  assumes "0 < sint (effective_max max_size + 1)"
    and "run_state (fetch E F X max_size url digest dir opts) h = (r, h')" and "h' \<noteq> h \<or> r = None"
  shows "\<exists>bytes. verified X max_size url digest bytes"
proof (cases "download E X max_size url digest")
  case (Inl e)
  then show ?thesis using assms(2,3) by (auto simp: fetch_def State_Monad.return_def)
next
  case (Inr bytes)
  then show ?thesis using download_verified [OF Inr assms(1)] by blast
qed

definition sample_fetch :: "string fetch_env" where
  "sample_fetch =
     \<lparr>fe_request = (\<lambda>_. None), fe_do = (\<lambda>_. Inr (200, ''x'', None)), fe_temp = None, fe_copy = None,
      fe_sha256 = (\<lambda>b. b), fe_zip = (\<lambda>_. Inr []),
      fe_tar = (\<lambda>_. \<lparr>ta_open = None, ta_gzip = None, ta_items = []\<rparr>), fe_dir_size = 1\<rparr>"

theorem fetch_verifies_first_witness:
  "\<exists>bytes. verified sample_fetch 0 ''u'' ''sha256:x'' bytes"
proof -
  let ?opts = "\<lparr>fo_format = format_for_kind ''GitRepository'', fo_skip_root_validation = True\<rparr>"
  have "0 < sint (effective_max 0 + 1)"
    by (simp add: effective_max_def max_artifact_size_def)
  moreover have "fst (run_state (fetch E (\<lambda>_. None) sample_fetch 0 ''u'' ''sha256:x'' ''/t/d'' ?opts) sample_host) = None" for E
    by (simp add: fetch_def download_def sample_fetch_def limited_def effective_max_def max_artifact_size_def
        format_for_kind_def extract_tar_gz_def State_Monad.return_def)
  ultimately show ?thesis using fetch_verifies_first [of 0] by (metis prod.collapse)
qed

end
