(* ===== verification/Effects.thy ===== *)
theory Effects
  imports Errors
begin

text \<open>
  Programs with effects. A handler of the operator is a \<open>state\<close> monad program
  over a record that holds the world the third-party clients act on and the
  trace of every request made of it, in order. The clients are parameters:
  each of their operations is a function of its arguments and the world.
\<close>

section \<open>Objects and requests\<close>

text \<open>
  An unstructured object, by what the source reads of it. \<open>u_ptr\<close> is the Go pointer
  the source compares in withoutObjects; \<open>u_ttl\<close> says that
  spec.ttlSecondsAfterFinished is set; \<open>u_crd_group\<close> and \<open>u_crd_kind\<close> are
  spec.group and spec.names.kind, empty when absent; \<open>u_provides\<close> is
  spec.provides as NestedStringSlice reads it, with the text of its error on the left;
  \<open>u_labels\<close> the labels;
  \<open>u_body\<close> is the rest of the object.
\<close>

record uobj =
  u_ptr :: nat
  u_group :: string
  u_version :: string
  u_kind :: string
  u_namespace :: string
  u_name :: string
  u_uid :: string
  u_labels :: "(string \<times> string) list"
  u_deletion_timestamp :: "time option"
  u_finalizers :: "string list"
  u_ttl :: bool
  u_crd_group :: string
  u_crd_kind :: string
  u_provides :: "string + string list"
  u_body :: string

definition blank_object :: "string \<Rightarrow> string \<Rightarrow> string \<Rightarrow> string \<Rightarrow> string \<Rightarrow> uobj" where
  "blank_object grp version kind namespace name =
     \<lparr>u_ptr = 0, u_group = grp, u_version = version, u_kind = kind,
      u_namespace = namespace, u_name = name, u_uid = [], u_labels = [],
      u_deletion_timestamp = None, u_finalizers = [], u_ttl = False,
      u_crd_group = [], u_crd_kind = [], u_provides = Inr [], u_body = []\<rparr>"

definition ref_of :: "uobj \<Rightarrow> object_ref" where
  "ref_of u = \<lparr>or_group = u_group u, or_kind = u_kind u, or_namespace = u_namespace u, or_name = u_name u\<rparr>"

definition entry_ref :: "inventory_entry \<Rightarrow> object_ref" where
  "entry_ref e = \<lparr>or_group = ie_group e, or_kind = ie_kind e, or_namespace = ie_namespace e, or_name = ie_name e\<rparr>"

text \<open>The options of a delete, in the order given: a propagation policy, or
  metav1.Preconditions with its optional UID and resource version.\<close>

datatype delete_option = Propagation string | Preconditions "string option" "string option"

text \<open>One request of the trace.\<close>

datatype act =
    ReadAct object_ref
  | ListAct string
  | DeleteAct object_ref "delete_option list"
  | DryRunAct object_ref
  | DiffAct object_ref
  | WriteAct uobj
  | ImpersonateAct string string
  | PatchFinalizersAct "string list"
  | PatchIdentitiesAct string string
  | PatchStatusAct instance_status
  | PatchPackageAct package_status
  | PatchRegistrationAct "string list" registration_status
  | PatchPlatformAct platform_status
  | AcquireAct string string
  | EventAct string string string string
  | RenderAct
  | MakeDirAct string
  | FetchAct string string
  | RemoveDirAct string
  | MetricAct string
  | OtherAct string

record 'w sys =
  sys_world :: 'w
  sys_trace :: "act list"

type_synonym ('w, 'z, 'a) prog = "(('w, 'z) sys_scheme, 'a) state"

text \<open>Perform one request: note it in the trace and let the world answer.\<close>

definition request :: "act \<Rightarrow> ('w \<Rightarrow> 'a \<times> 'w) \<Rightarrow> ('w, 'z, 'a) prog" where
  "request a f = State (\<lambda>s. let (r, w) = f (sys_world s)
     in (r, s\<lparr>sys_world := w, sys_trace := sys_trace s @ [a]\<rparr>))"

text \<open>Read the world without a request: the clock, the state of the context.\<close>

definition ask :: "('w \<Rightarrow> 'a) \<Rightarrow> ('w, 'z, 'a) prog" where
  "ask f = State (\<lambda>s. (f (sys_world s), s))"

text \<open>Let the world move on without a request, as a timer does.\<close>

definition tick :: "('w \<Rightarrow> 'a \<times> 'w) \<Rightarrow> ('w, 'z, 'a) prog" where
  "tick f = State (\<lambda>s. let (r, w) = f (sys_world s) in (r, s\<lparr>sys_world := w\<rparr>))"

lemma run_request [simp]:
  "run_state (request a f) s =
     (fst (f (sys_world s)), s\<lparr>sys_world := snd (f (sys_world s)), sys_trace := sys_trace s @ [a]\<rparr>)"
  by (simp add: request_def split_beta Let_def)

lemma run_ask [simp]: "run_state (ask f) s = (f (sys_world s), s)"
  by (simp add: ask_def)

lemma run_tick [simp]:
  "run_state (tick f) s = (fst (f (sys_world s)), s\<lparr>sys_world := snd (f (sys_world s))\<rparr>)"
  by (simp add: tick_def split_beta Let_def)


section \<open>What a program may request\<close>

definition emits :: "(act \<Rightarrow> bool) \<Rightarrow> ('w, 'z, 'a) prog \<Rightarrow> bool" where
  "emits P m = (\<forall>s. \<exists>new. sys_trace (snd (run_state m s)) = sys_trace s @ new \<and> list_all P new)"

lemma emitsI:
  "(\<And>s. \<exists>new. sys_trace (snd (run_state m s)) = sys_trace s @ new \<and> list_all P new) \<Longrightarrow> emits P m"
  by (simp add: emits_def)

lemma emitsE:
  assumes "emits P m" and "run_state m s = (r, s')"
  obtains new where "sys_trace s' = sys_trace s @ new" and "list_all P new"
  using assms unfolding emits_def by (metis snd_conv)

lemma emits_mono: "emits P m \<Longrightarrow> (\<And>a. P a \<Longrightarrow> Q a) \<Longrightarrow> emits Q m"
  unfolding emits_def by (meson list.pred_mono_strong)

lemma emits_return [emits_intro]: "emits P (State_Monad.return x)"
  by (rule emitsI) (simp add: State_Monad.return_def)

lemma emits_get [emits_intro]: "emits P State_Monad.get"
  by (rule emitsI) (simp add: State_Monad.get_def)

lemma emits_ask [emits_intro]: "emits P (ask f)"
  by (rule emitsI) simp

lemma emits_tick [emits_intro]: "emits P (tick f)"
  by (rule emitsI) simp

lemma emits_request [emits_intro]: "P a \<Longrightarrow> emits P (request a f)"
  by (rule emitsI) simp

lemma emits_update [emits_intro]:
  "(\<And>s. sys_trace (f s) = sys_trace s) \<Longrightarrow> emits P (State_Monad.update f)"
  by (rule emitsI) (simp add: State_Monad.update_def State_Monad.get_def State_Monad.set_def)

lemma emits_bind [emits_intro]:
  assumes "emits P m" and "\<And>x. emits P (f x)"
  shows "emits P (m \<bind> f)"
proof (rule emitsI)
  fix s
  obtain x s1 where m: "run_state m s = (x, s1)" by fastforce
  obtain y s2 where f: "run_state (f x) s1 = (y, s2)" by fastforce
  from emitsE [OF assms(1) m] obtain n1 where n1: "sys_trace s1 = sys_trace s @ n1" "list_all P n1" .
  from emitsE [OF assms(2) f] obtain n2 where n2: "sys_trace s2 = sys_trace s1 @ n2" "list_all P n2" .
  have "sys_trace (snd (run_state (m \<bind> f) s)) = sys_trace s @ n1 @ n2 \<and> list_all P (n1 @ n2)"
    using n1 n2 m f by simp
  then show "\<exists>new. sys_trace (snd (run_state (m \<bind> f) s)) = sys_trace s @ new \<and> list_all P new"
    by blast
qed

text \<open>\<open>yields R m\<close>: from any state the program's result satisfies \<open>R\<close>.\<close>

definition yields :: "('a \<Rightarrow> bool) \<Rightarrow> ('s, 'a) state \<Rightarrow> bool" where
  "yields R m = (\<forall>s. R (fst (run_state m s)))"

lemma yieldsD: "yields R m \<Longrightarrow> run_state m s = (x, s') \<Longrightarrow> R x"
  unfolding yields_def by (metis fst_conv)

lemma emits_bind_yields:
  assumes "emits P m" and "yields R m" and "\<And>x. R x \<Longrightarrow> emits P (f x)"
  shows "emits P (m \<bind> f)"
proof (rule emitsI)
  fix s
  obtain x s1 where m: "run_state m s = (x, s1)" by fastforce
  obtain y s2 where f: "run_state (f x) s1 = (y, s2)" by fastforce
  have "emits P (f x)" using assms(3) yieldsD [OF assms(2) m] .
  from emitsE [OF this f] obtain n2 where n2: "sys_trace s2 = sys_trace s1 @ n2" "list_all P n2" .
  from emitsE [OF assms(1) m] obtain n1 where n1: "sys_trace s1 = sys_trace s @ n1" "list_all P n1" .
  have "sys_trace (snd (run_state (m \<bind> f) s)) = sys_trace s @ n1 @ n2 \<and> list_all P (n1 @ n2)"
    using n1 n2 m f by simp
  then show "\<exists>new. sys_trace (snd (run_state (m \<bind> f) s)) = sys_trace s @ new \<and> list_all P new"
    by blast
qed

lemma emits_if [emits_intro]:
  "(b \<Longrightarrow> emits P m) \<Longrightarrow> (\<not> b \<Longrightarrow> emits P n) \<Longrightarrow> emits P (if b then m else n)"
  by simp

lemma emits_case_option [emits_intro]:
  "(x = None \<Longrightarrow> emits P m) \<Longrightarrow> (\<And>y. x = Some y \<Longrightarrow> emits P (f y)) \<Longrightarrow>
   emits P (case x of None \<Rightarrow> m | Some y \<Rightarrow> f y)"
  by (cases x) simp_all

lemma emits_case_sum [emits_intro]:
  "(\<And>a. x = Inl a \<Longrightarrow> emits P (f a)) \<Longrightarrow> (\<And>b. x = Inr b \<Longrightarrow> emits P (g b)) \<Longrightarrow>
   emits P (case x of Inl a \<Rightarrow> f a | Inr b \<Rightarrow> g b)"
  by (cases x) simp_all

lemma emits_case_prod [emits_intro]:
  "(\<And>a b. x = (a, b) \<Longrightarrow> emits P (f a b)) \<Longrightarrow> emits P (case x of (a, b) \<Rightarrow> f a b)"
  by (cases x) simp

lemma emits_let [emits_intro]: "(\<And>x. x = e \<Longrightarrow> emits P (f x)) \<Longrightarrow> emits P (let x = e in f x)"
  by simp


section \<open>What a program leaves alone\<close>

text \<open>\<open>keeps g m\<close>: the program leaves what \<open>g\<close> reads of the state as it was. A program over the
  clients keeps everything of the state but the world and the trace.\<close>

definition keeps :: "('s \<Rightarrow> 'b) \<Rightarrow> ('s, 'a) state \<Rightarrow> bool" where
  "keeps g m = (\<forall>s. g (snd (run_state m s)) = g s)"

lemma keepsD: "keeps g m \<Longrightarrow> g (snd (run_state m s)) = g s"
  by (simp add: keeps_def)

lemma keepsE: "keeps g m \<Longrightarrow> run_state m s = (r, s') \<Longrightarrow> g s' = g s"
  unfolding keeps_def by (metis snd_conv)

lemma keeps_return [keeps_intro]: "keeps g (State_Monad.return x)"
  by (simp add: keeps_def State_Monad.return_def)

lemma keeps_ask [keeps_intro]: "keeps g (ask f)"
  by (simp add: keeps_def)

lemma keeps_tick [keeps_intro]: "keeps sys.more (tick f)"
  by (simp add: keeps_def)

lemma keeps_request [keeps_intro]: "keeps sys.more (request a f)"
  by (simp add: keeps_def)

lemma keeps_bind [keeps_intro]: "keeps g m \<Longrightarrow> (\<And>x. keeps g (f x)) \<Longrightarrow> keeps g (m \<bind> f)"
  by (simp add: keeps_def split_beta)

lemma keeps_if [keeps_intro]: "keeps g m \<Longrightarrow> keeps g n \<Longrightarrow> keeps g (if b then m else n)"
  by simp

lemma keeps_case_option [keeps_intro]:
  "keeps g m \<Longrightarrow> (\<And>y. keeps g (f y)) \<Longrightarrow> keeps g (case x of None \<Rightarrow> m | Some y \<Rightarrow> f y)"
  by (cases x) simp_all

lemma keeps_case_sum [keeps_intro]:
  "(\<And>a. keeps g (f a)) \<Longrightarrow> (\<And>b. keeps g (h b)) \<Longrightarrow> keeps g (case x of Inl a \<Rightarrow> f a | Inr b \<Rightarrow> h b)"
  by (cases x) simp_all

lemma keeps_case_prod [keeps_intro]: "(\<And>a b. keeps g (f a b)) \<Longrightarrow> keeps g (case x of (a, b) \<Rightarrow> f a b)"
  by (cases x) simp

lemma keeps_let [keeps_intro]: "(\<And>x. keeps g (f x)) \<Longrightarrow> keeps g (let x = e in f x)"
  by simp


section \<open>Outcomes of a program\<close>

text \<open>\<open>post s m Q\<close>: run from \<open>s\<close>, the program ends with a result and a state that satisfy \<open>Q\<close>.\<close>

definition post :: "'s \<Rightarrow> ('s, 'a) state \<Rightarrow> ('a \<Rightarrow> 's \<Rightarrow> bool) \<Rightarrow> bool" where
  "post s m Q = (case run_state m s of (r, s') \<Rightarrow> Q r s')"

lemma post_return [simp]: "post s (State_Monad.return x) Q = Q x s"
  by (simp add: post_def State_Monad.return_def)

lemma post_bind [simp]: "post s (m \<bind> f) Q = post s m (\<lambda>x s'. post s' (f x) Q)"
  by (simp add: post_def split_beta)

lemma post_request [simp]:
  "post s (request a f) Q = Q (fst (f (sys_world s)))
     (s\<lparr>sys_world := snd (f (sys_world s)), sys_trace := sys_trace s @ [a]\<rparr>)"
  by (simp add: post_def)

lemma post_ask [simp]: "post s (ask f) Q = Q (f (sys_world s)) s"
  by (simp add: post_def)

lemma post_mono: "post s m Q \<Longrightarrow> (\<And>r s'. Q r s' \<Longrightarrow> R r s') \<Longrightarrow> post s m R"
  by (auto simp: post_def)

lemma post_conj: "post s m Q \<Longrightarrow> post s m R \<Longrightarrow> post s m (\<lambda>r s'. Q r s' \<and> R r s')"
  by (auto simp: post_def)

lemma post_true [simp]: "post s m (\<lambda>_ _. True)"
  by (auto simp: post_def)

lemma post_emits:
  "emits P m \<Longrightarrow> post s m (\<lambda>_ s'. \<exists>new. sys_trace s' = sys_trace s @ new \<and> list_all P new)"
  unfolding emits_def post_def by (simp add: split_beta)


section \<open>Clients\<close>

text \<open>
  controller-runtime's client.Reader and client.Client, by the operations the
  modelled code calls. An operation answers with an error, which is any Go error.
\<close>

record ('w, 'x) client =
  cl_get :: "uobj \<Rightarrow> 'w \<Rightarrow> ('x goerr + uobj) \<times> 'w"
  cl_delete :: "uobj \<Rightarrow> delete_option list \<Rightarrow> 'w \<Rightarrow> 'x goerr option \<times> 'w"
  cl_dry_apply :: "uobj \<Rightarrow> 'w \<Rightarrow> 'x goerr option \<times> 'w"
  cl_write :: "uobj \<Rightarrow> 'w \<Rightarrow> 'x goerr option \<times> 'w"

definition get_object :: "('w, 'x) client \<Rightarrow> uobj \<Rightarrow> ('w, 'z, 'x goerr + uobj) prog" where
  "get_object c u = request (ReadAct (ref_of u)) (cl_get c u)"

definition delete_object ::
    "('w, 'x) client \<Rightarrow> uobj \<Rightarrow> delete_option list \<Rightarrow> ('w, 'z, 'x goerr option) prog" where
  "delete_object c u opts = request (DeleteAct (ref_of u) opts) (cl_delete c u opts)"

definition dry_apply_object :: "('w, 'x) client \<Rightarrow> uobj \<Rightarrow> ('w, 'z, 'x goerr option) prog" where
  "dry_apply_object c u = request (DryRunAct (ref_of u)) (cl_dry_apply c u)"

definition write_object :: "('w, 'x) client \<Rightarrow> uobj \<Rightarrow> ('w, 'z, 'x goerr option) prog" where
  "write_object c u = request (WriteAct u) (cl_write c u)"

lemmas client_ops = write_object_def get_object_def delete_object_def dry_apply_object_def

fun is_read :: "act \<Rightarrow> bool" where
  "is_read (ReadAct r) = True"
| "is_read (ListAct k) = True"
| "is_read _ = False"

fun is_delete :: "act \<Rightarrow> bool" where
  "is_delete (DeleteAct r os) = True"
| "is_delete _ = False"

text \<open>Requests that change nothing in the cluster.\<close>

fun harmless :: "act \<Rightarrow> bool" where
  "harmless (ReadAct r) = True"
| "harmless (ListAct k) = True"
| "harmless (DryRunAct r) = True"
| "harmless (DiffAct r) = True"
| "harmless (ImpersonateAct n s) = True"
| "harmless RenderAct = True"
| "harmless (AcquireAct p v) = True"
| "harmless _ = False"

text \<open>Requests on the file system of the operator.\<close>

fun touches_dir :: "act \<Rightarrow> bool" where
  "touches_dir (MakeDirAct d) = True"
| "touches_dir (FetchAct u d) = True"
| "touches_dir (RemoveDirAct d) = True"
| "touches_dir _ = False"

lemma read_harmless: "is_read a \<Longrightarrow> harmless a"
  by (cases a) simp_all

lemma emits_get_object [emits_intro]: "P (ReadAct (ref_of u)) \<Longrightarrow> emits P (get_object c u)"
  by (simp add: get_object_def emits_request)

lemma emits_delete_object [emits_intro]: "P (DeleteAct (ref_of u) opts) \<Longrightarrow> emits P (delete_object c u opts)"
  by (simp add: delete_object_def emits_request)

lemma emits_dry_apply_object [emits_intro]: "P (DryRunAct (ref_of u)) \<Longrightarrow> emits P (dry_apply_object c u)"
  by (simp add: dry_apply_object_def emits_request)

lemma emits_write_object [emits_intro]: "P (WriteAct u) \<Longrightarrow> emits P (write_object c u)"
  by (simp add: write_object_def emits_request)

lemma keeps_client_ops [keeps_intro]:
  "keeps sys.more (get_object c u)" "keeps sys.more (delete_object c u opts)"
  "keeps sys.more (dry_apply_object c u)" "keeps sys.more (write_object c u)"
  by (simp_all add: client_ops keeps_request)

end
