(* ===== verification/Deletion.thy ===== *)
theory Deletion
  imports Effects "HOL-Library.Multiset"
begin

text \<open>
  internal/apply/deletion.go and prune.go: the deletion plans of the OPM library
  (opm/k8s/lifecycle), how the controller drives them, and the prune and the
  deletion cleanup built on them. The library's plan and its verdicts are
  parameters; the laws a theorem needs of them are named predicates.
\<close>

section \<open>The library's deletion plan\<close>

datatype step_outcome = ResultNone | ResultDeleted | ResultSkipped | ResultFailed

record outcome_record =
  oc_step :: nat
  oc_result :: step_outcome
  oc_skip :: skip_reason
  oc_message :: string

definition zero_outcome :: outcome_record where
  "zero_outcome = \<lparr>oc_step = 0, oc_result = ResultNone, oc_skip = SkipNone, oc_message = []\<rparr>"

datatype awaiting = AwaitNothing | AwaitRead | AwaitDelete

record plan_state =
  ps_outcomes :: "outcome_record list"
  ps_next :: nat
  ps_awaiting :: awaiting

definition zero_state :: plan_state where
  "zero_state = \<lparr>ps_outcomes = [], ps_next = 0, ps_awaiting = AwaitNothing\<rparr>"

datatype action_kind = ActionDone | ActionRead | ActionDelete | ActionSkip

record plan_action =
  pa_kind :: action_kind
  pa_step :: nat
  pa_entry :: inventory_entry
  pa_propagation :: string
  pa_preconditions :: "(string option \<times> string option) option"

record 'x plan_event =
  pe_live :: "uobj option"
  pe_err :: "'x goerr option"

definition zero_event :: "'x plan_event" where
  "zero_event = \<lparr>pe_live = None, pe_err = None\<rparr>"

record deletion_policy =
  pol_prune :: bool
  pol_force_orphan :: bool

record plan_step =
  pl_entry :: inventory_entry
  pl_skip :: skip_reason

text \<open>The hold verdict: whether a deletion may release its finalizer, and why.\<close>

datatype identity_status = IdentityAvailable | IdentityMissing | IdentityFailed

datatype hold_reason =
    HoldPruneDisabled | HoldInventoryEmpty | HoldForceOrphan | HoldCleanupForbidden | HoldOther string

record hold_verdict =
  hv_release :: bool
  hv_because :: hold_reason
  hv_message :: string

text \<open>NewDeletionPlan over entries, a policy and an identity; its Steps; Advance, which
  returns the next state and an action, or refuses the state; and MayReleaseHold.\<close>

record ('x, 'p) lifecycle =
  lc_plan :: "inventory_entry list \<Rightarrow> deletion_policy \<Rightarrow> string \<Rightarrow> 'p"
  lc_steps :: "'p \<Rightarrow> plan_step list"
  lc_advance :: "'p \<Rightarrow> plan_state \<Rightarrow> 'x plan_event \<Rightarrow> 'x goerr + plan_state \<times> plan_action"
  lc_may_release :: "'p \<Rightarrow> plan_state \<Rightarrow> identity_status \<Rightarrow> hold_verdict"

definition plan_entries :: "('x, 'p) lifecycle \<Rightarrow> 'p \<Rightarrow> inventory_entry list" where
  "plan_entries L plan = map pl_entry (lc_steps L plan)"

text \<open>The library's delete verdict (opm/k8s/ownership).\<close>

record delete_verdict =
  dv_proceed :: bool
  dv_skip :: skip_reason
  dv_message :: string

type_synonym can_delete = "object_ref \<Rightarrow> uobj \<Rightarrow> string \<Rightarrow> delete_verdict"


section \<open>Driving one plan\<close>

record 'x step_result =
  sr_entry :: inventory_entry
  sr_outcome :: outcome_record
  sr_failed :: "action_kind option"
  sr_live :: "uobj option"
  sr_err :: "'x goerr option"

record ('x, 'p) deletion_run =
  dr_plan :: 'p
  dr_state :: plan_state
  dr_steps :: "'x step_result list"

definition is_core_claim :: "string \<Rightarrow> string \<Rightarrow> bool" where
  "is_core_claim grp kind = (grp = [] \<and> kind = claim_kind)"

definition is_data_claim :: "inventory_entry \<Rightarrow> bool" where
  "is_data_claim e = is_core_claim (ie_group e) (ie_kind e)"

definition replaced_error :: "'x errlib \<Rightarrow> 'x goerr option \<Rightarrow> bool \<Rightarrow> 'x goerr option" where
  "replaced_error E err uid_precondition =
     (case err of None \<Rightarrow> None
      | Some e \<Rightarrow> if uid_precondition \<and> ae_conflict E e
                  then Some (Fmt (sentinel_text ErrReplaced @ '': '' @ err_text E e) [Sentinel ErrReplaced, e])
                  else Some e)"

definition object_of_entry :: "inventory_entry \<Rightarrow> uobj" where
  "object_of_entry e =
     blank_object (ie_group e) (ie_version e) (ie_kind e) (ie_namespace e) (ie_name e)"

definition read_entry :: "('w, 'x) client \<Rightarrow> inventory_entry \<Rightarrow> ('w, 'z, 'x goerr + uobj) prog" where
  "read_entry c e = get_object c (object_of_entry e)"

text \<open>One outcome the call of Advance appended. An index the plan does not have would panic in
  Go; the library appends outcomes of the plan's steps only (\<open>plan_laws\<close>).\<close>

definition record_outcome ::
    "'x errlib \<Rightarrow> plan_state \<Rightarrow> 'x plan_event \<Rightarrow> bool \<Rightarrow> outcome_record \<Rightarrow> 'x step_result list \<Rightarrow> 'x step_result list" where
  "record_outcome E before ev preconditioned oc steps =
     (let step = (steps ! oc_step oc)\<lparr>sr_outcome := oc\<rparr>;
          step' = (if oc_result oc \<noteq> ResultFailed \<or> oc_step oc \<noteq> ps_next before then step
                   else case ps_awaiting before of
                          AwaitRead \<Rightarrow> step\<lparr>sr_failed := Some ActionRead, sr_err := pe_err ev\<rparr>
                        | AwaitDelete \<Rightarrow> step\<lparr>sr_failed := Some ActionDelete,
                                              sr_err := replaced_error E (pe_err ev) preconditioned\<rparr>
                        | AwaitNothing \<Rightarrow> step)
      in steps[oc_step oc := step'])"

definition record_step ::
    "'x errlib \<Rightarrow> plan_state \<Rightarrow> plan_state \<Rightarrow> 'x plan_event \<Rightarrow> bool \<Rightarrow> ('x, 'p) deletion_run \<Rightarrow> ('x, 'p) deletion_run" where
  "record_step E before after ev preconditioned run =
     run\<lparr>dr_steps := fold (record_outcome E before ev preconditioned)
           (drop (length (ps_outcomes before)) (ps_outcomes after)) (dr_steps run)\<rparr>"

definition delete_options :: "plan_action \<Rightarrow> delete_option list" where
  "delete_options a =
     (if pa_propagation a \<noteq> [] then [Propagation (pa_propagation a)] else []) @
     (case pa_preconditions a of None \<Rightarrow> [] | Some (uid, rv) \<Rightarrow> [Preconditions uid rv])"

text \<open>The loop of runDeletion, with a bound on its turns.\<close>

fun deletion_loop ::
    "('x, 'p) lifecycle \<Rightarrow> 'x errlib \<Rightarrow> ('w, 'x) client \<Rightarrow> nat \<Rightarrow> ('x, 'p) deletion_run \<Rightarrow> plan_state \<Rightarrow>
     'x plan_event \<Rightarrow> bool \<Rightarrow> ('w, 'z, ('x, 'p) deletion_run \<times> 'x goerr option) prog" where
  "deletion_loop L E c 0 run st ev preconditioned =
     State_Monad.return (run, Some (Sentinel LoopNotEnded))"
| "deletion_loop L E c (Suc turns) run st ev preconditioned =
     (case lc_advance L (dr_plan run) st ev of
        Inl err \<Rightarrow> State_Monad.return
          (run, Some (Fmt (''advancing the deletion plan: '' @ err_text E err) [err]))
      | Inr (nxt, act) \<Rightarrow>
          let run = (record_step E st nxt ev preconditioned run)\<lparr>dr_state := nxt\<rparr>
          in case pa_kind act of
               ActionDone \<Rightarrow> State_Monad.return (run, None)
             | ActionRead \<Rightarrow>
                 do { r \<leftarrow> read_entry c (pa_entry act);
                      let live = (case r of Inl _ \<Rightarrow> None | Inr u \<Rightarrow> Some u);
                      let steps = (dr_steps run)[pa_step act := (dr_steps run ! pa_step act)\<lparr>sr_live := live\<rparr>];
                      deletion_loop L E c turns (run\<lparr>dr_steps := steps\<rparr>) nxt
                        \<lparr>pe_live = live, pe_err = (case r of Inl e \<Rightarrow> Some e | Inr _ \<Rightarrow> None)\<rparr> False }
             | ActionDelete \<Rightarrow>
                 do { err \<leftarrow> delete_object c (object_of_entry (pa_entry act)) (delete_options act);
                      deletion_loop L E c turns run nxt
                        \<lparr>pe_live = None, pe_err = err\<rparr> (pa_preconditions act \<noteq> None) }
             | ActionSkip \<Rightarrow> deletion_loop L E c turns run nxt zero_event False)"

text \<open>A step takes at most a read, a delete and a skip, and one more call answers done.\<close>

definition deletion_turns :: "('x, 'p) lifecycle \<Rightarrow> 'p \<Rightarrow> nat" where
  "deletion_turns L plan = 3 * length (lc_steps L plan) + 4"

definition run_plan ::
    "('x, 'p) lifecycle \<Rightarrow> 'x errlib \<Rightarrow> ('w, 'x) client \<Rightarrow> 'p \<Rightarrow>
     ('w, 'z, ('x, 'p) deletion_run \<times> 'x goerr option) prog" where
  "run_plan L E c plan =
     deletion_loop L E c (deletion_turns L plan)
       \<lparr>dr_plan = plan, dr_state = zero_state,
        dr_steps = map (\<lambda>p. \<lparr>sr_entry = pl_entry p, sr_outcome = zero_outcome, sr_failed = None,
                              sr_live = None, sr_err = None\<rparr>) (lc_steps L plan)\<rparr>
       zero_state zero_event False"


section \<open>Laws of the library's plan\<close>

text \<open>
  Documented behaviour of opm/k8s/lifecycle that theorems below name as a hypothesis.
  \<open>plan_laws\<close>: a plan's steps are the entries in some order, Advance only appends outcomes
  of the plan's steps, and a read or a delete is of the entry of its step.
  \<open>plan_progress\<close>: every action but done takes the state further, to awaiting the answer to
  the action or past the step.
\<close>

definition plan_laws :: "('x, 'p) lifecycle \<Rightarrow> bool" where
  "plan_laws L =
     ((\<forall>es pol i. mset (plan_entries L (lc_plan L es pol i)) = mset es) \<and>
      (\<forall>plan st ev st' act. lc_advance L plan st ev = Inr (st', act) \<longrightarrow>
         (\<exists>new. ps_outcomes st' = ps_outcomes st @ new \<and>
                (\<forall>oc \<in> set new. oc_step oc < length (lc_steps L plan))) \<and>
         (pa_kind act = ActionRead \<or> pa_kind act = ActionDelete \<longrightarrow>
            pa_step act < length (lc_steps L plan) \<and> pa_entry act = plan_entries L plan ! pa_step act)))"

definition plan_rank :: "plan_state \<Rightarrow> nat" where
  "plan_rank st = 3 * ps_next st +
     (case ps_awaiting st of AwaitNothing \<Rightarrow> 0 | AwaitRead \<Rightarrow> 1 | AwaitDelete \<Rightarrow> 2)"

definition plan_progress :: "('x, 'p) lifecycle \<Rightarrow> bool" where
  "plan_progress L =
     (\<forall>plan st ev st' act. lc_advance L plan st ev = Inr (st', act) \<longrightarrow> pa_kind act \<noteq> ActionDone \<longrightarrow>
        plan_rank st < plan_rank st' \<and> ps_next st' \<le> length (lc_steps L plan))"

lemma plan_laws_steps: "plan_laws L \<Longrightarrow> mset (plan_entries L (lc_plan L es pol i)) = mset es"
  by (simp add: plan_laws_def)

lemma plan_laws_step_set: "plan_laws L \<Longrightarrow> set (plan_entries L (lc_plan L es pol i)) = set es"
  by (metis plan_laws_steps set_mset_mset)

lemma plan_laws_outcomes:
  "plan_laws L \<Longrightarrow> lc_advance L plan st ev = Inr (st', act) \<Longrightarrow>
   \<exists>new. ps_outcomes st' = ps_outcomes st @ new \<and> (\<forall>oc \<in> set new. oc_step oc < length (lc_steps L plan))"
  unfolding plan_laws_def by blast

lemma plan_laws_entry:
  "plan_laws L \<Longrightarrow> lc_advance L plan st ev = Inr (st', act) \<Longrightarrow>
   pa_kind act = ActionRead \<or> pa_kind act = ActionDelete \<Longrightarrow>
   pa_step act < length (lc_steps L plan) \<and> pa_entry act = plan_entries L plan ! pa_step act"
  unfolding plan_laws_def by blast

lemma plan_progressD:
  "plan_progress L \<Longrightarrow> lc_advance L plan st ev = Inr (st', act) \<Longrightarrow> pa_kind act \<noteq> ActionDone \<Longrightarrow>
   plan_rank st < plan_rank st' \<and> ps_next st' \<le> length (lc_steps L plan)"
  unfolding plan_progress_def by blast

lemma plan_rank_le: "ps_next st \<le> n \<Longrightarrow> plan_rank st \<le> 3 * n + 2"
  by (cases "ps_awaiting st") (simp_all add: plan_rank_def)

lemma ref_of_entry [simp]: "ref_of (object_of_entry e) = entry_ref e"
  by (simp add: object_of_entry_def blank_object_def ref_of_def entry_ref_def)

lemma emits_read_entry [emits_intro]: "P (ReadAct (entry_ref e)) \<Longrightarrow> emits P (read_entry c e)"
  by (simp add: read_entry_def emits_get_object)

text \<open>A request that some call of Advance on the plan named.\<close>

definition plan_names :: "('x, 'p) lifecycle \<Rightarrow> 'p \<Rightarrow> act \<Rightarrow> bool" where
  "plan_names L plan a =
     (\<exists>st ev st' act. lc_advance L plan st ev = Inr (st', act) \<and>
        (pa_kind act = ActionRead \<and> a = ReadAct (entry_ref (pa_entry act)) \<or>
         pa_kind act = ActionDelete \<and> a = DeleteAct (entry_ref (pa_entry act)) (delete_options act)))"

lemma plan_namesI:
  "lc_advance L plan st ev = Inr (st', act) \<Longrightarrow> pa_kind act = ActionRead \<Longrightarrow>
   plan_names L plan (ReadAct (entry_ref (pa_entry act)))"
  "lc_advance L plan st ev = Inr (st', act) \<Longrightarrow> pa_kind act = ActionDelete \<Longrightarrow>
   plan_names L plan (DeleteAct (entry_ref (pa_entry act)) (delete_options act))"
  unfolding plan_names_def by blast+

lemma dr_plan_record [simp]: "dr_plan (record_step E st nxt ev pre run) = dr_plan run"
  by (simp add: record_step_def)

lemma deletion_loop_names:
  "dr_plan run = plan \<Longrightarrow> emits (plan_names L plan) (deletion_loop L E c turns run st ev pre)"
proof (induction turns arbitrary: run st ev pre)
  case 0
  show ?case by (simp add: emits_return)
next
  case (Suc turns)
  show ?case
    by (auto simp: Let_def Suc.prems split: sum.split prod.split action_kind.split
        intro!: emits_intro Suc.IH dest: plan_namesI)
qed

lemma run_plan_names:
  "emits (plan_names L plan) (run_plan L E c plan)"
  unfolding run_plan_def by (rule deletion_loop_names) simp

lemma deletion_loop_ends:
  fixes s :: "('w, 'z) sys_scheme"
  assumes "plan_progress L"
  shows "3 * length (lc_steps L (dr_plan run)) + 3 < turns + plan_rank st \<Longrightarrow>
    plan_rank st \<le> 3 * length (lc_steps L (dr_plan run)) + 2 \<Longrightarrow>
    snd (fst (run_state (deletion_loop L E c turns run st ev pre) s)) \<noteq> Some (Sentinel LoopNotEnded)"
proof (induction turns arbitrary: run st ev pre s)
  case (Suc turns)
  show ?case
  proof (cases "lc_advance L (dr_plan run) st ev")
    case (Inr na)
    obtain nxt a where na: "na = (nxt, a)" by fastforce
    note adv = plan_progressD [OF assms Inr [unfolded na]]
    have IH: "snd (fst (run_state (deletion_loop L E c turns run' nxt ev' pre') s')) \<noteq> Some (Sentinel LoopNotEnded)"
      if "pa_kind a \<noteq> ActionDone" "dr_plan run' = dr_plan run" for run' ev' pre' and s' :: "('w, 'z) sys_scheme"
      by (intro Suc.IH)
        (use adv [OF that(1)] Suc.prems plan_rank_le [of nxt "length (lc_steps L (dr_plan run))"] that(2)
          in simp_all)
    show ?thesis
      by (cases "pa_kind a") (simp_all add: Inr na Let_def split_beta IH)
  qed simp
qed simp

text \<open>C12: a deletion plan is driven to its end: the unbounded loop of the source ends within three
  turns per entry and three more, when every action of the library moves its plan forward.\<close>

theorem run_plan_terminates:
  assumes "plan_progress L"
  shows "snd (fst (run_state (run_plan L E c plan) s)) \<noteq> Some (Sentinel LoopNotEnded)"
  unfolding run_plan_def
  by (rule deletion_loop_ends [OF assms]) (simp_all add: deletion_turns_def plan_rank_def zero_state_def)

lemma entries_record_outcome [simp]:
  "map sr_entry (record_outcome E before ev pre oc steps) = map sr_entry steps"
  by (simp add: record_outcome_def Let_def map_update_keep split: awaiting.split)

lemma entries_record_step [simp]:
  "map sr_entry (dr_steps (record_step E before after ev pre run)) = map sr_entry (dr_steps run)"
proof -
  have "map sr_entry (fold (record_outcome E before ev pre) ocs steps) = map sr_entry steps" for ocs steps
    by (induction ocs arbitrary: steps) simp_all
  then show ?thesis by (simp add: record_step_def)
qed


lemma deletion_loop_entries:
  "map sr_entry (dr_steps (fst (fst (run_state (deletion_loop L E c turns run st ev pre) s)))) =
   map sr_entry (dr_steps run)"
proof (induction turns arbitrary: run st ev pre s)
  case (Suc turns)
  then show ?case
    by (simp add: Let_def split_beta map_update_keep split: sum.split action_kind.split)
qed simp

lemma run_plan_entries:
  "map sr_entry (dr_steps (fst (fst (run_state (run_plan L E c plan) s)))) = plan_entries L plan"
  by (simp add: run_plan_def deletion_loop_entries plan_entries_def)


section \<open>Asking the recorded identities in turn\<close>

record ('x, 'p) deletion =
  de_runs :: "('x, 'p) deletion_run list"

definition depends_on_identity :: "outcome_record \<Rightarrow> bool" where
  "depends_on_identity oc =
     (oc_result oc = ResultSkipped \<and> (oc_skip oc = SkipOwnerMismatch \<or> oc_skip oc = SkipAdoptedElsewhere))"

abbreviation undecided :: "('x, 'p) deletion_run \<Rightarrow> inventory_entry list" where
  "undecided run \<equiv> map sr_entry (filter (\<lambda>s. depends_on_identity (sr_outcome s)) (dr_steps run))"

text \<open>The loop of RunDeletion over the identities; \<open>first\<close> is \<open>i = 0\<close>.\<close>

fun identity_runs ::
    "('x, 'p) lifecycle \<Rightarrow> 'x errlib \<Rightarrow> ('w, 'x) client \<Rightarrow> deletion_policy \<Rightarrow> bool \<Rightarrow>
     inventory_entry list \<Rightarrow> string list \<Rightarrow>
     ('w, 'z, ('x, 'p) deletion_run list \<times> 'x goerr option) prog" where
  "identity_runs L E c policy first entries [] = State_Monad.return ([], None)"
| "identity_runs L E c policy first entries (identity # identities) =
     (if \<not> first \<and> entries = [] then State_Monad.return ([], None)
      else do { (run, err) \<leftarrow> run_plan L E c (lc_plan L entries policy identity);
                if err \<noteq> None then State_Monad.return ([run], err)
                else do { (runs, err') \<leftarrow> identity_runs L E c policy False (undecided run) identities;
                          State_Monad.return (run # runs, err') } })"

definition run_deletion ::
    "('x, 'p) lifecycle \<Rightarrow> 'x errlib \<Rightarrow> ('w, 'x) client \<Rightarrow> inventory_entry list \<Rightarrow> string list \<Rightarrow>
     deletion_policy \<Rightarrow> ('w, 'z, ('x, 'p) deletion \<times> 'x goerr option) prog" where
  "run_deletion L E c entries identities policy =
     (let identities' = (if identities = [] then [[]] else identities)
      in do { (runs, err) \<leftarrow> identity_runs L E c policy True entries identities';
              State_Monad.return (\<lparr>de_runs = runs\<rparr>, err) })"

lemma keeps_run_plan [keeps_intro]: "keeps sys.more (run_plan L E c plan)"
proof -
  have "keeps sys.more (deletion_loop L E c turns run st ev pre)" for turns run st ev pre
  proof (induction turns arbitrary: run st ev pre)
    case (Suc turns)
    show ?case
      by (auto simp: Let_def read_entry_def split: sum.split prod.split action_kind.split
          intro!: keeps_intro Suc.IH)
  qed (simp add: keeps_return)
  then show ?thesis by (simp add: run_plan_def)
qed

lemma keeps_run_deletion [keeps_intro]: "keeps sys.more (run_deletion L E c entries identities policy)"
proof -
  have "keeps sys.more (identity_runs L E c policy first es ids)" for first es ids
    by (induction ids arbitrary: first es) (auto intro!: keeps_intro)
  then show ?thesis unfolding run_deletion_def by (intro keeps_intro)
qed

text \<open>Deletion.Results. The map index holds, for an entry the first plan left undecided, the last
  position it has there.\<close>

definition undecided_index :: "'x step_result list \<Rightarrow> inventory_entry \<Rightarrow> nat option" where
  "undecided_index steps =
     fold (\<lambda>(i, s) m. if depends_on_identity (sr_outcome s) then m(sr_entry s \<mapsto> i) else m)
       (enumerate 0 steps) Map.empty"

definition take_step ::
    "(inventory_entry \<Rightarrow> nat option) \<Rightarrow> 'x step_result \<Rightarrow> 'x step_result list \<Rightarrow> 'x step_result list" where
  "take_step index step results =
     (case index (sr_entry step) of
        None \<Rightarrow> results
      | Some i \<Rightarrow> if depends_on_identity (sr_outcome step) then results else results[i := step])"

definition deletion_results :: "('x, 'p) deletion \<Rightarrow> 'x step_result list" where
  "deletion_results d =
     (case de_runs d of
        [] \<Rightarrow> []
      | run # later \<Rightarrow>
          fold (take_step (undecided_index (dr_steps run))) (concat (map dr_steps later)) (dr_steps run))"

definition deleted_steps :: "('x, 'p) deletion \<Rightarrow> 'x step_result list" where
  "deleted_steps d =
     filter (\<lambda>s. oc_result (sr_outcome s) = ResultDeleted) (concat (map dr_steps (de_runs d)))"

definition split_kept_claims ::
    "inventory_entry list \<Rightarrow> bool \<Rightarrow> inventory_entry list \<times> inventory_entry list" where
  "split_kept_claims entries delete_data =
     (if delete_data then (entries, [])
      else (filter (\<lambda>e. \<not> is_data_claim e) entries, filter is_data_claim entries))"


section \<open>One entry is decided by one plan\<close>

abbreviation run_entries :: "('x, 'p) deletion_run \<Rightarrow> inventory_entry list" where
  "run_entries run \<equiv> map sr_entry (dr_steps run)"

abbreviation later_steps :: "('x, 'p) deletion_run list \<Rightarrow> 'x step_result list" where
  "later_steps runs \<equiv> concat (map dr_steps runs)"

text \<open>What RunDeletion promises of its plans: each one after the first holds the entries the one
  before it left undecided.\<close>

fun run_chain :: "('x, 'p) deletion_run list \<Rightarrow> bool" where
  "run_chain (r # r' # rs) = (mset (run_entries r') = mset (undecided r) \<and> run_chain (r' # rs))"
| "run_chain _ = True"

lemma identity_runs_chain:
  assumes "plan_laws L"
  shows "run_chain (fst (fst (run_state (identity_runs L E c pol first entries ids) s))) \<and>
    (case fst (fst (run_state (identity_runs L E c pol first entries ids) s)) of
       [] \<Rightarrow> True | r # rs \<Rightarrow> mset (run_entries r) = mset entries)"
proof (induction ids arbitrary: first entries s)
  case (Cons i ids)
  obtain run err s1 where run: "run_state (run_plan L E c (lc_plan L entries pol i)) s = ((run, err), s1)"
    by (metis prod.collapse)
  then have entries: "mset (run_entries run) = mset entries"
    using run_plan_entries [of L E c "lc_plan L entries pol i" s] plan_laws_steps [OF assms] by simp
  obtain rs err' s2 where rs: "run_state (identity_runs L E c pol False (undecided run) ids) s1 = ((rs, err'), s2)"
    by (metis prod.collapse)
  have "run_chain rs" and "case rs of [] \<Rightarrow> True | r # _ \<Rightarrow> mset (run_entries r) = mset (undecided run)"
    using Cons.IH [of False "undecided run" s1] by (simp_all add: rs)
  then have "run_chain (run # rs)" by (cases rs) simp_all
  then show ?case using run rs entries by simp
qed simp

lemma undecided_subset: "set (undecided r) \<subseteq> set (run_entries r)"
  by auto

lemma run_chain_tail: "run_chain (r # rs) \<Longrightarrow> run_chain rs"
  by (cases rs) simp_all

lemma run_chain_head: "run_chain (r # r' # rs) \<Longrightarrow> set (run_entries r') = set (undecided r)"
  using mset_eq_setD [of "run_entries r'" "undecided r"] by (simp only: run_chain.simps simp_thms)

lemma run_chain_later:
  "run_chain (r # rs) \<Longrightarrow> x \<in> set (later_steps rs) \<Longrightarrow> sr_entry x \<in> set (undecided r)"
proof (induction rs arbitrary: r)
  case (Cons r' rs)
  have head: "set (run_entries r') = set (undecided r)" using Cons.prems(1) by (rule run_chain_head)
  show ?case
  proof (cases "x \<in> set (dr_steps r')")
    case True
    then have "sr_entry x \<in> set (run_entries r')" by simp
    then show ?thesis using head by simp
  next
    case False
    then have "sr_entry x \<in> set (undecided r')"
      using Cons.prems run_chain_tail by (intro Cons.IH) auto
    then show ?thesis using head undecided_subset by blast
  qed
qed simp

lemma distinct_entry_eq:
  "distinct (map sr_entry steps) \<Longrightarrow> x \<in> set steps \<Longrightarrow> y \<in> set steps \<Longrightarrow> sr_entry x = sr_entry y \<Longrightarrow> x = y"
  by (auto simp: distinct_map inj_on_def)

lemma decided_not_undecided:
  "distinct (run_entries r) \<Longrightarrow> x \<in> set (dr_steps r) \<Longrightarrow> \<not> depends_on_identity (sr_outcome x) \<Longrightarrow>
   sr_entry x \<notin> set (undecided r)"
  by (auto dest: distinct_entry_eq)

lemma distinct_run_chain:
  "run_chain (r # r' # rs) \<Longrightarrow> distinct (run_entries r) \<Longrightarrow> distinct (run_entries r')"
proof -
  assume chain: "run_chain (r # r' # rs)" and "distinct (run_entries r)"
  then have "distinct (undecided r)" by (simp add: distinct_map_filter)
  with chain mset_eq_imp_distinct_iff [of "run_entries r'" "undecided r"] show ?thesis by simp
qed

text \<open>A step that decides its entry is the last step of the entry in any plan.\<close>

lemma decided_last:
  "run_chain (r # rs) \<Longrightarrow> distinct (run_entries r) \<Longrightarrow> later_steps (r # rs) = before @ x # after \<Longrightarrow>
   \<not> depends_on_identity (sr_outcome x) \<Longrightarrow> y \<in> set after \<Longrightarrow> sr_entry y \<noteq> sr_entry x"
proof (induction rs arbitrary: r before)
  case Nil
  then have "dr_steps r = before @ x # after" by simp
  with Nil.prems(2,5) show ?case by (metis distinct_map_after)
next
  case (Cons r' rs)
  show ?case
  proof (cases "length before < length (dr_steps r)")
    case True
    then obtain rest where rest: "dr_steps r = before @ x # rest" "after = rest @ later_steps (r' # rs)"
      using Cons.prems(3) by (auto simp: append_eq_append_conv2 append_eq_Cons_conv)
    show ?thesis
    proof (cases "y \<in> set rest")
      case True
      then show ?thesis using rest Cons.prems(2) by (metis distinct_map_after)
    next
      case False
      then have "sr_entry y \<in> set (undecided r)"
        using rest Cons.prems(5) by (intro run_chain_later [OF Cons.prems(1)]) auto
      moreover have "sr_entry x \<notin> set (undecided r)"
        using rest by (intro decided_not_undecided Cons.prems) simp_all
      ultimately show ?thesis by metis
    qed
  next
    case False
    then obtain before' where split: "later_steps (r' # rs) = before' @ x # after"
      using Cons.prems(3) by (auto simp: append_eq_append_conv2 append_eq_Cons_conv)
    show ?thesis
      by (rule Cons.IH [OF run_chain_tail [OF Cons.prems(1)] distinct_run_chain [OF Cons.prems(1,2)]
            split Cons.prems(4,5)])
  qed
qed

lemma run_deletion_runs:
  assumes "plan_laws L" and "run_state (run_deletion L E c entries ids pol) s = ((d, err), s')"
  shows "run_chain (de_runs d) \<and>
    (case de_runs d of [] \<Rightarrow> True | r # rs \<Rightarrow> mset (run_entries r) = mset entries)"
  using assms(2) identity_runs_chain [OF assms(1), of E c pol True entries "if ids = [] then [[]] else ids" s]
  by (auto simp: run_deletion_def Let_def split_beta)

abbreviation was_deleted :: "'x step_result \<Rightarrow> bool" where
  "was_deleted s \<equiv> oc_result (sr_outcome s) = ResultDeleted"

lemma was_deleted_decides: "was_deleted s \<Longrightarrow> \<not> depends_on_identity (sr_outcome s)"
  by (simp add: depends_on_identity_def)

lemma distinct_if_last:
  "(\<And>before x after y. xs = before @ x # after \<Longrightarrow> P x \<Longrightarrow> y \<in> set after \<Longrightarrow> f y \<noteq> f x) \<Longrightarrow>
   distinct (map f (filter P xs))"
proof (induction xs)
  case (Cons x xs)
  have "distinct (map f (filter P xs))"
    using Cons.prems by (intro Cons.IH) (metis append_Cons)
  moreover have "f x \<notin> f ` set (filter P xs)" if "P x"
    using Cons.prems [of "[]" x xs] that by (metis append_Nil filter_is_subset imageE subsetD)
  ultimately show ?case by auto
qed simp

lemma decided_once:
  assumes "run_chain runs" and "runs = r # rs" and "distinct (run_entries r)"
  shows "distinct (map sr_entry (filter was_deleted (later_steps runs)))"
  using assms by (intro distinct_if_last) (metis decided_last was_deleted_decides)

lemma deletes_entries_once:
  assumes laws: "plan_laws L" and distinct: "distinct entries"
    and run: "run_state (run_deletion L E c entries ids pol) s = ((d, err), s')"
  shows "distinct (map sr_entry (deleted_steps d)) \<and> set (map sr_entry (deleted_steps d)) \<subseteq> set entries"
proof (cases "de_runs d")
  case Nil
  then show ?thesis by (simp add: deleted_steps_def)
next
  case (Cons r rs)
  have chain: "run_chain (r # rs)" and first: "mset (run_entries r) = mset entries"
    using run_deletion_runs [OF laws run] Cons by simp_all
  have "distinct (run_entries r)" using first distinct mset_eq_imp_distinct_iff by metis
  then have "distinct (map sr_entry (deleted_steps d))"
    using decided_once [OF chain refl] by (simp add: deleted_steps_def Cons)
  moreover have "sr_entry x \<in> set entries" if "x \<in> set (later_steps (r # rs))" for x
  proof -
    have "sr_entry x \<in> set (run_entries r)"
      using that run_chain_later [OF chain, of x] undecided_subset [of r] by auto
    then show ?thesis using mset_eq_setD [OF first] by simp
  qed
  ultimately show ?thesis by (auto simp: deleted_steps_def Cons)
qed

text \<open>C11: a deletion over several recorded identities deletes no entry through two plans, and deletes
  nothing that is not one of its entries.\<close>

theorem run_deletion_deletes_once:
  assumes laws: "plan_laws L" and distinct: "distinct entries"
    and run: "run_state (run_deletion L E c entries ids pol) s = ((d, err), s')"
  shows "distinct (map sr_entry (deleted_steps d)) \<and> set (map sr_entry (deleted_steps d)) \<subseteq> set entries"
  using deletes_entries_once [OF assms] .


section \<open>The results of a deletion\<close>

lemma undecided_index_fold:
  "fold (\<lambda>(i, s) m. if depends_on_identity (sr_outcome s) then m(sr_entry s \<mapsto> i) else m)
     (enumerate n steps) m e = Some i \<Longrightarrow>
   m e = Some i \<or> (n \<le> i \<and> i < n + length steps \<and> sr_entry (steps ! (i - n)) = e \<and>
                   depends_on_identity (sr_outcome (steps ! (i - n))))"
proof (induction steps arbitrary: n m)
  case (Cons x steps)
  from Cons.IH [OF Cons.prems [simplified]] show ?case
    by (auto simp: nth_Cons' split: if_splits)
qed simp

lemma undecided_indexD:
  assumes "undecided_index steps e = Some i"
  shows "i < length steps \<and> sr_entry (steps ! i) = e \<and> depends_on_identity (sr_outcome (steps ! i))"
  using undecided_index_fold [OF assms [unfolded undecided_index_def]] by simp

lemma undecided_index_defined:
  assumes "x \<in> set steps" and "depends_on_identity (sr_outcome x)"
  shows "undecided_index steps (sr_entry x) \<noteq> None"
proof -
  let ?f = "\<lambda>(i, s) m. if depends_on_identity (sr_outcome s) then m(sr_entry s \<mapsto> i) else m"
  have "fold ?f (enumerate n steps) m (sr_entry x) \<noteq> None"
    if "m (sr_entry x) \<noteq> None \<or> x \<in> set steps" for m n
    using that
  proof (induction steps arbitrary: m n)
    case (Cons y steps)
    have "(?f (n, y) m) (sr_entry x) \<noteq> None \<or> x \<in> set steps"
      using Cons.prems assms(2) by auto
    from Cons.IH [of "?f (n, y) m" "Suc n"] this show ?case by simp
  qed simp
  with assms(1) show ?thesis unfolding undecided_index_def by blast
qed

lemma take_step_entries:
  "\<forall>e i. index e = Some i \<longrightarrow> i < length results \<and> sr_entry (results ! i) = e \<Longrightarrow>
   map sr_entry (take_step index step results) = map sr_entry results"
  by (auto simp: take_step_def map_update_keep split: option.splits)

lemma fold_take_step_entries:
  "\<forall>e i. index e = Some i \<longrightarrow> i < length results \<and> sr_entry (results ! i) = e \<Longrightarrow>
   map sr_entry (fold (take_step index) steps results) = map sr_entry results"
proof (induction steps arbitrary: results)
  case (Cons x steps)
  have same: "map sr_entry (take_step index x results) = map sr_entry results"
    by (rule take_step_entries [OF Cons.prems])
  then have "\<forall>e i. index e = Some i \<longrightarrow> i < length (take_step index x results) \<and>
               sr_entry (take_step index x results ! i) = e"
    using Cons.prems by (metis length_map nth_map)
  from Cons.IH [OF this] same show ?case by simp
qed simp

text \<open>The position an entry has in the results after the later plans: the last step of the entry
  that decides it, or else what was there.\<close>

lemma length_fold_take_step [simp]:
  "length (fold (take_step index) steps results) = length results"
  by (induction steps arbitrary: results) (auto simp: take_step_def split: option.splits)

lemma fold_take_step_nth:
  assumes "i < length results" and index: "\<And>e'. index e' = Some i \<longleftrightarrow> e' = e"
  shows "fold (take_step index) steps results ! i =
   (case filter (\<lambda>s. sr_entry s = e \<and> \<not> depends_on_identity (sr_outcome s)) (rev steps) of
      [] \<Rightarrow> results ! i | s # _ \<Rightarrow> s)"
proof (induction steps rule: rev_induct)
  case (snoc x steps)
  let ?r = "fold (take_step index) steps results"
  show ?case
  proof (cases "sr_entry x = e \<and> \<not> depends_on_identity (sr_outcome x)")
    case True
    then have "index (sr_entry x) = Some i" using index by simp
    then have "take_step index x ?r ! i = x"
      using True assms(1) by (simp add: take_step_def [of index x])
    then show ?thesis using True by simp
  next
    case False
    then have "take_step index x ?r ! i = ?r ! i"
      using index [of "sr_entry x"]
      by (cases "index (sr_entry x)") (auto simp: take_step_def nth_list_update_neq)
    then show ?thesis using snoc False by auto
  qed
qed simp

lemma fold_take_step_other:
  assumes "\<And>e. index e \<noteq> Some i"
  shows "fold (take_step index) steps results ! i = results ! i"
proof (induction steps arbitrary: results)
  case (Cons x steps)
  have "take_step index x results ! i = results ! i"
    using assms [of "sr_entry x"] by (auto simp: take_step_def nth_list_update_neq split: option.splits)
  then show ?case using Cons.IH by simp
qed simp

lemma decided_unique:
  assumes "run_chain (r # rs)" and "distinct (run_entries r)"
    and "x \<in> set (later_steps (r # rs))" and "y \<in> set (later_steps (r # rs))"
    and "\<not> depends_on_identity (sr_outcome x)" and "\<not> depends_on_identity (sr_outcome y)"
    and "sr_entry x = sr_entry y"
  shows "x = y"
proof -
  have "distinct (map sr_entry (filter (\<lambda>s. \<not> depends_on_identity (sr_outcome s)) (later_steps (r # rs))))"
    by (rule distinct_if_last, rule decided_last [OF assms(1,2)]) assumption+
  then have "inj_on sr_entry (set (filter (\<lambda>s. \<not> depends_on_identity (sr_outcome s)) (later_steps (r # rs))))"
    by (simp only: distinct_map)
  moreover have "x \<in> set (filter (\<lambda>s. \<not> depends_on_identity (sr_outcome s)) (later_steps (r # rs)))"
    and "y \<in> set (filter (\<lambda>s. \<not> depends_on_identity (sr_outcome s)) (later_steps (r # rs)))"
    using assms(3-6) by (simp_all only: set_filter mem_Collect_eq simp_thms)
  ultimately show ?thesis using assms(7) by (metis inj_onD)
qed

lemma deletion_results_nth:
  assumes "de_runs d = r # rs" and "i < length (dr_steps r)" and "distinct (run_entries r)"
  shows "deletion_results d ! i =
    (let x = dr_steps r ! i in
     if depends_on_identity (sr_outcome x)
     then (case filter (\<lambda>s. sr_entry s = sr_entry x \<and> \<not> depends_on_identity (sr_outcome s)) (rev (later_steps rs)) of
             [] \<Rightarrow> x | s # _ \<Rightarrow> s)
     else x)"
proof (cases "depends_on_identity (sr_outcome (dr_steps r ! i))")
  case True
  let ?x = "dr_steps r ! i"
  obtain j where j: "undecided_index (dr_steps r) (sr_entry ?x) = Some j"
    using undecided_index_defined [of ?x "dr_steps r"] True assms(2) by auto
  then have "j < length (run_entries r)" "run_entries r ! j = run_entries r ! i"
    using undecided_indexD [OF j] assms(2) by simp_all
  then have "j = i" using assms(2,3) nth_eq_iff_index_eq by (metis length_map)
  then have "undecided_index (dr_steps r) e' = Some i \<longleftrightarrow> e' = sr_entry ?x" for e'
    using j undecided_indexD by metis
  from fold_take_step_nth [OF assms(2) this] True assms(1) show ?thesis
    by (simp add: deletion_results_def Let_def)
next
  case False
  then have "undecided_index (dr_steps r) e \<noteq> Some i" for e
    using undecided_indexD by blast
  from fold_take_step_other [OF this] False assms(1) show ?thesis
    by (simp add: deletion_results_def Let_def)
qed

lemma deletion_results_entries:
  "de_runs d = r # rs \<Longrightarrow> map sr_entry (deletion_results d) = run_entries r"
  unfolding deletion_results_def using undecided_indexD by (auto intro!: fold_take_step_entries)

lemma deletion_results_account:
  assumes laws: "plan_laws L" and distinct: "distinct entries"
    and run: "run_state (run_deletion L E c entries ids pol) s = ((d, err), s')"
    and ran: "de_runs d \<noteq> []"
  shows "mset (map sr_entry (deletion_results d)) = mset entries \<and>
    set (filter was_deleted (deletion_results d)) = set (deleted_steps d)"
proof
  obtain r rs where d: "de_runs d = r # rs" using ran by (cases "de_runs d") auto
  have chain: "run_chain (r # rs)" and first: "mset (run_entries r) = mset entries"
    using run_deletion_runs [OF laws run] d by simp_all
  have dist: "distinct (run_entries r)" using first distinct mset_eq_imp_distinct_iff by metis
  show entries: "mset (map sr_entry (deletion_results d)) = mset entries"
    using deletion_results_entries [OF d] first by simp
  have len: "length (deletion_results d) = length (dr_steps r)"
    using deletion_results_entries [OF d] by (metis length_map)
  note nth = deletion_results_nth [OF d _ dist]
  show "set (filter was_deleted (deletion_results d)) = set (deleted_steps d)"
  proof (intro subset_antisym subsetI)
    fix x assume "x \<in> set (filter was_deleted (deletion_results d))"
    then obtain i where i: "i < length (dr_steps r)" "x = deletion_results d ! i" and del: "was_deleted x"
      using len by (auto simp: in_set_conv_nth)
    have "x \<in> set (later_steps (r # rs))"
    proof (cases "filter (\<lambda>s. sr_entry s = sr_entry (dr_steps r ! i) \<and>
                       \<not> depends_on_identity (sr_outcome s)) (rev (later_steps rs))")
      case Nil
      then show ?thesis using nth [OF i(1)] i by (simp add: Let_def)
    next
      case (Cons z zs)
      then have "z \<in> set (filter (\<lambda>s. sr_entry s = sr_entry (dr_steps r ! i) \<and>
                       \<not> depends_on_identity (sr_outcome s)) (rev (later_steps rs)))" by simp
      then have "z \<in> set (later_steps rs)" by simp
      then show ?thesis using nth [OF i(1)] i Cons by (auto simp: Let_def)
    qed
    then show "x \<in> set (deleted_steps d)" using del d by (simp add: deleted_steps_def)
  next
    fix x assume "x \<in> set (deleted_steps d)"
    then have x: "x \<in> set (later_steps (r # rs))" and del: "was_deleted x"
      by (auto simp: deleted_steps_def d)
    note dec = was_deleted_decides [OF del]
    show "x \<in> set (filter was_deleted (deletion_results d))"
    proof (cases "x \<in> set (dr_steps r)")
      case True
      then obtain i where "i < length (dr_steps r)" "dr_steps r ! i = x" by (auto simp: in_set_conv_nth)
      then have "deletion_results d ! i = x" using nth [of i] dec by (simp add: Let_def)
      then show ?thesis using del len \<open>i < _\<close> by (auto simp: in_set_conv_nth)
    next
      case False
      then have later: "x \<in> set (later_steps rs)" using x by simp
      from run_chain_later [OF chain later] obtain i where
        i: "i < length (dr_steps r)" "depends_on_identity (sr_outcome (dr_steps r ! i))"
           "sr_entry (dr_steps r ! i) = sr_entry x"
        by (auto simp: in_set_conv_nth)
      obtain z zs where z: "filter (\<lambda>s. sr_entry s = sr_entry (dr_steps r ! i) \<and>
          \<not> depends_on_identity (sr_outcome s)) (rev (later_steps rs)) = z # zs"
        using later dec i by (cases "filter (\<lambda>s. sr_entry s = sr_entry (dr_steps r ! i) \<and>
          \<not> depends_on_identity (sr_outcome s)) (rev (later_steps rs))") (auto simp: filter_empty_conv)
      then have "z \<in> set (filter (\<lambda>s. sr_entry s = sr_entry (dr_steps r ! i) \<and>
          \<not> depends_on_identity (sr_outcome s)) (rev (later_steps rs)))" by simp
      then have "z = x"
        using x i by (intro decided_unique [OF chain dist _ x _ dec]) auto
      then have "deletion_results d ! i = x" using nth [OF i(1)] i z by (simp add: Let_def)
      then show ?thesis using del len i(1) by (auto simp: in_set_conv_nth)
    qed
  qed
qed

text \<open>The results of a deletion name every entry once, and an entry's result is deleted exactly
  when one of the plans deleted it.\<close>

theorem deletion_results_faithful:
  assumes laws: "plan_laws L" and distinct: "distinct entries"
    and run: "run_state (run_deletion L E c entries ids pol) s = ((d, err), s')"
    and ran: "de_runs d \<noteq> []"
  shows "mset (map sr_entry (deletion_results d)) = mset entries \<and>
    set (filter was_deleted (deletion_results d)) = set (deleted_steps d)"
  using deletion_results_account [OF assms] .


section \<open>A plan to evaluate on\<close>

text \<open>A small plan that behaves as documented, for evaluating the theorems above: each entry is
  read, then deleted with Foreground propagation and a precondition on the UID that was read.\<close>

definition sample_append :: "plan_state \<Rightarrow> step_outcome \<Rightarrow> plan_state" where
  "sample_append st res =
     \<lparr>ps_outcomes = ps_outcomes st @ [\<lparr>oc_step = ps_next st, oc_result = res,
        oc_skip = (if res = ResultSkipped then SkipAlreadyAbsent else SkipNone), oc_message = []\<rparr>],
      ps_next = ps_next st + 1, ps_awaiting = AwaitNothing\<rparr>"

definition sample_advance ::
    "inventory_entry list \<Rightarrow> plan_state \<Rightarrow> string plan_event \<Rightarrow> string goerr + plan_state \<times> plan_action" where
  "sample_advance es st ev =
     (let n = ps_next st; e = es ! n;
          act = \<lparr>pa_kind = ActionDone, pa_step = n, pa_entry = e, pa_propagation = [], pa_preconditions = None\<rparr>
      in if n \<ge> length es then Inr (st, act)
         else case ps_awaiting st of
           AwaitNothing \<Rightarrow> Inr (st\<lparr>ps_awaiting := AwaitRead\<rparr>, act\<lparr>pa_kind := ActionRead\<rparr>)
         | AwaitRead \<Rightarrow>
             (case pe_live ev of
                None \<Rightarrow> Inr (sample_append st ResultSkipped, act\<lparr>pa_kind := ActionSkip\<rparr>)
              | Some u \<Rightarrow> Inr (st\<lparr>ps_awaiting := AwaitDelete\<rparr>,
                  act\<lparr>pa_kind := ActionDelete, pa_propagation := ''Foreground'',
                       pa_preconditions := Some (Some (u_uid u), None)\<rparr>))
         | AwaitDelete \<Rightarrow>
             Inr (sample_append st (if pe_err ev = None then ResultDeleted else ResultFailed),
                  act\<lparr>pa_kind := ActionSkip\<rparr>))"

definition sample_lifecycle :: "(string, inventory_entry list) lifecycle" where
  "sample_lifecycle =
     \<lparr>lc_plan = (\<lambda>es policy identity. es),
      lc_steps = map (\<lambda>e. \<lparr>pl_entry = e, pl_skip = SkipNone\<rparr>),
      lc_advance = sample_advance,
      lc_may_release = (\<lambda>plan st i. \<lparr>hv_release = (ps_next st = length plan), hv_because = HoldOther [], hv_message = []\<rparr>)\<rparr>"

lemma sample_entries [simp]: "plan_entries sample_lifecycle es = es"
  by (simp add: plan_entries_def sample_lifecycle_def comp_def)

lemma sample_laws: "plan_laws sample_lifecycle"
  by (auto simp: plan_laws_def)
    (auto simp: sample_lifecycle_def sample_advance_def sample_append_def Let_def
      split: if_splits awaiting.splits option.splits)

lemma sample_progress: "plan_progress sample_lifecycle"
  by (auto simp: plan_progress_def sample_lifecycle_def sample_advance_def sample_append_def Let_def plan_rank_def
      split: if_splits awaiting.splits option.splits)

text \<open>A cluster as the list of the objects it holds.\<close>

definition sample_get :: "uobj \<Rightarrow> uobj list \<Rightarrow> (string goerr + uobj) \<times> uobj list" where
  "sample_get u w = (case find (\<lambda>v. ref_of v = ref_of u) w of
     None \<Rightarrow> Inl (Ext ''NotFound'') | Some v \<Rightarrow> Inr v, w)"

definition sample_client :: "(uobj list, string) client" where
  "sample_client =
     \<lparr>cl_get = sample_get,
      cl_delete = (\<lambda>u opts w. (None, filter (\<lambda>v. ref_of v \<noteq> ref_of u) w)),
      cl_dry_apply = (\<lambda>u w. (None, w)),
      cl_write = (\<lambda>u w. (None, u # filter (\<lambda>v. ref_of v \<noteq> ref_of u) w))\<rparr>"

definition sample_errors :: "string errlib" where
  "sample_errors =
     \<lparr>el_text = id, el_is = (\<lambda>x s. False), el_status = (\<lambda>x. None),
      el_identity = (\<lambda>x. x = ''Identity''), el_unresolved_demands = (\<lambda>x. x = ''UnresolvedDemands''),
      el_unmatched_components = (\<lambda>x. x = ''UnmatchedComponents''), el_wrong_kind = (\<lambda>x. x = ''WrongKind''),
      el_invalid_package = (\<lambda>x. x = ''InvalidPackage''), el_missing_required_field = (\<lambda>x. x = ''MissingRequiredField''),
      el_fetch = (\<lambda>x. x = ''Fetch''), el_skew = (\<lambda>x. x = ''Skew''),
      el_duplicate_identities = (\<lambda>x. x = ''DuplicateIdentities''),
      ae_not_found = (\<lambda>e. e = Ext ''NotFound''), ae_forbidden = (\<lambda>e. e = Ext ''Forbidden''),
      ae_conflict = (\<lambda>e. e = Ext ''Conflict''), ae_no_match = (\<lambda>e. e = Ext ''NoMatch''),
      ae_immutable = (\<lambda>e. e = Ext ''Immutable''), ae_reason = (\<lambda>e. []), el_object = or_name,
      el_no_kind_match = (\<lambda>x. if x = ''NoMatch'' then Some (''example.com'', ''Widget'') else None),
      el_no_resource_match = (\<lambda>x. None)\<rparr>"

definition sample_entry :: "string \<Rightarrow> string \<Rightarrow> inventory_entry" where
  "sample_entry kind name = \<lparr>ie_group = [], ie_kind = kind, ie_namespace = ''ns'', ie_name = name,
                             ie_version = ''v1'', ie_component = []\<rparr>"

definition sample_cluster :: "uobj list sys" where
  "sample_cluster =
     \<lparr>sys_world = [(object_of_entry (sample_entry ''ConfigMap'' ''a''))\<lparr>u_uid := ''u1''\<rparr>,
                   (object_of_entry (sample_entry ''PersistentVolumeClaim'' ''data''))\<lparr>u_uid := ''u2''\<rparr>],
      sys_trace = []\<rparr>"

definition sample_policy :: deletion_policy where
  "sample_policy = \<lparr>pol_prune = True, pol_force_orphan = False\<rparr>"

theorem run_plan_terminates_witness:
  "snd (fst (run_state (run_plan sample_lifecycle sample_errors sample_client
      [sample_entry ''ConfigMap'' ''a''] ) sample_cluster)) \<noteq> Some (Sentinel LoopNotEnded)"
  by (rule run_plan_terminates [OF sample_progress])

definition sample_deletion :: "(string, inventory_entry list) deletion" where
  "sample_deletion = fst (fst (run_state
     (run_deletion sample_lifecycle sample_errors sample_client [sample_entry ''ConfigMap'' ''a'']
       [''new'', ''old''] sample_policy) sample_cluster))"

lemma sample_deletion_run:
  "\<exists>err s'. run_state (run_deletion sample_lifecycle sample_errors sample_client
     [sample_entry ''ConfigMap'' ''a''] [''new'', ''old''] sample_policy) sample_cluster = ((sample_deletion, err), s')"
  unfolding sample_deletion_def by (metis prod.collapse)

lemma sample_deletion_ran: "de_runs sample_deletion \<noteq> []"
  by (simp add: sample_deletion_def run_deletion_def split_beta)

theorem run_deletion_deletes_once_witness:
  "distinct (map sr_entry (deleted_steps sample_deletion))"
proof -
  have "distinct [sample_entry ''ConfigMap'' ''a'']" by simp
  with sample_deletion_run run_deletion_deletes_once [OF sample_laws] show ?thesis by blast
qed

theorem deletion_results_faithful_witness:
  "set (filter was_deleted (deletion_results sample_deletion)) = set (deleted_steps sample_deletion)"
proof -
  have "distinct [sample_entry ''ConfigMap'' ''a'']" by simp
  with sample_deletion_run sample_deletion_ran deletion_results_faithful [OF sample_laws] show ?thesis by blast
qed

end
