(* ===== verification/Prune.thy ===== *)
theory Prune
  imports Deletion
begin

text \<open>
  internal/apply/prune.go and the claims part of deletion.go: which claims a
  deletion keeps, the prune, and the deletion cleanup with its report.
\<close>

section \<open>Kept claims\<close>

record left_behind =
  lb_entry :: inventory_entry
  lb_reason :: skip_reason
  lb_message :: string

fun judge_more :: "can_delete \<Rightarrow> object_ref \<Rightarrow> uobj \<Rightarrow> delete_verdict \<Rightarrow> string list \<Rightarrow> delete_verdict" where
  "judge_more can_delete obj live verdict [] = verdict"
| "judge_more can_delete obj live verdict (i # ids) =
     (if dv_skip verdict \<noteq> SkipOwnerMismatch \<and> dv_skip verdict \<noteq> SkipAdoptedElsewhere then verdict
      else judge_more can_delete obj live (can_delete obj live i) ids)"

definition judge_delete :: "can_delete \<Rightarrow> object_ref \<Rightarrow> uobj \<Rightarrow> string list \<Rightarrow> delete_verdict" where
  "judge_delete can_delete obj live identities =
     (let identities = (if identities = [] then [[]] else identities);
          first = can_delete obj live (hd identities);
          verdict = judge_more can_delete obj live first (tl identities)
      in if dv_proceed verdict then verdict else first)"

text \<open>The loop of ClassifyKeptClaims; a NotFound is asked of an error only.\<close>

fun classify_kept_claims ::
    "can_delete \<Rightarrow> 'x errlib \<Rightarrow> ('w, 'x) client \<Rightarrow> string list \<Rightarrow> inventory_entry list \<Rightarrow>
     ('w, 'z, inventory_entry list \<times> left_behind list) prog" where
  "classify_kept_claims CD E c identities [] = State_Monad.return ([], [])"
| "classify_kept_claims CD E c identities (entry # claims) =
     do { r \<leftarrow> read_entry c entry;
          (kept, left) \<leftarrow> classify_kept_claims CD E c identities claims;
          State_Monad.return
            (case r of
               Inl e \<Rightarrow> if ae_not_found E e then (kept, left) else (entry # kept, left)
             | Inr live \<Rightarrow>
                 let verdict = judge_delete CD (entry_ref entry) live identities
                 in if \<not> dv_proceed verdict
                    then (kept, \<lparr>lb_entry = entry, lb_reason = dv_skip verdict,
                                 lb_message = dv_message verdict\<rparr> # left)
                    else (entry # kept, left)) }"

fun still_there ::
    "'x errlib \<Rightarrow> ('w, 'x) client \<Rightarrow> 'x step_result list \<Rightarrow> ('w, 'z, 'x goerr + uobj list) prog" where
  "still_there E c [] = State_Monad.return (Inr [])"
| "still_there E c (step # steps) =
     do { r \<leftarrow> read_entry c (sr_entry step);
          case r of
            Inl e \<Rightarrow>
              if ae_not_found E e then still_there E c steps
              else State_Monad.return (Inl
                (Fmt (''checking that '' @ ie_kind (sr_entry step) @ '' '' @ ie_namespace (sr_entry step) @
                      ''/'' @ ie_name (sr_entry step) @ '' is gone: '' @ err_text E e) [e]))
          | Inr live \<Rightarrow>
              if (case sr_live step of None \<Rightarrow> False | Some old \<Rightarrow> u_uid live \<noteq> u_uid old)
              then still_there E c steps
              else do { left \<leftarrow> still_there E c steps;
                        State_Monad.return (map_sum id (\<lambda>us. live # us) left) } }"


section \<open>prune.go\<close>

record prune_result =
  pr_deleted :: nat
  pr_skipped :: nat
  pr_left :: "left_behind list"
  pr_kept :: "inventory_entry list"

definition empty_prune :: prune_result where
  "empty_prune = \<lparr>pr_deleted = 0, pr_skipped = 0, pr_left = [], pr_kept = []\<rparr>"

record ('x, 'p) cleanup =
  cu_deletion :: "('x, 'p) deletion"
  cu_report :: prune_result
  cu_failed :: "'x goerr option"

definition prune_leave :: "prune_result \<Rightarrow> left_behind \<Rightarrow> prune_result" where
  "prune_leave r l = r\<lparr>pr_left := pr_left r @ [l], pr_skipped := length (pr_left r @ [l])\<rparr>"

definition step_error :: "'x errlib \<Rightarrow> 'x step_result \<Rightarrow> 'x goerr" where
  "step_error E step =
     (let entry = sr_entry step;
          verb = (if sr_failed step = Some ActionDelete then ''delete'' else ''get'');
          cause = (case sr_err step of None \<Rightarrow> Fmt (oc_message (sr_outcome step)) [] | Some e \<Rightarrow> e)
      in Fmt (''failed to '' @ verb @ '' '' @ ie_namespace entry @ ''/'' @ ie_name entry @ '' '' @
              ie_kind entry @ '': '' @ err_text E cause) [cause])"

definition report_step ::
    "'x errlib \<Rightarrow> 'x step_result \<Rightarrow> prune_result \<times> 'x goerr list \<Rightarrow> prune_result \<times> 'x goerr list" where
  "report_step E step acc =
     (case acc of (result, errs) \<Rightarrow>
        case oc_result (sr_outcome step) of
          ResultDeleted \<Rightarrow> (result\<lparr>pr_deleted := pr_deleted result + 1\<rparr>, errs)
        | ResultSkipped \<Rightarrow>
            if oc_skip (sr_outcome step) = SkipAlreadyAbsent then (result, errs)
            else (prune_leave result \<lparr>lb_entry = sr_entry step, lb_reason = oc_skip (sr_outcome step),
                                      lb_message = oc_message (sr_outcome step)\<rparr>, errs)
        | ResultFailed \<Rightarrow> (result, errs @ [step_error E step])
        | ResultNone \<Rightarrow> (result, errs))"

definition errors_join :: "'x goerr list \<Rightarrow> 'x goerr option" where
  "errors_join errs = (if errs = [] then None else Some (Joined errs))"

definition run_cleanup ::
    "('x, 'p) lifecycle \<Rightarrow> can_delete \<Rightarrow> 'x errlib \<Rightarrow> ('w, 'x) client \<Rightarrow> string list \<Rightarrow>
     inventory_entry list \<Rightarrow> deletion_policy \<Rightarrow> bool \<Rightarrow>
     ('w, 'z, ('x, 'p) cleanup \<times> 'x goerr option) prog" where
  "run_cleanup L CD E c identities entries policy delete_data =
     (let (planned, claims) = split_kept_claims entries delete_data
      in do { (deletion, err) \<leftarrow> run_deletion L E c planned identities policy;
              if err \<noteq> None \<or> \<not> pol_prune policy
              then State_Monad.return
                (\<lparr>cu_deletion = deletion, cu_report = empty_prune, cu_failed = None\<rparr>, err)
              else do { let (result, errs) = fold (report_step E) (deletion_results deletion) (empty_prune, []);
                        (kept, left) \<leftarrow> classify_kept_claims CD E c identities claims;
                        State_Monad.return
                          (\<lparr>cu_deletion = deletion,
                            cu_report = fold (\<lambda>l r. prune_leave r l) left (result\<lparr>pr_kept := kept\<rparr>),
                            cu_failed = errors_join errs\<rparr>, None) } })"

definition prune ::
    "('x, 'p) lifecycle \<Rightarrow> can_delete \<Rightarrow> 'x errlib \<Rightarrow> ('w, 'x) client \<Rightarrow> string list \<Rightarrow>
     inventory_entry list \<Rightarrow> bool \<Rightarrow> ('w, 'z, prune_result \<times> 'x goerr option) prog" where
  "prune L CD E c identities stale delete_data =
     do { (cleanup, err) \<leftarrow> run_cleanup L CD E c identities stale
                              \<lparr>pol_prune = True, pol_force_orphan = False\<rparr> delete_data;
          State_Monad.return (cu_report cleanup, if err \<noteq> None then err else cu_failed cleanup) }"


section \<open>Which objects a deletion can touch\<close>

text \<open>A read, or a delete of one of the given entries.\<close>

definition deletes_only :: "inventory_entry set \<Rightarrow> act \<Rightarrow> bool" where
  "deletes_only es a = (is_read a \<or> (\<exists>e \<in> es. \<exists>os. a = DeleteAct (entry_ref e) os))"

fun deletes_claim :: "act \<Rightarrow> bool" where
  "deletes_claim (DeleteAct r os) = is_core_claim (or_group r) (or_kind r)"
| "deletes_claim _ = False"

lemma is_core_claim_ref [simp]:
  "is_core_claim (or_group (entry_ref e)) (or_kind (entry_ref e)) = is_data_claim e"
  by (simp add: entry_ref_def is_data_claim_def)

lemma deletes_only_mono: "deletes_only es a \<Longrightarrow> es \<subseteq> es' \<Longrightarrow> deletes_only es' a"
  by (auto simp: deletes_only_def)

lemma plan_names_deletes_only:
  assumes "plan_laws L" and "plan_names L plan a"
  shows "deletes_only (set (plan_entries L plan)) a"
proof -
  from assms(2) obtain st ev st' act where
    adv: "lc_advance L plan st ev = Inr (st', act)" and
    a: "pa_kind act = ActionRead \<and> a = ReadAct (entry_ref (pa_entry act)) \<or>
        pa_kind act = ActionDelete \<and> a = DeleteAct (entry_ref (pa_entry act)) (delete_options act)"
    unfolding plan_names_def by blast
  have "pa_entry act \<in> set (plan_entries L plan)" if "pa_kind act = ActionDelete"
    using plan_laws_entry [OF assms(1) adv] that by (simp add: plan_entries_def)
  then show ?thesis using a by (auto simp: deletes_only_def)
qed

lemma emits_run_plan [emits_intro]:
  "plan_laws L \<Longrightarrow> set entries \<subseteq> es \<Longrightarrow>
   emits (deletes_only es) (run_plan L E c (lc_plan L entries pol i))"
  by (rule emits_mono [OF run_plan_names])
    (metis plan_names_deletes_only deletes_only_mono plan_laws_step_set)

lemma run_plan_undecided:
  "plan_laws L \<Longrightarrow> yields (\<lambda>(run, err). set (undecided run) \<subseteq> set entries)
     (run_plan L E c (lc_plan L entries pol i))"
proof -
  assume laws: "plan_laws L"
  have "set (run_entries (fst (fst (run_state (run_plan L E c (lc_plan L entries pol i)) s)))) = set entries" for s
    using run_plan_entries [of L E c "lc_plan L entries pol i" s] plan_laws_step_set [OF laws, of entries pol i]
    by simp
  then show ?thesis unfolding yields_def split_beta using undecided_subset by blast
qed

lemma emits_identity_runs:
  assumes laws: "plan_laws L"
  shows "set entries \<subseteq> es \<Longrightarrow> emits (deletes_only es) (identity_runs L E c pol first entries ids)"
proof (induction ids arbitrary: first entries)
  case (Cons i ids)
  show ?case
    by (auto simp: split_beta intro!: emits_intro emits_bind_yields [OF _ run_plan_undecided [OF laws]]
        Cons.IH Cons.prems laws dest: subsetD [OF Cons.prems])
qed (simp add: emits_return)

lemma emits_run_deletion [emits_intro]:
  "plan_laws L \<Longrightarrow> set entries \<subseteq> es \<Longrightarrow> emits (deletes_only es) (run_deletion L E c entries ids pol)"
  unfolding run_deletion_def Let_def by (intro emits_intro emits_identity_runs)

lemma emits_classify [emits_intro]:
  "(\<And>a. is_read a \<Longrightarrow> P a) \<Longrightarrow> emits P (classify_kept_claims CD E c ids claims)"
  by (induction claims) (auto intro!: emits_intro)

lemma emits_still_there [emits_intro]:
  "(\<And>a. is_read a \<Longrightarrow> P a) \<Longrightarrow> emits P (still_there E c steps)"
  by (induction steps) (auto intro!: emits_intro split: sum.split)

lemma keeps_classify [keeps_intro]: "keeps sys.more (classify_kept_claims CD E c ids claims)"
  by (induction claims) (auto simp: read_entry_def intro!: keeps_intro)

lemma keeps_still_there [keeps_intro]: "keeps sys.more (still_there E c steps)"
  by (induction steps) (auto simp: read_entry_def intro!: keeps_intro split: sum.split)

lemma keeps_run_cleanup [keeps_intro]:
  "keeps sys.more (run_cleanup L CD E c ids entries pol delete_data)"
  "keeps sys.more (prune L CD E c ids entries delete_data)"
  unfolding prune_def run_cleanup_def by (intro keeps_intro)+

lemma emits_run_cleanup [emits_intro]:
  "plan_laws L \<Longrightarrow>
   emits (deletes_only (set (fst (split_kept_claims entries delete_data))))
     (run_cleanup L CD E c ids entries pol delete_data)"
  unfolding run_cleanup_def
  by (auto simp: split_beta Let_def intro!: emits_intro simp: deletes_only_def [of _ "_ :: act"])

text \<open>Without the Delete data policy a prune or a deletion cleanup never sends a delete of a
  PersistentVolumeClaim of the core group, whatever the cluster answers and whatever the plan
  and the verdicts say; every delete it sends is of another inventory entry it was handed.\<close>

theorem cleanup_never_deletes_claims:
  assumes "plan_laws L"
  shows "emits (\<lambda>a. \<not> deletes_claim a \<and> deletes_only (set entries) a) (run_cleanup L CD E c ids entries pol False) \<and>
         emits (\<lambda>a. \<not> deletes_claim a \<and> deletes_only (set entries) a) (prune L CD E c ids entries False)"
proof
  have sorts: "\<not> deletes_claim a \<and> deletes_only (set entries) a"
    if "deletes_only (set (fst (split_kept_claims entries False))) a" for a
    using that by (cases a) (auto simp: deletes_only_def split_kept_claims_def)
  show cleanup: "emits (\<lambda>a. \<not> deletes_claim a \<and> deletes_only (set entries) a)
      (run_cleanup L CD E c ids entries pol False)" for pol
    by (rule emits_mono [OF emits_run_cleanup [OF assms] sorts])
  show "emits (\<lambda>a. \<not> deletes_claim a \<and> deletes_only (set entries) a) (prune L CD E c ids entries False)"
    unfolding prune_def by (intro emits_intro cleanup)
qed

theorem cleanup_never_deletes_claims_witness:
  "emits (\<lambda>a. \<not> deletes_claim a \<and> deletes_only (set [sample_entry ''PersistentVolumeClaim'' ''data'']) a)
     (run_cleanup sample_lifecycle (\<lambda>r u i. \<lparr>dv_proceed = True, dv_skip = SkipNone, dv_message = []\<rparr>)
        sample_errors sample_client [''id''] [sample_entry ''PersistentVolumeClaim'' ''data''] sample_policy False)"
  using cleanup_never_deletes_claims [OF sample_laws] by blast


section \<open>The report accounts for every entry\<close>

lemma fold_report_step:
  assumes "fold (report_step E) steps (result, errs) = (result', errs')"
  shows "pr_deleted result' = pr_deleted result + length (filter was_deleted steps) \<and>
    length errs' = length errs + length (filter (\<lambda>s. oc_result (sr_outcome s) = ResultFailed) steps) \<and>
    (pr_skipped result = length (pr_left result) \<longrightarrow> pr_skipped result' = length (pr_left result'))"
  using assms
proof (induction steps arbitrary: result errs)
  case (Cons x steps)
  obtain r e where step: "report_step E x (result, errs) = (r, e)" by fastforce
  then have "fold (report_step E) steps (r, e) = (result', errs')" using Cons.prems by simp
  from Cons.IH [OF this] show ?case
    using step by (cases "oc_result (sr_outcome x)") (auto simp: report_step_def prune_leave_def split: if_splits)
qed simp

lemma fold_prune_leave:
  "pr_skipped r = length (pr_left r) \<Longrightarrow>
   pr_skipped (fold (\<lambda>l r. prune_leave r l) ls r) = length (pr_left (fold (\<lambda>l r. prune_leave r l) ls r)) \<and>
   pr_deleted (fold (\<lambda>l r. prune_leave r l) ls r) = pr_deleted r \<and>
   pr_kept (fold (\<lambda>l r. prune_leave r l) ls r) = pr_kept r"
  by (induction ls arbitrary: r) (simp_all add: prune_leave_def)

lemma classify_kept_subset:
  "set (fst (fst (run_state (classify_kept_claims CD E c ids claims) s))) \<subseteq> set claims"
proof (induction claims arbitrary: s)
  case (Cons e claims)
  then show ?case by (auto simp: split_beta Let_def split: sum.splits if_splits)
qed simp

lemma identity_runs_ran:
  "fst (fst (run_state (identity_runs L E c pol True entries (i # ids)) s)) \<noteq> []"
  by (simp add: split_beta split: if_split)

lemma run_deletion_ran:
  "run_state (run_deletion L E c entries ids pol) s = ((d, err), s') \<Longrightarrow> de_runs d \<noteq> []"
  using identity_runs_ran [of L E c pol entries "hd (if ids = [] then [[]] else ids)"
      "tl (if ids = [] then [[]] else ids)" s]
  by (cases ids) (auto simp: run_deletion_def split_beta simp del: identity_runs.simps)

lemma length_deleted_results:
  assumes laws: "plan_laws L" and distinct: "distinct entries"
    and run: "run_state (run_deletion L E c entries ids pol) s = ((d, err), s')"
  shows "length (filter was_deleted (deletion_results d)) = length (deleted_steps d)"
proof -
  note faithful = deletion_results_account [OF laws distinct run run_deletion_ran [OF run]]
  have "distinct (map sr_entry (deletion_results d))"
    using faithful distinct mset_eq_imp_distinct_iff by metis
  then have "distinct (filter was_deleted (deletion_results d))"
    by (simp add: distinct_map)
  moreover have "distinct (deleted_steps d)"
    using deletes_entries_once [OF laws distinct run] by (simp add: distinct_map)
  ultimately show ?thesis using faithful by (metis distinct_card)
qed

text \<open>The report of a cleanup accounts for it: the number deleted is the number of deletes the API
  server accepted over all plans, the number skipped is the number of objects named as left
  behind, the cleanup failed exactly when a step did, and only claims of the inventory are kept.\<close>

theorem cleanup_report_accounts:
  assumes laws: "plan_laws L" and distinct: "distinct entries" and prunes: "pol_prune pol"
    and run: "run_state (run_cleanup L CD E c ids entries pol delete_data) s = ((cu, None), s')"
  shows "pr_deleted (cu_report cu) = length (deleted_steps (cu_deletion cu)) \<and>
    pr_skipped (cu_report cu) = length (pr_left (cu_report cu)) \<and>
    (cu_failed cu = None \<longleftrightarrow>
       filter (\<lambda>r. oc_result (sr_outcome r) = ResultFailed) (deletion_results (cu_deletion cu)) = []) \<and>
    set (pr_kept (cu_report cu)) \<subseteq> set (snd (split_kept_claims entries delete_data))"
proof -
  define planned where "planned = fst (split_kept_claims entries delete_data)"
  define claims where "claims = snd (split_kept_claims entries delete_data)"
  obtain d err s1 where d: "run_state (run_deletion L E c planned ids pol) s = ((d, err), s1)"
    by (metis prod.collapse)
  obtain result errs where res: "fold (report_step E) (deletion_results d) (empty_prune, []) = (result, errs)"
    by fastforce
  obtain kept left s2 where k: "run_state (classify_kept_claims CD E c ids claims) s1 = ((kept, left), s2)"
    by (metis prod.collapse)
  have err: "err = None"
    using run d prunes by (auto simp: run_cleanup_def split_beta planned_def split: if_splits)
  have cu: "cu = \<lparr>cu_deletion = d, cu_report = fold (\<lambda>l r. prune_leave r l) left (result\<lparr>pr_kept := kept\<rparr>),
                 cu_failed = errors_join errs\<rparr>"
    using run d prunes res k err by (simp add: run_cleanup_def split_beta planned_def claims_def)
  have "distinct planned" using distinct by (simp add: planned_def split_kept_claims_def)
  note deleted = length_deleted_results [OF laws this d]
  note counts = fold_report_step [OF res]
  have skipped: "pr_skipped (result\<lparr>pr_kept := kept\<rparr>) = length (pr_left (result\<lparr>pr_kept := kept\<rparr>))"
    using counts by (simp add: empty_prune_def)
  have "set kept \<subseteq> set claims"
    using classify_kept_subset [of CD E c ids claims s1] k by simp
  then show ?thesis
    using fold_prune_leave [OF skipped, of left] counts deleted
    by (auto simp: cu empty_prune_def errors_join_def claims_def)
qed

theorem cleanup_report_accounts_witness:
  "\<exists>cu s'. run_state (run_cleanup sample_lifecycle (\<lambda>r u i. \<lparr>dv_proceed = True, dv_skip = SkipNone, dv_message = []\<rparr>)
       sample_errors sample_client [''id''] [sample_entry ''ConfigMap'' ''a''] sample_policy False) sample_cluster
     = ((cu, None), s') \<and> pr_deleted (cu_report cu) = length (deleted_steps (cu_deletion cu))"
proof -
  let ?m = "run_cleanup sample_lifecycle (\<lambda>r u i. \<lparr>dv_proceed = True, dv_skip = SkipNone, dv_message = []\<rparr>)
       sample_errors sample_client [''id''] [sample_entry ''ConfigMap'' ''a''] sample_policy False"
  have "snd (fst (run_state ?m sample_cluster)) = None"
    by code_simp
  then obtain cu s' where "run_state ?m sample_cluster = ((cu, None), s')"
    by (metis prod.collapse)
  moreover have "distinct [sample_entry ''ConfigMap'' ''a'']" and "pol_prune sample_policy"
    by (simp_all add: sample_policy_def)
  ultimately show ?thesis using cleanup_report_accounts [OF sample_laws] by blast
qed

end
