(* ===== verification/Apply_Guards.thy ===== *)
theory Apply_Guards
  imports Prune
begin

text \<open>
  internal/apply/claims.go, takein.go and manager.go: what protects data and
  taken-in objects from a forced recreate. The resource manager is Flux's: a
  parameter, modelled as any finite program over the client it is built on. That
  client is \<open>deleteGuard\<close>, so whatever Flux does passes it.
\<close>

section \<open>Taken-in objects\<close>

record pin =
  pin_object :: object_ref
  pin_uid :: string

text \<open>What an apply puts into its context: whether claims may be deleted, and the objects it takes in.\<close>

record apply_context =
  ax_delete_claims :: bool
  ax_taken_in :: "pin list"

text \<open>A Go map filled in a loop: the last pin of an object counts.\<close>

definition pin_of :: "pin list \<Rightarrow> object_ref \<Rightarrow> pin option" where
  "pin_of pins r = find (\<lambda>p. pin_object p = r) (rev pins)"

definition pin_taken_in :: "uobj list \<Rightarrow> pin list \<Rightarrow> uobj list" where
  "pin_taken_in resources pins =
     map (\<lambda>u. case pin_of pins (ref_of u) of
                None \<Rightarrow> u
              | Some p \<Rightarrow> if pin_uid p = [] then u else u\<lparr>u_uid := pin_uid p\<rparr>) resources"

definition taken_in_pin :: "apply_context \<Rightarrow> uobj \<Rightarrow> pin option" where
  "taken_in_pin ctx u = pin_of (ax_taken_in ctx) (ref_of u)"


section \<open>Checks before a forced apply\<close>

fun distinct_fields :: "string list \<Rightarrow> string list \<Rightarrow> string list" where
  "distinct_fields seen [] = seen"
| "distinct_fields seen (f # fs) =
     (let field = trim_space f in
      if field = [] \<or> field \<in> set seen then distinct_fields seen fs
      else distinct_fields (seen @ [field]) fs)"

definition refused_fields :: "'x errlib \<Rightarrow> 'x goerr \<Rightarrow> string list" where
  "refused_fields E err =
     (case as_status E err of
        None \<Rightarrow> []
      | Some (x, st) \<Rightarrow> (case as_details st of None \<Rightarrow> [] | Some d \<Rightarrow> distinct_fields [] (ad_cause_fields d)))"

definition is_claim_object :: "uobj \<Rightarrow> bool" where
  "is_claim_object u = is_core_claim (u_group u) (u_kind u)"

fun check_claims :: "'x errlib \<Rightarrow> ('w, 'x) client \<Rightarrow> uobj list \<Rightarrow> ('w, 'z, 'x goerr option) prog" where
  "check_claims E c [] = State_Monad.return None"
| "check_claims E c (u # us) =
     (if \<not> is_core_claim (u_group u) (u_kind u) then check_claims E c us
      else do { r \<leftarrow> get_object c u;
                case r of
                  Inl e \<Rightarrow>
                    if ae_not_found E e then check_claims E c us
                    else State_Monad.return (Some
                      (Fmt (''failed to read '' @ claim_kind @ '' '' @ u_namespace u @ ''/'' @ u_name u @
                            '' before a forced apply: '' @ err_text E e) [e]))
                | Inr live \<Rightarrow>
                    do { err \<leftarrow> dry_apply_object c u;
                         case err of
                           None \<Rightarrow> check_claims E c us
                         | Some e \<Rightarrow>
                             if ae_immutable E e
                             then State_Monad.return (Some
                               (ClaimConflictErr (u_namespace u) (u_name u) (refused_fields E e) (Some e)))
                             else check_claims E c us } })"

fun check_taken_in ::
    "'x errlib \<Rightarrow> ('w, 'x) client \<Rightarrow> pin list \<Rightarrow> uobj list \<Rightarrow> ('w, 'z, 'x goerr option) prog" where
  "check_taken_in E c pins [] = State_Monad.return None"
| "check_taken_in E c pins (u # us) =
     (if pin_of pins (ref_of u) = None then check_taken_in E c pins us
      else do { err \<leftarrow> dry_apply_object c u;
                case err of
                  None \<Rightarrow> check_taken_in E c pins us
                | Some e \<Rightarrow>
                    if ae_immutable E e
                    then State_Monad.return (Some
                      (TakenInConflictErr (ref_of u) (refused_fields E e) (Some e)))
                    else check_taken_in E c pins us })"

lemma emits_check_claims [emits_intro]:
  "(\<And>a. harmless a \<Longrightarrow> P a) \<Longrightarrow> emits P (check_claims E c us)"
  by (induction us) (auto intro!: emits_intro split: sum.split option.split)

lemma emits_check_taken_in [emits_intro]:
  "(\<And>a. harmless a \<Longrightarrow> P a) \<Longrightarrow> emits P (check_taken_in E c pins us)"
  by (induction us) (auto intro!: emits_intro split: option.split)


section \<open>The delete guard\<close>

definition guard_delete ::
    "'x errlib \<Rightarrow> apply_context \<Rightarrow> ('w, 'x) client \<Rightarrow> uobj \<Rightarrow> delete_option list \<Rightarrow>
     ('w, 'z, 'x goerr option) prog" where
  "guard_delete E ctx c u opts =
     (case taken_in_pin ctx u of
        Some p \<Rightarrow> State_Monad.return (Some (TakenInConflictErr (pin_object p) [] None))
      | None \<Rightarrow>
          if is_claim_object u \<and> \<not> ax_delete_claims ctx
          then State_Monad.return (Some (ClaimConflictErr (u_namespace u) (u_name u) [] None))
          else if u_uid u = [] then delete_object c u opts
          else do { err \<leftarrow> delete_object c u (opts @ [Preconditions (Some (u_uid u)) None]);
                    State_Monad.return (replaced_error E err True) })"

definition guard_delete_all_of :: "uobj \<Rightarrow> 'x goerr" where
  "guard_delete_all_of u =
     Fmt (u_kind u @ '' in namespace '' @ quote (u_namespace u) @ '': '' @ sentinel_text ErrCollectionDelete)
       [Sentinel ErrCollectionDelete]"


section \<open>Programs over a client\<close>

text \<open>
  A finite program over a Kubernetes client: what Flux's resource manager runs. It reads, writes,
  deletes one object or a collection, and goes on with each answer as it likes.
\<close>

datatype ('x, 'r) client_prog =
    Finished 'r
  | CallGet uobj "'x goerr + uobj \<Rightarrow> ('x, 'r) client_prog"
  | CallWrite uobj "'x goerr option \<Rightarrow> ('x, 'r) client_prog"
  | CallDelete uobj "delete_option list" "'x goerr option \<Rightarrow> ('x, 'r) client_prog"
  | CallDeleteAllOf uobj "'x goerr option \<Rightarrow> ('x, 'r) client_prog"

primrec run_guarded ::
    "'x errlib \<Rightarrow> apply_context \<Rightarrow> ('w, 'x) client \<Rightarrow> ('x, 'r) client_prog \<Rightarrow> ('w, 'z, 'r) prog" where
  "run_guarded E ctx c (Finished r) = State_Monad.return r"
| "run_guarded E ctx c (CallGet u k) = get_object c u \<bind> (\<lambda>r. run_guarded E ctx c (k r))"
| "run_guarded E ctx c (CallWrite u k) = write_object c u \<bind> (\<lambda>r. run_guarded E ctx c (k r))"
| "run_guarded E ctx c (CallDelete u opts k) =
     guard_delete E ctx c u opts \<bind> (\<lambda>r. run_guarded E ctx c (k r))"
| "run_guarded E ctx c (CallDeleteAllOf u k) = run_guarded E ctx c (k (Some (guard_delete_all_of u)))"

text \<open>The contract of a guarded client: reads and writes pass, and every delete it sends is one its
  discipline allows.\<close>

locale guarded_client =
  fixes allowed :: "act \<Rightarrow> bool"
    and del :: "uobj \<Rightarrow> delete_option list \<Rightarrow> ('w, 'z, 'x goerr option) prog"
    and run :: "('x, 'r) client_prog \<Rightarrow> ('w, 'z, 'r) prog"
    and c :: "('w, 'x) client"
    and refusal :: "uobj \<Rightarrow> 'x goerr"
  assumes reads: "allowed (ReadAct ref)"
    and writes: "allowed (WriteAct u)"
    and deletes: "emits allowed (del u opts)"
    and finished: "run (Finished r) = State_Monad.return r"
    and gets: "run (CallGet u g) = get_object c u \<bind> (\<lambda>r. run (g r))"
    and puts: "run (CallWrite u k) = write_object c u \<bind> (\<lambda>r. run (k r))"
    and dels: "run (CallDelete u opts k) = del u opts \<bind> (\<lambda>r. run (k r))"
    and collections: "run (CallDeleteAllOf u k) = run (k (Some (refusal u)))"
begin

lemma any_program: "emits allowed (run p)"
  by (induction p) (auto simp: finished gets puts dels collections intro!: emits_intro reads writes deletes)

end

text \<open>The discipline of the delete guard: a delete is of no taken-in object, of a claim only when the
  context lets it, and ends in a precondition on a UID unless it is the delete of an object that
  carried none.\<close>

fun guard_allows :: "apply_context \<Rightarrow> act \<Rightarrow> bool" where
  "guard_allows ctx (DeleteAct r opts) =
     (pin_of (ax_taken_in ctx) r = None \<and>
      (is_core_claim (or_group r) (or_kind r) \<longrightarrow> ax_delete_claims ctx))"
| "guard_allows ctx (WriteAct u) = True"
| "guard_allows ctx a = harmless a"

lemma harmless_guard_allows: "harmless a \<Longrightarrow> guard_allows ctx a"
  by (cases a) simp_all

lemma emits_guard_delete: "emits (guard_allows ctx) (guard_delete E ctx c u opts)"
  unfolding guard_delete_def
  by (intro emits_intro) (auto simp: taken_in_pin_def is_claim_object_def ref_of_def)

interpretation delete_guard: guarded_client "guard_allows ctx" "guard_delete E ctx c"
    "run_guarded E ctx c" c guard_delete_all_of
  by unfold_locales (simp_all add: emits_guard_delete)

text \<open>The resource manager's client refuses to delete an object the apply takes in and, unless
  the data policy allows it, a claim, without a request; every other delete it sends once, and
  an object with a UID under a final precondition on that UID, so no option of the caller replaces
  it and no object created under the name since is deleted.\<close>

theorem guard_delete_spec:
  "sys_trace (snd (run_state (guard_delete E ctx c u opts) s)) =
     sys_trace s @
     (if pin_of (ax_taken_in ctx) (ref_of u) \<noteq> None \<or> (is_claim_object u \<and> \<not> ax_delete_claims ctx) then []
      else [DeleteAct (ref_of u) (if u_uid u = [] then opts else opts @ [Preconditions (Some (u_uid u)) None])]) \<and>
   (pin_of (ax_taken_in ctx) (ref_of u) \<noteq> None \<or> (is_claim_object u \<and> \<not> ax_delete_claims ctx) \<longrightarrow>
      fst (run_state (guard_delete E ctx c u opts) s) \<noteq> None)"
  by (auto simp: guard_delete_def taken_in_pin_def delete_object_def split: option.split)

theorem guard_delete_spec_witness:
  "fst (run_state (guard_delete sample_errors \<lparr>ax_delete_claims = False, ax_taken_in = []\<rparr> sample_client
      (object_of_entry (sample_entry ''PersistentVolumeClaim'' ''data'')) []) sample_cluster) \<noteq> None"
proof -
  let ?u = "object_of_entry (sample_entry ''PersistentVolumeClaim'' ''data'')"
  have "is_claim_object ?u"
    by (simp add: is_claim_object_def is_core_claim_def object_of_entry_def blank_object_def
        sample_entry_def claim_kind_def)
  then show ?thesis
    using guard_delete_spec [of sample_errors "\<lparr>ax_delete_claims = False, ax_taken_in = []\<rparr>" sample_client ?u "[]" sample_cluster]
    by simp
qed

lemmas guarded_programs = delete_guard.any_program

end
