(* ===== verification/Apply.thy ===== *)
theory Apply
  imports Apply_Guards
begin

text \<open>
  internal/apply/apply.go: the staged server-side apply with its retry while the API
  server does not serve a new kind yet, and the ledger that counts what an apply did.
\<close>

section \<open>Counting\<close>

text \<open>The actions of Flux's change set, by what the source names of them.\<close>

datatype ssa_action = CreatedAction | ConfiguredAction | UnchangedAction | OtherAction string

text \<open>A change set, by its entries; None is Go's nil.\<close>

type_synonym change_set = "(object_ref \<times> ssa_action) list option"

record apply_result =
  ar_created :: nat
  ar_updated :: nat
  ar_unchanged :: nat

definition zero_result :: apply_result where
  "zero_result = \<lparr>ar_created = 0, ar_updated = 0, ar_unchanged = 0\<rparr>"

type_synonym action_ledger = "object_ref \<Rightarrow> ssa_action option"

definition ledger_entry :: "object_ref \<times> ssa_action \<Rightarrow> action_ledger \<Rightarrow> action_ledger" where
  "ledger_entry e l =
     (if snd e \<noteq> CreatedAction \<and> snd e \<noteq> ConfiguredAction then l
      else if l (fst e) \<noteq> None then l else l(fst e \<mapsto> snd e))"

definition ledger_record :: "action_ledger \<Rightarrow> change_set \<Rightarrow> action_ledger" where
  "ledger_record l cs = (case cs of None \<Rightarrow> l | Some es \<Rightarrow> fold ledger_entry es l)"

definition count_action :: "ssa_action \<Rightarrow> apply_result \<Rightarrow> apply_result" where
  "count_action a r =
     (case a of
        CreatedAction \<Rightarrow> r\<lparr>ar_created := ar_created r + 1\<rparr>
      | ConfiguredAction \<Rightarrow> r\<lparr>ar_updated := ar_updated r + 1\<rparr>
      | UnchangedAction \<Rightarrow> r\<lparr>ar_unchanged := ar_unchanged r + 1\<rparr>
      | OtherAction _ \<Rightarrow> r)"

definition ledger_result :: "action_ledger \<Rightarrow> change_set \<Rightarrow> apply_result" where
  "ledger_result l cs =
     (case cs of None \<Rightarrow> zero_result
      | Some es \<Rightarrow> fold (\<lambda>e. count_action (case l (fst e) of None \<Rightarrow> snd e | Some a \<Rightarrow> a)) es zero_result)"

lemma fold_ledger_entry:
  "fold ledger_entry es l r =
   (case l r of Some a \<Rightarrow> Some a
    | None \<Rightarrow> map_option snd (find (\<lambda>e. fst e = r \<and> (snd e = CreatedAction \<or> snd e = ConfiguredAction)) es))"
  by (induction es arbitrary: l) (auto simp: ledger_entry_def split: option.splits)

text \<open>An object that any attempt created or configured counts by the first such action, however
  the later attempts see it: the ledger holds exactly the first created or configured action of
  the change sets recorded, in order.\<close>

theorem ledger_first_action:
  "fold (\<lambda>cs l. ledger_record l cs) css Map.empty r =
   map_option snd (find (\<lambda>e. fst e = r \<and> (snd e = CreatedAction \<or> snd e = ConfiguredAction))
     (concat (map (case_option [] id) css)))"
proof -
  have "fold (\<lambda>cs l. ledger_record l cs) css l = fold ledger_entry (concat (map (case_option [] id) css)) l" for l
    by (induction css arbitrary: l) (auto simp: ledger_record_def split: option.split)
  then show ?thesis by (simp add: fold_ledger_entry)
qed


section \<open>Kinds that are not served yet\<close>

definition crd_kinds :: "uobj list \<Rightarrow> (string \<times> string) list" where
  "crd_kinds resources =
     map (\<lambda>u. (u_crd_group u, u_crd_kind u))
       (filter (\<lambda>u. u_group u = ''apiextensions.k8s.io'' \<and> u_kind u = ''CustomResourceDefinition'' \<and>
                    u_crd_group u \<noteq> [] \<and> u_crd_kind u \<noteq> []) resources)"

definition pending_crd_kind :: "'x errlib \<Rightarrow> 'x goerr \<Rightarrow> uobj list \<Rightarrow> bool" where
  "pending_crd_kind E err resources =
     (if \<not> ae_no_match E err then False
      else if crd_kinds resources = [] then False
      else case as_first (el_no_kind_match E) err of
             Some gk \<Rightarrow> gk \<in> set (crd_kinds resources)
           | None \<Rightarrow>
               (case as_first (el_no_resource_match E) err of
                  Some g \<Rightarrow> g \<in> fst ` set (crd_kinds resources)
                | None \<Rightarrow> False))"


section \<open>The discovery retry\<close>

definition discovery_retry_interval :: duration where "discovery_retry_interval = 500000000"
definition discovery_retry_timeout :: duration where "discovery_retry_timeout = 10 * second"

text \<open>
  The clock and the context of a reconcile: time.Now, ctx.Err, and the select between the timer and
  ctx.Done, which says whether the timer fired.
\<close>

record 'w ticker =
  tk_now :: "'w \<Rightarrow> time"
  tk_ctx_err :: "'w \<Rightarrow> sentinel option"
  tk_wait :: "duration \<Rightarrow> 'w \<Rightarrow> bool \<times> 'w"

definition failed_apply :: "'x errlib \<Rightarrow> 'x goerr \<Rightarrow> 'x goerr" where
  "failed_apply E e = Fmt (''failed to apply resources: '' @ err_text E e) [e]"

text \<open>The loop of applyWithDiscoveryRetry with a bound on its attempts; \<open>pending\<close> is the last retryable
  no-match and \<open>deadline\<close> the time no new attempt starts after, both unset before the first.\<close>

fun retry_loop ::
    "'x errlib \<Rightarrow> 'w ticker \<Rightarrow> ('w, 'z, change_set \<times> 'x goerr option) prog \<Rightarrow> uobj list \<Rightarrow> nat \<Rightarrow>
     action_ledger \<Rightarrow> 'x goerr option \<Rightarrow> time option \<Rightarrow> ('w, 'z, 'x goerr + apply_result) prog" where
  "retry_loop E tk attempt resources 0 ledger pending deadline =
     State_Monad.return (Inl (Sentinel LoopNotEnded))"
| "retry_loop E tk attempt resources (Suc attempts) ledger pending deadline =
     do { (cs, err) \<leftarrow> attempt;
          let ledger = ledger_record ledger cs;
          case err of
            None \<Rightarrow> State_Monad.return (Inr (ledger_result ledger cs))
          | Some e \<Rightarrow>
              do { ctx_err \<leftarrow> ask (tk_ctx_err tk);
                   if pending \<noteq> None \<and> ctx_err \<noteq> None \<and>
                      (errors_is E ContextCanceled e \<or> errors_is E ContextDeadlineExceeded e \<or>
                       pending_crd_kind E e resources)
                   then State_Monad.return (Inl (failed_apply E (the pending)))
                   else if \<not> pending_crd_kind E e resources
                   then State_Monad.return (Inl (failed_apply E e))
                   else do { now \<leftarrow> ask (tk_now tk);
                             let limit = (case deadline of None \<Rightarrow> now + discovery_retry_timeout | Some d \<Rightarrow> d);
                             fired \<leftarrow> tick (tk_wait tk discovery_retry_interval);
                             if \<not> fired then State_Monad.return (Inl (failed_apply E e))
                             else do { now \<leftarrow> ask (tk_now tk);
                                       if now > limit then State_Monad.return (Inl (failed_apply E e))
                                       else retry_loop E tk attempt resources attempts ledger (Some e) (Some limit) } } } }"

text \<open>Twenty intervals fit into the window, so there is an attempt before it and at most twenty in it.\<close>

definition retry_attempts :: nat where "retry_attempts = 22"

definition apply_with_discovery_retry ::
    "'x errlib \<Rightarrow> 'w ticker \<Rightarrow> ('w, 'z, change_set \<times> 'x goerr option) prog \<Rightarrow> uobj list \<Rightarrow>
     ('w, 'z, 'x goerr + apply_result) prog" where
  "apply_with_discovery_retry E tk attempt resources =
     retry_loop E tk attempt resources retry_attempts Map.empty None None"


section \<open>Apply\<close>

record apply_options =
  ao_force :: bool
  ao_delete_data :: bool
  ao_taken_in :: "pin list"

text \<open>Flux's resource manager: ApplyAllStaged over a resource set, with Force or without, as a program
  over the client it was built on, and Diff.\<close>

record ('w, 'x) resource_manager =
  rm_staged :: "uobj list \<Rightarrow> bool \<Rightarrow> ('x, change_set \<times> 'x goerr option) client_prog"
  rm_diff :: "uobj \<Rightarrow> 'w \<Rightarrow> ('x goerr + ssa_action) \<times> 'w"

definition apply_resources ::
    "'x errlib \<Rightarrow> 'w ticker \<Rightarrow> ('w, 'x) client \<Rightarrow> ('w, 'x) resource_manager \<Rightarrow> uobj list \<Rightarrow>
     apply_options \<Rightarrow> ('w, 'z, 'x goerr + apply_result) prog" where
  "apply_resources E tk c rm resources0 opts =
     (let resources = (if ao_taken_in opts \<noteq> [] then pin_taken_in resources0 (ao_taken_in opts) else resources0);
          ctx = \<lparr>ax_delete_claims = ao_delete_data opts, ax_taken_in = ao_taken_in opts\<rparr>
      in do { taken \<leftarrow> (if ao_taken_in opts \<noteq> [] \<and> ao_force opts
                          then check_taken_in E c (ao_taken_in opts) resources else State_Monad.return None);
              case taken of
                Some e \<Rightarrow> State_Monad.return (Inl (failed_apply E e))
              | None \<Rightarrow>
                  do { claims \<leftarrow> (if \<not> ao_delete_data opts \<and> ao_force opts
                                   then check_claims E c resources else State_Monad.return None);
                       case claims of
                         Some e \<Rightarrow> State_Monad.return (Inl (failed_apply E e))
                       | None \<Rightarrow>
                           apply_with_discovery_retry E tk
                             (run_guarded E ctx c (rm_staged rm resources (ao_force opts))) resources } })"

lemma emits_retry_loop:
  "emits P attempt \<Longrightarrow> emits P (retry_loop E tk attempt resources n ledger pending deadline)"
  by (induction n arbitrary: ledger pending deadline)
    (auto simp: Let_def intro!: emits_intro split: option.split)

lemma emits_apply_resources:
  "emits (guard_allows \<lparr>ax_delete_claims = ao_delete_data opts, ax_taken_in = ao_taken_in opts\<rparr>)
     (apply_resources E tk c rm resources opts)"
  unfolding apply_resources_def Let_def apply_with_discovery_retry_def
  by (intro emits_intro emits_retry_loop guarded_programs harmless_guard_allows)

text \<open>The deletes an apply may send.\<close>

fun apply_allows :: "apply_options \<Rightarrow> act \<Rightarrow> bool" where
  "apply_allows opts (DeleteAct r os) =
     (r \<notin> pin_object ` set (ao_taken_in opts) \<and>
      (\<not> is_core_claim (or_group r) (or_kind r) \<or> ao_delete_data opts))"
| "apply_allows opts a = True"

lemma guard_apply_allows:
  "guard_allows \<lparr>ax_delete_claims = ao_delete_data opts, ax_taken_in = ao_taken_in opts\<rparr> a \<Longrightarrow>
   apply_allows opts a"
  by (cases a) (auto simp: pin_of_def find_None_iff)

text \<open>C32: whatever Flux's resource manager does within an apply, forced or not, no delete of a
  PersistentVolumeClaim is sent unless the data policy is Delete, and none of an object the apply
  takes in under any policy.\<close>

theorem apply_protects_data: "emits (apply_allows opts) (apply_resources E tk c rm resources opts)"
  by (rule emits_mono [OF emits_apply_resources guard_apply_allows])


section \<open>The retry ends\<close>

text \<open>A timer that fires takes its interval, and no attempt takes the clock back.\<close>

definition timer_laws :: "'w ticker \<Rightarrow> bool" where
  "timer_laws tk = (\<forall>d w. fst (tk_wait tk d w) \<longrightarrow> tk_now tk w + d \<le> tk_now tk (snd (tk_wait tk d w)))"

definition clock_runs :: "'w ticker \<Rightarrow> ('w, 'z, 'a) prog \<Rightarrow> bool" where
  "clock_runs tk m = (\<forall>s. tk_now tk (sys_world s) \<le> tk_now tk (sys_world (snd (run_state m s))))"

lemma retry_loop_ends:
  fixes s :: "('w, 'z) sys_scheme"
  assumes timer: "timer_laws tk" and clock: "clock_runs tk attempt"
  shows "tk_now tk (sys_world s) \<le> d \<Longrightarrow>
    d < tk_now tk (sys_world s) + int n * discovery_retry_interval \<Longrightarrow>
    fst (run_state (retry_loop E tk attempt resources n ledger pending (Some d)) s) \<noteq> Inl (Sentinel LoopNotEnded)"
proof (induction n arbitrary: s ledger pending)
  case (Suc n)
  obtain cs err s1 where run: "run_state attempt s = ((cs, err), s1)" by (metis prod.collapse)
  define s2 where "s2 = s1\<lparr>sys_world := snd (tk_wait tk discovery_retry_interval (sys_world s1))\<rparr>"
  have "tk_now tk (sys_world s) \<le> tk_now tk (sys_world s1)"
    using clock run unfolding clock_runs_def by (metis snd_conv)
  moreover have "tk_now tk (sys_world s1) + discovery_retry_interval \<le> tk_now tk (sys_world s2)"
    if "fst (tk_wait tk discovery_retry_interval (sys_world s1))"
    using timer that by (simp add: timer_laws_def s2_def)
  ultimately have IH: "fst (run_state (retry_loop E tk attempt resources n ledger' pending' (Some d)) s2) \<noteq>
      Inl (Sentinel LoopNotEnded)"
    if "fst (tk_wait tk discovery_retry_interval (sys_world s1))" "tk_now tk (sys_world s2) \<le> d"
    for ledger' pending'
    using that Suc.prems by (intro Suc.IH) (simp_all add: algebra_simps)
  show ?case
    using IH by (simp add: run Let_def s2_def failed_apply_def split: option.split)
qed simp

text \<open>An apply ends: with a clock that runs and timers that take their interval, the retry for a
  kind that is not served yet stops by success, by an error or by its window.\<close>

theorem apply_retry_terminates:
  fixes s :: "('w, 'z) sys_scheme"
  assumes timer: "timer_laws tk" and clock: "clock_runs tk attempt"
  shows "fst (run_state (apply_with_discovery_retry E tk attempt resources) s) \<noteq> Inl (Sentinel LoopNotEnded)"
proof -
  obtain cs err s1 where run: "run_state attempt s = ((cs, err), s1)" by (metis prod.collapse)
  define s2 where "s2 = s1\<lparr>sys_world := snd (tk_wait tk discovery_retry_interval (sys_world s1))\<rparr>"
  define limit where "limit = tk_now tk (sys_world s1) + discovery_retry_timeout"
  obtain n where n: "retry_attempts = Suc n" "int n = 21" by (simp add: retry_attempts_def)
  have IH: "fst (run_state (retry_loop E tk attempt resources n ledger' pending' (Some limit)) s2) \<noteq>
      Inl (Sentinel LoopNotEnded)"
    if "fst (tk_wait tk discovery_retry_interval (sys_world s1))" "tk_now tk (sys_world s2) \<le> limit"
    for ledger' pending'
  proof (rule retry_loop_ends [OF assms that(2)])
    have "tk_now tk (sys_world s1) + discovery_retry_interval \<le> tk_now tk (sys_world s2)"
      using timer that by (simp add: timer_laws_def s2_def)
    then show "limit < tk_now tk (sys_world s2) + int n * discovery_retry_interval"
      by (simp add: n limit_def discovery_retry_interval_def discovery_retry_timeout_def second_def)
  qed
  show ?thesis
    unfolding apply_with_discovery_retry_def n
    using IH by (simp add: run Let_def s2_def limit_def failed_apply_def split: option.split)
qed

definition sample_clock :: "int ticker" where
  "sample_clock = \<lparr>tk_now = id, tk_ctx_err = (\<lambda>w. None), tk_wait = (\<lambda>d w. (True, w + d))\<rparr>"

theorem apply_retry_terminates_witness:
  "fst (run_state (apply_with_discovery_retry sample_errors sample_clock
      (State_Monad.return (None, Some (Ext ''NoMatch'')))
      [(object_of_entry (sample_entry ''CustomResourceDefinition'' ''widgets''))
         \<lparr>u_group := ''apiextensions.k8s.io'', u_crd_group := ''example.com'', u_crd_kind := ''Widget''\<rparr>])
     \<lparr>sys_world = 0, sys_trace = []\<rparr>) \<noteq> Inl (Sentinel LoopNotEnded)"
  by (rule apply_retry_terminates) (simp_all add: timer_laws_def clock_runs_def sample_clock_def)

end
