(* ===== verification/Guard.thy ===== *)
theory Guard
  imports Apply
begin

text \<open>
  internal/apply/guard.go and drift.go: the apply verdict over a rendered set, read
  live object by object, and the drift detection that follows it.
\<close>

section \<open>The apply guard\<close>

text \<open>The library's apply verdict (opm/k8s/ownership): asked with an object, its live state if it
  exists, whether it is in the inventory, and the instance's identity.\<close>

datatype apply_refusal = RefuseNone | RefuseAdoptedElsewhere | RefuseOther string

record apply_verdict =
  av_allowed :: bool
  av_refuse :: apply_refusal
  av_message :: string

type_synonym can_apply = "object_ref \<Rightarrow> uobj option \<Rightarrow> bool \<Rightarrow> string \<Rightarrow> apply_verdict"

record guard_input =
  gi_resources :: "uobj list"
  gi_inventory :: "inventory_entry list"
  gi_identity :: string

record judged =
  ju_object :: uobj
  ju_refuse :: apply_refusal
  ju_message :: string
  ju_in_inventory :: bool

record guard_result =
  gr_allowed :: "uobj list"
  gr_taken_in :: "uobj list"
  gr_pins :: "pin list"
  gr_let_go :: "judged list"
  gr_refused :: "judged list"

definition empty_guard_result :: guard_result where
  "empty_guard_result = \<lparr>gr_allowed = [], gr_taken_in = [], gr_pins = [], gr_let_go = [], gr_refused = []\<rparr>"

definition judged_as :: "uobj \<Rightarrow> apply_verdict \<Rightarrow> bool \<Rightarrow> judged" where
  "judged_as u v in_inventory =
     \<lparr>ju_object = u, ju_refuse = av_refuse v, ju_message = av_message v, ju_in_inventory = in_inventory\<rparr>"

text \<open>Sorting one verdict into the result.\<close>

definition sort_verdict :: "uobj \<Rightarrow> uobj option \<Rightarrow> bool \<Rightarrow> apply_verdict \<Rightarrow> guard_result \<Rightarrow> guard_result" where
  "sort_verdict u live in_inventory v r =
     (if av_allowed v then
        (let r = r\<lparr>gr_allowed := gr_allowed r @ [u]\<rparr> in
         case live of
           Some l \<Rightarrow> if \<not> in_inventory
             then r\<lparr>gr_taken_in := gr_taken_in r @ [u],
                    gr_pins := gr_pins r @ [\<lparr>pin_object = ref_of u, pin_uid = u_uid l\<rparr>]\<rparr>
             else r
         | None \<Rightarrow> r)
      else if av_refuse v = RefuseAdoptedElsewhere
      then r\<lparr>gr_let_go := gr_let_go r @ [judged_as u v in_inventory]\<rparr>
      else r\<lparr>gr_refused := gr_refused r @ [judged_as u v in_inventory]\<rparr>)"

fun guard_loop ::
    "can_apply \<Rightarrow> 'x errlib \<Rightarrow> ('w, 'x) client \<Rightarrow> guard_input \<Rightarrow> uobj list \<Rightarrow> guard_result \<Rightarrow>
     ('w, 'z, 'x goerr + guard_result) prog" where
  "guard_loop CA E c inp [] result = State_Monad.return (Inr result)"
| "guard_loop CA E c inp (u # us) result =
     do { r \<leftarrow> get_object c u;
          let failed = (case r of Inr _ \<Rightarrow> None
                        | Inl e \<Rightarrow> if ae_not_found E e \<or> pending_crd_kind E e (gi_resources inp)
                                   then None else Some e);
          case failed of
            Some e \<Rightarrow> State_Monad.return (Inl (GuardReadErr (ref_of u) e))
          | None \<Rightarrow>
              let live = (case r of Inr l \<Rightarrow> Some l | Inl _ \<Rightarrow> None);
                  in_inventory = ref_of u \<in> entry_ref ` set (gi_inventory inp);
                  v = CA (ref_of u) live in_inventory (gi_identity inp)
              in guard_loop CA E c inp us (sort_verdict u live in_inventory v result) }"

definition apply_guard ::
    "can_apply \<Rightarrow> 'x errlib \<Rightarrow> ('w, 'x) client \<Rightarrow> guard_input \<Rightarrow> ('w, 'z, 'x goerr + guard_result) prog" where
  "apply_guard CA E c inp =
     (if gi_resources inp = [] then State_Monad.return (Inr empty_guard_result)
      else if gi_identity inp = [] then State_Monad.return (Inl (Sentinel ErrNoIdentity))
      else guard_loop CA E c inp (gi_resources inp) empty_guard_result)"

lemma emits_apply_guard [emits_intro]:
  "(\<And>a. is_read a \<Longrightarrow> P a) \<Longrightarrow> emits P (apply_guard CA E c inp)"
proof -
  assume P: "\<And>a. is_read a \<Longrightarrow> P a"
  have loop: "emits P (guard_loop CA E c inp us r)" for us r
    by (induction us arbitrary: r) (auto simp: Let_def intro!: emits_intro P split: option.split)
  show ?thesis unfolding apply_guard_def by (intro emits_intro loop)
qed

text \<open>What a guard result says of the objects judged so far: each is in exactly one list, in order,
  the pins name the taken-in objects one by one, and those are allowed.\<close>

definition sorted_guard :: "uobj list \<Rightarrow> guard_result \<Rightarrow> bool" where
  "sorted_guard us r =
     (mset us = mset (gr_allowed r) + mset (map ju_object (gr_let_go r)) + mset (map ju_object (gr_refused r)) \<and>
      subseq (gr_allowed r) us \<and> subseq (map ju_object (gr_let_go r)) us \<and>
      subseq (map ju_object (gr_refused r)) us \<and>
      subseq (gr_taken_in r) (gr_allowed r) \<and>
      map pin_object (gr_pins r) = map ref_of (gr_taken_in r) \<and>
      list_all (\<lambda>j. ju_refuse j = RefuseAdoptedElsewhere) (gr_let_go r) \<and>
      list_all (\<lambda>j. ju_refuse j \<noteq> RefuseAdoptedElsewhere) (gr_refused r))"

lemma sorted_guard_step:
  "sorted_guard us r \<Longrightarrow> sorted_guard (us @ [u]) (sort_verdict u live ii v r)"
  by (auto simp: sorted_guard_def sort_verdict_def judged_as_def Let_def split: option.split)

lemma guard_loop_sorts:
  "sorted_guard seen result \<Longrightarrow>
   fst (run_state (guard_loop CA E c inp us result) s) = Inr r \<Longrightarrow> sorted_guard (seen @ us) r"
proof (induction us arbitrary: seen result s)
  case (Cons u us)
  obtain a s1 where get: "run_state (get_object c u) s = (a, s1)" by fastforce
  have next_one: "sorted_guard (seen @ u # us) r"
    if "fst (run_state (guard_loop CA E c inp us (sort_verdict u live ii v result)) s1) = Inr r" for live ii v
    using Cons.IH [OF sorted_guard_step [OF Cons.prems(1)] that] by simp
  show ?case
    using Cons.prems(2) by (cases a) (auto simp: get Let_def split: option.splits if_splits dest: next_one)
qed simp

text \<open>A guard that answers sorts every rendered object into exactly one of allowed, let go and
  refused, in render order; the objects taken in are allowed ones and are pinned one by one;
  without an identity it judges nothing, and it only ever reads.\<close>

theorem guard_partitions:
  assumes "fst (run_state (apply_guard CA E c inp) s) = Inr r"
  shows "sorted_guard (gi_resources inp) r \<and> (gi_resources inp = [] \<or> gi_identity inp \<noteq> []) \<and>
    emits is_read (apply_guard CA E c inp)"
proof (cases "gi_resources inp = []")
  case True
  then show ?thesis using assms
    by (auto simp: apply_guard_def sorted_guard_def empty_guard_result_def emits_return)
next
  case False
  then have "gi_identity inp \<noteq> []"
    and loop: "fst (run_state (guard_loop CA E c inp (gi_resources inp) empty_guard_result) s) = Inr r"
    using assms by (auto simp: apply_guard_def split: if_splits)
  moreover have "sorted_guard [] empty_guard_result"
    by (simp add: sorted_guard_def empty_guard_result_def)
  ultimately show ?thesis
    using guard_loop_sorts [of "[]" empty_guard_result] by (simp add: emits_apply_guard)
qed


section \<open>Drift\<close>

text \<open>A drifted resource is named by its group, kind, namespace and name.\<close>

record drift_result =
  dx_drifted :: bool
  dx_resources :: "object_ref list"
  dx_missing :: "uobj list"

definition diff_object ::
    "('w, 'x) resource_manager \<Rightarrow> uobj \<Rightarrow> ('w, 'z, 'x goerr + ssa_action) prog" where
  "diff_object rm u = request (DiffAct (ref_of u)) (rm_diff rm u)"

fun drift_loop ::
    "'x errlib \<Rightarrow> ('w, 'x) resource_manager \<Rightarrow> uobj list \<Rightarrow> object_ref list \<Rightarrow> uobj list \<Rightarrow>
     ('w, 'z, 'x goerr + drift_result) prog" where
  "drift_loop E rm [] drifted missing =
     State_Monad.return (Inr \<lparr>dx_drifted = drifted \<noteq> [], dx_resources = drifted, dx_missing = missing\<rparr>)"
| "drift_loop E rm (u # us) drifted missing =
     do { r \<leftarrow> diff_object rm u;
          case r of
            Inl e \<Rightarrow> State_Monad.return (Inl
              (Fmt (''dry-run diff for '' @ u_namespace u @ ''/'' @ u_name u @ '' '' @ u_kind u @ '': '' @
                    err_text E e) [e]))
          | Inr a \<Rightarrow>
              if a = CreatedAction then drift_loop E rm us drifted (missing @ [u])
              else if a = ConfiguredAction then drift_loop E rm us (drifted @ [ref_of u]) missing
              else drift_loop E rm us drifted missing }"

definition detect_drift_in ::
    "'x errlib \<Rightarrow> ('w, 'x) resource_manager \<Rightarrow> uobj list \<Rightarrow> ('w, 'z, 'x goerr + drift_result) prog" where
  "detect_drift_in E rm resources = drift_loop E rm resources [] []"

definition expires_after_finish :: "uobj \<Rightarrow> bool" where
  "expires_after_finish u = (u_group u = ''batch'' \<and> u_kind u = ''Job'' \<and> u_ttl u)"

definition restorable :: "uobj list \<Rightarrow> uobj list" where
  "restorable missing = filter (\<lambda>u. \<not> expires_after_finish u) missing"

definition expired :: "uobj list \<Rightarrow> uobj list" where
  "expired missing = filter expires_after_finish missing"

lemma restorable_expired: "mset missing = mset (restorable missing) + mset (expired missing)"
  by (simp add: restorable_def expired_def multiset_partition [symmetric] union_commute)

lemma emits_detect_drift [emits_intro]:
  "(\<And>a. harmless a \<Longrightarrow> P a) \<Longrightarrow> emits P (detect_drift_in E rm resources)"
proof -
  assume P: "\<And>a. harmless a \<Longrightarrow> P a"
  have "emits P (drift_loop E rm us d m)" for us d m
    by (induction us arbitrary: d m) (auto simp: diff_object_def intro!: emits_intro P split: sum.split)
  then show ?thesis by (simp add: detect_drift_in_def)
qed

theorem guard_partitions_witness:
  "\<exists>r. fst (run_state (apply_guard (\<lambda>r live ii i. \<lparr>av_allowed = True, av_refuse = RefuseNone, av_message = []\<rparr>)
       sample_errors sample_client
       \<lparr>gi_resources = [object_of_entry (sample_entry ''ConfigMap'' ''a'')], gi_inventory = [], gi_identity = ''id''\<rparr>)
       sample_cluster) = Inr r \<and> sorted_guard [object_of_entry (sample_entry ''ConfigMap'' ''a'')] r"
proof -
  let ?CA = "\<lambda>r live ii i. \<lparr>av_allowed = True, av_refuse = RefuseNone, av_message = []\<rparr>"
  let ?inp = "\<lparr>gi_resources = [object_of_entry (sample_entry ''ConfigMap'' ''a'')], gi_inventory = [], gi_identity = ''id''\<rparr>"
  obtain r where r: "fst (run_state (apply_guard ?CA sample_errors sample_client ?inp) sample_cluster) = Inr r"
    by (cases "fst (run_state (apply_guard ?CA sample_errors sample_client ?inp) sample_cluster)")
      (auto simp: apply_guard_def get_object_def sample_client_def sample_get_def sample_errors_def Let_def split: option.splits)
  have "sorted_guard (gi_resources ?inp) r" using guard_partitions [OF r] by blast
  with r show ?thesis by auto
qed

end
