(* ===== verification/Conditions.thy ===== *)
theory Conditions
  imports Effects
begin

text \<open>
  internal/status/conditions.go and the marks of deletion.go: which conditions each
  outcome of a reconcile sets and removes. The condition list is edited by the Flux
  package fluxcd/pkg/runtime/conditions and read by the Kubernetes package
  apimachinery/pkg/api/meta: a record of parameters.
\<close>

section \<open>Condition types and reasons\<close>

definition ready_condition :: string where "ready_condition = ''Ready''"
definition reconciling_condition :: string where "reconciling_condition = ''Reconciling''"
definition stalled_condition :: string where "stalled_condition = ''Stalled''"
definition module_resolved_condition :: string where "module_resolved_condition = ''ModuleResolved''"
definition drifted_condition :: string where "drifted_condition = ''Drifted''"
definition healthy_condition :: string where "healthy_condition = ''Healthy''"

lemmas condition_types = ready_condition_def reconciling_condition_def stalled_condition_def
  module_resolved_condition_def drifted_condition_def healthy_condition_def

definition reconciliation_succeeded_reason :: string where
  "reconciliation_succeeded_reason = ''ReconciliationSucceeded''"
definition deletion_in_progress_reason :: string where
  "deletion_in_progress_reason = ''DeletionInProgress''"
definition deletion_blocked_reason :: string where
  "deletion_blocked_reason = ''DeletionBlocked''"

text \<open>
  The library's edits, each at a time: \<open>k_set\<close> is MarkTrue, MarkFalse and MarkUnknown,
  \<open>k_reconciling\<close> and \<open>k_stalled\<close> are MarkReconciling and MarkStalled, \<open>k_delete\<close> is
  Delete and \<open>k_find\<close> is FindStatusCondition.
\<close>

record condlib =
  k_find :: "string \<Rightarrow> cond list \<Rightarrow> cond option"
  k_set :: "cond_status \<Rightarrow> string \<Rightarrow> string \<Rightarrow> string \<Rightarrow> time \<Rightarrow> cond list \<Rightarrow> cond list"
  k_delete :: "string \<Rightarrow> cond list \<Rightarrow> cond list"
  k_reconciling :: "string \<Rightarrow> string \<Rightarrow> time \<Rightarrow> cond list \<Rightarrow> cond list"
  k_stalled :: "string \<Rightarrow> string \<Rightarrow> time \<Rightarrow> cond list \<Rightarrow> cond list"

type_synonym mark = "time \<Rightarrow> cond list \<Rightarrow> cond list"


section \<open>conditions.go\<close>

definition mark_reconciling :: "condlib \<Rightarrow> string \<Rightarrow> string \<Rightarrow> mark" where
  "mark_reconciling K reason msg now cs =
     k_set K CUnknown ready_condition reason msg now (k_reconciling K reason msg now cs)"

definition mark_stalled :: "condlib \<Rightarrow> string \<Rightarrow> string \<Rightarrow> mark" where
  "mark_stalled K reason msg now cs =
     k_set K CFalse ready_condition reason msg now (k_stalled K reason msg now cs)"

definition mark_ready_with_reason :: "condlib \<Rightarrow> string \<Rightarrow> string \<Rightarrow> mark" where
  "mark_ready_with_reason K reason msg now cs =
     k_set K CTrue ready_condition reason msg now
       (k_delete K stalled_condition (k_delete K reconciling_condition cs))"

definition mark_ready :: "condlib \<Rightarrow> string \<Rightarrow> mark" where
  "mark_ready K msg = mark_ready_with_reason K reconciliation_succeeded_reason msg"

definition mark_suspended :: "condlib \<Rightarrow> mark" where
  "mark_suspended K now cs =
     k_set K CFalse ready_condition ''Suspended'' ''Reconciliation is suspended'' now
       (k_delete K stalled_condition (k_delete K reconciling_condition cs))"

definition mark_managed_externally :: "condlib \<Rightarrow> mark" where
  "mark_managed_externally K now cs =
     k_set K CUnknown ready_condition ''ManagedExternally''
       ''ModuleInstance is managed externally by the CLI'' now
       (k_delete K healthy_condition (k_delete K stalled_condition (k_delete K reconciling_condition cs)))"

definition mark_self_management_refused :: "condlib \<Rightarrow> string \<Rightarrow> mark" where
  "mark_self_management_refused K msg now cs =
     mark_stalled K ''SelfManagementRefused'' msg now
       (k_delete K healthy_condition (k_delete K drifted_condition (k_delete K module_resolved_condition cs)))"

definition mark_healthy :: "condlib \<Rightarrow> cond_status \<Rightarrow> string \<Rightarrow> string \<Rightarrow> mark" where
  "mark_healthy K st reason msg now cs = k_set K st healthy_condition reason msg now cs"

definition mark_not_ready :: "condlib \<Rightarrow> string \<Rightarrow> string \<Rightarrow> mark" where
  "mark_not_ready K reason msg now cs = k_set K CFalse ready_condition reason msg now cs"

definition mark_reconcile_panic :: "condlib \<Rightarrow> string \<Rightarrow> mark" where
  "mark_reconcile_panic K msg now cs =
     k_set K CFalse ready_condition ''ReconcilePanic'' msg now (k_reconciling K ''ReconcilePanic'' msg now cs)"

definition mark_render_timed_out :: "condlib \<Rightarrow> string \<Rightarrow> mark" where
  "mark_render_timed_out K msg now cs =
     k_set K CFalse ready_condition ''RenderTimedOut'' msg now (k_reconciling K ''RenderTimedOut'' msg now cs)"

definition mark_drifted :: "condlib \<Rightarrow> nat \<Rightarrow> mark" where
  "mark_drifted K count now cs =
     k_set K CTrue drifted_condition ''DriftDetected''
       (itoa count @ '' resource(s) drifted from desired state'') now cs"

definition mark_drift_unknown :: "condlib \<Rightarrow> string \<Rightarrow> string \<Rightarrow> mark" where
  "mark_drift_unknown K reason msg now cs = k_set K CUnknown drifted_condition reason msg now cs"

definition clear_drifted :: "condlib \<Rightarrow> mark" where
  "clear_drifted K now cs = k_delete K drifted_condition cs"

definition mark_module_resolved :: "condlib \<Rightarrow> string \<Rightarrow> mark" where
  "mark_module_resolved K module_ref now cs =
     k_set K CTrue module_resolved_condition ''ModuleResolved'' (''module resolved: '' @ module_ref) now cs"

text \<open>deletion.go: both marks do nothing on an object that is not being deleted.\<close>

definition mark_deletion_in_progress :: "condlib \<Rightarrow> bool \<Rightarrow> string \<Rightarrow> mark" where
  "mark_deletion_in_progress K deleting msg now cs =
     (if \<not> deleting then cs
      else k_set K CFalse ready_condition deletion_in_progress_reason msg now
             (k_reconciling K deletion_in_progress_reason msg now cs))"

definition mark_deletion_blocked :: "condlib \<Rightarrow> bool \<Rightarrow> string \<Rightarrow> mark" where
  "mark_deletion_blocked K deleting msg now cs =
     (if \<not> deleting then cs else mark_stalled K deletion_blocked_reason msg now cs)"

lemmas mark_defs = mark_reconciling_def mark_stalled_def mark_ready_with_reason_def mark_ready_def
  mark_suspended_def mark_managed_externally_def mark_self_management_refused_def mark_healthy_def
  mark_not_ready_def mark_reconcile_panic_def mark_render_timed_out_def mark_drifted_def
  mark_drift_unknown_def clear_drifted_def mark_module_resolved_def mark_deletion_in_progress_def
  mark_deletion_blocked_def


section \<open>What the library's edits do\<close>

text \<open>
  Documented behaviour: a set condition is found with the status, reason and message it was set
  with and no other condition changes; a deleted one is not found; MarkReconciling sets
  Reconciling to True and removes Stalled, and MarkStalled the other way round.
\<close>

definition cond_view :: "condlib \<Rightarrow> string \<Rightarrow> cond list \<Rightarrow> (cond_status \<times> string \<times> string) option" where
  "cond_view K t cs = map_option (\<lambda>c. (c_status c, c_reason c, c_message c)) (k_find K t cs)"

definition cond_laws :: "condlib \<Rightarrow> bool" where
  "cond_laws K =
     ((\<forall>st t reason msg now cs t'. cond_view K t' (k_set K st t reason msg now cs) =
         (if t' = t then Some (st, reason, msg) else cond_view K t' cs)) \<and>
      (\<forall>t cs t'. cond_view K t' (k_delete K t cs) = (if t' = t then None else cond_view K t' cs)) \<and>
      (\<forall>reason msg now cs t'. cond_view K t' (k_reconciling K reason msg now cs) =
         (if t' = reconciling_condition then Some (CTrue, reason, msg)
          else if t' = stalled_condition then None else cond_view K t' cs)) \<and>
      (\<forall>reason msg now cs t'. cond_view K t' (k_stalled K reason msg now cs) =
         (if t' = stalled_condition then Some (CTrue, reason, msg)
          else if t' = reconciling_condition then None else cond_view K t' cs)))"

lemma cond_view_edits:
  assumes "cond_laws K"
  shows "cond_view K t' (k_set K st t reason msg now cs) =
           (if t' = t then Some (st, reason, msg) else cond_view K t' cs)"
    and "cond_view K t' (k_delete K t cs) = (if t' = t then None else cond_view K t' cs)"
    and "cond_view K t' (k_reconciling K reason msg now cs) =
           (if t' = reconciling_condition then Some (CTrue, reason, msg)
            else if t' = stalled_condition then None else cond_view K t' cs)"
    and "cond_view K t' (k_stalled K reason msg now cs) =
           (if t' = stalled_condition then Some (CTrue, reason, msg)
            else if t' = reconciling_condition then None else cond_view K t' cs)"
  using assms unfolding cond_laws_def by blast+

text \<open>The conditions kstatus reads: Ready, Reconciling and Stalled.\<close>

definition progress_view ::
    "condlib \<Rightarrow> cond list \<Rightarrow> (cond_status \<times> string \<times> string) option \<times> bool \<times> bool" where
  "progress_view K cs =
     (cond_view K ready_condition cs, cond_view K reconciling_condition cs \<noteq> None,
      cond_view K stalled_condition cs \<noteq> None)"

text \<open>Every mark that moves Ready leaves the three conditions a client waits on consistent: a
  stalled object is Ready=False with the reason and not Reconciling, a ready one is neither
  Reconciling nor Stalled, a retried one is Reconciling and not Stalled, and the marks of drift and
  health move none of the three.\<close>

theorem marks_are_consistent:
  assumes "cond_laws K"
  shows "progress_view K (mark_stalled K reason msg now cs) = (Some (CFalse, reason, msg), False, True) \<and>
    progress_view K (mark_reconciling K reason msg now cs) = (Some (CUnknown, reason, msg), True, False) \<and>
    progress_view K (mark_ready K msg now cs) = (Some (CTrue, reconciliation_succeeded_reason, msg), False, False) \<and>
    progress_view K (mark_render_timed_out K msg now cs) = (Some (CFalse, ''RenderTimedOut'', msg), True, False) \<and>
    progress_view K (mark_deletion_in_progress K True msg now cs) =
      (Some (CFalse, deletion_in_progress_reason, msg), True, False) \<and>
    progress_view K (mark_deletion_blocked K True msg now cs) =
      (Some (CFalse, deletion_blocked_reason, msg), False, True) \<and>
    progress_view K (mark_healthy K st reason msg now cs) = progress_view K cs \<and>
    progress_view K (mark_drifted K n now cs) = progress_view K cs \<and>
    progress_view K (mark_drift_unknown K reason msg now cs) = progress_view K cs"
  by (simp add: progress_view_def mark_defs cond_view_edits [OF assms] condition_types)

text \<open>An association list that behaves as documented.\<close>

definition std_set :: "cond_status \<Rightarrow> string \<Rightarrow> string \<Rightarrow> string \<Rightarrow> time \<Rightarrow> cond list \<Rightarrow> cond list" where
  "std_set st t reason msg now cs =
     \<lparr>c_type = t, c_status = st, c_reason = reason, c_message = msg, c_since = now\<rparr> #
     filter (\<lambda>c. c_type c \<noteq> t) cs"

definition std_conds :: condlib where
  "std_conds =
     \<lparr>k_find = (\<lambda>t. find (\<lambda>c. c_type c = t)), k_set = std_set,
      k_delete = (\<lambda>t. filter (\<lambda>c. c_type c \<noteq> t)),
      k_reconciling = (\<lambda>reason msg now cs.
        std_set CTrue reconciling_condition reason msg now (filter (\<lambda>c. c_type c \<noteq> stalled_condition) cs)),
      k_stalled = (\<lambda>reason msg now cs.
        std_set CTrue stalled_condition reason msg now (filter (\<lambda>c. c_type c \<noteq> reconciling_condition) cs))\<rparr>"

lemma find_filter_other:
  "find (\<lambda>c. c_type c = t') (filter (\<lambda>c. c_type c \<noteq> t) cs) =
   (if t' = t then None else find (\<lambda>c. c_type c = t') cs)"
  by (induction cs) auto

lemma std_cond_laws: "cond_laws std_conds"
  by (auto simp: cond_laws_def cond_view_def std_conds_def std_set_def find_filter_other condition_types
      simp del: filter_filter)

theorem marks_are_consistent_witness:
  "progress_view std_conds (mark_stalled std_conds ''RenderFailed'' ''boom'' 7
      (mark_reconciling std_conds ''Progressing'' ''working'' 5 [])) = (Some (CFalse, ''RenderFailed'', ''boom''), False, True)"
  using marks_are_consistent [OF std_cond_laws] by blast

end
