(* ===== verification/Owned.thy ===== *)
theory Owned
  imports Guard Prune Conditions
begin

text \<open>
  What the reconcilers of both owning kinds share: the object they write, its events and
  conditions, the identity they act as, the ownership reports of
  internal/reconcile/ownership.go, and internal/reconcile/owninstance.go.
\<close>

section \<open>The object under reconciliation\<close>

text \<open>conditions.Setter and metav1.Object, by what the shared code calls of them.\<close>

record 'o object_view =
  ov_conditions :: "'o \<Rightarrow> cond list"
  ov_set_conditions :: "cond list \<Rightarrow> 'o \<Rightarrow> 'o"
  ov_annotations :: "'o \<Rightarrow> (string \<times> string) list"
  ov_deletion_timestamp :: "'o \<Rightarrow> time option"
  ov_namespace :: "'o \<Rightarrow> string"

text \<open>The state of a reconcile: the Go object it works on is part of it.\<close>

record ('w, 'o) osys = "'w sys" +
  os_obj :: 'o

type_synonym ('w, 'o, 'z, 'a) oprog = "('w, ('o, 'z) osys_ext, 'a) prog"

definition the_object :: "('w, 'o, 'z, 'o) oprog" where
  "the_object = State (\<lambda>s. (os_obj s, s))"

definition change_object :: "('o \<Rightarrow> 'o) \<Rightarrow> ('w, 'o, 'z, unit) oprog" where
  "change_object f = State (\<lambda>s. ((), s\<lparr>os_obj := f (os_obj s)\<rparr>))"

lemma run_the_object [simp]: "run_state the_object s = (os_obj s, s)"
  by (simp add: the_object_def)

lemma run_change_object [simp]: "run_state (change_object f) s = ((), s\<lparr>os_obj := f (os_obj s)\<rparr>)"
  by (simp add: change_object_def)

lemma same_object: "sys.more s = sys.more s' \<Longrightarrow> os_obj s = os_obj s'"
  by (cases s; cases s') simp

lemma emits_the_object [emits_intro]: "emits P the_object"
  by (rule emitsI) simp

lemma emits_change_object [emits_intro]: "emits P (change_object f)"
  by (rule emitsI) simp

text \<open>A mark of internal/status on the object; the Flux package stamps the time itself.\<close>

definition mark_object :: "'w ticker \<Rightarrow> 'o object_view \<Rightarrow> mark \<Rightarrow> ('w, 'o, 'z, unit) oprog" where
  "mark_object tk V m =
     do { now \<leftarrow> ask (tk_now tk);
          change_object (\<lambda>o'. ov_set_conditions V (m now (ov_conditions V o')) o') }"

text \<open>recorder.Eventf: type, reason, action and note; it answers nothing.\<close>

definition emit_event :: "string \<Rightarrow> string \<Rightarrow> string \<Rightarrow> string \<Rightarrow> ('w, 'z, unit) prog" where
  "emit_event kind reason action txt = request (EventAct kind reason action txt) (\<lambda>w. ((), w))"

lemma emits_mark_object [emits_intro]: "emits P (mark_object tk V m)"
  unfolding mark_object_def by (intro emits_intro)

lemma keeps_emit_event [keeps_intro]: "keeps sys.more (emit_event k r a t)"
  by (simp add: emit_event_def keeps_request)

lemma emits_emit_event [emits_intro]: "P (EventAct k r a t) \<Longrightarrow> emits P (emit_event k r a t)"
  by (simp add: emit_event_def emits_request)

definition ready_already_stalled_with :: "condlib \<Rightarrow> cond list \<Rightarrow> string \<Rightarrow> bool" where
  "ready_already_stalled_with K conds reason =
     (case k_find K ready_condition conds of
        None \<Rightarrow> False
      | Some ready \<Rightarrow> c_status ready = CFalse \<and> c_reason ready = reason)"


text \<open>What a program answers, whatever it does before.\<close>

named_theorems yields_intro "what a program answers, one rule per construct"

lemma yields_return [yields_intro]: "R x \<Longrightarrow> yields R (State_Monad.return x)"
  by (simp add: yields_def State_Monad.return_def)

lemma yields_bind [yields_intro]: "(\<And>x. yields R (f x)) \<Longrightarrow> yields R (m \<bind> f)"
  by (simp add: yields_def split_beta)

lemma yields_if [yields_intro]:
  "(b \<Longrightarrow> yields R m) \<Longrightarrow> (\<not> b \<Longrightarrow> yields R n) \<Longrightarrow> yields R (if b then m else n)"
  by simp

lemma yields_option [yields_intro]:
  "(x = None \<Longrightarrow> yields R m) \<Longrightarrow> (\<And>y. x = Some y \<Longrightarrow> yields R (f y)) \<Longrightarrow>
   yields R (case x of None \<Rightarrow> m | Some y \<Rightarrow> f y)"
  by (cases x) simp_all

lemma yields_via: "yields R m \<Longrightarrow> (\<And>x. R x \<Longrightarrow> yields S (f x)) \<Longrightarrow> yields S (m \<bind> f)"
  by (simp add: yields_def split_beta)

lemma yields_sum:
  "(\<And>a. x = Inl a \<Longrightarrow> yields R (f a)) \<Longrightarrow> (\<And>b. x = Inr b \<Longrightarrow> yields R (g b)) \<Longrightarrow>
   yields R (case x of Inl a \<Rightarrow> f a | Inr b \<Rightarrow> g b)"
  by (cases x) simp_all

lemma yields_prod: "(\<And>a b. x = (a, b) \<Longrightarrow> yields R (f a b)) \<Longrightarrow> yields R (case x of (a, b) \<Rightarrow> f a b)"
  by (cases x) simp


section \<open>The identity that acts\<close>

definition resolve_effective_sa :: "string \<Rightarrow> string \<Rightarrow> string \<times> string" where
  "resolve_effective_sa spec_sa default_sa =
     (if spec_sa \<noteq> [] then (spec_sa, ''spec'')
      else if default_sa \<noteq> [] then (default_sa, ''default'')
      else ([], []))"

definition effective_service_account :: "string \<Rightarrow> string \<Rightarrow> string" where
  "effective_service_account spec_sa default_sa = fst (resolve_effective_sa spec_sa default_sa)"

text \<open>The uncached read of a ServiceAccount, by namespace and name, and controller-runtime's
  client.New for an impersonated user name.\<close>

record ('w, 'x) impersonator =
  im_account :: "string \<Rightarrow> string \<Rightarrow> 'w \<Rightarrow> 'x goerr option \<times> 'w"
  im_client :: "string \<Rightarrow> 'x goerr + ('w, 'x) client"

definition impersonated_user :: "string \<Rightarrow> string \<Rightarrow> string" where
  "impersonated_user namespace sa = ''system:serviceaccount:'' @ namespace @ '':'' @ sa"

definition new_impersonated_client ::
    "'x errlib \<Rightarrow> ('w, 'x) impersonator \<Rightarrow> string \<Rightarrow> string \<Rightarrow>
     ('w, 'z, 'x goerr + ('w, 'x) client) prog" where
  "new_impersonated_client E im namespace sa =
     do { r \<leftarrow> request (ImpersonateAct namespace sa) (im_account im namespace sa);
          State_Monad.return
            (case r of
               Some e \<Rightarrow>
                 if ae_not_found E e
                 then Inl (Fmt (''serviceAccount '' @ namespace @ ''/'' @ sa @ '' not found: '' @ err_text E e) [e])
                 else Inl (Fmt (''checking serviceAccount '' @ namespace @ ''/'' @ sa @ '': '' @ err_text E e) [e])
             | None \<Rightarrow>
                 (case im_client im (impersonated_user namespace sa) of
                    Inl e \<Rightarrow> Inl (Fmt (''building impersonated client for '' @ namespace @ ''/'' @ sa @ '': '' @
                                       err_text E e) [e])
                  | Inr c \<Rightarrow> Inr c)) }"

lemma emits_new_impersonated_client [emits_intro]:
  "P (ImpersonateAct namespace sa) \<Longrightarrow> emits P (new_impersonated_client E im namespace sa)"
  unfolding new_impersonated_client_def by (intro emits_intro)

lemma keeps_new_impersonated_client [keeps_intro]: "keeps sys.more (new_impersonated_client E im namespace sa)"
  unfolding new_impersonated_client_def by (intro keeps_intro)

definition is_forbidden :: "'x errlib \<Rightarrow> 'x goerr \<Rightarrow> bool" where
  "is_forbidden E err = (case as_status E err of Some (x, st) \<Rightarrow> ae_forbidden E (Ext x) | None \<Rightarrow> False)"


section \<open>ownership.go\<close>

definition ready_succeeded :: string where "ready_succeeded = ''Reconciliation succeeded''"

record 'x guarded_apply =
  ga_err :: "'x goerr option"
  ga_allowed :: "uobj list"
  ga_taken_in :: "uobj list"
  ga_pins :: "pin list"
  ga_let_go :: "judged list"
  ga_refused :: "judged list"
  ga_adopted :: nat

definition guard_apply ::
    "can_apply \<Rightarrow> 'x errlib \<Rightarrow> 'x goerr option \<Rightarrow> ('w, 'x) client \<Rightarrow> uobj list \<Rightarrow> inventory_entry list \<Rightarrow>
     string \<Rightarrow> nat \<Rightarrow> ('w, 'z, 'x guarded_apply) prog" where
  "guard_apply CA E identity_err reader apply_list invent identity adopted_at_start =
     (let unjudged = \<lparr>ga_err = None, ga_allowed = apply_list, ga_taken_in = [], ga_pins = [],
                      ga_let_go = [], ga_refused = [], ga_adopted = adopted_at_start\<rparr>
      in if identity_err \<noteq> None then State_Monad.return unjudged
         else do { r \<leftarrow> apply_guard CA E reader
                     \<lparr>gi_resources = apply_list, gi_inventory = invent, gi_identity = identity\<rparr>;
                   State_Monad.return
                     (case r of
                        Inl e \<Rightarrow> unjudged\<lparr>ga_err := Some e\<rparr>
                      | Inr g \<Rightarrow> \<lparr>ga_err = None, ga_allowed = gr_allowed g, ga_taken_in = gr_taken_in g,
                                  ga_pins = gr_pins g, ga_let_go = gr_let_go g, ga_refused = gr_refused g,
                                  ga_adopted = length (gr_let_go g)\<rparr>) })"

definition fails_apply :: "'x errlib \<Rightarrow> 'x guarded_apply \<Rightarrow> bool \<Rightarrow> bool" where
  "fails_apply E g digests_unchanged =
     (case ga_err g of None \<Rightarrow> False
      | Some e \<Rightarrow> \<not> digests_unchanged \<or> errors_is E ErrNoIdentity e)"

definition changes_inventory :: "'x guarded_apply \<Rightarrow> bool" where
  "changes_inventory g = (0 < length (ga_taken_in g) \<or> list_ex ju_in_inventory (ga_let_go g))"

definition refused_to_write :: "judged list \<Rightarrow> bool \<Rightarrow> judged list" where
  "refused_to_write refused keeps_inventoried =
     (if \<not> keeps_inventoried then refused else filter (\<lambda>j. \<not> ju_in_inventory j) refused)"

definition judged_messages :: "judged list \<Rightarrow> string list" where
  "judged_messages js = map ju_message js"

definition judged_objects :: "judged list \<Rightarrow> uobj list" where
  "judged_objects js = map ju_object js"

definition without_objects :: "uobj list \<Rightarrow> uobj list \<Rightarrow> uobj list" where
  "without_objects objs drop0 =
     (if drop0 = [] then objs else filter (\<lambda>u. u_ptr u \<notin> u_ptr ` set drop0) objs)"

definition refuse_apply ::
    "condlib \<Rightarrow> 'w ticker \<Rightarrow> 'o object_view \<Rightarrow> judged list \<Rightarrow> ('w, 'o, 'z, string) oprog" where
  "refuse_apply K tk V refusing =
     (let msg = apply_refused_note (judged_messages refusing)
      in do { emit_event ''Warning'' ''ApplyRefused'' ''Apply'' msg;
              mark_object tk V (mark_not_ready K ''ApplyRefused'' msg);
              State_Monad.return msg })"

definition adopted_before :: "condlib \<Rightarrow> cond list \<Rightarrow> nat" where
  "adopted_before K conds =
     (case k_find K ready_condition conds of
        None \<Rightarrow> 0
      | Some ready \<Rightarrow> if c_status ready \<noteq> CTrue then 0 else adopted_elsewhere_count (c_message ready))"

definition report_adopted_elsewhere :: "judged list \<Rightarrow> nat \<Rightarrow> ('w, 'z, unit) prog" where
  "report_adopted_elsewhere let_go before =
     (if length let_go = 0 \<or> length let_go = before then State_Monad.return ()
      else emit_event ''Warning'' ''AdoptedElsewhere'' ''Apply'' (adopted_elsewhere_note (judged_messages let_go)))"

definition report_kept_claims :: "string \<Rightarrow> inventory_entry list \<Rightarrow> ('w, 'z, unit) prog" where
  "report_kept_claims action kept =
     (if kept = [] then State_Monad.return ()
      else emit_event ''Normal'' ''ClaimsKept'' action (claims_kept_note kept))"

definition report_left_behind :: "string \<Rightarrow> left_behind list \<Rightarrow> ('w, 'z, unit) prog" where
  "report_left_behind action left =
     (if left = [] then State_Monad.return ()
      else let objects = map (\<lambda>l. \<lparr>lo_reason = lb_reason l, lo_message = lb_message l\<rparr>) left
           in emit_event (left_behind_event_type objects) ''LeftBehind'' action (left_behind_note objects))"

lemma emits_guard_apply [emits_intro]:
  "(\<And>a. is_read a \<Longrightarrow> P a) \<Longrightarrow> emits P (guard_apply CA E ie reader al invent i n)"
  unfolding guard_apply_def Let_def by (intro emits_intro)

lemma keeps_reports [keeps_intro]:
  "keeps sys.more (report_adopted_elsewhere lg b)"
  "keeps sys.more (report_kept_claims ac kept)"
  "keeps sys.more (report_left_behind ac left)"
  unfolding report_adopted_elsewhere_def report_kept_claims_def report_left_behind_def Let_def
  by (intro keeps_intro)+

lemma emits_reports [emits_intro]:
  "(\<And>k r a t. P (EventAct k r a t)) \<Longrightarrow> emits P (report_adopted_elsewhere lg b)"
  "(\<And>k r a t. P (EventAct k r a t)) \<Longrightarrow> emits P (report_kept_claims ac kept)"
  "(\<And>k r a t. P (EventAct k r a t)) \<Longrightarrow> emits P (report_left_behind ac left)"
  "(\<And>k r a t. P (EventAct k r a t)) \<Longrightarrow> emits P (refuse_apply K tk V js)"
  unfolding report_adopted_elsewhere_def report_kept_claims_def report_left_behind_def refuse_apply_def Let_def
  by (intro emits_intro; simp)+


section \<open>owninstance.go\<close>

definition own_instance_name :: string where "own_instance_name = ''opm-controller''"
definition own_instance_namespace :: string where "own_instance_namespace = ''opm-system''"
definition own_instance_module_path :: string where
  "own_instance_module_path = ''opmodel.dev/modules/opm_controller''"
definition own_api_group :: string where "own_api_group = ''opmodel.dev''"

text \<open>strings.Cut with a separator of one byte: before, after and found.\<close>

definition cut_at :: "char \<Rightarrow> string \<Rightarrow> string \<times> string \<times> bool" where
  "cut_at sep s =
     (case dropWhile (\<lambda>c. c \<noteq> sep) s of
        [] \<Rightarrow> (s, [], False)
      | _ # rest \<Rightarrow> (takeWhile (\<lambda>c. c \<noteq> sep) s, rest, True))"

definition is_own_crd :: "inventory_entry \<Rightarrow> bool" where
  "is_own_crd e =
     (if ie_group e \<noteq> ''apiextensions.k8s.io'' \<or> ie_kind e \<noteq> ''CustomResourceDefinition'' then False
      else case cut_at (CHR ''.'') (ie_name e) of (_, grp, ok) \<Rightarrow> ok \<and> grp = own_api_group)"

definition is_own_instance :: "module_instance \<Rightarrow> string option" where
  "is_own_instance mi =
     (if mi_name mi = own_instance_name \<and> mi_namespace mi = own_instance_namespace
      then Some (''name '' @ own_instance_name @ '' in namespace '' @ own_instance_namespace)
      else if fst (cut_at (CHR ''@'') (mod_path (sp_module (mi_spec mi)))) = own_instance_module_path
      then Some (''module '' @ own_instance_module_path)
      else case is_inventory (mi_status mi) of
             None \<Rightarrow> None
           | Some i \<Rightarrow> map_option (\<lambda>e. ''inventory records CustomResourceDefinition '' @ ie_name e)
                         (find is_own_crd (inv_entries i)))"

lemma cut_at_found:
  "cut_at sep s = (a, b, True) \<longleftrightarrow> s = a @ sep # b \<and> sep \<notin> set a"
proof
  assume "cut_at sep s = (a, b, True)"
  then obtain c where d: "dropWhile (\<lambda>c. c \<noteq> sep) s = c # b" and a: "a = takeWhile (\<lambda>c. c \<noteq> sep) s"
    by (auto simp: cut_at_def split: list.splits)
  have "c = sep" using hd_dropWhile [of "\<lambda>c. c \<noteq> sep" s] d by simp
  then show "s = a @ sep # b \<and> sep \<notin> set a"
    using takeWhile_dropWhile_id [of "\<lambda>c. c \<noteq> sep" s] d a by (auto dest: set_takeWhileD)
next
  assume s: "s = a @ sep # b \<and> sep \<notin> set a"
  then have "\<And>c. c \<in> set a \<Longrightarrow> c \<noteq> sep" by auto
  with s show "cut_at sep s = (a, b, True)" by (simp add: cut_at_def)
qed

lemma is_own_crd_iff:
  "is_own_crd e \<longleftrightarrow> ie_group e = ''apiextensions.k8s.io'' \<and> ie_kind e = ''CustomResourceDefinition'' \<and>
     (\<exists>plural. CHR ''.'' \<notin> set plural \<and> ie_name e = plural @ ''.'' @ own_api_group)"
proof -
  have found: "(case cut_at (CHR ''.'') n of (_, grp, ok) \<Rightarrow> ok \<and> grp = g) \<longleftrightarrow>
      (\<exists>plural. CHR ''.'' \<notin> set plural \<and> n = plural @ ''.'' @ g)" for n g
  proof
    assume "case cut_at (CHR ''.'') n of (_, grp, ok) \<Rightarrow> ok \<and> grp = g"
    then obtain a where "cut_at (CHR ''.'') n = (a, g, True)" by (auto split: prod.splits)
    then show "\<exists>plural. CHR ''.'' \<notin> set plural \<and> n = plural @ ''.'' @ g"
      using cut_at_found [of "CHR ''.''" n a g] by auto
  next
    assume "\<exists>plural. CHR ''.'' \<notin> set plural \<and> n = plural @ ''.'' @ g"
    then obtain plural where "cut_at (CHR ''.'') n = (plural, g, True)"
      using cut_at_found [of "CHR ''.''" n _ g] by auto
    then show "case cut_at (CHR ''.'') n of (_, grp, ok) \<Rightarrow> ok \<and> grp = g" by simp
  qed
  show ?thesis unfolding is_own_crd_def found by auto
qed

end
