(* ===== verification/Outcome.thy ===== *)
theory Outcome
  imports Prelude "HOL-Library.Word"
begin

text \<open>
  internal/reconcile/outcome.go and backoff.go: the result of a reconcile
  attempt and the delay before a failed one is tried again.
\<close>

section \<open>Outcomes\<close>

datatype outcome = NoOp | Applied | AppliedAndPruned | FailedTransient | FailedStalled

fun metric_label :: "outcome \<Rightarrow> string" where
  "metric_label NoOp = ''no_op''"
| "metric_label Applied = ''applied''"
| "metric_label AppliedAndPruned = ''applied_and_pruned''"
| "metric_label FailedTransient = ''failed_transient''"
| "metric_label FailedStalled = ''failed_stalled''"

fun outcome_string :: "outcome \<Rightarrow> string" where
  "outcome_string NoOp = ''NoOp''"
| "outcome_string Applied = ''Applied''"
| "outcome_string AppliedAndPruned = ''AppliedAndPruned''"
| "outcome_string FailedTransient = ''FailedTransient''"
| "outcome_string FailedStalled = ''FailedStalled''"

lemma metric_label_inject: "metric_label a = metric_label b \<longleftrightarrow> a = b"
  by (cases a; cases b) simp_all


section \<open>Backoff\<close>

definition backoff_base_delay :: duration where "backoff_base_delay = 5 * second"
definition backoff_max_delay :: duration where "backoff_max_delay = 5 * minute"
definition stalled_recheck_interval :: duration where "stalled_recheck_interval = 30 * minute"

text \<open>
  The source computes \<open>float64(base) * math.Pow(2, n-1)\<close>. The base delay is below
  \<open>2^53\<close> and a power of two only moves the exponent, so each product is exact up to
  the largest float; beyond it the product is +Inf, which is above the cap as
  the integer is. The count arrives as an int64.
\<close>
definition compute_backoff :: "64 word \<Rightarrow> duration" where
  "compute_backoff failure_count =
     (if sint failure_count \<le> 1 then backoff_base_delay
      else let delay = backoff_base_delay * 2 ^ nat (sint failure_count - 1)
           in if delay > backoff_max_delay then backoff_max_delay else delay)"

lemmas backoff_consts = backoff_base_delay_def backoff_max_delay_def
  stalled_recheck_interval_def time_units

definition backoff_nat :: "nat \<Rightarrow> duration" where
  "backoff_nat n = min (backoff_base_delay * 2 ^ n) backoff_max_delay"

lemma compute_backoff_nat:
  "compute_backoff c = backoff_nat (nat (sint c - 1))"
  by (auto simp: compute_backoff_def backoff_nat_def Let_def backoff_consts)

lemma backoff_nat_mono: "m \<le> n \<Longrightarrow> backoff_nat m \<le> backoff_nat n"
  unfolding backoff_nat_def
  by (intro min.mono mult_left_mono power_increasing) (simp_all add: backoff_consts)

lemma backoff_nat_bounds: "backoff_base_delay \<le> backoff_nat n" "backoff_nat n \<le> backoff_max_delay"
proof -
  have "backoff_nat 0 \<le> backoff_nat n" by (rule backoff_nat_mono) simp
  then show "backoff_base_delay \<le> backoff_nat n" by (simp add: backoff_nat_def backoff_consts)
  show "backoff_nat n \<le> backoff_max_delay" by (simp add: backoff_nat_def)
qed

text \<open>The retry delay is always between the base delay and the cap, whatever
  the (signed 64-bit) failure count, never shrinks as failures accumulate, and below
  the cap doubles with each one.\<close>

theorem compute_backoff_spec:
  "backoff_base_delay \<le> compute_backoff c \<and> compute_backoff c \<le> backoff_max_delay \<and>
   (sint c \<le> sint d \<longrightarrow> compute_backoff c \<le> compute_backoff d) \<and>
   (1 \<le> sint c \<and> sint d = sint c + 1 \<longrightarrow>
      compute_backoff d = min (2 * compute_backoff c) backoff_max_delay)"
proof (intro conjI impI)
  show "backoff_base_delay \<le> compute_backoff c" "compute_backoff c \<le> backoff_max_delay"
    by (simp_all add: compute_backoff_nat backoff_nat_bounds)
  show "compute_backoff c \<le> compute_backoff d" if "sint c \<le> sint d"
    using that by (simp add: compute_backoff_nat backoff_nat_mono)
  show "compute_backoff d = min (2 * compute_backoff c) backoff_max_delay"
    if "1 \<le> sint c \<and> sint d = sint c + 1"
  proof -
    have "nat (sint d - 1) = Suc (nat (sint c - 1))" using that by linarith
    then show ?thesis
      by (auto simp: compute_backoff_nat backoff_nat_def min_def backoff_consts)
  qed
qed

theorem compute_backoff_spec_witness:
  "compute_backoff 3 = min (2 * compute_backoff 2) backoff_max_delay"
proof -
  have "1 \<le> sint (2 :: 64 word) \<and> sint (3 :: 64 word) = sint (2 :: 64 word) + 1" by simp
  then show ?thesis using compute_backoff_spec [of 2 3] by blast
qed

end
