(* ===== verification/Deletion_Cleanup.thy ===== *)
theory Deletion_Cleanup
  imports Owned Outcome
begin

text \<open>
  internal/reconcile/deletion.go: the deletion cleanup of a ModuleInstance and of a
  ModulePackage, from the deletion plans to the release of the cleanup finalizer.
\<close>

section \<open>Parameters of a cleanup\<close>

text \<open>The third-party code a cleanup uses: error predicates, the conditions package, the clock, and
  the OPM library's plans and delete verdict.\<close>

record ('w, 'x, 'p) cleanup_libs =
  xl_err :: "'x errlib"
  xl_cond :: condlib
  xl_clock :: "'w ticker"
  xl_life :: "('x, 'p) lifecycle"
  xl_can_delete :: can_delete

record 'w deletion_wait =
  dw_blocked_after :: duration
  dw_min_recheck :: duration
  dw_max_recheck :: duration
  dw_now :: "('w \<Rightarrow> time) option"

definition default_deletion_blocked_after :: duration where "default_deletion_blocked_after = 10 * minute"
definition default_deletion_min_recheck :: duration where "default_deletion_min_recheck = second"
definition default_deletion_max_recheck :: duration where "default_deletion_max_recheck = 60 * second"

definition with_defaults :: "'w ticker \<Rightarrow> 'w deletion_wait \<Rightarrow> 'w deletion_wait" where
  "with_defaults tk w =
     \<lparr>dw_blocked_after = (if dw_blocked_after w = 0 then default_deletion_blocked_after else dw_blocked_after w),
      dw_min_recheck = (if dw_min_recheck w = 0 then default_deletion_min_recheck else dw_min_recheck w),
      dw_max_recheck = (if dw_max_recheck w = 0 then default_deletion_max_recheck else dw_max_recheck w),
      dw_now = (case dw_now w of None \<Rightarrow> Some (tk_now tk) | Some f \<Rightarrow> Some f)\<rparr>"

text \<open>Go divides durations towards zero.\<close>

definition recheck_after :: "'w deletion_wait \<Rightarrow> duration \<Rightarrow> duration" where
  "recheck_after w age =
     min (max (sgn age * (\<bar>age\<bar> div 4)) (dw_min_recheck w)) (dw_max_recheck w)"

record ('w, 'x) deletion_env =
  de_client :: "('w, 'x) client"
  de_impersonator :: "('w, 'x) impersonator option"
  de_default_service_account :: string
  de_wait :: "'w deletion_wait"

text \<open>The two callbacks of a target are programs that answer with an error; clearInventory
  changes the object.\<close>

record ('w, 'o, 'z, 'x) deletion_target =
  dt_obj :: "'o object_view"
  dt_prune :: bool
  dt_delete_data :: bool
  dt_service_account :: string
  dt_entries :: "inventory_entry list"
  dt_identities :: "string list"
  dt_clear_inventory :: "'o \<Rightarrow> 'o"
  dt_patch_status :: "('w, 'o, 'z, 'x goerr option) oprog"
  dt_remove_finalizer :: "('w, 'o, 'z, 'x goerr option) oprog"

record ('w, 'x) identity_state =
  id_client :: "('w, 'x) client option"
  id_held :: identity_status
  id_err :: "'x goerr option"
  id_gone :: bool
  id_name :: string
  id_source :: string

definition id_namespaced :: "('w, 'x) identity_state \<Rightarrow> string \<Rightarrow> string" where
  "id_namespaced i namespace = (if id_name i = [] then [] else namespace @ ''/'' @ id_name i)"

definition id_unread :: "('w, 'x) identity_state \<Rightarrow> unread" where
  "id_unread i = (if id_held i = IdentityMissing then UnreadIdentityMissing else UnreadIdentityFailed)"

text \<open>ctrl.Result by its RequeueAfter, with the error of the reconcile.\<close>

type_synonym 'x requeue = "duration \<times> 'x goerr option"


section \<open>Reading the record and wording failures\<close>

definition recorded_wait_reason :: "condlib \<Rightarrow> 'o object_view \<Rightarrow> 'o \<Rightarrow> string" where
  "recorded_wait_reason K V obj =
     (if ov_deletion_timestamp V obj = None then []
      else case k_find K ready_condition (ov_conditions V obj) of
             None \<Rightarrow> []
           | Some ready \<Rightarrow>
               if c_status ready \<noteq> CFalse then []
               else if c_reason ready = deletion_in_progress_reason \<or> c_reason ready = deletion_blocked_reason
               then c_reason ready else [])"

definition held_max_steps :: nat where "held_max_steps = 3"
definition held_max_cause :: nat where "held_max_cause = 240"

text \<open>The runes of a string, each as the bytes it is written back with: an invalid byte becomes
  the replacement character.\<close>

fun runes_of :: "string \<Rightarrow> string list" where
  "runes_of [] = []"
| "runes_of (c # cs) =
     (if rune_size (c # cs) = 1 \<and> 128 \<le> (of_char c :: nat)
      then [CHR 0xEF, CHR 0xBF, CHR 0xBD] else take (rune_size (c # cs)) (c # cs))
     # runes_of (drop (rune_size (c # cs) - 1) cs)"

definition cut_cause :: "string \<Rightarrow> string" where
  "cut_cause t =
     (if length (runes_of t) \<le> held_max_cause then t
      else concat (take held_max_cause (runes_of t)) @ ''...'')"

definition failed_step_text :: "'x errlib \<Rightarrow> 'x step_result \<Rightarrow> string" where
  "failed_step_text E step =
     (let verb = (if sr_failed step = Some ActionDelete then ''delete'' else ''get'');
          cause = (case sr_err step of Some e \<Rightarrow> err_text E e | None \<Rightarrow> oc_message (sr_outcome step));
          entry = sr_entry step
      in verb @ '' '' @ ie_kind entry @ '' '' @ ie_namespace entry @ ''/'' @ ie_name entry @ '': '' @ cut_cause cause)"

definition failed_steps :: "'x errlib \<Rightarrow> ('x, 'p) deletion \<Rightarrow> string" where
  "failed_steps E d =
     (let failed = filter (\<lambda>s. oc_result (sr_outcome s) = ResultFailed) (concat (map dr_steps (de_runs d)));
          named = map (failed_step_text E) (take held_max_steps failed);
          more_steps = length failed - length named
      in itoa (length failed) @ '' step(s) of the recheck failed: '' @ join ''; '' named @
         (if more_steps > 0 then ''; and '' @ itoa more_steps @ '' more'' else []))"

definition unread_steps :: "('x, 'p) lifecycle \<Rightarrow> 'p \<Rightarrow> nat" where
  "unread_steps L plan = length (filter (\<lambda>p. pl_skip p = SkipNone) (lc_steps L plan))"

definition oldest_deletion :: "uobj list \<Rightarrow> time \<Rightarrow> time" where
  "oldest_deletion objs now =
     fold (\<lambda>u oldest. case u_deletion_timestamp u of
             None \<Rightarrow> oldest | Some ts \<Rightarrow> if ts < oldest then ts else oldest) objs now"

definition waiting_objects :: "uobj list \<Rightarrow> waiting_object list" where
  "waiting_objects objs =
     map (\<lambda>u. \<lparr>wo_kind = u_kind u, wo_namespace = u_namespace u, wo_name = u_name u,
                wo_finalizers = u_finalizers u\<rparr>) objs"

definition first_identity :: "string list \<Rightarrow> string" where
  "first_identity ids = (case ids of [] \<Rightarrow> [] | i # _ \<Rightarrow> i)"


section \<open>Releasing, stalling, holding\<close>

definition release_finalizer ::
    "'x errlib \<Rightarrow> ('w, 'o, 'z, 'x) deletion_target \<Rightarrow> ('w, 'o, 'z, 'x requeue) oprog" where
  "release_finalizer E t =
     do { err \<leftarrow> dt_remove_finalizer t;
          State_Monad.return
            (case err of
               Some e \<Rightarrow> (0, Some (Fmt (''removing finalizer: '' @ err_text E e) [e]))
             | None \<Rightarrow> (0, None)) }"

definition stall_deletion ::
    "('w, 'x, 'p) cleanup_libs \<Rightarrow> ('w, 'o, 'z, 'x) deletion_target \<Rightarrow> string \<Rightarrow> string \<Rightarrow>
     ('w, 'o, 'z, 'x requeue) oprog" where
  "stall_deletion X t reason msg =
     do { obj \<leftarrow> the_object;
          let already = ready_already_stalled_with (xl_cond X) (ov_conditions (dt_obj t) obj) reason;
          mark_object (xl_clock X) (dt_obj t) (mark_stalled (xl_cond X) reason msg);
          (if already then State_Monad.return () else emit_event ''Warning'' reason ''Delete'' msg);
          _ \<leftarrow> dt_patch_status t;
          State_Monad.return (stalled_recheck_interval, None) }"

text \<open>The clock of the wait, after the defaults are filled in.\<close>

definition wait_now :: "'w deletion_wait \<Rightarrow> 'w \<Rightarrow> time" where
  "wait_now w = (case dw_now w of Some f \<Rightarrow> f | None \<Rightarrow> (\<lambda>_. 0))"

definition deleting_since :: "'o object_view \<Rightarrow> 'o \<Rightarrow> time" where
  "deleting_since V obj = (case ov_deletion_timestamp V obj of Some ts \<Rightarrow> ts | None \<Rightarrow> 0)"

definition hold_recheck ::
    "('w, 'x, 'p) cleanup_libs \<Rightarrow> 'w deletion_wait \<Rightarrow> ('w, 'o, 'z, 'x) deletion_target \<Rightarrow> string \<Rightarrow> string \<Rightarrow>
     'x goerr option \<Rightarrow> ('w, 'o, 'z, 'x requeue) oprog" where
  "hold_recheck X w t recorded what0 cause =
     (let E = xl_err X; K = xl_cond X; V = dt_obj t;
          what = (case cause of Some e \<Rightarrow> what0 @ '': '' @ cut_cause (err_text E e) | None \<Rightarrow> what0);
          failure = (case cause of
                       Some e \<Rightarrow> Fmt (''rechecking the waiting deletion: '' @ err_text E e) [e]
                     | None \<Rightarrow> Fmt (''rechecking the waiting deletion: '' @ what) [])
      in do { obj \<leftarrow> the_object;
              now \<leftarrow> ask (wait_now w);
              let age = now - deleting_since V obj;
              (if recorded = deletion_blocked_reason \<or> age \<ge> dw_blocked_after w
               then (let msg = deletion_check_blocked_note what (dw_blocked_after w) in
                     do { (if \<not> ready_already_stalled_with K (ov_conditions V obj) deletion_blocked_reason
                           then emit_event ''Warning'' deletion_blocked_reason ''Delete'' (event_note msg)
                           else State_Monad.return ());
                          mark_object (xl_clock X) V
                            (mark_deletion_blocked K (ov_deletion_timestamp V obj \<noteq> None) msg) })
               else mark_object (xl_clock X) V
                      (mark_deletion_in_progress K (ov_deletion_timestamp V obj \<noteq> None)
                        (deletion_check_failed_note what)));
              err \<leftarrow> dt_patch_status t;
              State_Monad.return
                (case err of
                   Some e \<Rightarrow> (0, Some (Joined [failure, Fmt (''recording the failed recheck: '' @ err_text E e) [e]]))
                 | None \<Rightarrow> (0, Some failure)) })"

definition hold_verdict_step ::
    "hold_verdict \<Rightarrow> hold_verdict option \<Rightarrow> hold_verdict option" where
  "hold_verdict_step v held =
     (if hv_release v then held
      else case held of
             None \<Rightarrow> Some v
           | Some h \<Rightarrow> if hv_because h \<noteq> HoldCleanupForbidden \<and> hv_because v = HoldCleanupForbidden
                       then Some v else held)"

definition zero_verdict :: hold_verdict where
  "zero_verdict = \<lparr>hv_release = False, hv_because = HoldOther [], hv_message = []\<rparr>"

definition hold_verdict_of :: "('x, 'p) lifecycle \<Rightarrow> ('x, 'p) deletion \<Rightarrow> hold_verdict" where
  "hold_verdict_of L d =
     (let verdicts = map (\<lambda>r. lc_may_release L (dr_plan r) (dr_state r) IdentityAvailable) (de_runs d)
      in case fold hold_verdict_step verdicts None of
           Some v \<Rightarrow> v
         | None \<Rightarrow> if verdicts = [] then zero_verdict else last verdicts)"


section \<open>The deleting identity\<close>

definition resolve_deleting_identity ::
    "'x errlib \<Rightarrow> ('w, 'x) deletion_env \<Rightarrow> ('w, 'o, 'z, 'x) deletion_target \<Rightarrow>
     ('w, 'o, 'z, ('w, 'x) identity_state) oprog" where
  "resolve_deleting_identity E env t =
     (let (name, source) = resolve_effective_sa (dt_service_account t) (de_default_service_account env);
          identity = \<lparr>id_client = Some (de_client env), id_held = IdentityAvailable, id_err = None,
                      id_gone = False, id_name = name, id_source = source\<rparr>
      in case de_impersonator env of
           None \<Rightarrow> State_Monad.return identity
         | Some im \<Rightarrow>
             if name = [] then State_Monad.return identity
             else do { obj \<leftarrow> the_object;
                       r \<leftarrow> new_impersonated_client E im (ov_namespace (dt_obj t) obj) name;
                       State_Monad.return
                         (case r of
                            Inr c \<Rightarrow> identity\<lparr>id_client := Some c\<rparr>
                          | Inl e \<Rightarrow>
                              if is_service_account_not_found E e
                              then identity\<lparr>id_client := None, id_held := IdentityMissing, id_err := Some e,
                                            id_gone := is_service_account_gone E e name\<rparr>
                              else identity\<lparr>id_client := None, id_held := IdentityFailed, id_err := Some e\<rparr>) })"

record lost_counts =
  lc_claims :: nat
  lc_planned :: nat
  lc_recorded :: string

definition deletion_sa_missing_message :: "string \<Rightarrow> string \<Rightarrow> string" where
  "deletion_sa_missing_message namespace sa_name =
     ''ServiceAccount '' @ quote (namespace @ ''/'' @ sa_name) @
     '' not found; cannot prune owned resources during deletion. '' @
     ''Recovery options: '' @
     ''(1) Restore the ServiceAccount and its RBAC; '' @
     ''(2) Set spec.prune=false on the release and delete again to orphan resources without prune; '' @
     ''(3) Add annotation '' @ quote annotation_force_delete_orphan @ ''='' @ quote ''true'' @
     '' to the release to remove the finalizer and leave resources behind '' @
     ''(operator is responsible for cleanup).''"

definition act_on_lost_identity ::
    "('w, 'x, 'p) cleanup_libs \<Rightarrow> 'w deletion_wait \<Rightarrow> ('w, 'o, 'z, 'x) deletion_target \<Rightarrow>
     ('w, 'x) identity_state \<Rightarrow> hold_verdict \<Rightarrow> lost_counts \<Rightarrow> ('w, 'o, 'z, 'x requeue) oprog" where
  "act_on_lost_identity X w t identity verdict counts =
     do { obj \<leftarrow> the_object;
          let E = xl_err X;
          let namespace = ov_namespace (dt_obj t) obj;
          let named = id_namespaced identity namespace;
          if hv_because verdict = HoldInventoryEmpty then
            do { emit_event ''Warning'' ''DeletionUnconfirmed'' ''Delete''
                   (claims_unread_note (lc_claims counts) named (id_unread identity));
                 release_finalizer E t }
          else if hv_because verdict = HoldForceOrphan then
            do { emit_event ''Warning'' ''OrphanedOnDeletion'' ''Delete''
                   (''Orphaned '' @ itoa (length (dt_entries t)) @ '' managed resources; ServiceAccount '' @
                    quote (id_name identity) @ '' missing and '' @ annotation_force_delete_orphan @ '' annotation set'');
                 change_object (dt_clear_inventory t);
                 _ \<leftarrow> dt_patch_status t;
                 release_finalizer E t }
          else if lc_recorded counts \<noteq> [] \<and> \<not> id_gone identity then
            hold_recheck X w t (lc_recorded counts)
              (''ServiceAccount '' @ quote named @ '' could not be looked up'') (id_err identity)
          else if lc_recorded counts \<noteq> [] then
            do { emit_event ''Warning'' ''DeletionUnconfirmed'' ''Delete''
                   (deletion_unconfirmed_note (lc_planned counts) named (id_unread identity));
                 release_finalizer E t }
          else if id_held identity = IdentityMissing then
            stall_deletion X t ''DeletionSAMissing'' (deletion_sa_missing_message namespace (id_name identity))
          else stall_deletion X t ''ImpersonationFailed''
                 (case id_err identity of Some e \<Rightarrow> err_text E e | None \<Rightarrow> []) }"

definition act_on_hold ::
    "('w, 'x, 'p) cleanup_libs \<Rightarrow> ('w, 'o, 'z, 'x) deletion_target \<Rightarrow> ('w, 'x) identity_state \<Rightarrow>
     hold_verdict \<Rightarrow> ('x, 'p) cleanup \<Rightarrow> ('w, 'o, 'z, 'x requeue) oprog" where
  "act_on_hold X t identity verdict cleanup =
     (let err = (case cu_failed cleanup of
                   Some e \<Rightarrow> e
                 | None \<Rightarrow> Fmt (''deletion cleanup is held: '' @ hv_message verdict) [])
      in if hv_because verdict = HoldCleanupForbidden \<and> id_name identity \<noteq> []
         then stall_deletion X t ''ImpersonationFailed'' (err_text (xl_err X) err)
         else State_Monad.return (0, Some err))"


section \<open>Waiting for the deleted objects\<close>

record 'x gone_check =
  gc_steps :: "'x step_result list"
  gc_report :: "prune_result option"
  gc_recorded :: string

definition wait_for_objects ::
    "('w, 'x, 'p) cleanup_libs \<Rightarrow> 'w deletion_wait \<Rightarrow> ('w, 'o, 'z, 'x) deletion_target \<Rightarrow> uobj list \<Rightarrow>
     ('w, 'o, 'z, 'x requeue) oprog" where
  "wait_for_objects X w t left =
     do { obj \<leftarrow> the_object;
          now \<leftarrow> ask (wait_now w);
          now' \<leftarrow> ask (wait_now w);
          let K = xl_cond X;
          let V = dt_obj t;
          let E = xl_err X;
          let deleting = (ov_deletion_timestamp V obj \<noteq> None);
          let age = now - oldest_deletion left now';
          let waiting = waiting_objects left;
          if age < dw_blocked_after w then
            (let msg = deletion_in_progress_note waiting in
             do { (if \<not> ready_already_stalled_with K (ov_conditions V obj) deletion_in_progress_reason
                   then emit_event ''Normal'' deletion_in_progress_reason ''Delete'' (event_note msg)
                   else State_Monad.return ());
                  mark_object (xl_clock X) V (mark_deletion_in_progress K deleting msg);
                  err \<leftarrow> dt_patch_status t;
                  State_Monad.return
                    (case err of
                       Some e \<Rightarrow> (0, Some (Fmt (''recording the deletion wait: '' @ err_text E e) [e]))
                     | None \<Rightarrow> (recheck_after w age, None)) })
          else
            (let msg = deletion_blocked_note waiting (dw_blocked_after w) in
             do { (if \<not> ready_already_stalled_with K (ov_conditions V obj) deletion_blocked_reason
                   then emit_event ''Warning'' deletion_blocked_reason ''Delete'' (event_note msg)
                   else State_Monad.return ());
                  mark_object (xl_clock X) V (mark_deletion_blocked K deleting msg);
                  err \<leftarrow> dt_patch_status t;
                  State_Monad.return
                    (case err of
                       Some e \<Rightarrow> (0, Some (Fmt (''recording the blocked deletion: '' @ err_text E e) [e]))
                     | None \<Rightarrow> (dw_max_recheck w, None)) }) }"

definition await_gone ::
    "('w, 'x, 'p) cleanup_libs \<Rightarrow> 'w deletion_wait \<Rightarrow> ('w, 'o, 'z, 'x) deletion_target \<Rightarrow> ('w, 'x) client \<Rightarrow>
     'x gone_check \<Rightarrow> ('w, 'o, 'z, 'x requeue) oprog" where
  "await_gone X w t c check =
     do { r \<leftarrow> still_there (xl_err X) c (gc_steps check);
          case r of
            Inl e \<Rightarrow>
              if gc_recorded check \<noteq> []
              then hold_recheck X w t (gc_recorded check)
                     ''the read that checks whether a deleted object is gone failed'' (Some e)
              else State_Monad.return (0, Some e)
          | Inr left \<Rightarrow>
              do { (case gc_report check of
                      None \<Rightarrow> State_Monad.return ()
                    | Some report \<Rightarrow>
                        do { report_kept_claims ''Delete'' (pr_kept report);
                             report_left_behind ''Delete'' (pr_left report) });
                   if left = [] then release_finalizer (xl_err X) t
                   else wait_for_objects X w t left } }"


section \<open>The cleanup\<close>

definition cleanup_policy :: "('w, 'o, 'z, 'x) deletion_target \<Rightarrow> 'o \<Rightarrow> deletion_policy" where
  "cleanup_policy t obj =
     \<lparr>pol_prune = dt_prune t,
      pol_force_orphan = (map_of (ov_annotations (dt_obj t) obj) annotation_force_delete_orphan = Some ''true'')\<rparr>"

definition first_plan ::
    "('x, 'p) lifecycle \<Rightarrow> ('w, 'o, 'z, 'x) deletion_target \<Rightarrow> 'o \<Rightarrow> 'p" where
  "first_plan L t obj =
     lc_plan L (fst (split_kept_claims (dt_entries t) (dt_delete_data t))) (cleanup_policy t obj)
       (first_identity (dt_identities t))"

definition early_release :: "('x, 'p) lifecycle \<Rightarrow> ('w, 'o, 'z, 'x) deletion_target \<Rightarrow> 'o \<Rightarrow> bool" where
  "early_release L t obj =
     (let early = lc_may_release L (first_plan L t obj) zero_state IdentityAvailable
      in hv_because early = HoldPruneDisabled \<or>
         (hv_because early = HoldInventoryEmpty \<and> snd (split_kept_claims (dt_entries t) (dt_delete_data t)) = []))"

text \<open>One pass over the object as the reconcile loaded it.\<close>

definition cleanup_pass ::
    "('w, 'x, 'p) cleanup_libs \<Rightarrow> ('w, 'x) deletion_env \<Rightarrow> ('w, 'o, 'z, 'x) deletion_target \<Rightarrow> 'o \<Rightarrow>
     ('w, 'o, 'z, 'x requeue) oprog" where
  "cleanup_pass X env t obj =
     (let w = with_defaults (xl_clock X) (de_wait env); L = xl_life X; E = xl_err X;
          recorded = recorded_wait_reason (xl_cond X) (dt_obj t) obj;
          plan = first_plan L t obj
      in if early_release L t obj then release_finalizer E t
         else do { identity \<leftarrow> resolve_deleting_identity E env t;
                   case id_client identity of
                     None \<Rightarrow>
                       act_on_lost_identity X w t identity (lc_may_release L plan zero_state (id_held identity))
                         \<lparr>lc_claims = length (snd (split_kept_claims (dt_entries t) (dt_delete_data t))),
                          lc_planned = unread_steps L plan, lc_recorded = recorded\<rparr>
                   | Some c \<Rightarrow>
                       do { (cleanup, err) \<leftarrow> run_cleanup L (xl_can_delete X) E c (dt_identities t) (dt_entries t)
                              (cleanup_policy t obj) (dt_delete_data t);
                            case err of
                              Some e \<Rightarrow> State_Monad.return (0, Some e)
                            | None \<Rightarrow>
                                (let verdict = hold_verdict_of L (cu_deletion cleanup) in
                                 if \<not> hv_release verdict then
                                   (if recorded \<noteq> []
                                    then hold_recheck X w t recorded (failed_steps E (cu_deletion cleanup)) None
                                    else act_on_hold X t identity verdict cleanup)
                                 else await_gone X w t c
                                        \<lparr>gc_steps = deleted_steps (cu_deletion cleanup),
                                         gc_report = (if recorded = [] then Some (cu_report cleanup) else None),
                                         gc_recorded = recorded\<rparr>) } })"

definition run_deletion_cleanup ::
    "('w, 'x, 'p) cleanup_libs \<Rightarrow> ('w, 'x) deletion_env \<Rightarrow> ('w, 'o, 'z, 'x) deletion_target \<Rightarrow>
     ('w, 'o, 'z, 'x requeue) oprog" where
  "run_deletion_cleanup X env t = the_object \<bind> cleanup_pass X env t"


section \<open>Intervals and texts\<close>

lemma recheck_after_bounds:
  "dw_min_recheck w \<le> dw_max_recheck w \<Longrightarrow>
   dw_min_recheck w \<le> recheck_after w age \<and> recheck_after w age \<le> dw_max_recheck w"
  by (auto simp: recheck_after_def)

lemma with_defaults_idem [simp]: "with_defaults tk (with_defaults tk w) = with_defaults tk w"
  by (simp add: with_defaults_def default_deletion_blocked_after_def default_deletion_min_recheck_def
      default_deletion_max_recheck_def minute_def second_def split: option.split)

text \<open>No wait is configured below zero; a zero is replaced by its default.\<close>

definition wait_ok :: "'w deletion_wait \<Rightarrow> bool" where
  "wait_ok w = (0 \<le> dw_min_recheck w \<and> 0 \<le> dw_max_recheck w)"

lemma recheck_after_pos:
  "wait_ok w \<Longrightarrow> 0 < recheck_after (with_defaults tk w) age \<and> 0 < dw_max_recheck (with_defaults tk w)"
  by (auto simp: wait_ok_def recheck_after_def with_defaults_def default_deletion_min_recheck_def
      default_deletion_max_recheck_def second_def)

lemma oldest_deletion_le: "oldest_deletion objs now \<le> now"
proof -
  have "oldest_deletion objs t \<le> t" for t
    unfolding oldest_deletion_def
    by (induction objs arbitrary: t) (auto split: option.split intro: order_trans less_imp_le)
  then show ?thesis .
qed


text \<open>The verdicts of a run release the finalizer exactly when every plan's does.\<close>

lemma fold_hold_verdict:
  "fold hold_verdict_step vs held = None \<longleftrightarrow> held = None \<and> list_all hv_release vs"
  "(\<forall>h. held = Some h \<longrightarrow> \<not> hv_release h) \<Longrightarrow> fold hold_verdict_step vs held = Some v \<Longrightarrow> \<not> hv_release v"
  by (induction vs arbitrary: held) (auto simp: hold_verdict_step_def split: option.splits if_splits)

lemma hold_verdict_releases:
  "hv_release (hold_verdict_of L d) \<longleftrightarrow> de_runs d \<noteq> [] \<and>
     list_all (\<lambda>r. hv_release (lc_may_release L (dr_plan r) (dr_state r) IdentityAvailable)) (de_runs d)"
proof -
  let ?vs = "map (\<lambda>r. lc_may_release L (dr_plan r) (dr_state r) IdentityAvailable) (de_runs d)"
  have all: "list_all (\<lambda>r. hv_release (lc_may_release L (dr_plan r) (dr_state r) IdentityAvailable)) (de_runs d) =
      list_all hv_release ?vs"
    by (simp add: list_all_iff)
  show ?thesis
  proof (cases "fold hold_verdict_step ?vs None")
    case None
    then have "list_all hv_release ?vs" using fold_hold_verdict(1) [of ?vs None] by simp
    then show ?thesis
      using None last_in_set [of ?vs]
      by (auto simp: hold_verdict_of_def Let_def zero_verdict_def all list_all_iff simp del: last_in_set)
  next
    case (Some v)
    then have "\<not> hv_release v" using fold_hold_verdict(2) [of None ?vs v] by simp
    moreover have "\<not> list_all hv_release ?vs" using Some fold_hold_verdict(1) [of ?vs None] by auto
    ultimately show ?thesis using Some by (simp add: hold_verdict_of_def Let_def all)
  qed
qed


section \<open>The contract of a target\<close>

text \<open>What the cleanup may send besides the requests of its plans.\<close>

fun is_status_note :: "act \<Rightarrow> bool" where
  "is_status_note (PatchStatusAct st) = True"
| "is_status_note (PatchPackageAct st) = True"
| "is_status_note (EventAct k r a t) = True"
| "is_status_note _ = False"

fun is_finalizer_patch :: "act \<Rightarrow> bool" where
  "is_finalizer_patch (PatchFinalizersAct fs) = True"
| "is_finalizer_patch _ = False"

definition is_bookkeeping :: "act \<Rightarrow> bool" where
  "is_bookkeeping a = (is_status_note a \<or> is_finalizer_patch a)"

text \<open>
  Why a cleanup may take the finalizer off, from the state it starts in: nothing is to be deleted;
  or the deleting identity is lost and nothing would be deleted, the operator asked for it, or
  every delete was recorded as sent and the ServiceAccount is gone; or the plans ran, each of them
  releases, and none of the deleted objects is there any more.
\<close>

definition release_cause ::
    "('w, 'x, 'p) cleanup_libs \<Rightarrow> ('w, 'x) deletion_env \<Rightarrow> ('w, 'o, 'z, 'x) deletion_target \<Rightarrow>
     ('w, ('o, 'z) osys_ext) sys_scheme \<Rightarrow> bool" where
  "release_cause X env t s =
     (let L = xl_life X; E = xl_err X; obj = os_obj s;
          (identity, s1) = run_state (resolve_deleting_identity E env t) s
      in early_release L t obj \<or>
         (case id_client identity of
            None \<Rightarrow>
              (let because = hv_because (lc_may_release L (first_plan L t obj) zero_state (id_held identity))
               in because = HoldInventoryEmpty \<or> because = HoldForceOrphan \<or>
                  (recorded_wait_reason (xl_cond X) (dt_obj t) obj \<noteq> [] \<and> id_gone identity))
          | Some c \<Rightarrow>
              (let ((cleanup, err), s2) = run_state (run_cleanup L (xl_can_delete X) E c (dt_identities t)
                     (dt_entries t) (cleanup_policy t obj) (dt_delete_data t)) s1
               in err = None \<and>
                  list_all (\<lambda>r. hv_release (lc_may_release L (dr_plan r) (dr_state r) IdentityAvailable))
                    (de_runs (cu_deletion cleanup)) \<and>
                  fst (run_state (still_there E c (deleted_steps (cu_deletion cleanup))) s2) = Inr [])))"

text \<open>\<open>sends s P m\<close>: run from \<open>s\<close>, the program sends requests that satisfy \<open>P\<close> only.\<close>

definition sends :: "('w, 'z) sys_scheme \<Rightarrow> (act \<Rightarrow> bool) \<Rightarrow> ('w, 'z, 'a) prog \<Rightarrow> bool" where
  "sends s P m = (\<exists>new. sys_trace (snd (run_state m s)) = sys_trace s @ new \<and> list_all P new)"

lemma sends_emits: "emits P m \<Longrightarrow> sends s P m"
  by (simp add: emits_def sends_def)

lemma sends_bind:
  assumes "sends s P m" and "run_state m s = (x, s1)" and "sends s1 P (f x)"
  shows "sends s P (m \<bind> f)"
proof -
  from assms(1,2) obtain n1 where n1: "sys_trace s1 = sys_trace s @ n1" "list_all P n1"
    by (auto simp: sends_def)
  from assms(3) obtain n2 where "sys_trace (snd (run_state (f x) s1)) = sys_trace s1 @ n2" "list_all P n2"
    by (auto simp: sends_def)
  with n1 assms(2) have "sys_trace (snd (run_state (m \<bind> f) s)) = sys_trace s @ n1 @ n2 \<and> list_all P (n1 @ n2)"
    by simp
  then show ?thesis unfolding sends_def by blast
qed

text \<open>What survives in an object: its conditions and whether it is being deleted.\<close>

definition deletion_view :: "'o object_view \<Rightarrow> 'o \<Rightarrow> cond list \<times> time option" where
  "deletion_view V obj = (ov_conditions V obj, ov_deletion_timestamp V obj)"

locale cleanup_target =
  fixes t :: "('w, 'o, 'z, 'x) deletion_target"
  assumes patches: "emits is_status_note (dt_patch_status t)"
    and removes: "emits is_finalizer_patch (dt_remove_finalizer t)"
    and patch_keeps: "keeps (\<lambda>s. deletion_view (dt_obj t) (os_obj s)) (dt_patch_status t)"
    and remove_keeps: "run_state (dt_remove_finalizer t) s = (Some e, s') \<Longrightarrow>
                         deletion_view (dt_obj t) (os_obj s') = deletion_view (dt_obj t) (os_obj s)"
    and clear_keeps: "deletion_view (dt_obj t) (dt_clear_inventory t obj) = deletion_view (dt_obj t) obj"
    and set_get: "ov_conditions (dt_obj t) (ov_set_conditions (dt_obj t) cs obj) = cs"
    and set_deleting: "ov_deletion_timestamp (dt_obj t) (ov_set_conditions (dt_obj t) cs obj) =
                         ov_deletion_timestamp (dt_obj t) obj"
begin

lemma emits_patch: "(\<And>a. is_status_note a \<Longrightarrow> P a) \<Longrightarrow> emits P (dt_patch_status t)"
  using patches by (rule emits_mono) simp

lemma emits_release: "(\<And>a. is_finalizer_patch a \<Longrightarrow> P a) \<Longrightarrow> emits P (release_finalizer E t)"
  unfolding release_finalizer_def by (intro emits_intro emits_mono [OF removes])

lemma emits_stall: "(\<And>a. is_status_note a \<Longrightarrow> P a) \<Longrightarrow> emits P (stall_deletion X t reason msg)"
  unfolding stall_deletion_def Let_def by (intro emits_intro emits_patch) simp_all

lemma emits_hold: "(\<And>a. is_status_note a \<Longrightarrow> P a) \<Longrightarrow> emits P (hold_recheck X w t rec what cause)"
  unfolding hold_recheck_def Let_def by (intro emits_intro emits_patch) simp_all

lemma emits_wait: "(\<And>a. is_status_note a \<Longrightarrow> P a) \<Longrightarrow> emits P (wait_for_objects X w t left)"
  unfolding wait_for_objects_def Let_def by (intro emits_intro emits_patch) simp_all

lemma emits_act_on_hold: "(\<And>a. is_status_note a \<Longrightarrow> P a) \<Longrightarrow> emits P (act_on_hold X t i v cu)"
  unfolding act_on_hold_def Let_def by (intro emits_intro emits_stall) simp_all

text \<open>Without its deleting identity a cleanup reads, deletes and impersonates nothing.\<close>

lemma lost_identity_quiet: "emits is_bookkeeping (act_on_lost_identity X w t i v counts)"
  unfolding act_on_lost_identity_def Let_def
  by (intro emits_intro emits_patch emits_release emits_stall emits_hold) (simp_all add: is_bookkeeping_def)

text \<open>Every delete of a cleanup is of an entry; a kept claim is never deleted.\<close>

lemma cleanup_deletes:
  assumes laws: "plan_laws (xl_life X)"
  shows "emits (\<lambda>a. is_bookkeeping a \<or> harmless a \<or>
      deletes_only (set (fst (split_kept_claims (dt_entries t) (dt_delete_data t)))) a)
    (run_deletion_cleanup X env t)" (is "emits ?P _")
proof -
  have note_ok: "?P a" if "is_status_note a" for a using that by (simp add: is_bookkeeping_def)
  have release: "emits ?P (release_finalizer E t)" for E
    by (rule emits_release) (simp add: is_bookkeeping_def)
  have lost: "emits ?P (act_on_lost_identity X w t i v counts)" for w i v counts
    by (rule emits_mono [OF lost_identity_quiet]) simp
  have cleanup: "emits ?P (run_cleanup (xl_life X) CD E c ids (dt_entries t) pol (dt_delete_data t))" for CD E c ids pol
    by (rule emits_mono [OF emits_run_cleanup [OF laws]]) simp
  have wait: "emits ?P (await_gone X w t c check)" for w c check
    unfolding await_gone_def
    by (intro emits_intro emits_hold emits_wait release) (simp_all add: is_bookkeeping_def read_harmless)
  have identity: "emits ?P (resolve_deleting_identity E env t)" for E
    unfolding resolve_deleting_identity_def Let_def by (intro emits_intro) simp_all
  show ?thesis
    unfolding run_deletion_cleanup_def cleanup_pass_def Let_def
    by (intro emits_intro release lost cleanup wait identity emits_hold emits_act_on_hold note_ok)
qed

text \<open>A cleanup that neither fails nor asks to be run again has removed the finalizer.\<close>

definition finished :: "'x requeue \<Rightarrow> bool" where
  "finished r = (r = (0, None))"

lemma stall_stays: "yields (\<lambda>r. \<not> finished r) (stall_deletion X t reason msg)"
  unfolding stall_deletion_def Let_def
  by (intro yields_intro) (simp add: finished_def backoff_consts)

lemma hold_stays: "yields (\<lambda>r. \<not> finished r) (hold_recheck X w t rec what cause)"
  unfolding hold_recheck_def Let_def
  by (intro yields_intro) (simp add: finished_def split: option.split)

lemma wait_stays:
  assumes "wait_ok w"
  shows "yields (\<lambda>r. \<not> finished r) (wait_for_objects X (with_defaults tk w) t left)"
proof -
  have "recheck_after (with_defaults tk w) age \<noteq> 0" "dw_max_recheck (with_defaults tk w) \<noteq> 0" for age
    using recheck_after_pos [OF assms, of tk age] by simp_all
  then show ?thesis
    unfolding wait_for_objects_def Let_def
    by (intro yields_intro) (simp_all add: finished_def split: option.split)
qed

lemma act_on_hold_stays: "yields (\<lambda>r. \<not> finished r) (act_on_hold X t i v cu)"
  unfolding act_on_hold_def Let_def
  by (intro yields_intro stall_stays) (simp add: finished_def)

definition finishes_removed :: "('w, 'o, 'z, 'x requeue) oprog \<Rightarrow> bool" where
  "finishes_removed m = (\<forall>s s'. run_state m s = ((0, None), s') \<longrightarrow>
     (\<exists>s0. run_state (dt_remove_finalizer t) s0 = (None, s')))"

lemma removed_bind: "(\<And>x. finishes_removed (f x)) \<Longrightarrow> finishes_removed (m \<bind> f)"
  unfolding finishes_removed_def by (simp add: split_beta)

lemma removed_yields: "yields (\<lambda>r. \<not> finished r) m \<Longrightarrow> finishes_removed m"
  unfolding finishes_removed_def yields_def finished_def by (metis fst_conv)

lemma removed_if: "finishes_removed m \<Longrightarrow> finishes_removed n \<Longrightarrow> finishes_removed (if b then m else n)"
  by simp

lemma removed_option:
  "finishes_removed m \<Longrightarrow> (\<And>y. finishes_removed (f y)) \<Longrightarrow> finishes_removed (case x of None \<Rightarrow> m | Some y \<Rightarrow> f y)"
  by (cases x) simp_all

lemma removed_sum:
  "(\<And>a. finishes_removed (f a)) \<Longrightarrow> (\<And>b. finishes_removed (g b)) \<Longrightarrow>
   finishes_removed (case x of Inl a \<Rightarrow> f a | Inr b \<Rightarrow> g b)"
  by (cases x) simp_all

lemma removed_prod: "(\<And>a b. finishes_removed (f a b)) \<Longrightarrow> finishes_removed (case x of (a, b) \<Rightarrow> f a b)"
  by (cases x) simp

lemma removed_return: "\<not> finished r \<Longrightarrow> finishes_removed (State_Monad.return r)"
  by (rule removed_yields) (simp add: yields_def State_Monad.return_def)

lemma removed_release: "finishes_removed (release_finalizer E t)"
  unfolding finishes_removed_def release_finalizer_def
  by (auto simp: split_beta State_Monad.return_def split: option.splits) (metis prod.collapse)

lemmas removed_rules = removed_bind removed_if removed_option removed_sum removed_prod removed_release
  removed_yields [OF stall_stays] removed_yields [OF hold_stays] removed_yields [OF act_on_hold_stays]

lemma never_gives_up:
  assumes "wait_ok (de_wait env)"
  shows "finishes_removed (run_deletion_cleanup X env t)"
proof -
  note wait = removed_yields [OF wait_stays [OF assms]]
  have lost: "finishes_removed (act_on_lost_identity X w t i v counts)" for w i v counts
    unfolding act_on_lost_identity_def Let_def by (intro removed_rules)
  have gone: "finishes_removed (await_gone X (with_defaults tk (de_wait env)) t c check)" for tk c check
    unfolding await_gone_def
    by (intro removed_rules removed_return wait) (simp add: finished_def)
  show ?thesis
    unfolding run_deletion_cleanup_def cleanup_pass_def Let_def
    by (intro removed_rules removed_return lost gone) (simp add: finished_def)
qed

text \<open>The record that every delete was sent is never erased while the finalizer stays: a program may
  drop it only with a result in \<open>D\<close>.\<close>

definition recorded_in :: "condlib \<Rightarrow> ('w, ('o, 'z) osys_ext) sys_scheme \<Rightarrow> bool" where
  "recorded_in K s = (recorded_wait_reason K (dt_obj t) (os_obj s) \<noteq> [])"

definition keeps_record :: "condlib \<Rightarrow> ('a \<Rightarrow> bool) \<Rightarrow> ('w, 'o, 'z, 'a) oprog \<Rightarrow> bool" where
  "keeps_record K D m =
     (\<forall>s. recorded_in K s \<longrightarrow> recorded_in K (snd (run_state m s)) \<or> D (fst (run_state m s)))"

lemma recorded_in_view:
  "recorded_in K s \<longleftrightarrow> ov_deletion_timestamp (dt_obj t) (os_obj s) \<noteq> None \<and>
     (\<exists>reason msg. cond_view K ready_condition (ov_conditions (dt_obj t) (os_obj s)) = Some (CFalse, reason, msg) \<and>
        (reason = deletion_in_progress_reason \<or> reason = deletion_blocked_reason))"
  by (auto simp: recorded_in_def recorded_wait_reason_def cond_view_def deletion_in_progress_reason_def
      deletion_blocked_reason_def split: option.splits)

lemma record_view: "keeps (\<lambda>s. deletion_view (dt_obj t) (os_obj s)) m \<Longrightarrow> keeps_record K D m"
  by (auto simp: keeps_record_def keeps_def recorded_in_view deletion_view_def)

lemma record_frame: "keeps sys.more m \<Longrightarrow> keeps_record K D m"
proof (rule record_view)
  assume "keeps sys.more m"
  then have "os_obj (snd (run_state m s)) = os_obj s" for s
    by (intro same_object) (simp add: keeps_def)
  then show "keeps (\<lambda>s. deletion_view (dt_obj t) (os_obj s)) m" by (simp add: keeps_def)
qed

lemma record_bind:
  "keeps_record K (\<lambda>_. False) m \<Longrightarrow> (\<And>x. keeps_record K D (f x)) \<Longrightarrow> keeps_record K D (m \<bind> f)"
  by (simp add: keeps_record_def split_beta)

lemma record_if:
  "(b \<Longrightarrow> keeps_record K D m) \<Longrightarrow> (\<not> b \<Longrightarrow> keeps_record K D n) \<Longrightarrow> keeps_record K D (if b then m else n)"
  by simp

lemma record_option:
  "keeps_record K D m \<Longrightarrow> (\<And>y. keeps_record K D (f y)) \<Longrightarrow>
   keeps_record K D (case x of None \<Rightarrow> m | Some y \<Rightarrow> f y)"
  by (cases x) simp_all

lemma record_sum:
  "(\<And>a. keeps_record K D (f a)) \<Longrightarrow> (\<And>b. keeps_record K D (g b)) \<Longrightarrow>
   keeps_record K D (case x of Inl a \<Rightarrow> f a | Inr b \<Rightarrow> g b)"
  by (cases x) simp_all

lemma record_prod: "(\<And>a b. keeps_record K D (f a b)) \<Longrightarrow> keeps_record K D (case x of (a, b) \<Rightarrow> f a b)"
  by (cases x) simp

lemma record_the_object: "keeps_record K D the_object"
  by (simp add: keeps_record_def)

lemma record_simple:
  "keeps_record K D1 (State_Monad.return x)" "keeps_record K D2 (ask f)" "keeps_record K D3 (emit_event a b c d)"
  "keeps_record K D4 (new_impersonated_client E im n sa)" "keeps_record K D5 (still_there E cl steps)"
  "keeps_record K D3 (report_kept_claims a kept)" "keeps_record K D3 (report_left_behind a left)"
  "keeps_record K D6 (run_cleanup L CD E cl ids entries pol dd)"
  by (intro record_frame keeps_intro)+

lemma record_patch: "keeps_record K D (dt_patch_status t)"
  by (simp add: record_view patch_keeps)

lemma record_mark:
  assumes "cond_laws K"
  shows "keeps_record K D (mark_object tk (dt_obj t) (mark_deletion_in_progress K d msg))"
    and "keeps_record K D (mark_object tk (dt_obj t) (mark_deletion_blocked K d msg))"
  by (auto simp: keeps_record_def mark_object_def recorded_in_view set_get set_deleting mark_defs
      cond_view_edits [OF assms] condition_types)

lemmas record_rules = record_bind record_if record_option record_sum record_prod record_the_object
  record_simple record_patch

lemma record_release: "keeps_record K finished (release_finalizer E t)"
proof -
  have "recorded_in K s'" if "run_state (dt_remove_finalizer t) s = (Some e, s')" "recorded_in K s" for s e s'
    using remove_keeps [OF that(1)] that(2) by (simp add: recorded_in_view deletion_view_def)
  then show ?thesis
    by (auto simp: keeps_record_def release_finalizer_def finished_def split_beta State_Monad.return_def
        split: option.splits) (metis prod.collapse)
qed

lemma record_hold: "cond_laws (xl_cond X) \<Longrightarrow> keeps_record (xl_cond X) D (hold_recheck X w t rec what cause)"
  unfolding hold_recheck_def Let_def by (intro record_rules record_mark)

lemma record_wait: "cond_laws (xl_cond X) \<Longrightarrow> keeps_record (xl_cond X) D (wait_for_objects X w t left)"
  unfolding wait_for_objects_def Let_def by (intro record_rules record_mark)

lemma record_lost:
  assumes "cond_laws (xl_cond X)" and "lc_recorded counts \<noteq> []"
  shows "keeps_record (xl_cond X) finished (act_on_lost_identity X w t i v counts)"
proof -
  have clear: "keeps_record (xl_cond X) D (change_object (dt_clear_inventory t))" for D
    by (rule record_view) (simp add: keeps_def clear_keeps)
  show ?thesis
    unfolding act_on_lost_identity_def Let_def
    by (intro record_rules record_release record_hold clear assms(1)) (use assms(2) in simp_all)
qed

lemma record_survives:
  assumes "cond_laws (xl_cond X)" and "recorded_in (xl_cond X) s"
  shows "recorded_in (xl_cond X) (snd (run_state (run_deletion_cleanup X env t) s)) \<or>
    finished (fst (run_state (run_deletion_cleanup X env t) s))"
proof -
  let ?K = "xl_cond X"
  have rec: "recorded_wait_reason ?K (dt_obj t) (os_obj s) \<noteq> []"
    using assms(2) by (simp add: recorded_in_def)
  have identity: "keeps_record ?K D (resolve_deleting_identity E env t)" for D E
    unfolding resolve_deleting_identity_def Let_def by (intro record_rules)
  have gone: "keeps_record ?K finished (await_gone X w t c check)" for w c check
    unfolding await_gone_def by (intro record_rules record_hold record_wait record_release assms(1))
  have "keeps_record ?K finished (cleanup_pass X env t (os_obj s))"
    unfolding cleanup_pass_def Let_def
    by (intro record_rules record_release record_lost record_hold identity gone assms(1)) (use rec in simp_all)
  then show ?thesis
    using assms(2) by (simp add: run_deletion_cleanup_def keeps_record_def)
qed

lemma release_needs_cause:
  assumes no_cause: "\<not> release_cause X env t s" and laws: "plan_laws (xl_life X)"
  shows "sends s (\<lambda>a. \<not> is_finalizer_patch a) (run_deletion_cleanup X env t)" (is "sends s ?Q _")
proof -
  let ?E = "xl_err X" and ?obj = "os_obj s"
  let ?run = "\<lambda>c. run_cleanup (xl_life X) (xl_can_delete X) ?E c (dt_identities t) (dt_entries t)
    (cleanup_policy t ?obj) (dt_delete_data t)"
  have note_ok: "?Q a" if "is_status_note a" for a using that by (cases a) simp_all
  have read_ok: "?Q a" if "is_read a" for a using that by (cases a) simp_all
  obtain identity s1 where i: "run_state (resolve_deleting_identity ?E env t) s = (identity, s1)" by fastforce
  have identity_quiet: "emits ?Q (resolve_deleting_identity ?E env t)"
    unfolding resolve_deleting_identity_def Let_def by (intro emits_intro) simp_all
  have del_ok: "?Q a" if "deletes_only es a" for es a
    using that by (cases a) (auto simp: deletes_only_def)
  have cleanup_quiet: "emits ?Q (?run c)" for c
    by (rule emits_mono [OF emits_run_cleanup [OF laws] del_ok])
  have early: "\<not> early_release (xl_life X) t ?obj"
    using no_cause by (simp add: release_cause_def i Let_def)
  have lost: "sends s1 ?Q (act_on_lost_identity X w t identity
        (lc_may_release (xl_life X) (first_plan (xl_life X) t ?obj) zero_state (id_held identity))
        \<lparr>lc_claims = n, lc_planned = k, lc_recorded = recorded_wait_reason (xl_cond X) (dt_obj t) ?obj\<rparr>)"
    if "id_client identity = None" for w n k
    unfolding act_on_lost_identity_def Let_def
    by (rule sends_emits, intro emits_intro emits_stall emits_hold note_ok)
      (use no_cause that in \<open>simp_all add: release_cause_def i Let_def\<close>)
  have ran: "sends s2 ?Q (await_gone X w t c check)"
    if "id_client identity = Some c" "run_state (?run c) s1 = ((cleanup, None), s2)"
      "hv_release (hold_verdict_of (xl_life X) (cu_deletion cleanup))"
      "gc_steps check = deleted_steps (cu_deletion cleanup)" for c cleanup s2 w check
  proof -
    obtain r s3 where r: "run_state (still_there ?E c (gc_steps check)) s2 = (r, s3)" by fastforce
    have "r \<noteq> Inr []"
      using no_cause that r by (simp add: release_cause_def i Let_def hold_verdict_releases)
    then show ?thesis
      unfolding await_gone_def
      by (intro sends_bind [OF sends_emits [OF emits_still_there [OF read_ok]] r] sends_emits emits_intro
          emits_hold [OF note_ok] emits_wait [OF note_ok]) simp_all
  qed
  have "sends s1 ?Q (case id_client identity of None \<Rightarrow> l | Some c \<Rightarrow> ?run c \<bind> f c)"
    if "id_client identity = None \<Longrightarrow> sends s1 ?Q l"
      "\<And>c cleanup err s2. id_client identity = Some c \<Longrightarrow> run_state (?run c) s1 = ((cleanup, err), s2) \<Longrightarrow>
         sends s2 ?Q (f c (cleanup, err))" for l f
  proof (cases "id_client identity")
    case (Some c)
    obtain cleanup err s2 where run: "run_state (?run c) s1 = ((cleanup, err), s2)" by (metis prod.collapse)
    have "sends s1 ?Q (?run c \<bind> f c)"
      by (rule sends_bind [where f = "f c", OF sends_emits [OF cleanup_quiet] run that(2) [OF Some run]])
    then show ?thesis by (simp add: Some)
  qed (use that(1) in simp)
  note identity_cases = this
  have "sends s ?Q (cleanup_pass X env t ?obj)"
    unfolding cleanup_pass_def Let_def if_not_P [OF early]
    apply (rule sends_bind [OF sends_emits [OF identity_quiet] i], rule identity_cases, erule lost)
    subgoal for c cleanup err s2
      by (cases err) (auto simp: ran intro!: sends_emits emits_intro emits_hold emits_act_on_hold note_ok)
    done
  then show ?thesis
    by (auto simp: run_deletion_cleanup_def intro: sends_bind [OF sends_emits [OF emits_the_object]])
qed

end

end
