(* ===== verification/Warnings.thy ===== *)
theory Warnings
  imports Owned "HOL-Library.List_Lexorder" "HOL-Library.Char_ord"
begin

text \<open>
  internal/reconcile/warnings.go: the tracker of render warnings, which reports the warnings
  of a render when their set changes and not on every reconcile.
\<close>

section \<open>The facts of a render\<close>

text \<open>The plain data of a RenderResult; its resources are of the CUE library and exported apart.
  The traits of a component are in the order of the build; the components are a Go map, whose order
  no user of the facts depends on.\<close>

record resolved_version =
  rv_path :: string
  rv_module_version :: string
  rv_platform_version :: string
  rv_newer :: bool

record render_result =
  rr_warnings :: "string list"
  rr_unhandled_traits :: "(string \<times> string list) list"
  rr_resolved_versions :: "resolved_version list"
  rr_required_contracts :: "string list"
  rr_module_version :: string
  rr_platform_identity :: string
  rr_skew_policy :: string

definition distinct_sorted :: "string list \<Rightarrow> string list" where
  "distinct_sorted items = remdups_adj (sort (filter (\<lambda>w. w \<noteq> []) items))"

definition advisory_facts :: "render_result \<Rightarrow> string list" where
  "advisory_facts r =
     map (\<lambda>v. ''skew '' @ rv_path v @ '' '' @ rv_module_version v @ '' '' @ rv_platform_version v)
       (filter rv_newer (rr_resolved_versions r)) @
     concat (map (\<lambda>(comp, traits). map (\<lambda>trait. ''trait '' @ comp @ '' '' @ trait) traits) (rr_unhandled_traits r))"


section \<open>The tracker\<close>

type_synonym object_key = "string \<times> string"
type_synonym tracker = "object_key \<Rightarrow> string list option"

text \<open>Update on a nil tracker (None) and on one; a nil slice is the empty list.\<close>

definition tracker_update :: "object_key \<Rightarrow> string list \<Rightarrow> tracker option \<Rightarrow> bool \<times> tracker option" where
  "tracker_update key facts t =
     (let current = distinct_sorted facts
      in case t of
           None \<Rightarrow> (0 < length current, None)
         | Some seen \<Rightarrow>
             if seen key = Some current then (False, Some seen)
             else if current = [] then
               ((case seen key of None \<Rightarrow> False | Some previous \<Rightarrow> 0 < length previous), Some (seen(key \<mapsto> [])))
             else (True, Some (seen(key \<mapsto> current))))"

definition tracker_forget :: "object_key \<Rightarrow> tracker option \<Rightarrow> tracker option" where
  "tracker_forget key t = map_option (\<lambda>seen. seen(key := None)) t"

text \<open>The state of a reconciler that owns a tracker.\<close>

record ('w, 'o) rsys = "('w, 'o) osys" +
  rs_tracker :: "tracker option"

type_synonym ('w, 'o, 'z, 'a) rprog = "('w, 'o, ('z) rsys_ext, 'a) oprog"

definition update_tracker :: "object_key \<Rightarrow> string list \<Rightarrow> ('w, 'o, 'z, bool) rprog" where
  "update_tracker key facts =
     State (\<lambda>s. let (changed, t) = tracker_update key facts (rs_tracker s) in (changed, s\<lparr>rs_tracker := t\<rparr>))"

definition forget_tracker :: "object_key \<Rightarrow> ('w, 'o, 'z, unit) rprog" where
  "forget_tracker key = State (\<lambda>s. ((), s\<lparr>rs_tracker := tracker_forget key (rs_tracker s)\<rparr>))"

fun emit_each :: "string list \<Rightarrow> ('w, 'z, unit) prog" where
  "emit_each [] = State_Monad.return ()"
| "emit_each (w # ws) = do { emit_event ''Warning'' ''RenderWarning'' ''Render'' w; emit_each ws }"

definition emit_render_warnings :: "object_key \<Rightarrow> render_result \<Rightarrow> ('w, 'o, 'z, unit) rprog" where
  "emit_render_warnings key r =
     do { changed \<leftarrow> update_tracker key (advisory_facts r);
          (if \<not> changed then State_Monad.return () else emit_each (distinct_sorted (rr_warnings r))) }"

text \<open>reportRenderDiagnostics: the warnings, and log lines.\<close>

definition report_render_diagnostics :: "object_key \<Rightarrow> render_result \<Rightarrow> ('w, 'o, 'z, unit) rprog" where
  "report_render_diagnostics key r = emit_render_warnings key r"

lemma run_update_tracker [simp]:
  "run_state (update_tracker key facts) s =
     (fst (tracker_update key facts (rs_tracker s)), s\<lparr>rs_tracker := snd (tracker_update key facts (rs_tracker s))\<rparr>)"
  by (simp add: update_tracker_def split_beta Let_def)

lemma run_forget_tracker [simp]:
  "run_state (forget_tracker key) s = ((), s\<lparr>rs_tracker := tracker_forget key (rs_tracker s)\<rparr>)"
  by (simp add: forget_tracker_def)

lemma emits_tracker [emits_intro]: "emits P (update_tracker key facts)" "emits P (forget_tracker key)"
  by (rule emitsI; simp)+

lemma emits_diagnostics [emits_intro]:
  "(\<And>k r a t. P (EventAct k r a t)) \<Longrightarrow> emits P (report_render_diagnostics key res)"
proof -
  assume P: "\<And>k r a t. P (EventAct k r a t)"
  have "emits P (emit_each ws)" for ws by (induction ws) (auto intro!: emits_intro P)
  then show ?thesis
    unfolding report_render_diagnostics_def emit_render_warnings_def by (intro emits_intro)
qed

lemma keeps_tracker_obj [keeps_intro]:
  "keeps os_obj (update_tracker key facts)" "keeps os_obj (forget_tracker key)"
  by (simp_all add: keeps_def)


section \<open>The set a tracker remembers\<close>

text \<open>Abstractly the tracker is a set of facts per object, empty at first.\<close>

definition remembered :: "tracker \<Rightarrow> object_key \<Rightarrow> string set" where
  "remembered seen key = (case seen key of None \<Rightarrow> {} | Some facts \<Rightarrow> set facts)"

definition tracker_ok :: "tracker \<Rightarrow> bool" where
  "tracker_ok seen = (\<forall>key facts. seen key = Some facts \<longrightarrow> facts = distinct_sorted facts)"

definition real_facts :: "string list \<Rightarrow> string set" where
  "real_facts facts = set facts - {[]}"

lemma set_distinct_sorted [simp]: "set (distinct_sorted facts) = real_facts facts"
  by (auto simp: distinct_sorted_def real_facts_def)

lemma distinct_sorted_eq_iff: "distinct_sorted xs = distinct_sorted ys \<longleftrightarrow> real_facts xs = real_facts ys"
proof
  assume "real_facts xs = real_facts ys"
  then have "sort (remdups (filter (\<lambda>w. w \<noteq> []) xs)) = sort (remdups (filter (\<lambda>w. w \<noteq> []) ys))"
    by (intro sorted_distinct_set_unique) (auto simp: real_facts_def)
  moreover have "remdups_adj (sort zs) = sort (remdups zs)" for zs :: "string list"
    using strict_sorted_adj [of "sort zs"] by (intro sorted_distinct_set_unique) (simp_all add: strict_sorted_iff)
  ultimately show "distinct_sorted xs = distinct_sorted ys" by (simp add: distinct_sorted_def)
qed (metis set_distinct_sorted)

lemma distinct_sorted_idem [simp]: "distinct_sorted (distinct_sorted xs) = distinct_sorted xs"
  by (simp add: distinct_sorted_eq_iff) (auto simp: real_facts_def)

lemma distinct_sorted_nil [simp]: "distinct_sorted [] = []"
  by (simp add: distinct_sorted_def)

lemma distinct_sorted_nil_iff: "distinct_sorted xs = [] \<longleftrightarrow> real_facts xs = {}"
  by (metis set_distinct_sorted set_empty)

text \<open>C34: the tracker implements a set of facts per object: an update reports a change exactly when
  the set of facts differs from the remembered one, whatever the order and the repetitions, and
  remembers the new set; forgetting an object empties its set; no other object is affected.\<close>

theorem tracker_refines_sets:
  assumes "tracker_ok seen"
  shows "(case tracker_update key facts (Some seen) of
       (changed, Some seen') \<Rightarrow> tracker_ok seen' \<and>
          changed = (real_facts facts \<noteq> remembered seen key) \<and>
          remembered seen' = (remembered seen)(key := real_facts facts)
     | (changed, None) \<Rightarrow> False) \<and>
    (case tracker_forget key (Some seen) of
       Some seen' \<Rightarrow> tracker_ok seen' \<and> remembered seen' = (remembered seen)(key := {})
     | None \<Rightarrow> False)"
proof -
  have prev: "facts' = distinct_sorted facts'" if "seen key = Some facts'" for facts'
    using assms that unfolding tracker_ok_def by blast
  have same: "seen key = Some (distinct_sorted facts) \<longleftrightarrow>
      seen key \<noteq> None \<and> real_facts facts = remembered seen key"
    using prev by (auto simp: remembered_def) (metis distinct_sorted_eq_iff set_distinct_sorted)
  show ?thesis
  proof (cases "seen key = Some (distinct_sorted facts)")
    case True
    then show ?thesis
      using assms same
      by (auto simp: tracker_update_def tracker_forget_def tracker_ok_def remembered_def fun_eq_iff)
  next
    case False
    then show ?thesis
      using assms same
      by (auto simp: tracker_update_def tracker_forget_def tracker_ok_def remembered_def fun_eq_iff
          distinct_sorted_nil_iff Let_def split: option.splits)
  qed
qed

theorem tracker_refines_sets_witness:
  "fst (tracker_update (''ns'', ''a'') [''y'', ''x'', ''y''] (Some (Map.empty((''ns'', ''a'') \<mapsto> [''x'', ''y''])))) = False"
proof -
  have "tracker_ok (Map.empty((''ns'', ''a'') \<mapsto> [''x'', ''y'']))"
    by (simp add: tracker_ok_def distinct_sorted_def)
  from tracker_refines_sets [OF this, where key = "(''ns'', ''a'')" and facts = "[''y'', ''x'', ''y'']"]
  show ?thesis by (auto simp: remembered_def real_facts_def split: prod.splits option.splits)
qed

end
