(* ===== verification/Status_Record.thy ===== *)
theory Status_Record
  imports Api
begin

text \<open>
  internal/status/counters.go, history.go and digests.go: the failure counters,
  the bounded history and the four digests of a reconciled object, and the key
  over the inputs of a render.
\<close>

section \<open>counters.go\<close>

definition counter_reconcile :: string where "counter_reconcile = ''reconcile''"
definition counter_apply :: string where "counter_apply = ''apply''"
definition counter_prune :: string where "counter_prune = ''prune''"
definition counter_drift :: string where "counter_drift = ''drift''"

lemmas counter_names = counter_reconcile_def counter_apply_def counter_prune_def counter_drift_def

definition zero_counters :: failure_counters where
  "zero_counters = \<lparr>fc_reconcile = 0, fc_apply = 0, fc_prune = 0, fc_drift = 0\<rparr>"

definition ensure_counters :: "failure_counters option \<Rightarrow> failure_counters" where
  "ensure_counters c = (case c of None \<Rightarrow> zero_counters | Some x \<Rightarrow> x)"

definition increment_counter :: "failure_counters \<Rightarrow> string \<Rightarrow> failure_counters" where
  "increment_counter c field =
     (if field = counter_reconcile then c\<lparr>fc_reconcile := fc_reconcile c + 1\<rparr>
      else if field = counter_apply then c\<lparr>fc_apply := fc_apply c + 1\<rparr>
      else if field = counter_prune then c\<lparr>fc_prune := fc_prune c + 1\<rparr>
      else if field = counter_drift then c\<lparr>fc_drift := fc_drift c + 1\<rparr>
      else c)"

definition reset_counter :: "failure_counters \<Rightarrow> string \<Rightarrow> failure_counters" where
  "reset_counter c field =
     (if field = counter_reconcile then c\<lparr>fc_reconcile := 0\<rparr>
      else if field = counter_apply then c\<lparr>fc_apply := 0\<rparr>
      else if field = counter_prune then c\<lparr>fc_prune := 0\<rparr>
      else if field = counter_drift then c\<lparr>fc_drift := 0\<rparr>
      else c)"

definition read_counter :: "failure_counters \<Rightarrow> string \<Rightarrow> int64" where
  "read_counter c field =
     (if field = counter_reconcile then fc_reconcile c
      else if field = counter_apply then fc_apply c
      else if field = counter_prune then fc_prune c
      else if field = counter_drift then fc_drift c else 0)"

lemmas counter_ops = increment_counter_def reset_counter_def read_counter_def

definition counter_fields :: "string list" where
  "counter_fields = [counter_reconcile, counter_apply, counter_prune, counter_drift]"

lemma read_increment:
  "f \<in> set counter_fields \<Longrightarrow>
   read_counter (increment_counter c g) f = (if f = g then read_counter c f + 1 else read_counter c f)"
  by (auto simp: counter_ops counter_names counter_fields_def)

lemma read_reset:
  "f \<in> set counter_fields \<Longrightarrow>
   read_counter (reset_counter c g) f = (if f = g then 0 else read_counter c f)"
  by (auto simp: counter_ops counter_names counter_fields_def)


section \<open>digests.go\<close>

record digest_set =
  dg_source :: string
  dg_config :: string
  dg_render :: string
  dg_inventory :: string

definition is_no_op :: "digest_set \<Rightarrow> digest_set \<Rightarrow> bool" where
  "is_no_op current last_applied =
     (if dg_source last_applied = [] \<or> dg_config last_applied = [] \<or>
         dg_render last_applied = [] \<or> dg_inventory last_applied = [] then False
      else dg_source current = dg_source last_applied \<and>
           dg_config current = dg_config last_applied \<and>
           dg_render current = dg_render last_applied \<and>
           dg_inventory current = dg_inventory last_applied)"

text \<open>crypto/sha256 is a function of the bytes hashed: a parameter, printed as lower-case hex.\<close>

definition sha256_digest :: "(string \<Rightarrow> string) \<Rightarrow> string \<Rightarrow> string" where
  "sha256_digest sha256_hex bytes = ''sha256:'' @ sha256_hex bytes"

definition module_source_digest :: "(string \<Rightarrow> string) \<Rightarrow> string \<Rightarrow> string \<Rightarrow> string" where
  "module_source_digest sha256_hex module_path module_version =
     sha256_digest sha256_hex (module_path @ ''@'' @ module_version)"

text \<open>\<open>canonical raw\<close> is the value of encoding/json's Marshal after Unmarshal, None when
  the bytes are not JSON. Marshalling an unmarshalled value does not fail, and both of
  the source's error branches hash the raw bytes.\<close>

definition config_digest :: "(string \<Rightarrow> string) \<Rightarrow> (string \<Rightarrow> string option) \<Rightarrow> string option \<Rightarrow> string" where
  "config_digest sha256_hex canonical values =
     (case values of
        None \<Rightarrow> sha256_digest sha256_hex []
      | Some raw \<Rightarrow>
          if raw = [] then sha256_digest sha256_hex []
          else case canonical raw of
                 None \<Rightarrow> sha256_digest sha256_hex raw
               | Some bytes \<Rightarrow> sha256_digest sha256_hex bytes)"

record render_input_key =
  rk_source :: string
  rk_config :: string
  rk_package_identity :: string
  rk_skew_policy :: string
  rk_controller_version :: string
  rk_library_version :: string

definition render_inputs_encoding :: string where
  "render_inputs_encoding = ''opm-render-inputs/v1''"

definition key_parts :: "render_input_key \<Rightarrow> string list" where
  "key_parts k = [rk_source k, rk_config k, rk_package_identity k, rk_skew_policy k,
                  rk_controller_version k, rk_library_version k]"

definition key_complete :: "render_input_key \<Rightarrow> bool" where
  "key_complete k = ([] \<notin> set (key_parts k))"

definition write_part :: "string \<Rightarrow> string" where
  "write_part s = itoa (length s) @ '':'' @ s"

definition key_bytes :: "render_input_key \<Rightarrow> string" where
  "key_bytes k = concat (map write_part (render_inputs_encoding # key_parts k))"

definition key_digest :: "(string \<Rightarrow> string) \<Rightarrow> render_input_key \<Rightarrow> string" where
  "key_digest sha256_hex k = sha256_digest sha256_hex (key_bytes k)"

lemma write_part_inject:
  assumes "write_part s @ us = write_part t @ vs"
  shows "s = t \<and> us = vs"
proof -
  have "itoa (length s) @ CHR '':'' # (s @ us) = itoa (length t) @ CHR '':'' # (t @ vs)"
    using assms by (simp add: write_part_def)
  then have "itoa (length s) = itoa (length t)" and tail: "s @ us = t @ vs"
    by (simp_all add: append_sep_inject)
  then have "length s = length t" using itoa_inject by blast
  with tail show ?thesis by simp
qed

lemma write_parts_inject:
  "length xs = length ys \<Longrightarrow>
   concat (map write_part xs) = concat (map write_part ys) \<longleftrightarrow> xs = ys"
proof (induction xs ys rule: list_induct2)
  case (Cons x xs y ys)
  then show ?case using write_part_inject [of x _ y] by auto
qed simp

lemma key_parts_inject: "key_parts k = key_parts l \<Longrightarrow> k = l"
  by (cases k; cases l) (simp add: key_parts_def)

text \<open>C14: two render input keys encode to the same bytes only when they are the same key,
  so under a collision-free hash the recorded digest matches only the recorded inputs and
  a render is never wrongly skipped.\<close>

theorem render_key_encoding_injective:
  "(key_bytes k = key_bytes l \<longleftrightarrow> k = l) \<and>
   (inj sha256_hex \<longrightarrow> (key_digest sha256_hex k = key_digest sha256_hex l \<longleftrightarrow> k = l))"
proof -
  have inj: "key_bytes k = key_bytes l \<longleftrightarrow> k = l"
  proof
    assume "key_bytes k = key_bytes l"
    then have "render_inputs_encoding # key_parts k = render_inputs_encoding # key_parts l"
      unfolding key_bytes_def by (subst (asm) write_parts_inject) (simp_all add: key_parts_def)
    then show "k = l" by (simp add: key_parts_inject)
  qed simp
  then show ?thesis by (auto simp: key_digest_def sha256_digest_def dest: injD)
qed

theorem render_key_encoding_injective_witness:
  "key_digest id \<lparr>rk_source = ''a'', rk_config = ''b'', rk_package_identity = ''c'',
       rk_skew_policy = ''Warn'', rk_controller_version = ''1'', rk_library_version = ''12''\<rparr>
   \<noteq> key_digest id \<lparr>rk_source = ''a'', rk_config = ''b'', rk_package_identity = ''c'',
       rk_skew_policy = ''Warn'', rk_controller_version = ''11'', rk_library_version = ''2''\<rparr>"
  using render_key_encoding_injective
    [of "\<lparr>rk_source = ''a'', rk_config = ''b'', rk_package_identity = ''c'',
       rk_skew_policy = ''Warn'', rk_controller_version = ''1'', rk_library_version = ''12''\<rparr>"
      "\<lparr>rk_source = ''a'', rk_config = ''b'', rk_package_identity = ''c'',
       rk_skew_policy = ''Warn'', rk_controller_version = ''11'', rk_library_version = ''2''\<rparr>" id]
  by simp


section \<open>history.go\<close>

definition max_history_entries :: nat where "max_history_entries = 10"

definition new_success_entry ::
    "time \<Rightarrow> string \<Rightarrow> string \<Rightarrow> digest_set \<Rightarrow> int64 \<Rightarrow> history_entry" where
  "new_success_entry now action phase digests inventory_count =
     \<lparr>he_sequence = 0, he_action = action, he_phase = phase,
      he_started_at = Some now, he_finished_at = Some now,
      he_source_digest = dg_source digests, he_config_digest = dg_config digests,
      he_render_digest = dg_render digests, he_inventory_digest = dg_inventory digests,
      he_inventory_count = inventory_count, he_message = []\<rparr>"

definition new_failure_entry ::
    "time \<Rightarrow> string \<Rightarrow> string \<Rightarrow> digest_set \<Rightarrow> history_entry" where
  "new_failure_entry now action message digests =
     \<lparr>he_sequence = 0, he_action = action, he_phase = [],
      he_started_at = Some now, he_finished_at = Some now,
      he_source_digest = dg_source digests, he_config_digest = dg_config digests,
      he_render_digest = dg_render digests, he_inventory_digest = dg_inventory digests,
      he_inventory_count = 0, he_message = message\<rparr>"

fun max_sequence :: "int64 \<Rightarrow> history_entry list \<Rightarrow> int64" where
  "max_sequence m [] = m"
| "max_sequence m (e # es) =
     max_sequence (if sint (he_sequence e) > sint m then he_sequence e else m) es"

definition next_sequence :: "history_entry list \<Rightarrow> int64" where
  "next_sequence history = (if history = [] then 1 else max_sequence 0 history + 1)"

definition record_history :: "history_entry list \<Rightarrow> history_entry \<Rightarrow> history_entry list" where
  "record_history history entry =
     (let history' = entry\<lparr>he_sequence := next_sequence history\<rparr> # history
      in if length history' > max_history_entries then take max_history_entries history' else history')"

text \<open>The history as every recorder leaves it: bounded, and newest first by sequence.\<close>

definition history_ok :: "history_entry list \<Rightarrow> bool" where
  "history_ok h = (length h \<le> max_history_entries \<and>
     sorted_wrt (\<lambda>a b. sint (he_sequence a) > sint (he_sequence b)) h \<and>
     (\<forall>e \<in> set h. 0 < sint (he_sequence e)))"

lemma max_sequence_head:
  "\<forall>e \<in> set es. sint (he_sequence e) \<le> sint m \<Longrightarrow> max_sequence m es = m"
  by (induction es arbitrary: m) auto

lemma next_sequence_ok:
  "history_ok h \<Longrightarrow> next_sequence h = (case h of [] \<Rightarrow> 1 | e # _ \<Rightarrow> he_sequence e + 1)"
  by (cases h) (auto simp: next_sequence_def history_ok_def intro!: max_sequence_head less_imp_le)

lemma sint_plus_one:
  "sint (w :: int64) < 2 ^ 63 - 1 \<Longrightarrow> sint (w + 1) = sint w + 1"
  using sint_greater_eq [of w] by (simp add: sint_word_ariths signed_take_bit_int_eq_self)

text \<open>Recording an entry keeps the history at most ten long, newest first with strictly
  decreasing positive sequence numbers, puts the given entry in front under the next number and
  drops only the oldest, as long as the newest number is below the int64 maximum.\<close>

theorem record_history_invariant:
  assumes ok: "history_ok h"
    and room: "\<And>e es. h = e # es \<Longrightarrow> sint (he_sequence e) < 2 ^ 63 - 1"
  shows "history_ok (record_history h entry) \<and>
         hd (record_history h entry) = entry\<lparr>he_sequence := next_sequence h\<rparr> \<and>
         tl (record_history h entry) = take 9 h \<and>
         sint (next_sequence h) = (case h of [] \<Rightarrow> 1 | e # _ \<Rightarrow> sint (he_sequence e) + 1)"
proof -
  have shape: "record_history h entry = entry\<lparr>he_sequence := next_sequence h\<rparr> # take 9 h"
    by (auto simp: record_history_def Let_def max_history_entries_def)
  have seq: "sint (next_sequence h) = (case h of [] \<Rightarrow> 1 | e # _ \<Rightarrow> sint (he_sequence e) + 1)"
    using next_sequence_ok [OF ok] room by (cases h) (simp_all add: sint_plus_one)
  have above: "\<forall>e \<in> set (take 9 h). sint (he_sequence e) < sint (next_sequence h)"
    using ok seq by (cases h) (auto simp: history_ok_def dest!: in_set_takeD)
  have pos: "0 < sint (next_sequence h)"
    using ok seq by (cases h) (auto simp: history_ok_def)
  have "history_ok (take 9 h)"
    using ok by (auto simp: history_ok_def sorted_wrt_take max_history_entries_def dest: in_set_takeD)
  then have "history_ok (record_history h entry)"
    using above pos by (auto simp: shape history_ok_def max_history_entries_def)
  then show ?thesis using shape seq by simp
qed

definition sample_digests :: digest_set where
  "sample_digests = \<lparr>dg_source = ''s'', dg_config = ''c'', dg_render = ''r'', dg_inventory = ''i''\<rparr>"

theorem record_history_invariant_witness:
  "history_ok (record_history (record_history [] (new_failure_entry 1 ''reconcile'' ''boom'' sample_digests))
     (new_success_entry 2 ''apply'' ''complete'' sample_digests 3))"
proof -
  let ?h = "record_history [] (new_failure_entry 1 ''reconcile'' ''boom'' sample_digests)"
  have h: "?h = [(new_failure_entry 1 ''reconcile'' ''boom'' sample_digests)\<lparr>he_sequence := 1\<rparr>]"
    by (simp add: record_history_def next_sequence_def max_history_entries_def)
  have "history_ok ?h" by (simp add: h history_ok_def max_history_entries_def)
  moreover have "sint (he_sequence e) < 2 ^ 63 - 1" if "?h = e # es" for e es
    using that unfolding h by auto
  ultimately show ?thesis using record_history_invariant by blast
qed

end
