(* ===== verification/Platform_Store.thy ===== *)
theory Platform_Store
  imports Errors Status_Record "HOL-Library.AList" "HOL-Library.List_Lexorder" "HOL-Library.Char_ord"
begin

text \<open>
  internal/platform/identity.go, skew.go and store.go: the identity of a generated platform
  package, the skew policy, and the store with the leases renders hold on it.
\<close>

section \<open>identity.go\<close>

record claim_coordinate =
  cc_catalog :: string
  cc_version :: string

definition coordinate_string :: "claim_coordinate \<Rightarrow> string" where
  "coordinate_string c = cc_catalog c @ ''@'' @ cc_version c"

record package_identity =
  pi_generation :: int64
  pi_claims :: string

definition zero_identity :: package_identity where
  "zero_identity = \<lparr>pi_generation = 0, pi_claims = []\<rparr>"

definition new_package_identity :: "int64 \<Rightarrow> claim_coordinate list \<Rightarrow> package_identity" where
  "new_package_identity generation claims =
     \<lparr>pi_generation = generation,
      pi_claims = join '','' (remdups_adj (sort (map coordinate_string claims)))\<rparr>"

text \<open>strings.Split with a separator of one byte.\<close>

fun split_at :: "char \<Rightarrow> string \<Rightarrow> string list" where
  "split_at sep [] = [[]]"
| "split_at sep (c # cs) =
     (if c = sep then [] # split_at sep cs
      else case split_at sep cs of [] \<Rightarrow> [[c]] | w # ws \<Rightarrow> (c # w) # ws)"

definition identity_claims :: "package_identity \<Rightarrow> string list" where
  "identity_claims i = (if pi_claims i = [] then [] else split_at (CHR '','') (pi_claims i))"

definition identity_is_zero :: "package_identity \<Rightarrow> bool" where
  "identity_is_zero i = (i = zero_identity)"

text \<open>The first eight bytes of a digest are sixteen digits of its hexadecimal form.\<close>

definition identity_string :: "(string \<Rightarrow> string) \<Rightarrow> package_identity \<Rightarrow> string" where
  "identity_string sha256_hex i =
     (let name = ''gen-'' @ itoa_int (sint (pi_generation i))
      in if pi_claims i = [] then name else name @ ''-'' @ take 16 (sha256_hex (pi_claims i)))"


section \<open>Reading an identity back\<close>

lemma split_at_nonempty [simp]: "split_at sep s \<noteq> []"
  by (cases s) (auto split: list.splits)

lemma split_at_plain: "sep \<notin> set s \<Longrightarrow> split_at sep s = [s]"
  by (induction s) auto

lemma split_at_append: "sep \<notin> set a \<Longrightarrow> split_at sep (a @ sep # b) = a # split_at sep b"
  by (induction a) auto

lemma split_at_join:
  "ws \<noteq> [] \<Longrightarrow> \<forall>w \<in> set ws. sep \<notin> set w \<Longrightarrow> split_at sep (join [sep] ws) = ws"
proof (induction ws)
  case (Cons w ws)
  then show ?case
    by (cases ws) (simp_all add: split_at_plain split_at_append)
qed simp

lemma join_nil_iff: "\<forall>w \<in> set ws. w \<noteq> [] \<Longrightarrow> join sep ws = [] \<longleftrightarrow> ws = []"
  by (cases "(sep, ws)" rule: join.cases) auto

text \<open>Catalog paths and versions hold no comma.\<close>

definition plain_claims :: "claim_coordinate list \<Rightarrow> bool" where
  "plain_claims cs = list_all (\<lambda>c. CHR '','' \<notin> set (coordinate_string c)) cs"

lemma canonical_claims:
  assumes "plain_claims cs"
  shows "identity_claims (new_package_identity g cs) = remdups_adj (sort (map coordinate_string cs))"
proof (cases cs)
  case (Cons c cs')
  let ?ws = "remdups_adj (sort (map coordinate_string cs))"
  have elems: "set ?ws = coordinate_string ` set cs" by simp
  have some: "\<forall>w \<in> set ?ws. w \<noteq> []" by (simp add: elems coordinate_string_def)
  have "?ws \<noteq> []" using Cons by (metis elems empty_iff empty_set image_eqI list.set_intros(1))
  moreover have "\<forall>w \<in> set ?ws. CHR '','' \<notin> set w"
    using assms by (simp add: elems plain_claims_def list_all_iff)
  ultimately show ?thesis
    using split_at_join [of ?ws "CHR '',''"] join_nil_iff [OF some]
    by (simp add: identity_claims_def new_package_identity_def)
qed (simp add: identity_claims_def new_package_identity_def)

text \<open>An identity is the set of its claims: two packages have the same identity exactly when
  their generations and their sets of coordinates are the same, in whatever order and however often
  the claims were listed, and the claims read back are that set, sorted.\<close>

theorem package_identity_is_set:
  assumes "plain_claims cs" and "plain_claims ds"
  shows "(new_package_identity g cs = new_package_identity h ds \<longleftrightarrow>
      g = h \<and> coordinate_string ` set cs = coordinate_string ` set ds) \<and>
    set (identity_claims (new_package_identity g cs)) = coordinate_string ` set cs \<and>
    sorted_wrt (<) (identity_claims (new_package_identity g cs))"
proof -
  have same: "remdups_adj (sort (map coordinate_string cs)) = remdups_adj (sort (map coordinate_string ds))"
    if "coordinate_string ` set cs = coordinate_string ` set ds"
    by (rule strict_sorted_equal) (simp_all add: strict_sorted_adj that)
  have claims: "coordinate_string ` set cs = coordinate_string ` set ds"
    if "new_package_identity g cs = new_package_identity h ds"
  proof -
    have "identity_claims (new_package_identity g cs) = identity_claims (new_package_identity h ds)"
      using that by simp
    then have "set (remdups_adj (sort (map coordinate_string cs))) = set (remdups_adj (sort (map coordinate_string ds)))"
      by (simp only: canonical_claims [OF assms(1)] canonical_claims [OF assms(2)])
    then show ?thesis by simp
  qed
  show ?thesis
    using same claims by (auto simp: canonical_claims [OF assms(1)] strict_sorted_adj)
      (auto simp: new_package_identity_def)
qed

definition sample_claims :: "claim_coordinate list" where
  "sample_claims = [\<lparr>cc_catalog = ''opmodel.dev/b@v1'', cc_version = ''v1.2.0''\<rparr>,
                    \<lparr>cc_catalog = ''opmodel.dev/a@v0'', cc_version = ''v0.1.0''\<rparr>]"

theorem package_identity_is_set_witness:
  "new_package_identity 3 sample_claims = new_package_identity 3 (rev sample_claims @ sample_claims)"
proof -
  have "plain_claims sample_claims" "plain_claims (rev sample_claims @ sample_claims)"
    by (simp_all add: plain_claims_def sample_claims_def coordinate_string_def)
  from package_identity_is_set [OF this, of 3 3] show ?thesis by simp
qed


section \<open>skew.go\<close>

text \<open>The kernel's skew policies.\<close>

datatype skew_policy = SkewWarn | SkewRefuse

definition singleton_name :: string where "singleton_name = ''cluster''"

text \<open>The Platform, by what the render path reads of it.\<close>

record platform_view =
  pf_skew_policy :: "string option"
  pf_package_identity :: string

definition resolve_skew_policy :: "platform_view \<Rightarrow> skew_policy" where
  "resolve_skew_policy p = (if pf_skew_policy p = Some ''Refuse'' then SkewRefuse else SkewWarn)"

definition skew_policy_name :: "skew_policy \<Rightarrow> string" where
  "skew_policy_name p = (if p = SkewRefuse then ''Refuse'' else ''Warn'')"

definition pin_set :: "platform_view \<Rightarrow> string" where
  "pin_set p = pf_package_identity p"


section \<open>store.go\<close>

text \<open>The record of a generated platform module; the built platform is a value of the OPM library.\<close>

record 'b generated =
  gn_identity :: package_identity
  gn_dir :: string
  gn_platform :: 'b
  gn_skew :: skew_policy

text \<open>The Go map \<open>leases\<close> is an association list.\<close>

record 'b platform_store =
  st_generated :: "'b generated option"
  st_identity :: package_identity
  st_leases :: "(package_identity \<times> int) list"

definition new_store :: "'b platform_store" where
  "new_store = \<lparr>st_generated = None, st_identity = zero_identity, st_leases = []\<rparr>"

definition set_generated :: "'b generated \<Rightarrow> 'b platform_store \<Rightarrow> 'b platform_store" where
  "set_generated g s = s\<lparr>st_generated := Some g, st_identity := gn_identity g\<rparr>"

definition store_generated :: "'b platform_store \<Rightarrow> 'b generated option" where
  "store_generated s = st_generated s"

definition lease_count :: "'b platform_store \<Rightarrow> package_identity \<Rightarrow> int" where
  "lease_count s i = (case map_of (st_leases s) i of None \<Rightarrow> 0 | Some n \<Rightarrow> n)"

definition lease :: "'b platform_store \<Rightarrow> ('b generated \<times> 'b platform_store) option" where
  "lease s =
     (case st_generated s of
        None \<Rightarrow> None
      | Some rec \<Rightarrow>
          Some (rec, s\<lparr>st_leases := AList.update (gn_identity rec) (lease_count s (gn_identity rec) + 1) (st_leases s)\<rparr>))"

definition release_lease :: "package_identity \<Rightarrow> 'b platform_store \<Rightarrow> 'b platform_store" where
  "release_lease i s =
     (if lease_count s i \<le> 1 then s\<lparr>st_leases := AList.delete i (st_leases s)\<rparr>
      else s\<lparr>st_leases := AList.update i (lease_count s i - 1) (st_leases s)\<rparr>)"

text \<open>The release function of a lease runs once; \<open>fired\<close> is its sync.Once.\<close>

definition release_once :: "package_identity \<Rightarrow> bool \<Rightarrow> 'b platform_store \<Rightarrow> bool \<times> 'b platform_store" where
  "release_once i fired s = (if fired then (True, s) else (True, release_lease i s))"

definition leased :: "(string \<Rightarrow> string) \<Rightarrow> 'b platform_store \<Rightarrow> package_identity list" where
  "leased sha256_hex s = sort_key (identity_string sha256_hex) (map fst (st_leases s))"

definition clear_store :: "'b platform_store \<Rightarrow> 'b platform_store" where
  "clear_store s = s\<lparr>st_generated := None, st_identity := zero_identity\<rparr>"


section \<open>Leases and the directories they protect\<close>

text \<open>
  What a render and the Platform reconciler rely on of the store: a lease names the current package
  and counts it, a release takes one off, and the leased packages are those with a count.
\<close>

locale lease_store =
  fixes current :: "'s \<Rightarrow> package_identity option"
    and take_lease :: "'s \<Rightarrow> (package_identity \<times> 's) option"
    and give_back :: "package_identity \<Rightarrow> 's \<Rightarrow> 's"
    and held :: "'s \<Rightarrow> package_identity set"
    and count :: "'s \<Rightarrow> package_identity \<Rightarrow> int"
    and ident :: "'g \<Rightarrow> package_identity"
    and set_current :: "'g \<Rightarrow> 's \<Rightarrow> 's"
    and drop_current :: "'s \<Rightarrow> 's"
    and ok :: "'s \<Rightarrow> bool"
  assumes lease_current: "take_lease s = Some (i, s') \<Longrightarrow> current s = Some i \<and> current s' = current s"
    and lease_counts: "ok s \<Longrightarrow> take_lease s = Some (i, s') \<Longrightarrow> ok s' \<and> count s' = (count s)(i := count s i + 1)"
    and release_counts: "ok s \<Longrightarrow> 0 < count s i \<Longrightarrow> ok (give_back i s) \<and>
        count (give_back i s) = (count s)(i := count s i - 1) \<and> current (give_back i s) = current s"
    and held_counts: "ok s \<Longrightarrow> i \<in> held s \<longleftrightarrow> 0 < count s i"
    and set_counts: "ok s \<Longrightarrow> ok (set_current g s) \<and> count (set_current g s) = count s \<and>
        current (set_current g s) = Some (ident g)"
    and drop_counts: "ok s \<Longrightarrow> ok (drop_current s) \<and> count (drop_current s) = count s \<and> current (drop_current s) = None"

text \<open>
  The Platform reconciler between its reconciles: it has written the directory of an identity, has
  made it current, or has collected the identities its prune keeps.
\<close>

datatype platform_phase = PlatformIdle | PlatformWritten package_identity | PlatformSet package_identity
  | PlatformKeep "package_identity set"

record 's protocol =
  pr_store :: 's
  pr_holders :: "package_identity list"
  pr_dirs :: "package_identity set"
  pr_phase :: platform_phase

context lease_store begin

text \<open>Renders take and give back leases at any moment of the one Platform reconciler's steps.\<close>

inductive protocol_step :: "'s protocol \<Rightarrow> 's protocol \<Rightarrow> bool" where
  render_starts: "take_lease (pr_store p) = Some (i, s') \<Longrightarrow>
    protocol_step p (p\<lparr>pr_store := s', pr_holders := i # pr_holders p\<rparr>)"
| render_ends: "i \<in> set (pr_holders p) \<Longrightarrow>
    protocol_step p (p\<lparr>pr_store := give_back i (pr_store p), pr_holders := remove1 i (pr_holders p)\<rparr>)"
| written: "pr_phase p = PlatformIdle \<Longrightarrow>
    protocol_step p (p\<lparr>pr_dirs := insert i (pr_dirs p), pr_phase := PlatformWritten i\<rparr>)"
| made_current: "pr_phase p = PlatformWritten i \<Longrightarrow> ident g = i \<Longrightarrow>
    protocol_step p (p\<lparr>pr_store := set_current g (pr_store p), pr_phase := PlatformSet i\<rparr>)"
| build_failed: "pr_phase p = PlatformWritten i \<Longrightarrow> protocol_step p (p\<lparr>pr_phase := PlatformIdle\<rparr>)"
| collected: "pr_phase p = PlatformSet i \<Longrightarrow>
    protocol_step p (p\<lparr>pr_phase := PlatformKeep (insert i (held (pr_store p)))\<rparr>)"
| pruned: "pr_phase p = PlatformKeep keep \<Longrightarrow> pr_dirs p \<inter> keep \<subseteq> rest \<Longrightarrow> rest \<subseteq> pr_dirs p \<Longrightarrow>
    protocol_step p (p\<lparr>pr_dirs := rest, pr_phase := PlatformIdle\<rparr>)"
| deleted: "pr_phase p = PlatformIdle \<Longrightarrow>
    protocol_step p (p\<lparr>pr_store := drop_current (pr_store p)\<rparr>)"

definition protected :: "'s protocol \<Rightarrow> bool" where
  "protected p =
     (ok (pr_store p) \<and> (\<forall>i. count (pr_store p) i = int (count_list (pr_holders p) i)) \<and>
      set (pr_holders p) \<subseteq> pr_dirs p \<and>
      (\<forall>i. current (pr_store p) = Some i \<longrightarrow> i \<in> pr_dirs p) \<and>
      (case pr_phase p of
         PlatformIdle \<Rightarrow> True
       | PlatformWritten i \<Rightarrow> i \<in> pr_dirs p
       | PlatformSet i \<Rightarrow> i \<in> pr_dirs p \<and> current (pr_store p) = Some i
       | PlatformKeep keep \<Rightarrow> set (pr_holders p) \<subseteq> keep \<and>
           (\<exists>i. current (pr_store p) = Some i \<and> i \<in> keep)))"

lemma protected_step: "protocol_step p p' \<Longrightarrow> protected p \<Longrightarrow> protected p'"
proof (induction rule: protocol_step.induct)
  case (render_starts p i s')
  then show ?case
    using lease_current [of "pr_store p" i s'] lease_counts [of "pr_store p" i s']
    by (auto simp: protected_def split: platform_phase.splits)
next
  case (render_ends i p)
  have count: "count_list (remove1 i xs) j = (if j = i then count_list xs i - 1 else count_list xs j)"
    if "i \<in> set xs" for j and xs :: "package_identity list"
    using that by (induction xs) (auto simp: count_list_0_iff)
  have "0 < count_list (pr_holders p) i" using render_ends(1) by (simp add: count_list_0_iff neq0_conv [symmetric])
  then show ?case
    using render_ends release_counts [of "pr_store p" i] set_remove1_subset [of i "pr_holders p"]
    by (auto simp: protected_def count of_nat_diff split: platform_phase.splits)
next
  case (made_current p i g)
  then show ?case using set_counts [of "pr_store p" g] by (auto simp: protected_def)
next
  case (collected p i)
  then show ?case
    using held_counts [of "pr_store p"]
    by (auto simp: protected_def count_list_0_iff neq0_conv [symmetric])
next
  case (pruned p keep rest)
  then show ?case by (auto simp: protected_def)
next
  case (deleted p)
  then show ?case using drop_counts [of "pr_store p"] by (auto simp: protected_def)
qed (auto simp: protected_def)

inductive protocol_reachable :: "'s protocol \<Rightarrow> 's protocol \<Rightarrow> bool" for start where
  start: "protocol_reachable start start"
| step: "protocol_reachable start p \<Longrightarrow> protocol_step p p' \<Longrightarrow> protocol_reachable start p'"

lemma reachable_protected: "protocol_reachable start p \<Longrightarrow> protected start \<Longrightarrow> protected p"
  by (induction rule: protocol_reachable.induct) (auto intro: protected_step)

end

definition current_identity :: "'b platform_store \<Rightarrow> package_identity option" where
  "current_identity s = map_option gn_identity (store_generated s)"

definition take_lease :: "'b platform_store \<Rightarrow> (package_identity \<times> 'b platform_store) option" where
  "take_lease s = map_option (\<lambda>(g, s'). (gn_identity g, s')) (lease s)"

definition leases_ok :: "'b platform_store \<Rightarrow> bool" where
  "leases_ok s = (distinct (map fst (st_leases s)) \<and> list_all (\<lambda>(i, n). 0 < n) (st_leases s))"

lemma in_update: "e \<in> set (AList.update i n xs) \<Longrightarrow> e = (i, n) \<or> e \<in> set xs"
  by (induction xs) (auto split: if_splits)

lemma leases_update: "leases_ok s \<Longrightarrow> 0 < n \<Longrightarrow> leases_ok (s\<lparr>st_leases := AList.update i n (st_leases s)\<rparr>)"
  by (auto simp: leases_ok_def distinct_update list_all_iff dest!: in_update)

lemma leases_delete: "leases_ok s \<Longrightarrow> leases_ok (s\<lparr>st_leases := AList.delete i (st_leases s)\<rparr>)"
  using distinct_delete [of "st_leases s" i] by (auto simp: leases_ok_def list_all_iff AList.delete_eq)

lemma lease_count_update:
  "lease_count (s\<lparr>st_leases := AList.update i n (st_leases s)\<rparr>) = (lease_count s)(i := n)"
  by (auto simp: lease_count_def update_conv' fun_eq_iff)

lemma lease_count_delete:
  "lease_count (s\<lparr>st_leases := AList.delete i (st_leases s)\<rparr>) = (lease_count s)(i := 0)"
  by (auto simp: lease_count_def delete_conv' fun_eq_iff)

lemma lease_count_pos: "leases_ok s \<Longrightarrow> i \<in> fst ` set (st_leases s) \<longleftrightarrow> 0 < lease_count s i"
proof -
  assume ok: "leases_ok s"
  show "i \<in> fst ` set (st_leases s) \<longleftrightarrow> 0 < lease_count s i"
  proof (cases "map_of (st_leases s) i")
    case None
    then have "i \<notin> fst ` set (st_leases s)" by (simp only: map_of_eq_None_iff not_False_eq_True)
    with None show ?thesis by (simp add: lease_count_def)
  next
    case (Some n)
    then have "(i, n) \<in> set (st_leases s)" by (rule map_of_SomeD)
    with ok Some show ?thesis by (force simp: leases_ok_def lease_count_def list_all_iff)
  qed
qed

interpretation leases: lease_store current_identity take_lease release_lease "\<lambda>s. set (leased sha256_hex s)"
    lease_count gn_identity set_generated clear_store leases_ok
proof unfold_locales
  fix s s' :: "'a platform_store" and i
  assume ok: "leases_ok s"
  {
    assume "take_lease s = Some (i, s')"
    then obtain g where "st_generated s = Some g" "gn_identity g = i"
      "s' = s\<lparr>st_leases := AList.update i (lease_count s i + 1) (st_leases s)\<rparr>"
      by (auto simp: take_lease_def lease_def split: option.splits)
    moreover have "0 \<le> lease_count s i"
      using ok by (auto simp: leases_ok_def lease_count_def list_all_iff split: option.split dest: map_of_SomeD)
    ultimately show "leases_ok s' \<and> lease_count s' = (lease_count s)(i := lease_count s i + 1)"
      using leases_update [OF ok, of "lease_count s i + 1" i] by (simp add: lease_count_update)
  }
  show "i \<in> set (leased sha256_hex s) \<longleftrightarrow> 0 < lease_count s i"
    using lease_count_pos [OF ok] by (simp add: leased_def)
  assume "0 < lease_count s i"
  then show "leases_ok (release_lease i s) \<and>
      lease_count (release_lease i s) = (lease_count s)(i := lease_count s i - 1) \<and>
      current_identity (release_lease i s) = current_identity s"
    using leases_update [OF ok, of "lease_count s i - 1" i] leases_delete [OF ok, of i]
    by (auto simp: release_lease_def lease_count_update lease_count_delete current_identity_def store_generated_def)
next
  fix s s' :: "'a platform_store" and i
  assume "take_lease s = Some (i, s')"
  then show "current_identity s = Some i \<and> current_identity s' = current_identity s"
    by (auto simp: take_lease_def lease_def current_identity_def store_generated_def split: option.splits)
qed (auto simp: leases_ok_def set_generated_def clear_store_def lease_count_def current_identity_def
    store_generated_def fun_eq_iff)

definition boot_protocol :: "'b platform_store protocol" where
  "boot_protocol = \<lparr>pr_store = new_store, pr_holders = [], pr_dirs = {}, pr_phase = PlatformIdle\<rparr>"

lemma boot_protected: "leases.protected boot_protocol"
  by (simp add: leases.protected_def boot_protocol_def new_store_def leases_ok_def lease_count_def
      current_identity_def store_generated_def)

text \<open>Whatever the renders and the Platform reconciler do in whatever order, the module directory
  of every package a render holds a lease on is on disk, and so is that of the current package;
  the store counts exactly the leases that are held.\<close>

theorem leased_directories_survive:
  assumes "leases.protocol_reachable sha256_hex boot_protocol p"
  shows "set (pr_holders p) \<subseteq> pr_dirs p \<and>
    (\<forall>i. current_identity (pr_store p) = Some i \<longrightarrow> i \<in> pr_dirs p) \<and>
    (\<forall>i. lease_count (pr_store p) i = int (count_list (pr_holders p) i)) \<and>
    set (leased sha256_hex (pr_store p)) = set (pr_holders p)"
proof -
  have p: "leases.protected p"
    using leases.reachable_protected [OF assms boot_protected] .
  then have "i \<in> set (leased sha256_hex (pr_store p)) \<longleftrightarrow> i \<in> set (pr_holders p)" for i
    using leases.held_counts [of "pr_store p" i sha256_hex]
    by (simp add: leases.protected_def count_list_0_iff neq0_conv [symmetric])
  with p show ?thesis by (auto simp: leases.protected_def)
qed

definition sample_generated :: "unit generated" where
  "sample_generated = \<lparr>gn_identity = new_package_identity 1 sample_claims, gn_dir = ''/platform/gen-1'',
     gn_platform = (), gn_skew = SkewWarn\<rparr>"

theorem leased_directories_survive_witness:
  "\<exists>p. leases.protocol_reachable id (boot_protocol :: unit platform_store protocol) p \<and>
     pr_holders p = [gn_identity sample_generated] \<and> gn_identity sample_generated \<in> pr_dirs p"
proof -
  let ?i = "gn_identity sample_generated"
  let ?p0 = "boot_protocol :: unit platform_store protocol"
  let ?p1 = "?p0\<lparr>pr_dirs := {?i}, pr_phase := PlatformWritten ?i\<rparr>"
  let ?p2 = "?p1\<lparr>pr_store := set_generated sample_generated new_store, pr_phase := PlatformSet ?i\<rparr>"
  let ?s3 = "(set_generated sample_generated new_store)\<lparr>st_leases := [(?i, 1)]\<rparr>"
  let ?p3 = "?p2\<lparr>pr_store := ?s3, pr_holders := [?i]\<rparr>"
  have s1: "leases.protocol_step id ?p0 ?p1"
    using leases.written [of ?p0 id ?i] by (simp add: boot_protocol_def)
  have s2: "leases.protocol_step id ?p1 ?p2"
    using leases.made_current [of ?p1 ?i sample_generated id] by (simp add: boot_protocol_def)
  have "take_lease (pr_store ?p2) = Some (?i, ?s3)"
    by (simp add: take_lease_def lease_def set_generated_def new_store_def lease_count_def)
  then have s3: "leases.protocol_step id ?p2 ?p3"
    using leases.render_starts [of ?p2 ?i ?s3 id] by (simp add: boot_protocol_def)
  have reach: "leases.protocol_reachable id ?p0 ?p3"
    using leases.protocol_reachable.step [OF leases.protocol_reachable.step
      [OF leases.protocol_reachable.step [OF leases.protocol_reachable.start s1] s2] s3] .
  have "set (pr_holders ?p3) \<subseteq> pr_dirs ?p3" using leased_directories_survive [OF reach] by blast
  with reach show ?thesis by (intro exI [of _ ?p3]) simp
qed

end
