(* ===== verification/Health.thy ===== *)
theory Health
  imports Apply Outcome Conditions
begin

text \<open>
  internal/reconcile/health.go: the Healthy condition, judged from a read of every
  inventory entry. What makes an object healthy is the OPM library's opm/k8s/health,
  a parameter.
\<close>

section \<open>Reading the inventory\<close>

datatype 'x health_read = ReadObject uobj | ReadMissing | ReadFailed "'x goerr"

definition health_read_entry ::
    "'x errlib \<Rightarrow> ('w, 'x) client \<Rightarrow> inventory_entry \<Rightarrow> ('w, 'z, 'x health_read) prog" where
  "health_read_entry E c e =
     (if ie_version e = [] then State_Monad.return
        (ReadFailed (Fmt ''the inventory entry records no API version'' []))
      else do { r \<leftarrow> get_object c (object_of_entry e);
                State_Monad.return
                  (case r of Inr u \<Rightarrow> ReadObject u
                   | Inl err \<Rightarrow> if ae_not_found E err \<or> ae_no_match E err then ReadMissing
                               else ReadFailed err) })"

text \<open>
  The source reads in parallel, at most eight at a time, and puts each result at its entry's
  index; the reads of one judgement are of different objects, so a run of them is a sequence. An
  entry that gets no turn before the shared deadline is not read and has the context's error.
\<close>
fun read_entries ::
    "'x errlib \<Rightarrow> 'w ticker \<Rightarrow> ('w, 'x) client \<Rightarrow> inventory_entry list \<Rightarrow>
     ('w, 'z, 'x health_read list) prog" where
  "read_entries E tk c [] = State_Monad.return []"
| "read_entries E tk c (e # es) =
     do { done \<leftarrow> ask (tk_ctx_err tk);
          r \<leftarrow> (case done of Some cause \<Rightarrow> State_Monad.return (ReadFailed (Sentinel cause))
                | None \<Rightarrow> health_read_entry E c e);
          rs \<leftarrow> read_entries E tk c es;
          State_Monad.return (r # rs) }"


section \<open>The verdict\<close>

text \<open>opm/k8s/health: the status of an object, whether it is healthy, whether its rollout is past
  its progress deadline, the aggregate of statuses and a number of absent objects with the ready
  and total counts, and the two statuses the source names.\<close>

record health_lib =
  hl_evaluate :: "uobj \<Rightarrow> string"
  hl_is_healthy :: "string \<Rightarrow> bool"
  hl_deadline_exceeded :: "uobj \<Rightarrow> bool"
  hl_aggregate :: "string list \<Rightarrow> nat \<Rightarrow> string \<times> nat \<times> nat"
  hl_unknown :: string
  hl_missing :: string

datatype requeue_class = HealthNoRequeue | HealthBackoff | HealthStalled

record health_verdict =
  hd_status :: cond_status
  hd_reason :: string
  hd_message :: string
  hd_requeue :: requeue_class
  hd_absent_job :: bool

definition is_job_entry :: "inventory_entry \<Rightarrow> bool" where
  "is_job_entry e = (ie_group e = ''batch'' \<and> ie_kind e = ''Job'')"

definition describe_entry :: "inventory_entry \<Rightarrow> string" where
  "describe_entry e =
     (if ie_namespace e = [] then ie_kind e @ '' '' @ ie_name e
      else ie_kind e @ '' '' @ ie_namespace e @ ''/'' @ ie_name e)"

definition health_message_objects :: nat where "health_message_objects = 5"

definition name_objects :: "string list \<Rightarrow> string" where
  "name_objects names =
     (if length names \<le> health_message_objects then join '', '' names
      else join '', '' (take health_message_objects names) @ '', and '' @
           itoa (length names - health_message_objects) @ '' more'')"

text \<open>What the loop over the reads collects.\<close>

record health_tally =
  ht_statuses :: "string list"
  ht_stalled :: "string list"
  ht_not_ready :: "string list"
  ht_absent :: nat
  ht_absent_job :: bool
  ht_unreadable :: "string list"

definition empty_tally :: health_tally where
  "empty_tally = \<lparr>ht_statuses = [], ht_stalled = [], ht_not_ready = [], ht_absent = 0,
                  ht_absent_job = False, ht_unreadable = []\<rparr>"

fun tally_read ::
    "health_lib \<Rightarrow> 'x errlib \<Rightarrow> inventory_entry \<times> 'x health_read \<Rightarrow> health_tally \<Rightarrow> health_tally" where
  "tally_read H E (e, ReadMissing) t =
     t\<lparr>ht_absent := ht_absent t + 1, ht_absent_job := ht_absent_job t \<or> is_job_entry e,
       ht_not_ready := ht_not_ready t @ [describe_entry e @ '' ('' @ hl_missing H @ '')'']\<rparr>"
| "tally_read H E (e, ReadFailed err) t =
     t\<lparr>ht_unreadable := ht_unreadable t @ [''reading '' @ describe_entry e @ '': '' @ err_text E err]\<rparr>"
| "tally_read H E (e, ReadObject u) t =
     (let s = hl_evaluate H u; t = t\<lparr>ht_statuses := ht_statuses t @ [s]\<rparr> in
      if hl_deadline_exceeded H u
      then t\<lparr>ht_stalled := ht_stalled t @ [describe_entry e @ '' ('' @ s @ '')'']\<rparr>
      else if \<not> hl_is_healthy H s
      then t\<lparr>ht_not_ready := ht_not_ready t @ [describe_entry e @ '' ('' @ s @ '')'']\<rparr>
      else t)"

definition verdict_of_tally :: "health_lib \<Rightarrow> health_tally \<Rightarrow> health_verdict" where
  "verdict_of_tally H t =
     (let (agg, ready, total) = hl_aggregate H (ht_statuses t) (ht_absent t + length (ht_unreadable t));
          counts = itoa ready @ ''/'' @ itoa total @ '' objects ready''
      in if ht_stalled t \<noteq> [] then
           \<lparr>hd_status = CFalse, hd_reason = ''ProgressDeadlineExceeded'',
            hd_message = counts @ '': '' @ name_objects (ht_stalled t @ ht_not_ready t),
            hd_requeue = HealthStalled, hd_absent_job = ht_absent_job t\<rparr>
         else if ht_not_ready t \<noteq> [] then
           \<lparr>hd_status = CFalse, hd_reason = ''NotRolledOut'',
            hd_message = counts @ '': '' @ name_objects (ht_not_ready t),
            hd_requeue = HealthBackoff, hd_absent_job = ht_absent_job t\<rparr>
         else if ht_unreadable t \<noteq> [] then
           \<lparr>hd_status = CUnknown, hd_reason = ''HealthUnknown'',
            hd_message = counts @ '': '' @ hd (ht_unreadable t),
            hd_requeue = HealthBackoff, hd_absent_job = ht_absent_job t\<rparr>
         else if agg = hl_unknown H then
           \<lparr>hd_status = CUnknown, hd_reason = ''HealthUnknown'',
            hd_message = counts @ '': the inventory is empty'',
            hd_requeue = HealthNoRequeue, hd_absent_job = False\<rparr>
         else \<lparr>hd_status = CTrue, hd_reason = ''RolledOut'', hd_message = counts,
               hd_requeue = HealthNoRequeue, hd_absent_job = False\<rparr>)"

definition judge_reads ::
    "health_lib \<Rightarrow> 'x errlib \<Rightarrow> inventory_entry list \<Rightarrow> 'x health_read list \<Rightarrow> health_verdict" where
  "judge_reads H E entries reads =
     verdict_of_tally H (fold (tally_read H E) (zip entries reads) empty_tally)"

definition judge_health ::
    "health_lib \<Rightarrow> 'x errlib \<Rightarrow> 'w ticker \<Rightarrow> ('w, 'x) client \<Rightarrow> inventory_entry list \<Rightarrow>
     ('w, 'z, health_verdict) prog" where
  "judge_health H E tk c entries =
     do { reads \<leftarrow> read_entries E tk c entries;
          State_Monad.return (judge_reads H E entries reads) }"

definition unreadable_verdict ::
    "health_lib \<Rightarrow> 'x errlib \<Rightarrow> inventory_entry list \<Rightarrow> 'x goerr \<Rightarrow> health_verdict" where
  "unreadable_verdict H E entries err =
     (let (agg, ready, total) = hl_aggregate H [] (length entries)
      in \<lparr>hd_status = CUnknown, hd_reason = ''HealthUnknown'',
          hd_message = itoa ready @ ''/'' @ itoa total @ '' objects ready: building the health reader: '' @ err_text E err,
          hd_requeue = HealthBackoff, hd_absent_job = False\<rparr>)"

definition apply_health :: "condlib \<Rightarrow> health_verdict \<Rightarrow> mark" where
  "apply_health K v = mark_healthy K (hd_status v) (hd_reason v) (hd_message v)"

lemma emits_judge_health [emits_intro]:
  "(\<And>a. is_read a \<Longrightarrow> P a) \<Longrightarrow> emits P (judge_health H E tk c entries)"
proof -
  assume P: "\<And>a. is_read a \<Longrightarrow> P a"
  have reads: "emits P (read_entries E tk c es)" for es
    by (induction es) (auto simp: health_read_entry_def intro!: emits_intro P split: option.split)
  show ?thesis unfolding judge_health_def by (intro emits_intro reads)
qed

lemma length_read_entries: "length (fst (run_state (read_entries E tk c es) s)) = length es"
proof (induction es arbitrary: s)
  case (Cons e es)
  show ?case by (simp add: split_beta Cons.IH)
qed simp

text \<open>An entry that is rolled out.\<close>

fun read_ok :: "health_lib \<Rightarrow> 'x health_read \<Rightarrow> bool" where
  "read_ok H (ReadObject u) = (\<not> hl_deadline_exceeded H u \<and> hl_is_healthy H (hl_evaluate H u))"
| "read_ok H _ = False"

fun read_status :: "health_lib \<Rightarrow> 'x health_read \<Rightarrow> string list" where
  "read_status H (ReadObject u) = [hl_evaluate H u]"
| "read_status H _ = []"

lemma tally_reads:
  assumes "length entries = length reads"
  shows "ht_statuses (fold (tally_read H E) (zip entries reads) t) = ht_statuses t @ concat (map (read_status H) reads) \<and>
    ((ht_stalled (fold (tally_read H E) (zip entries reads) t) = [] \<and>
      ht_not_ready (fold (tally_read H E) (zip entries reads) t) = [] \<and>
      ht_unreadable (fold (tally_read H E) (zip entries reads) t) = []) =
     (ht_stalled t = [] \<and> ht_not_ready t = [] \<and> ht_unreadable t = [] \<and> list_all (read_ok H) reads)) \<and>
    (list_all (read_ok H) reads \<longrightarrow> ht_absent (fold (tally_read H E) (zip entries reads) t) = ht_absent t)"
  using assms
proof (induction entries reads arbitrary: t rule: list_induct2)
  case (Cons e es r rs)
  then show ?case by (cases r) (auto simp: Let_def)
qed simp

text \<open>Healthy is True exactly when every entry of the inventory was read and is healthy and not
  stalled and the library does not call the aggregate unknown; a failed or missing read never
  yields True.\<close>

theorem health_true_iff:
  assumes "length entries = length reads"
  shows "hd_status (judge_reads H E entries reads) = CTrue \<longleftrightarrow>
    list_all (read_ok H) reads \<and> fst (hl_aggregate H (concat (map (read_status H) reads)) 0) \<noteq> hl_unknown H"
proof -
  note t = tally_reads [OF assms, of H E empty_tally]
  let ?t = "fold (tally_read H E) (zip entries reads) empty_tally"
  show ?thesis
  proof (cases "list_all (read_ok H) reads")
    case True
    with t have "ht_stalled ?t = []" "ht_not_ready ?t = []" "ht_unreadable ?t = []" "ht_absent ?t = 0"
      "ht_statuses ?t = concat (map (read_status H) reads)"
      by (simp_all add: empty_tally_def)
    with True show ?thesis by (simp add: judge_reads_def verdict_of_tally_def split_beta Let_def)
  next
    case False
    with t have "ht_stalled ?t \<noteq> [] \<or> ht_not_ready ?t \<noteq> [] \<or> ht_unreadable ?t \<noteq> []"
      by (auto simp: empty_tally_def)
    with False show ?thesis by (auto simp: judge_reads_def verdict_of_tally_def split_beta Let_def)
  qed
qed

definition sample_health :: health_lib where
  "sample_health = \<lparr>hl_evaluate = (\<lambda>u. if u_kind u = ''Job'' then ''Complete'' else ''Ready''),
     hl_is_healthy = (\<lambda>st. st = ''Ready'' \<or> st = ''Complete''), hl_deadline_exceeded = (\<lambda>u. False),
     hl_aggregate = (\<lambda>sts absent. (if sts = [] then ''Unknown'' else ''Ready'', length sts, length sts + absent)),
     hl_unknown = ''Unknown'', hl_missing = ''Missing''\<rparr>"

theorem health_true_iff_witness:
  "hd_status (judge_reads sample_health sample_errors [sample_entry ''ConfigMap'' ''a'']
     [ReadObject (object_of_entry (sample_entry ''ConfigMap'' ''a''))]) = CTrue \<and>
   hd_status (judge_reads sample_health sample_errors [sample_entry ''ConfigMap'' ''a''] [ReadMissing]) \<noteq> CTrue"
proof -
  have "hd_status (judge_reads sample_health sample_errors [sample_entry ''ConfigMap'' ''a'']
     [ReadObject (object_of_entry (sample_entry ''ConfigMap'' ''a''))]) = CTrue"
    by (subst health_true_iff) (simp_all add: sample_health_def)
  moreover have "hd_status (judge_reads sample_health sample_errors [sample_entry ''ConfigMap'' ''a''] [ReadMissing]) \<noteq> CTrue"
    by (subst health_true_iff) simp_all
  ultimately show ?thesis ..
qed


section \<open>When to judge again\<close>

definition health_requeue_floor :: duration where "health_requeue_floor = 5 * second"
definition health_requeue_ceiling :: duration where "health_requeue_ceiling = 2 * minute"

definition health_requeue :: "health_verdict \<Rightarrow> time option \<Rightarrow> time \<Rightarrow> duration" where
  "health_requeue v last_applied_at now =
     (case hd_requeue v of
        HealthStalled \<Rightarrow> stalled_recheck_interval
      | HealthBackoff \<Rightarrow>
          (case last_applied_at of
             None \<Rightarrow> health_requeue_floor
           | Some t \<Rightarrow> if t > now then health_requeue_floor
                       else min (max ((now - t) div 2) health_requeue_floor) health_requeue_ceiling)
      | HealthNoRequeue \<Rightarrow> 0)"

definition package_requeue :: "duration \<Rightarrow> duration \<Rightarrow> duration" where
  "package_requeue health_after interval =
     (if health_after > 0 \<and> health_after < interval then health_after else interval)"

text \<open>The reader of a judgement: the client that applied under an effective ServiceAccount, else the
  manager's uncached reader, or its client where none is wired.\<close>

definition manager_reader :: "'c option \<Rightarrow> 'c \<Rightarrow> 'c" where
  "manager_reader api_reader c = (case api_reader of Some r \<Rightarrow> r | None \<Rightarrow> c)"

definition applied_reader :: "string \<Rightarrow> 'c \<Rightarrow> 'c option \<Rightarrow> 'c \<Rightarrow> 'c" where
  "applied_reader effective_sa apply_client api_reader c =
     (if effective_sa \<noteq> [] then apply_client else manager_reader api_reader c)"

definition inventory_entries :: "inventory option \<Rightarrow> inventory_entry list" where
  "inventory_entries inv0 = (case inv0 of None \<Rightarrow> [] | Some i \<Rightarrow> inv_entries i)"

lemma health_requeue_bounds:
  "health_requeue v t now = 0 \<or>
   health_requeue_floor \<le> health_requeue v t now \<and> health_requeue v t now \<le> stalled_recheck_interval"
  by (auto simp: health_requeue_def health_requeue_floor_def health_requeue_ceiling_def backoff_consts
      split: requeue_class.split option.split)

end
