(* ===== verification/Render_Inputs.thy ===== *)
theory Render_Inputs
  imports Warnings Platform_Store Health
begin

text \<open>
  internal/reconcile/inputs.go, version.go and converted.go and internal/inventory: when a
  render may be skipped, what a render records of itself, and its export for apply.
\<close>

section \<open>inputs.go\<close>

definition rendered_key :: "string \<Rightarrow> string \<Rightarrow> render_result \<Rightarrow> string \<Rightarrow> string \<Rightarrow> render_input_key" where
  "rendered_key source config r controller_version library_version =
     \<lparr>rk_source = source, rk_config = config, rk_package_identity = rr_platform_identity r,
      rk_skew_policy = rr_skew_policy r, rk_controller_version = controller_version,
      rk_library_version = library_version\<rparr>"

definition record_inputs ::
    "(string \<Rightarrow> string) \<Rightarrow> render_input_key option \<Rightarrow> time \<Rightarrow> render_inputs option \<Rightarrow> render_inputs option" where
  "record_inputs sha256_hex key now field =
     (case key of
        None \<Rightarrow> field
      | Some k \<Rightarrow> if \<not> key_complete k then None
                  else Some \<lparr>ri_digest = key_digest sha256_hex k, ri_rendered_at = now\<rparr>)"

definition no_op_inputs :: "duration \<Rightarrow> render_input_key option \<Rightarrow> render_input_key option" where
  "no_op_inputs interval key = (if interval \<le> 0 then None else key)"

text \<open>The client's read of the Platform singleton.\<close>

definition platform_key_parts ::
    "('w \<Rightarrow> ('x goerr + platform_view) \<times> 'w) \<Rightarrow> ('w, 'z, string \<times> string) prog" where
  "platform_key_parts get_platform =
     do { r \<leftarrow> request (ReadAct \<lparr>or_group = ''opmodel.dev'', or_kind = ''Platform'', or_namespace = [],
                                 or_name = singleton_name\<rparr>) get_platform;
          State_Monad.return
            (case r of Inl _ \<Rightarrow> ([], [])
             | Inr p \<Rightarrow> (pin_set p, skew_policy_name (resolve_skew_policy p))) }"

record render_skip =
  rs_interval :: duration
  rs_now :: time

definition fresh_render :: "render_skip \<Rightarrow> render_inputs option \<Rightarrow> bool" where
  "fresh_render sk recorded =
     (case recorded of
        None \<Rightarrow> False
      | Some ri \<Rightarrow> let age = rs_now sk - ri_rendered_at ri in 0 < rs_interval sk \<and> 0 \<le> age \<and> age < rs_interval sk)"

definition succeeded :: "condlib \<Rightarrow> cond list \<Rightarrow> bool" where
  "succeeded K conds =
     (case k_find K ready_condition conds of
        None \<Rightarrow> False
      | Some ready \<Rightarrow> c_status ready = CTrue \<and> c_reason ready = reconciliation_succeeded_reason)"

definition may_skip ::
    "(string \<Rightarrow> string) \<Rightarrow> condlib \<Rightarrow> render_skip \<Rightarrow> cond list \<Rightarrow> int64 \<Rightarrow> int64 \<Rightarrow> render_inputs option \<Rightarrow>
     ('w, 'z, render_input_key) prog \<Rightarrow> ('w, 'z, bool) prog" where
  "may_skip sha256_hex K sk conds generation observed_generation recorded key =
     (if rs_interval sk \<le> 0 \<or> recorded = None then State_Monad.return False
      else if \<not> fresh_render sk recorded then State_Monad.return False
      else if \<not> succeeded K conds then State_Monad.return False
      else if generation \<noteq> observed_generation then State_Monad.return False
      else do { k \<leftarrow> key;
                State_Monad.return (key_complete k \<and> Some (key_digest sha256_hex k) = map_option ri_digest recorded) })"


section \<open>version.go\<close>

definition applied_version :: "string option \<Rightarrow> string" where
  "applied_version rendered = (case rendered of None \<Rightarrow> [] | Some v \<Rightarrow> v)"

definition record_no_op_version :: "string option \<Rightarrow> string \<Rightarrow> string" where
  "record_no_op_version rendered field = (case rendered of None \<Rightarrow> field | Some v \<Rightarrow> v)"


section \<open>inventory/convert.go and converted.go\<close>

text \<open>The library's Entry has the six fields of the API's entry: both are \<open>inventory_entry\<close>, and
  ToEntry and FromEntry copy field by field.\<close>

definition to_entry :: "inventory_entry \<Rightarrow> inventory_entry" where
  "to_entry e = \<lparr>ie_group = ie_group e, ie_kind = ie_kind e, ie_namespace = ie_namespace e,
                 ie_name = ie_name e, ie_version = ie_version e, ie_component = ie_component e\<rparr>"

definition from_entry :: "inventory_entry \<Rightarrow> inventory_entry" where
  "from_entry e = \<lparr>ie_group = ie_group e, ie_kind = ie_kind e, ie_namespace = ie_namespace e,
                   ie_name = ie_name e, ie_version = ie_version e, ie_component = ie_component e\<rparr>"

text \<open>A nil slice is None.\<close>

definition to_entries :: "inventory_entry list option \<Rightarrow> inventory_entry list option" where
  "to_entries es = map_option (map to_entry) es"

definition from_entries :: "inventory_entry list option \<Rightarrow> inventory_entry list option" where
  "from_entries es = map_option (map from_entry) es"

lemma entry_round_trip [simp]: "from_entry (to_entry e) = e" "to_entry (from_entry e) = e"
  by (simp_all add: to_entry_def from_entry_def)

lemma entries_round_trip: "from_entries (to_entries es) = es"
  by (cases es) (simp_all add: to_entries_def from_entries_def map_idI)

text \<open>
  opm/k8s/object and opm/k8s/inventory: Export of the rendered resources (a failure is an
  ExportError with its step and resource, or another error), the entry of an object, the render
  digest, the stale set and the inventory digest.
\<close>

datatype 'x export_failure =
    ExportError bool string "'x goerr" | ExportOther "'x goerr"

record ('x, 'r) export_lib =
  ex_export :: "'r \<Rightarrow> 'x export_failure + uobj list"
  ex_new_entry :: "uobj \<Rightarrow> inventory_entry"
  ex_render_digest :: "uobj list \<Rightarrow> 'x goerr + string"
  ex_stale_set :: "inventory_entry list \<Rightarrow> inventory_entry list \<Rightarrow> inventory_entry list"
  ex_inventory_digest :: "inventory_entry list \<Rightarrow> string"

record converted_render =
  cr_result :: render_result
  cr_digest :: string
  cr_resources :: "uobj list"
  cr_entries :: "inventory_entry list"

definition entry_of :: "('x, 'r) export_lib \<Rightarrow> uobj \<Rightarrow> inventory_entry" where
  "entry_of X u = from_entry (ex_new_entry X u)"

text \<open>conversionError is \<open>ConversionErr reason step err\<close>; the boolean of an ExportError is its step
  ExportDecode.\<close>

definition render_digest_failure :: "'x goerr \<Rightarrow> 'x goerr" where
  "render_digest_failure err = ConversionErr ''RenderFailed'' ''computing render digest'' err"

definition export_failure :: "'x errlib \<Rightarrow> 'x export_failure \<Rightarrow> 'x goerr" where
  "export_failure E f =
     (case f of
        ExportOther err \<Rightarrow> ConversionErr ''RenderFailed'' ''computing render digest'' err
      | ExportError decode resource err \<Rightarrow>
          if decode
          then ConversionErr ''ApplyFailed'' ''converting resources''
                 (Fmt (''converting '' @ resource @ '' to unstructured: '' @ err_text E err) [err])
          else ConversionErr ''RenderFailed'' ''computing render digest''
                 (Fmt (''render digest: '' @ err_text E err) [err]))"

text \<open>A rendered resource is a value of the CUE library; the render hands over the list of them.\<close>

definition convert_render ::
    "'x errlib \<Rightarrow> ('x, 'r) export_lib \<Rightarrow> render_result \<Rightarrow> 'r \<Rightarrow> 'x goerr + converted_render" where
  "convert_render E X result rendered =
     (case ex_export X rendered of
        Inl f \<Rightarrow> Inl (export_failure E f)
      | Inr objs \<Rightarrow>
          (case ex_render_digest X objs of
             Inl err \<Rightarrow> Inl (render_digest_failure err)
           | Inr digest \<Rightarrow>
               Inr \<lparr>cr_result = result, cr_digest = digest, cr_resources = objs,
                    cr_entries = map (entry_of X) objs\<rparr>))"

definition stale_entries ::
    "('x, 'r) export_lib \<Rightarrow> inventory_entry list option \<Rightarrow> inventory_entry list \<Rightarrow> inventory_entry list" where
  "stale_entries X previous current =
     map from_entry (ex_stale_set X (case to_entries previous of None \<Rightarrow> [] | Some es \<Rightarrow> es) (map to_entry current))"

definition inventory_digest_of :: "('x, 'r) export_lib \<Rightarrow> inventory_entry list \<Rightarrow> string" where
  "inventory_digest_of X es = ex_inventory_digest X (map to_entry es)"


section \<open>When a render is skipped\<close>

lemma emits_may_skip [emits_intro]: "emits P key \<Longrightarrow> emits P (may_skip sha256_hex K sk cs g og rec key)"
  unfolding may_skip_def by (intro emits_intro)

lemma emits_platform_key_parts [emits_intro]:
  "(\<And>a. is_read a \<Longrightarrow> P a) \<Longrightarrow> emits P (platform_key_parts get)"
  unfolding platform_key_parts_def by (intro emits_intro) simp

lemma keeps_skip [keeps_intro]:
  "keeps g key \<Longrightarrow> keeps g (may_skip sha256_hex K sk cs gn og rec key)"
  "keeps sys.more (platform_key_parts get)"
  unfolding may_skip_def platform_key_parts_def by (intro keeps_intro; assumption?)+

definition cheap_checks :: "condlib \<Rightarrow> render_skip \<Rightarrow> cond list \<Rightarrow> int64 \<Rightarrow> int64 \<Rightarrow> render_inputs option \<Rightarrow> bool" where
  "cheap_checks K sk conds generation observed recorded =
     (fresh_render sk recorded \<and> succeeded K conds \<and> generation = observed)"

text \<open>A render is skipped exactly when the last one is younger than the interval and not from the
  future, the object is Ready as that render left it, its generation was observed, and the complete
  key of the inputs of now hashes to the recorded digest; the Platform is read only when every other
  check has passed.\<close>

theorem may_skip_spec:
  "run_state (may_skip sha256_hex K sk conds generation observed recorded key) s =
     (if cheap_checks K sk conds generation observed recorded
      then (let (k, s') = run_state key s
            in (key_complete k \<and> map_option ri_digest recorded = Some (key_digest sha256_hex k), s'))
      else (False, s))"
  by (cases recorded)
    (auto simp: may_skip_def cheap_checks_def fresh_render_def split_beta State_Monad.return_def Let_def)

end
