(* ===== verification/Identity.thy ===== *)
theory Identity
  imports Effects
begin

text \<open>
  internal/reconcile/identity.go: what a render's instance identity means for the
  two recorded ones, and the protocol the reconciles of one instance follow with
  it. The protocol is a step relation over the recorded identities and the
  identities the objects of the inventory carry.
\<close>

section \<open>identity.go\<close>

definition recorded_identities :: "string list \<Rightarrow> string list" where
  "recorded_identities ids = filter (\<lambda>i. i \<noteq> []) ids"

record identity_plan =
  ip_instance :: string
  ip_previous :: string
  ip_changed :: bool
  ip_refused :: bool
  ip_prune :: "string list"

definition plan_identities :: "string \<Rightarrow> string \<Rightarrow> string \<Rightarrow> bool \<Rightarrow> identity_plan" where
  "plan_identities recorded previous rendered legacy_fallback =
     (let keep = \<lparr>ip_instance = recorded, ip_previous = previous, ip_changed = False,
                  ip_refused = False, ip_prune = recorded_identities [recorded, previous]\<rparr>
      in if rendered = [] \<or> rendered = recorded then keep
         else if recorded = [] then
           \<lparr>ip_instance = rendered, ip_previous = [], ip_changed = True, ip_refused = False,
            ip_prune = [rendered] @ (if legacy_fallback then [[]] else [])\<rparr>
         else if previous = [] then
           \<lparr>ip_instance = rendered, ip_previous = recorded, ip_changed = True, ip_refused = False,
            ip_prune = [rendered, recorded]\<rparr>
         else if rendered = previous then
           \<lparr>ip_instance = previous, ip_previous = recorded, ip_changed = True, ip_refused = False,
            ip_prune = [previous, recorded]\<rparr>
         else keep\<lparr>ip_refused := True\<rparr>)"

definition keeps_no_op :: "identity_plan \<Rightarrow> bool \<Rightarrow> bool" where
  "keeps_no_op p no_op = (no_op \<and> ip_previous p = [])"

definition fill_empty :: "identity_plan \<Rightarrow> string \<Rightarrow> string" where
  "fill_empty p recorded = (if recorded = [] then ip_instance p else recorded)"

text \<open>
  \<open>identityPlan.store\<close>: the two status fields to write before the first write of an
  apply, None when the plan changes nothing. The patch and its error are the caller's
  (ModuleInstance).
\<close>
definition identity_store :: "identity_plan \<Rightarrow> (string \<times> string) option" where
  "identity_store p = (if ip_changed p then Some (ip_instance p, ip_previous p) else None)"

text \<open>A render is refused exactly when it carries a third identity while a change is pending;
  otherwise the identities to store keep every identity that was recorded and add the rendered
  one, the rendered one becomes the current one, and the prune judges with both.\<close>

theorem plan_identities_spec:
  assumes "r = [] \<longrightarrow> p = []"
  shows "(ip_refused (plan_identities r p n legacy) \<longleftrightarrow>
      p \<noteq> [] \<and> n \<noteq> [] \<and> n \<noteq> r \<and> n \<noteq> p) \<and>
   (let plan = plan_identities r p n legacy in
      if ip_refused plan then ip_instance plan = r \<and> ip_previous plan = p \<and> \<not> ip_changed plan
      else {ip_instance plan, ip_previous plan} - {[]} = {r, p, n} - {[]} \<and>
           (if n = [] then ip_instance plan = r else ip_instance plan = n) \<and>
           set (ip_prune plan) - {[]} = {ip_instance plan, ip_previous plan} - {[]})"
  using assms by (auto simp: plan_identities_def Let_def recorded_identities_def)

theorem plan_identities_spec_witness:
  "ip_refused (plan_identities ''new'' ''old'' ''third'' False) \<and>
   \<not> ip_refused (plan_identities ''new'' ''old'' ''old'' False)"
  using plan_identities_spec [of "''new''" "''old''" "''third''" False]
    plan_identities_spec [of "''new''" "''old''" "''old''" False] by simp


section \<open>The protocol over several reconciles\<close>

text \<open>
  The recorded identities of an instance and the identities that the objects of its
  inventory carry in the cluster. The empty string stands for an object without the
  identity label.
\<close>

record id_state =
  id_recorded :: string
  id_previous :: string
  id_carried :: "string set"

definition id_start :: id_state where
  "id_start = \<lparr>id_recorded = [], id_previous = [], id_carried = {}\<rparr>"

text \<open>
  One reconcile that rendered with identity \<open>r\<close>, for a planning function: it is refused and
  writes nothing; it finds nothing to do, and then the inventory's objects carry the rendered
  identity or, with an identity recorded, what they carried; it stores the planned identities
  and fails after applying none, some or all objects; or its apply and prune succeed, every
  object of the new inventory carries the rendered identity and the previous one is cleared.
\<close>

inductive id_step :: "(string \<Rightarrow> string \<Rightarrow> string \<Rightarrow> identity_plan) \<Rightarrow> id_state \<Rightarrow> string \<Rightarrow> id_state \<Rightarrow> bool"
  for plan where
  refuse: "ip_refused (plan (id_recorded s) (id_previous s) r) \<Longrightarrow> id_step plan s r s"
| no_op: "\<not> ip_refused (plan (id_recorded s) (id_previous s) r) \<Longrightarrow>
    ip_previous (plan (id_recorded s) (id_previous s) r) = [] \<Longrightarrow>
    (id_recorded s = [] \<Longrightarrow> id_carried s \<subseteq> {r}) \<Longrightarrow>
    id_step plan s r (s\<lparr>id_recorded := (if id_recorded s = [] then ip_instance (plan (id_recorded s) (id_previous s) r)
                                       else id_recorded s)\<rparr>)"
| fail: "\<not> ip_refused (plan (id_recorded s) (id_previous s) r) \<Longrightarrow> applied \<subseteq> {r} \<Longrightarrow>
    id_step plan s r \<lparr>id_recorded = ip_instance (plan (id_recorded s) (id_previous s) r),
                      id_previous = ip_previous (plan (id_recorded s) (id_previous s) r),
                      id_carried = id_carried s \<union> applied\<rparr>"
| settle: "\<not> ip_refused (plan (id_recorded s) (id_previous s) r) \<Longrightarrow>
    id_step plan s r \<lparr>id_recorded = ip_instance (plan (id_recorded s) (id_previous s) r),
                      id_previous = [], id_carried = {r}\<rparr>"

inductive id_reachable :: "(string \<Rightarrow> string \<Rightarrow> string \<Rightarrow> identity_plan) \<Rightarrow> id_state \<Rightarrow> bool" for plan where
  start: "id_reachable plan id_start"
| step: "id_reachable plan s \<Longrightarrow> id_step plan s r s' \<Longrightarrow> id_reachable plan s'"

inductive_cases id_stepE: "id_step plan s r s'"

definition id_ok :: "id_state \<Rightarrow> bool" where
  "id_ok s = (id_carried s - {[]} \<subseteq> {id_recorded s, id_previous s} \<and>
              (id_recorded s = [] \<longrightarrow> id_previous s = []))"

text \<open>What the reconciles rely on of a planning function.\<close>

locale identity_policy =
  fixes plan :: "string \<Rightarrow> string \<Rightarrow> string \<Rightarrow> identity_plan"
  assumes stores: "r = [] \<longrightarrow> p = [] \<Longrightarrow> \<not> ip_refused (plan r p n) \<Longrightarrow>
      {ip_instance (plan r p n), ip_previous (plan r p n)} - {[]} = {r, p, n} - {[]}"
    and current: "\<not> ip_refused (plan r p n) \<Longrightarrow> ip_instance (plan r p n) = (if n = [] then r else n)"
    and judges: "r = [] \<longrightarrow> p = [] \<Longrightarrow> \<not> ip_refused (plan r p n) \<Longrightarrow>
      set (ip_prune (plan r p n)) - {[]} = {ip_instance (plan r p n), ip_previous (plan r p n)} - {[]}"
begin

lemma stored_ok:
  "r = [] \<longrightarrow> p = [] \<Longrightarrow> \<not> ip_refused (plan r p n) \<Longrightarrow> ip_instance (plan r p n) = [] \<Longrightarrow>
   ip_previous (plan r p n) = []"
  using stores [of r p n] current [of r p n] by (auto split: if_splits)

lemma step_ok: "id_step plan s r s' \<Longrightarrow> id_ok s \<Longrightarrow> id_ok s'"
proof (induction rule: id_step.induct)
  case (no_op s r)
  then show ?case
    using current [of "id_recorded s" "id_previous s" r] by (auto simp: id_ok_def)
next
  case (fail s r applied)
  then show ?case
    using stores [of "id_recorded s" "id_previous s" r] stored_ok [of "id_recorded s" "id_previous s" r]
    by (auto simp: id_ok_def)
next
  case (settle s r)
  then show ?case using current [of "id_recorded s" "id_previous s" r] by (auto simp: id_ok_def)
qed simp

lemma reachable_ok: "id_reachable plan s \<Longrightarrow> id_ok s"
proof (induction rule: id_reachable.induct)
  case start
  then show ?case by (simp add: id_ok_def id_start_def)
next
  case (step s r s')
  then show ?case by (blast intro: step_ok)
qed

lemma prune_covers:
  assumes "id_reachable plan s" and "\<not> ip_refused (plan (id_recorded s) (id_previous s) r)"
  shows "(id_carried s \<union> {r}) - {[]} \<subseteq> set (ip_prune (plan (id_recorded s) (id_previous s) r))"
  using reachable_ok [OF assms(1)] assms(2) stores [of "id_recorded s" "id_previous s" r]
    judges [of "id_recorded s" "id_previous s" r]
  by (auto simp: id_ok_def)

lemma deletion_covers:
  assumes "id_reachable plan s"
  shows "id_carried s - {[]} \<subseteq> set (recorded_identities [id_recorded s, id_previous s])"
  using reachable_ok [OF assms] by (auto simp: id_ok_def recorded_identities_def)

end

interpretation instance_policy: identity_policy "\<lambda>r p n. plan_identities r p n False"
  by unfold_locales (auto simp: plan_identities_def Let_def recorded_identities_def split: if_splits)

interpretation package_policy: identity_policy "\<lambda>r p n. plan_identities r p n True"
  by unfold_locales (auto simp: plan_identities_def Let_def recorded_identities_def split: if_splits)

text \<open>After any sequence of reconciles, failures half way included, every identity an object of
  the inventory carries is one of the two recorded ones, so the stale prune of the next
  accepted reconcile and the deletion cleanup judge with all of them and no object of the
  instance's own is mistaken for another instance's.\<close>

theorem identities_cover_objects:
  assumes "id_reachable (\<lambda>r p n. plan_identities r p n False) s"
  shows "id_carried s - {[]} \<subseteq> set (recorded_identities [id_recorded s, id_previous s]) \<and>
    (ip_refused (plan_identities (id_recorded s) (id_previous s) r False) \<or>
     (id_carried s \<union> {r}) - {[]} \<subseteq> set (ip_prune (plan_identities (id_recorded s) (id_previous s) r False)))"
  using instance_policy.deletion_covers [OF assms] instance_policy.prune_covers [OF assms] by blast

text \<open>A path changed, and the first apply under the new identity failed half way.\<close>

definition id_pending :: id_state where
  "id_pending = \<lparr>id_recorded = ''new'', id_previous = ''old'', id_carried = {''old'', ''new''}\<rparr>"

lemma id_pending_reachable: "id_reachable (\<lambda>r p n. plan_identities r p n False) id_pending"
proof -
  let ?plan = "\<lambda>r p n. plan_identities r p n False"
  let ?settled = "\<lparr>id_recorded = ''old'', id_previous = [], id_carried = {''old''}\<rparr>"
  have "id_step ?plan id_start ''old'' ?settled"
    using id_step.settle [of ?plan id_start "''old''"] by (simp add: plan_identities_def Let_def id_start_def)
  moreover have "id_step ?plan ?settled ''new'' id_pending"
    using id_step.fail [of ?plan ?settled "''new''" "{''new''}"]
    by (simp add: plan_identities_def Let_def id_pending_def insert_commute)
  ultimately show ?thesis by (metis id_reachable.start id_reachable.step)
qed

theorem identities_cover_objects_witness:
  "id_carried id_pending - {[]} \<subseteq> set (recorded_identities [id_recorded id_pending, id_previous id_pending])"
  using identities_cover_objects [OF id_pending_reachable] by blast

end
