(* ===== verification/Shrink.thy ===== *)
theory Shrink
  imports Deletion "HOL-Library.List_Lexorder" "HOL-Library.Char_ord"
begin

text \<open>
  internal/shrink/shrink.go and internal/reconcile/withhold.go: whether applying a
  rendered TransformerRegistration takes a contract away from instances that still
  demand it, and which rendered resources are withheld for it.
\<close>

section \<open>shrink.go\<close>

definition registration_kind :: string where "registration_kind = ''TransformerRegistration''"
definition api_group :: string where "api_group = ''opmodel.dev''"

record shrink_decision =
  sd_claim :: string
  sd_dropped :: "string list"
  sd_dependents :: "string list"

definition no_decision :: shrink_decision where
  "no_decision = \<lparr>sd_claim = [], sd_dropped = [], sd_dependents = []\<rparr>"

definition decision_refused :: "shrink_decision \<Rightarrow> bool" where
  "decision_refused d = (0 < length (sd_dropped d))"

definition is_registration :: "uobj \<Rightarrow> bool" where
  "is_registration u = (u_group u = api_group \<and> u_kind u = registration_kind)"

definition removed_contracts :: "string list \<Rightarrow> string list \<Rightarrow> string list" where
  "removed_contracts stored rendered = filter (\<lambda>fqn. fqn \<notin> set rendered) stored"

text \<open>An instance, by its namespace, its name and the contracts its status requires. Go's map
  \<open>demanded\<close> is the set of the demanded fqns; slices.Sort is the byte order of strings.\<close>

definition shrink_evaluate :: "string \<Rightarrow> string list \<Rightarrow> (string \<times> string \<times> string list) list \<Rightarrow> shrink_decision" where
  "shrink_evaluate claim removed instances =
     (let demanded = remdups (concat (map (\<lambda>(ns, name, required). filter (\<lambda>fqn. fqn \<in> set removed) required) instances));
          dependents = map (\<lambda>(ns, name, required). ns @ ''/'' @ name)
            (filter (\<lambda>(ns, name, required). \<exists>fqn \<in> set required. fqn \<in> set removed) instances)
      in if demanded = [] then no_decision
         else \<lparr>sd_claim = claim, sd_dropped = sort demanded, sd_dependents = sort dependents\<rparr>)"

text \<open>The two reads of a Decider: the stored claim's spec.provides by name, uncached, and the
  instances.\<close>

record ('w, 'x) decider =
  dd_stored :: "string \<Rightarrow> 'w \<Rightarrow> ('x goerr + string list) \<times> 'w"
  dd_instances :: "'w \<Rightarrow> ('x goerr + (string \<times> string \<times> string list) list) \<times> 'w"

definition decide_claim ::
    "'x errlib \<Rightarrow> ('w, 'x) decider \<Rightarrow> uobj \<Rightarrow> ('w, 'z, 'x goerr + shrink_decision) prog" where
  "decide_claim E d u =
     (if \<not> is_registration u then State_Monad.return (Inr no_decision)
      else case u_provides u of
        Inl t \<Rightarrow> State_Monad.return (Inl
          (Fmt (''reading provides of rendered claim '' @ u_name u @ '': '' @ t) [Fmt t []]))
      | Inr rendered \<Rightarrow>
          do { r \<leftarrow> request (ReadAct (ref_of u)) (dd_stored d (u_name u));
               case r of
                 Inl e \<Rightarrow>
                   if ae_not_found E e then State_Monad.return (Inr no_decision)
                   else State_Monad.return (Inl
                     (Fmt (''reading stored claim '' @ u_name u @ '': '' @ err_text E e) [e]))
               | Inr stored \<Rightarrow>
                   let removed = removed_contracts stored rendered in
                   if removed = [] then State_Monad.return (Inr no_decision)
                   else do { l \<leftarrow> request (ListAct ''ModuleInstance'') (dd_instances d);
                             case l of
                               Inl e \<Rightarrow> State_Monad.return (Inl
                                 (Fmt (''listing module instances: '' @ err_text E e) [e]))
                             | Inr instances \<Rightarrow>
                                 State_Monad.return (Inr (shrink_evaluate (u_name u) removed instances)) } })"

text \<open>A claim is refused exactly when some instance still demands a contract its upgrade removes;
  the decision then names those contracts, sorted and once each, and every instance demanding one
  of them, and at least one.\<close>

theorem shrink_evaluate_spec:
  "decision_refused (shrink_evaluate claim removed instances) =
     (\<exists>(ns, name, required) \<in> set instances. \<exists>fqn \<in> set required. fqn \<in> set removed) \<and>
   set (sd_dropped (shrink_evaluate claim removed instances)) =
     set removed \<inter> (\<Union>(ns, name, required) \<in> set instances. set required) \<and>
   sorted_wrt (<) (sd_dropped (shrink_evaluate claim removed instances)) \<and>
   (x \<in> set (sd_dependents (shrink_evaluate claim removed instances)) \<longleftrightarrow>
     (\<exists>(ns, name, required) \<in> set instances. x = ns @ ''/'' @ name \<and>
        (\<exists>fqn \<in> set required. fqn \<in> set removed)))"
proof -
  define demanded where "demanded = remdups (concat (map (\<lambda>(ns, name, required).
      filter (\<lambda>fqn. fqn \<in> set removed) required) instances))"
  have set: "set demanded = set removed \<inter> (\<Union>(ns, name, required) \<in> set instances. set required)"
    by (auto simp: demanded_def split_beta)
  have sorted: "sorted_wrt (<) (sort demanded)"
    by (simp add: demanded_def strict_sorted_iff)
  show ?thesis
  proof (cases "demanded = []")
    case True
    then have "set removed \<inter> (\<Union>(ns, name, required) \<in> set instances. set required) = {}"
      using set by simp
    then have none: "\<not> (\<exists>fqn \<in> set required. fqn \<in> set removed)" if "(ns, name, required) \<in> set instances"
      for ns name required using that by fastforce
    have "shrink_evaluate claim removed instances = no_decision"
      using True by (simp add: shrink_evaluate_def Let_def demanded_def [symmetric])
    then show ?thesis
      using none set True by (auto simp: decision_refused_def no_decision_def)
  next
    case False
    then have "shrink_evaluate claim removed instances =
        \<lparr>sd_claim = claim, sd_dropped = sort demanded, sd_dependents = sort
           (map (\<lambda>(ns, name, required). ns @ ''/'' @ name)
            (filter (\<lambda>(ns, name, required). \<exists>fqn \<in> set required. fqn \<in> set removed) instances))\<rparr>"
      by (simp add: shrink_evaluate_def Let_def demanded_def [symmetric])
    moreover have "\<exists>(ns, name, required) \<in> set instances. \<exists>fqn \<in> set required. fqn \<in> set removed"
    proof -
      from False obtain f where "f \<in> set demanded" by (cases demanded) auto
      then show ?thesis unfolding set by fastforce
    qed
    ultimately show ?thesis
      using False set sorted by (simp add: decision_refused_def image_iff split_beta) force
  qed
qed


section \<open>withhold.go\<close>

text \<open>Both loops of withholdRefused: the judged resources are kept or withheld, in order.\<close>

fun withhold_loop ::
    "'x errlib \<Rightarrow> ('w, 'x) decider \<Rightarrow> uobj list \<Rightarrow> uobj list \<Rightarrow> shrink_decision list \<Rightarrow>
     ('w, 'z, 'x goerr + uobj list \<times> shrink_decision list) prog" where
  "withhold_loop E d [] kept refused = State_Monad.return (Inr (kept, refused))"
| "withhold_loop E d (u # us) kept refused =
     do { r \<leftarrow> decide_claim E d u;
          case r of
            Inl e \<Rightarrow> State_Monad.return (Inl e)
          | Inr decision \<Rightarrow>
              if \<not> decision_refused decision then withhold_loop E d us (kept @ [u]) refused
              else withhold_loop E d us kept (refused @ [decision]) }"

definition withhold_refused ::
    "'x errlib \<Rightarrow> ('w, 'x) decider \<Rightarrow> uobj list \<Rightarrow>
     ('w, 'z, 'x goerr + uobj list \<times> shrink_decision list) prog" where
  "withhold_refused E d resources = withhold_loop E d resources [] []"

definition refusal_message :: "shrink_decision list \<Rightarrow> string" where
  "refusal_message decisions =
     ''Upgrade blocked: '' @
     join ''; '' (map (\<lambda>d. ''claim '' @ sd_claim d @ '' would stop providing '' @ join '', '' (sd_dropped d) @
                           '', which '' @ itoa (length (sd_dependents d)) @
                           '' module instance(s) still demand ('' @ join '', '' (sd_dependents d) @ '')'') decisions) @
     ''; move them off the contract or keep it in the provider's catalog''"

lemma emits_decide_claim [emits_intro]: "(\<And>a. is_read a \<Longrightarrow> P a) \<Longrightarrow> emits P (decide_claim E d u)"
  unfolding decide_claim_def by (auto simp: Let_def intro!: emits_intro split: sum.split)

lemma emits_withhold [emits_intro]: "(\<And>a. is_read a \<Longrightarrow> P a) \<Longrightarrow> emits P (withhold_refused E d us)"
proof -
  assume P: "\<And>a. is_read a \<Longrightarrow> P a"
  have loop: "emits P (withhold_loop E d us kept refused)" for us kept refused
    by (induction us arbitrary: kept refused) (auto intro!: emits_intro P split: sum.split)
  show ?thesis unfolding withhold_refused_def by (rule loop)
qed

lemma decide_other: "\<not> is_registration u \<Longrightarrow> fst (run_state (decide_claim E d u) s) = Inr no_decision"
  by (simp add: decide_claim_def)

lemma withhold_loop_spec:
  "fst (run_state (withhold_loop E d us kept refused) s) = Inr (kept', refused') \<Longrightarrow>
   \<exists>k r. kept' = kept @ k \<and> refused' = refused @ r \<and> subseq k us \<and>
         length k + length r = length us \<and> list_all decision_refused r \<and>
         subseq (filter (\<lambda>u. \<not> is_registration u) us) k"
proof (induction us arbitrary: kept refused s)
  case (Cons u us)
  obtain r s1 where dec: "run_state (decide_claim E d u) s = (r, s1)" by fastforce
  from Cons.prems dec obtain decision where r: "r = Inr decision" by (cases r) auto
  show ?case
  proof (cases "decision_refused decision")
    case False
    then have "fst (run_state (withhold_loop E d us (kept @ [u]) refused) s1) = Inr (kept', refused')"
      using Cons.prems dec r by simp
    from Cons.IH [OF this] show ?thesis by fastforce
  next
    case True
    then have "fst (run_state (withhold_loop E d us kept (refused @ [decision])) s1) = Inr (kept', refused')"
      using Cons.prems dec r by simp
    from Cons.IH [OF this] obtain k r' where IH: "kept' = kept @ k" "refused' = (refused @ [decision]) @ r'"
      "subseq k us" "length k + length r' = length us" "list_all decision_refused r'"
      "subseq (filter (\<lambda>u. \<not> is_registration u) us) k" by blast
    moreover have "is_registration u"
      using decide_other [of u E d s] dec r True
      by (cases "is_registration u") (auto simp: decision_refused_def no_decision_def)
    moreover have "subseq k (u # us)" using IH(3) by (rule list_emb_Cons)
    ultimately have "kept' = kept @ k \<and> refused' = refused @ (decision # r') \<and> subseq k (u # us) \<and>
        length k + length (decision # r') = length (u # us) \<and> list_all decision_refused (decision # r') \<and>
        subseq (filter (\<lambda>u. \<not> is_registration u) (u # us)) k"
      using True by simp
    then show ?thesis by blast
  qed
qed simp

text \<open>Withholding only reads; the resources to apply are the rendered ones in order without the
  refused claims, one withheld per refusal, and every resource that is not a
  TransformerRegistration is applied.\<close>

theorem withhold_partitions:
  assumes "fst (run_state (withhold_refused E d resources) s) = Inr (kept, refused)"
  shows "subseq kept resources \<and> length kept + length refused = length resources \<and>
    list_all decision_refused refused \<and> subseq (filter (\<lambda>u. \<not> is_registration u) resources) kept \<and>
    emits is_read (withhold_refused E d resources)"
  using withhold_loop_spec [OF assms [unfolded withhold_refused_def]] emits_withhold [of is_read E d resources]
  by auto

text \<open>A cluster whose claim provides two contracts, one of them demanded.\<close>

definition sample_decider :: "(unit, string) decider" where
  "sample_decider =
     \<lparr>dd_stored = (\<lambda>n w. (Inr [''a'', ''b''], w)),
      dd_instances = (\<lambda>w. (Inr [(''ns'', ''app'', [''b''])], w))\<rparr>"

definition sample_upgrade :: "uobj list" where
  "sample_upgrade =
     [blank_object api_group ''v1alpha1'' registration_kind [] ''postgres'', blank_object [] ''v1'' ''ConfigMap'' ''ns'' ''c'']"

theorem withhold_partitions_witness:
  "\<exists>kept refused. fst (run_state (withhold_refused sample_errors sample_decider sample_upgrade)
       \<lparr>sys_world = (), sys_trace = []\<rparr>) = Inr (kept, refused) \<and>
     length kept + length refused = length sample_upgrade"
proof -
  obtain kept refused where run: "fst (run_state (withhold_refused sample_errors sample_decider sample_upgrade)
       \<lparr>sys_world = (), sys_trace = []\<rparr>) = Inr (kept, refused)"
    by (cases "fst (run_state (withhold_refused sample_errors sample_decider sample_upgrade)
       \<lparr>sys_world = (), sys_trace = []\<rparr>)")
      (auto simp: withhold_refused_def sample_upgrade_def sample_decider_def decide_claim_def
        blank_object_def Let_def split: if_splits)
  from withhold_partitions [OF run] run show ?thesis by blast
qed

end
