(* ===== verification/Instance_Base.thy ===== *)
theory Instance_Base
  imports Deletion_Cleanup Render_Inputs Identity Shrink
begin

text \<open>
  internal/reconcile/moduleinstance.go, the parts: what a reconcile of a ModuleInstance is given, its
  patches and metrics, the failure counters, the inventory edits, drift and restore, the render
  classification, the apply and the prune phase.
\<close>

section \<open>Parameters\<close>

type_synonym ('w, 'z, 'a) mprog = "('w, module_instance, 'z, 'a) rprog"

definition mi_view :: "module_instance object_view" where
  "mi_view =
     \<lparr>ov_conditions = (\<lambda>mi. is_conditions (mi_status mi)),
      ov_set_conditions = (\<lambda>cs mi. mi\<lparr>mi_status := (mi_status mi)\<lparr>is_conditions := cs\<rparr>\<rparr>),
      ov_annotations = mi_annotations,
      ov_deletion_timestamp = mi_deletion_timestamp,
      ov_namespace = mi_namespace\<rparr>"

definition key_of :: "module_instance \<Rightarrow> object_key" where
  "key_of mi = (mi_namespace mi, mi_name mi)"

record instance_inputs =
  ii_name :: string
  ii_namespace :: string
  ii_path :: string
  ii_version :: string
  ii_values :: "string option"

definition instance_inputs_of :: "module_instance \<Rightarrow> instance_inputs" where
  "instance_inputs_of mi =
     \<lparr>ii_name = mi_name mi, ii_namespace = mi_namespace mi, ii_path = mod_path (sp_module (mi_spec mi)),
      ii_version = mod_version (sp_module (mi_spec mi)), ii_values = sp_values (mi_spec mi)\<rparr>"

text \<open>How a render under the pool ends: the pool answers without a result, the render panics with a
  value, the renderer fails, or it returns its result with the rendered resources.\<close>

datatype ('x, 'r) render_answer =
    SlotError "'x goerr"
  | RenderPanic string
  | RenderFailure "'x goerr"
  | RenderDone render_result 'r

text \<open>
  ModuleInstanceParams with the third-party code behind it. \<open>mp_manager_client\<close> is the client the
  controller's own resource manager was built on, \<open>mp_new_manager\<close> fluxssa.NewResourceManager;
  \<open>mp_get_instance\<close>, \<open>mp_patch_meta\<close> and \<open>mp_patch_status\<close> are the API server's answers to the read of
  the instance, to the patch of its finalizers (its response is the new object) and to the status
  patch of the Flux patcher with the owned conditions; \<open>mp_jitter\<close> is wait.Jitter with factor 0.1.
\<close>

record ('w, 'x, 'p, 'r) instance_params =
  mp_libs :: "('w, 'x, 'p) cleanup_libs"
  mp_sha256 :: "string \<Rightarrow> string"
  mp_canonical :: "string \<Rightarrow> string option"
  mp_can_apply :: can_apply
  mp_export :: "('x, 'r) export_lib"
  mp_health :: health_lib
  mp_client :: "('w, 'x) client"
  mp_api_reader :: "('w, 'x) client option"
  mp_impersonator :: "('w, 'x) impersonator"
  mp_manager :: "('w, 'x) resource_manager"
  mp_manager_client :: "('w, 'x) client"
  mp_new_manager :: "('w, 'x) client \<Rightarrow> ('w, 'x) resource_manager"
  mp_decider :: "('w, 'x) decider"
  mp_get_instance :: "'w \<Rightarrow> ('x goerr + module_instance) \<times> 'w"
  mp_get_platform :: "'w \<Rightarrow> ('x goerr + platform_view) \<times> 'w"
  mp_patch_meta :: "module_instance \<Rightarrow> 'w \<Rightarrow> ('x goerr + module_instance) \<times> 'w"
  mp_patch_status :: "string list \<Rightarrow> module_instance \<Rightarrow> 'w \<Rightarrow> 'x goerr option \<times> 'w"
  mp_render :: "instance_inputs \<Rightarrow> 'w \<Rightarrow> ('x, 'r) render_answer \<times> 'w"
  mp_jitter :: "duration \<Rightarrow> 'w \<Rightarrow> duration \<times> 'w"
  mp_render_timeout :: duration
  mp_default_service_account :: string
  mp_controller_version :: string
  mp_library_version :: string
  mp_drift_render_interval :: duration
  mp_reconcile_interval :: duration
  mp_deletion_wait :: "'w deletion_wait"

abbreviation mp_err :: "('w, 'x, 'p, 'r) instance_params \<Rightarrow> 'x errlib" where "mp_err P \<equiv> xl_err (mp_libs P)"
abbreviation mp_cond :: "('w, 'x, 'p, 'r) instance_params \<Rightarrow> condlib" where "mp_cond P \<equiv> xl_cond (mp_libs P)"
abbreviation mp_clock :: "('w, 'x, 'p, 'r) instance_params \<Rightarrow> 'w ticker" where "mp_clock P \<equiv> xl_clock (mp_libs P)"

definition reconcile_action :: string where "reconcile_action = ''reconcile''"
definition finalizer_name :: string where "finalizer_name = ''opmodel.dev/cleanup''"

definition owned_conditions :: "string list" where
  "owned_conditions = [ready_condition, reconciling_condition, stalled_condition, module_resolved_condition,
                       drifted_condition, healthy_condition]"


section \<open>Patches, marks and metrics\<close>

definition change_status :: "(instance_status \<Rightarrow> instance_status) \<Rightarrow> ('w, 'z, unit) mprog" where
  "change_status f = change_object (\<lambda>mi. mi\<lparr>mi_status := f (mi_status mi)\<rparr>)"

definition mark_mi :: "('w, 'x, 'p, 'r) instance_params \<Rightarrow> mark \<Rightarrow> ('w, 'z, unit) mprog" where
  "mark_mi P m = mark_object (mp_clock P) mi_view m"

text \<open>The Flux patcher sends the difference to the object it last saw; it changes the object in memory
  only when asked to mark the generation as observed (WithStatusObservedGeneration).\<close>

definition observe_generation :: "('w, 'z, unit) mprog" where
  "observe_generation =
     change_object (\<lambda>mi. mi\<lparr>mi_status := (mi_status mi)\<lparr>is_observed_generation := mi_generation mi\<rparr>\<rparr>)"

definition patch_mi ::
    "('w, 'x, 'p, 'r) instance_params \<Rightarrow> string list \<Rightarrow> bool \<Rightarrow> ('w, 'z, 'x goerr option) mprog" where
  "patch_mi P owned observe =
     do { (if observe then observe_generation else State_Monad.return ());
          mi \<leftarrow> the_object;
          request (PatchStatusAct (mi_status mi)) (mp_patch_status P owned mi) }"

definition patch_deletion_status :: "('w, 'x, 'p, 'r) instance_params \<Rightarrow> ('w, 'z, 'x goerr option) mprog" where
  "patch_deletion_status P = patch_mi P owned_conditions False"

definition patch_identity_status :: "('w, 'x, 'p, 'r) instance_params \<Rightarrow> ('w, 'z, 'x goerr option) mprog" where
  "patch_identity_status P = patch_deletion_status P"

text \<open>client.Patch with a merge patch of the finalizers; on success the response replaces the object.\<close>

definition patch_finalizers ::
    "('w, 'x, 'p, 'r) instance_params \<Rightarrow> (string list \<Rightarrow> string list) \<Rightarrow> ('w, 'z, 'x goerr option) mprog" where
  "patch_finalizers P edit =
     do { change_object (\<lambda>mi. mi\<lparr>mi_finalizers := edit (mi_finalizers mi)\<rparr>);
          mi \<leftarrow> the_object;
          r \<leftarrow> request (PatchFinalizersAct (mi_finalizers mi)) (mp_patch_meta P mi);
          case r of
            Inl e \<Rightarrow> State_Monad.return (Some e)
          | Inr mi' \<Rightarrow> do { change_object (\<lambda>_. mi'); State_Monad.return None } }"

definition has_finalizer :: "module_instance \<Rightarrow> bool" where
  "has_finalizer mi = (finalizer_name \<in> set (mi_finalizers mi))"

definition add_finalizer :: "('w, 'x, 'p, 'r) instance_params \<Rightarrow> ('w, 'z, 'x goerr option) mprog" where
  "add_finalizer P = patch_finalizers P (\<lambda>fs. if finalizer_name \<in> set fs then fs else fs @ [finalizer_name])"

definition remove_finalizer :: "('w, 'x, 'p, 'r) instance_params \<Rightarrow> ('w, 'z, 'x goerr option) mprog" where
  "remove_finalizer P = patch_finalizers P (filter (\<lambda>f. f \<noteq> finalizer_name))"

definition metric :: "string \<Rightarrow> ('w, 'z, unit) prog" where
  "metric name = request (MetricAct name) (\<lambda>w. ((), w))"

definition record_reconcile_metrics :: "outcome \<Rightarrow> bool \<Rightarrow> nat \<Rightarrow> ('w, 'z, unit) prog" where
  "record_reconcile_metrics oc reconciled objects =
     do { metric (''reconcile '' @ metric_label oc);
          (if reconciled then metric (''inventory '' @ itoa objects) else State_Monad.return ()) }"


section \<open>Failure counters\<close>

record phase_outcomes =
  po_drift_ran :: bool
  po_drift_failed :: bool
  po_apply_ran :: bool
  po_apply_failed :: bool
  po_prune_ran :: bool
  po_prune_failed :: bool

definition no_phases :: phase_outcomes where
  "no_phases = \<lparr>po_drift_ran = False, po_drift_failed = False, po_apply_ran = False, po_apply_failed = False,
                po_prune_ran = False, po_prune_failed = False\<rparr>"

definition count_phase :: "string \<Rightarrow> bool \<Rightarrow> bool \<Rightarrow> failure_counters \<Rightarrow> failure_counters" where
  "count_phase field did failed c =
     (if \<not> did then c else if failed then increment_counter c field else reset_counter c field)"

definition update_failure_counters :: "outcome \<Rightarrow> phase_outcomes \<Rightarrow> instance_status \<Rightarrow> instance_status" where
  "update_failure_counters oc ph st =
     (let c = ensure_counters (is_failure_counters st);
          c = count_phase counter_drift (po_drift_ran ph) (po_drift_failed ph) c;
          c = count_phase counter_apply (po_apply_ran ph) (po_apply_failed ph) c;
          c = count_phase counter_prune (po_prune_ran ph) (po_prune_failed ph) c;
          c = (if oc = FailedTransient \<or> oc = FailedStalled then increment_counter c counter_reconcile
               else reset_counter c counter_reconcile)
      in st\<lparr>is_failure_counters := Some c\<rparr>)"

definition drift_failure_count :: "failure_counters option \<Rightarrow> int64" where
  "drift_failure_count c = (case c of None \<Rightarrow> 0 | Some x \<Rightarrow> fc_drift x)"

definition reconcile_failure_count :: "failure_counters option \<Rightarrow> int64" where
  "reconcile_failure_count c = (case c of None \<Rightarrow> 0 | Some x \<Rightarrow> fc_reconcile x)"

definition retry_interval_for :: "outcome \<Rightarrow> int64 \<Rightarrow> duration" where
  "retry_interval_for oc failures =
     (if oc = FailedTransient then compute_backoff (failures + 1) else stalled_recheck_interval)"

text \<open>The count a retry is computed from, as the object holds it now.\<close>

definition failures_now :: "('w, 'z, int64) mprog" where
  "failures_now = do { mi \<leftarrow> the_object; State_Monad.return (reconcile_failure_count (is_failure_counters (mi_status mi))) }"


section \<open>Inventory\<close>

definition next_inventory :: "('x, 'r) export_lib \<Rightarrow> inventory option \<Rightarrow> inventory_entry list \<Rightarrow> inventory" where
  "next_inventory X prev entries =
     \<lparr>inv_revision = (case prev of None \<Rightarrow> 1 | Some i \<Rightarrow> inv_revision i + 1),
      inv_digest = inventory_digest_of X entries,
      inv_count = word_of_nat (length entries),
      inv_entries = entries\<rparr>"

definition inventory_digest :: "inventory option \<Rightarrow> string" where
  "inventory_digest i = (case i of None \<Rightarrow> [] | Some x \<Rightarrow> inv_digest x)"

definition without_entries ::
    "('x, 'r) export_lib \<Rightarrow> inventory_entry list \<Rightarrow> uobj list \<Rightarrow> inventory_entry list" where
  "without_entries X entries objs =
     (if objs = [] then entries
      else filter (\<lambda>e. entry_ref e \<notin> entry_ref ` set (map (entry_of X) objs)) entries)"

text \<open>forgetExpiredJobs and forgetLetGo edit the same inventory alike; only their log lines differ.\<close>

definition forget_objects :: "('x, 'r) export_lib \<Rightarrow> uobj list \<Rightarrow> instance_status \<Rightarrow> instance_status" where
  "forget_objects X objs st =
     (case is_inventory st of
        None \<Rightarrow> st
      | Some i \<Rightarrow>
          (let kept = without_entries X (inv_entries i) objs in
           if length kept = length (inv_entries i) then st
           else st\<lparr>is_inventory := Some (i\<lparr>inv_entries := kept, inv_count := word_of_nat (length kept)\<rparr>)\<rparr>))"

definition forget_expired_jobs :: "('x, 'r) export_lib \<Rightarrow> uobj list \<Rightarrow> instance_status \<Rightarrow> instance_status" where
  "forget_expired_jobs X gone = forget_objects X gone"

definition forget_let_go :: "('x, 'r) export_lib \<Rightarrow> uobj list \<Rightarrow> instance_status \<Rightarrow> instance_status" where
  "forget_let_go X let_go = forget_objects X let_go"

definition no_op :: "digest_set \<Rightarrow> digest_set \<Rightarrow> shrink_decision list \<Rightarrow> bool" where
  "no_op digests last_applied refused = (length refused = 0 \<and> is_no_op digests last_applied)"

definition last_applied_digests :: "instance_status \<Rightarrow> digest_set" where
  "last_applied_digests st =
     \<lparr>dg_source = is_last_applied_source_digest st, dg_config = is_last_applied_config_digest st,
      dg_render = is_last_applied_render_digest st, dg_inventory = inventory_digest (is_inventory st)\<rparr>"

text \<open>The label module-instance.opmodel.dev/uuid of the rendered resources.\<close>

definition uuid_label :: string where "uuid_label = ''module-instance.opmodel.dev/uuid''"

definition uuid_of :: "uobj \<Rightarrow> string" where
  "uuid_of u = (case map_of (u_labels u) uuid_label of None \<Rightarrow> [] | Some v \<Rightarrow> v)"

definition extract_instance_uuid :: "uobj list \<Rightarrow> string" where
  "extract_instance_uuid resources =
     (case find (\<lambda>u. uuid_of u \<noteq> []) resources of None \<Rightarrow> [] | Some u \<Rightarrow> uuid_of u)"

end
