(* ===== verification/Instance_Acts.thy ===== *)
theory Instance_Acts
  imports Instance_Base
begin

text \<open>
  internal/reconcile/moduleinstance.go, the acts of a reconcile: the identity that applies, drift and
  restore, the classification of a failed render or apply, the apply and the prune phase, the
  health requeue and the skipped render.
\<close>

section \<open>The identity that applies\<close>

record ('w, 'x) applier =
  ap_manager :: "('w, 'x) resource_manager"
  ap_manager_client :: "('w, 'x) client"
  ap_client :: "('w, 'x) client"

definition effective_sa_of :: "('w, 'x, 'p, 'r) instance_params \<Rightarrow> module_instance \<Rightarrow> string" where
  "effective_sa_of P mi =
     effective_service_account (sp_service_account (mi_spec mi)) (mp_default_service_account P)"

definition build_apply_client ::
    "('w, 'x, 'p, 'r) instance_params \<Rightarrow> ('w, 'z, 'x goerr + ('w, 'x) applier) mprog" where
  "build_apply_client P =
     do { mi \<leftarrow> the_object;
          let effective_sa = effective_sa_of P mi;
          if effective_sa = []
          then State_Monad.return (Inr \<lparr>ap_manager = mp_manager P, ap_manager_client = mp_manager_client P,
                                        ap_client = mp_client P\<rparr>)
          else do { r \<leftarrow> new_impersonated_client (mp_err P) (mp_impersonator P) (mi_namespace mi) effective_sa;
                    State_Monad.return (map_sum id (\<lambda>c. \<lparr>ap_manager = mp_new_manager P c,
                                                          ap_manager_client = c, ap_client = c\<rparr>) r) } }"

text \<open>The reader of a guard or of a health judgement, given a built applier.\<close>

definition reader_of :: "('w, 'x, 'p, 'r) instance_params \<Rightarrow> module_instance \<Rightarrow> ('w, 'x) applier \<Rightarrow> ('w, 'x) client" where
  "reader_of P mi a = applied_reader (effective_sa_of P mi) (ap_client a) (mp_api_reader P) (mp_client P)"

definition judge_health_as ::
    "('w, 'x, 'p, 'r) instance_params \<Rightarrow> 'x goerr + ('w, 'x) applier \<Rightarrow> inventory_entry list \<Rightarrow>
     ('w, 'z, health_verdict) mprog" where
  "judge_health_as P built entries =
     (case built of
        Inl e \<Rightarrow> State_Monad.return (unreadable_verdict (mp_health P) (mp_err P) entries e)
      | Inr a \<Rightarrow> do { mi \<leftarrow> the_object;
                      judge_health (mp_health P) (mp_err P) (mp_clock P) (reader_of P mi a) entries })"

definition judge_instance_health ::
    "('w, 'x, 'p, 'r) instance_params \<Rightarrow> inventory_entry list \<Rightarrow> ('w, 'z, health_verdict) mprog" where
  "judge_instance_health P entries = do { built \<leftarrow> build_apply_client P; judge_health_as P built entries }"

definition instance_requeue ::
    "('w, 'x, 'p, 'r) instance_params \<Rightarrow> duration \<Rightarrow> ('w, 'z, duration) mprog" where
  "instance_requeue P health_after =
     (if health_after > 0 \<or> mp_reconcile_interval P \<le> 0 then State_Monad.return health_after
      else tick (mp_jitter P (mp_reconcile_interval P)))"


section \<open>Skipping a render\<close>

definition instance_render_skippable :: "('w, 'x, 'p, 'r) instance_params \<Rightarrow> ('w, 'z, bool) mprog" where
  "instance_render_skippable P =
     do { mi \<leftarrow> the_object;
          if mp_drift_render_interval P \<le> 0 \<or> is_last_applied_inputs (mi_status mi) = None
          then State_Monad.return False
          else do { now \<leftarrow> ask (tk_now (mp_clock P));
                    may_skip (mp_sha256 P) (mp_cond P)
                      \<lparr>rs_interval = mp_drift_render_interval P, rs_now = now\<rparr>
                      (is_conditions (mi_status mi)) (mi_generation mi) (is_observed_generation (mi_status mi))
                      (is_last_applied_inputs (mi_status mi))
                      (do { (identity, skew) \<leftarrow> platform_key_parts (mp_get_platform P);
                            State_Monad.return
                              \<lparr>rk_source = module_source_digest (mp_sha256 P)
                                 (mod_path (sp_module (mi_spec mi))) (mod_version (sp_module (mi_spec mi))),
                               rk_config = config_digest (mp_sha256 P) (mp_canonical P) (sp_values (mi_spec mi)),
                               rk_package_identity = identity, rk_skew_policy = skew,
                               rk_controller_version = mp_controller_version P,
                               rk_library_version = mp_library_version P\<rparr> }) } }"

definition judge_skipped_instance ::
    "('w, 'x, 'p, 'r) instance_params \<Rightarrow> ('w, 'z, duration option) mprog" where
  "judge_skipped_instance P =
     do { mi \<leftarrow> the_object;
          v \<leftarrow> judge_instance_health P (inventory_entries (is_inventory (mi_status mi)));
          if hd_absent_job v \<and> drift_failure_count (is_failure_counters (mi_status mi)) = 0
          then State_Monad.return None
          else do { mark_mi P (apply_health (mp_cond P) v);
                    _ \<leftarrow> patch_mi P [healthy_condition] False;
                    now \<leftarrow> ask (tk_now (mp_clock P));
                    after \<leftarrow> instance_requeue P (health_requeue v (is_last_applied_at (mi_status mi)) now);
                    State_Monad.return (Some after) } }"

definition skip_instance_render ::
    "('w, 'x, 'p, 'r) instance_params \<Rightarrow> ('w, 'z, duration option) mprog" where
  "skip_instance_render P =
     do { skippable \<leftarrow> instance_render_skippable P;
          if \<not> skippable then State_Monad.return None else judge_skipped_instance P }"

definition report_resume :: "('w, 'x, 'p, 'r) instance_params \<Rightarrow> ('w, 'z, unit) mprog" where
  "report_resume P =
     do { mi \<leftarrow> the_object;
          (case k_find (mp_cond P) ready_condition (is_conditions (mi_status mi)) of
             None \<Rightarrow> State_Monad.return ()
           | Some ready \<Rightarrow>
               if c_reason ready = ''Suspended''
               then emit_event ''Normal'' ''Resumed'' ''Resume'' ''Reconciliation resumed''
               else State_Monad.return ()) }"


section \<open>Rendering\<close>

datatype 'x render_end =
    EndSlot "'x goerr"
  | EndPanic string
  | EndFailed "'x goerr"
  | EndConversion render_result string "'x goerr"
  | EndConverted converted_render

text \<open>conversionError is a type of this package, which no renderer returns: only a failed
  conversion ends as \<open>EndConversion\<close>, with its reason and itself.\<close>

definition render_and_convert_instance ::
    "('w, 'x, 'p, 'r) instance_params \<Rightarrow> instance_inputs \<Rightarrow> ('w, 'z, 'x render_end) mprog" where
  "render_and_convert_instance P inputs =
     do { answer \<leftarrow> request RenderAct (mp_render P inputs);
          State_Monad.return
            (case answer of
               SlotError e \<Rightarrow> EndSlot e
             | RenderPanic v \<Rightarrow> EndPanic v
             | RenderFailure e \<Rightarrow> EndFailed e
             | RenderDone result rendered \<Rightarrow>
                 (case convert_render (mp_err P) (mp_export P) result rendered of
                    Inr converted \<Rightarrow> EndConverted converted
                  | Inl err \<Rightarrow>
                      EndConversion result (case err of ConversionErr reason _ _ \<Rightarrow> reason | _ \<Rightarrow> []) err)) }"

definition classify_render_error ::
    "('w, 'x, 'p, 'r) instance_params \<Rightarrow> 'x goerr \<Rightarrow> ('w, 'z, outcome \<times> string) mprog" where
  "classify_render_error P err =
     (let E = mp_err P; K = mp_cond P; txt = err_text E err
      in if errors_is E ErrPlatformNotReady err then
           do { emit_event ''Warning'' ''PlatformNotReady'' ''Render'' txt;
                mark_mi P (mark_not_ready K ''PlatformNotReady'' txt);
                State_Monad.return (FailedTransient, txt) }
         else if is_transient_failure E (Some err) then
           do { emit_event ''Warning'' ''ResolutionFailed'' ''Render'' txt;
                mark_mi P (mark_not_ready K ''ResolutionFailed'' txt);
                State_Monad.return (FailedTransient, txt) }
         else do { emit_event ''Warning'' (render_failure_reason E err) ''Render'' (failure_event_note E err);
                   mark_mi P (mark_stalled K (render_failure_reason E err) txt);
                   State_Monad.return (FailedStalled, txt) })"

definition refuse_identity_change ::
    "('w, 'x, 'p, 'r) instance_params \<Rightarrow> bool \<Rightarrow> string \<Rightarrow> string \<Rightarrow> string \<Rightarrow> ('w, 'z, string) mprog" where
  "refuse_identity_change P already current previous rendered =
     (let msg = identity_change_unsettled_note current previous rendered
      in do { mark_mi P (mark_stalled (mp_cond P) ''IdentityChangeUnsettled'' msg);
              (if \<not> already then emit_event ''Warning'' ''IdentityChangeUnsettled'' ''Reconcile'' msg
               else State_Monad.return ());
              State_Monad.return msg })"


section \<open>Drift and restore\<close>

definition mark_check_forbidden ::
    "('w, 'x, 'p, 'r) instance_params \<Rightarrow> 'x goerr \<Rightarrow> ('w, 'z, unit) mprog" where
  "mark_check_forbidden P e =
     (if is_forbidden (mp_err P) e
      then mark_mi P (mark_drift_unknown (mp_cond P) ''DriftCheckForbidden'' (err_text (mp_err P) e))
      else State_Monad.return ())"

definition detect_drift ::
    "('w, 'x, 'p, 'r) instance_params \<Rightarrow> 'x goerr + ('w, 'x) applier \<Rightarrow> 'x goerr option \<Rightarrow> uobj list \<Rightarrow>
     ('w, 'z, uobj list \<times> bool) mprog" where
  "detect_drift P built guard_err resources =
     (case built of
        Inl e \<Rightarrow>
          do { mark_mi P (mark_drift_unknown (mp_cond P) ''ImpersonationFailed''
                            (''drift detection did not run: '' @ err_text (mp_err P) e));
               State_Monad.return ([], True) }
      | Inr a \<Rightarrow>
          (case guard_err of
             Some e \<Rightarrow> do { mark_check_forbidden P e; State_Monad.return ([], True) }
           | None \<Rightarrow>
               do { r \<leftarrow> detect_drift_in (mp_err P) (ap_manager a) resources;
                    case r of
                      Inl e \<Rightarrow> do { mark_check_forbidden P e; State_Monad.return ([], True) }
                    | Inr d \<Rightarrow>
                        do { mark_mi P (if dx_drifted d then mark_drifted (mp_cond P) (length (dx_resources d))
                                        else clear_drifted (mp_cond P));
                             State_Monad.return (dx_missing d, False) } }))"

text \<open>The list to apply, whether the reconcile is still a no-op, and whether it restores.\<close>

definition plan_restore :: "bool \<Rightarrow> uobj list \<Rightarrow> uobj list \<Rightarrow> uobj list \<Rightarrow> uobj list \<times> bool \<times> bool" where
  "plan_restore is_no_op_now missing taken_in apply_list =
     (if \<not> is_no_op_now then (apply_list, False, False)
      else if length (restorable missing) = 0 \<and> length taken_in = 0 then (apply_list, True, False)
      else (restorable missing @ taken_in, False, True))"

definition expired_jobs :: "bool \<Rightarrow> uobj list \<Rightarrow> uobj list" where
  "expired_jobs digests_unchanged missing = (if \<not> digests_unchanged then [] else expired missing)"

definition clear_drift_after_apply ::
    "('w, 'x, 'p, 'r) instance_params \<Rightarrow> bool \<Rightarrow> ('w, 'z, unit) mprog" where
  "clear_drift_after_apply P restoring =
     (if \<not> restoring then mark_mi P (clear_drifted (mp_cond P)) else State_Monad.return ())"


section \<open>Apply\<close>

definition forces_conflicts :: "rollout_spec option \<Rightarrow> bool" where
  "forces_conflicts rollout = (case rollout of None \<Rightarrow> False | Some r \<Rightarrow> ro_force_conflicts r)"

text \<open>errors.AsType for the ClaimConflictError of internal/apply.\<close>

definition claim_conflict_report :: "'x errlib \<Rightarrow> 'x goerr \<Rightarrow> string option" where
  "claim_conflict_report E err =
     first_some (\<lambda>n. case n of
         ClaimConflictErr ns name flds cause \<Rightarrow>
           Some (claim_conflict_note ns name flds
                   (case cause of None \<Rightarrow> [] | Some c \<Rightarrow> err_text E c))
       | _ \<Rightarrow> None) (chain err)"

definition mark_apply_failure ::
    "('w, 'x, 'p, 'r) instance_params \<Rightarrow> 'x goerr \<Rightarrow> string \<Rightarrow> ('w, 'z, outcome) mprog" where
  "mark_apply_failure P err effective_sa =
     (if effective_sa \<noteq> [] \<and> is_forbidden (mp_err P) err
      then do { mark_mi P (mark_stalled (mp_cond P) ''ImpersonationFailed'' (err_text (mp_err P) err));
                State_Monad.return FailedStalled }
      else do { mark_mi P (mark_not_ready (mp_cond P) ''ApplyFailed'' (err_text (mp_err P) err));
                State_Monad.return FailedTransient })"

definition report_apply_failure ::
    "('w, 'x, 'p, 'r) instance_params \<Rightarrow> 'x goerr \<Rightarrow> string \<Rightarrow> ('w, 'z, outcome \<times> string) mprog" where
  "report_apply_failure P err effective_sa =
     (case claim_conflict_report (mp_err P) err of
        Some txt \<Rightarrow>
          do { emit_event ''Warning'' ''ClaimConflict'' ''Apply'' txt;
               mark_mi P (mark_not_ready (mp_cond P) ''ClaimConflict'' txt);
               State_Monad.return (FailedTransient, txt) }
      | None \<Rightarrow>
          do { emit_event ''Warning'' ''ApplyFailed'' ''Apply'' (err_text (mp_err P) err);
               oc \<leftarrow> mark_apply_failure P err effective_sa;
               State_Monad.return (oc, err_text (mp_err P) err) })"

text \<open>identityPlan.store with the patch of a ModuleInstance: None when it may apply.\<close>

definition store_identity ::
    "('w, 'x, 'p, 'r) instance_params \<Rightarrow> identity_plan \<Rightarrow> ('w, 'z, 'x goerr option) mprog" where
  "store_identity P identities =
     (case identity_store identities of
        None \<Rightarrow> State_Monad.return None
      | Some (current, previous) \<Rightarrow>
          do { change_status (\<lambda>st. st\<lparr>is_instance_uuid := current, is_previous_instance_uuid := previous\<rparr>);
               err \<leftarrow> patch_identity_status P;
               State_Monad.return
                 (map_option (\<lambda>e. Fmt (''recording the instance identity before the apply: '' @ err_text (mp_err P) e) [e])
                    err) })"

definition apply_instance ::
    "('w, 'x, 'p, 'r) instance_params \<Rightarrow> identity_plan \<Rightarrow> ('w, 'x) applier \<Rightarrow> uobj list \<Rightarrow> apply_options \<Rightarrow>
     ('w, 'z, 'x goerr + apply_result) mprog" where
  "apply_instance P identities a resources opts =
     do { err \<leftarrow> store_identity P identities;
          case err of
            Some e \<Rightarrow> State_Monad.return (Inl e)
          | None \<Rightarrow> apply_resources (mp_err P) (mp_clock P) (ap_manager_client a) (ap_manager a) resources opts }"


section \<open>Prune\<close>

definition prune_outcome :: "prune_result \<Rightarrow> outcome" where
  "prune_outcome r = (if pr_deleted r = 0 \<and> 0 < length (pr_kept r) then Applied else AppliedAndPruned)"

record 'x prune_end =
  pe_outcome :: outcome
  pe_reconciled :: bool
  pe_deleted :: nat
  pe_err :: "'x goerr option"

definition prune_stale_resources ::
    "('w, 'x, 'p, 'r) instance_params \<Rightarrow> ('w, 'x) client \<Rightarrow> string list \<Rightarrow> inventory_entry list \<Rightarrow> string \<Rightarrow>
     ('w, 'z, 'x prune_end) mprog" where
  "prune_stale_resources P c identities stale effective_sa =
     do { mi \<leftarrow> the_object;
          if \<not> sp_prune (mi_spec mi) \<or> length stale = 0
          then State_Monad.return \<lparr>pe_outcome = Applied, pe_reconciled = True, pe_deleted = 0, pe_err = None\<rparr>
          else do { (result, err) \<leftarrow> prune (xl_life (mp_libs P)) (xl_can_delete (mp_libs P)) (mp_err P) c
                      identities stale (deletes_claims (sp_data_policy (mi_spec mi)));
                    case err of
                      Some e \<Rightarrow>
                        do { emit_event ''Warning'' ''PruneFailed'' ''Prune'' (err_text (mp_err P) e);
                             if effective_sa \<noteq> [] \<and> is_forbidden (mp_err P) e
                             then do { mark_mi P (mark_stalled (mp_cond P) ''ImpersonationFailed'' (err_text (mp_err P) e));
                                       State_Monad.return \<lparr>pe_outcome = FailedStalled, pe_reconciled = False,
                                                           pe_deleted = 0, pe_err = None\<rparr> }
                             else do { mark_mi P (mark_not_ready (mp_cond P) ''PruneFailed'' (err_text (mp_err P) e));
                                       State_Monad.return \<lparr>pe_outcome = FailedTransient, pe_reconciled = False,
                                                           pe_deleted = 0, pe_err = Some e\<rparr> } }
                    | None \<Rightarrow>
                        do { (if pr_deleted result > 0
                              then emit_event ''Normal'' ''Pruned'' ''Prune''
                                     (''Pruned '' @ itoa (pr_deleted result) @ '' stale resources'')
                              else State_Monad.return ());
                             report_kept_claims ''Prune'' (pr_kept result);
                             report_left_behind ''Prune'' (pr_left result);
                             State_Monad.return \<lparr>pe_outcome = prune_outcome result, pe_reconciled = True,
                                                 pe_deleted = pr_deleted result, pe_err = None\<rparr> } } }"

text \<open>The retry and the history message of a prune that did not succeed.\<close>

definition prune_failure ::
    "'x errlib \<Rightarrow> 'x goerr option \<Rightarrow> bool \<Rightarrow> int64 \<Rightarrow> (duration \<times> string) option" where
  "prune_failure E err reconciled failures =
     (case err of
        Some e \<Rightarrow> Some (compute_backoff (failures + 1), err_text E e)
      | None \<Rightarrow> if \<not> reconciled then Some (stalled_recheck_interval, []) else None)"

end
