(* ===== verification/Module_Instance.thy ===== *)
theory Module_Instance
  imports Instance_Acts
begin

text \<open>
  internal/reconcile/moduleinstance.go, the reconcile: the gates before it, its phases in order with
  every early return, the deferred status commit and the deletion.
\<close>

section \<open>The commits\<close>

text \<open>The variables the deferred commit reads.\<close>

record attempt =
  at_outcome :: outcome
  at_digests :: digest_set
  at_reconciled :: bool
  at_new_entries :: "inventory_entry list"
  at_err_msg :: string
  at_retry_after :: duration
  at_phases :: phase_outcomes
  at_skip_commit :: bool
  at_rendered_version :: "string option"
  at_rendered_inputs :: "render_input_key option"
  at_adopted :: nat

definition new_attempt :: attempt where
  "new_attempt =
     \<lparr>at_outcome = NoOp, at_digests = \<lparr>dg_source = [], dg_config = [], dg_render = [], dg_inventory = []\<rparr>,
      at_reconciled = False, at_new_entries = [], at_err_msg = [], at_retry_after = 0, at_phases = no_phases,
      at_skip_commit = False, at_rendered_version = None, at_rendered_inputs = None, at_adopted = 0\<rparr>"

definition record_attempt :: "time \<Rightarrow> duration \<Rightarrow> digest_set \<Rightarrow> instance_status \<Rightarrow> instance_status" where
  "record_attempt now took digests st =
     st\<lparr>is_last_attempted_action := reconcile_action, is_last_attempted_at := Some now,
        is_last_attempted_duration := Some took,
        is_last_attempted_source_digest := dg_source digests,
        is_last_attempted_config_digest := dg_config digests,
        is_last_attempted_render_digest := dg_render digests\<rparr>"

definition record_success ::
    "('w, 'x, 'p, 'r) instance_params \<Rightarrow> attempt \<Rightarrow> time \<Rightarrow> instance_status \<Rightarrow> instance_status" where
  "record_success P att now st =
     (let digests = at_digests att in
      st\<lparr>is_last_applied_at := Some now,
         is_last_applied_source_digest := dg_source digests,
         is_last_applied_version := applied_version (at_rendered_version att),
         is_last_applied_config_digest := dg_config digests,
         is_last_applied_render_digest := dg_render digests,
         is_last_applied_inputs :=
           record_inputs (mp_sha256 P) (at_rendered_inputs att) now (is_last_applied_inputs st),
         is_inventory := Some ((next_inventory (mp_export P) (is_inventory st) (at_new_entries att))
                                 \<lparr>inv_digest := dg_inventory digests\<rparr>),
         is_previous_instance_uuid := []\<rparr>)"

definition add_history :: "history_entry \<Rightarrow> instance_status \<Rightarrow> instance_status" where
  "add_history e st = st\<lparr>is_history := record_history (is_history st) e\<rparr>"

definition commit_no_op_status ::
    "('w, 'x, 'p, 'r) instance_params \<Rightarrow> attempt \<Rightarrow> render_input_key option \<Rightarrow> ('w, 'z, unit) mprog" where
  "commit_no_op_status P att inputs =
     do { mark_mi P (mark_ready (mp_cond P) (ready_message ready_succeeded (int (at_adopted att))));
          now \<leftarrow> ask (tk_now (mp_clock P));
          change_status (\<lambda>st. (update_failure_counters NoOp (at_phases att) st)
            \<lparr>is_next_retry_at := None,
             is_last_applied_version := record_no_op_version (at_rendered_version att) (is_last_applied_version st),
             is_last_applied_inputs := record_inputs (mp_sha256 P) inputs now (is_last_applied_inputs st)\<rparr>);
          _ \<leftarrow> patch_mi P owned_conditions True;
          record_reconcile_metrics NoOp False 0;
          metric ''duration'' }"

definition commit_panic_status ::
    "('w, 'x, 'p, 'r) instance_params \<Rightarrow> string \<Rightarrow> digest_set \<Rightarrow> time \<Rightarrow> ('w, 'z, unit) mprog" where
  "commit_panic_status P recovered digests start =
     (let msg = ''reconcile panicked: '' @ recovered
      in do { mark_mi P (mark_reconcile_panic (mp_cond P) msg);
              now \<leftarrow> ask (tk_now (mp_clock P));
              observe_generation;
              later \<leftarrow> ask (tk_now (mp_clock P));
              change_status (record_attempt now (later - start) digests);
              stamp \<leftarrow> ask (tk_now (mp_clock P));
              change_status (add_history (new_failure_entry stamp reconcile_action msg digests));
              change_status (update_failure_counters FailedTransient no_phases);
              change_status (\<lambda>st. st\<lparr>is_next_retry_at := None\<rparr>);
              record_reconcile_metrics FailedTransient False 0;
              metric ''duration'';
              _ \<leftarrow> patch_mi P owned_conditions True;
              State_Monad.return () })"

text \<open>The deferred commit of an attempt that ended with an outcome other than NoOp.\<close>

definition commit_status ::
    "('w, 'x, 'p, 'r) instance_params \<Rightarrow> attempt \<Rightarrow> time \<Rightarrow> ('w, 'z, unit) mprog" where
  "commit_status P att start =
     do { now \<leftarrow> ask (tk_now (mp_clock P));
          observe_generation;
          later \<leftarrow> ask (tk_now (mp_clock P));
          change_status (record_attempt now (later - start) (at_digests att));
          (if at_reconciled att then
             do { change_status (record_success P att now);
                  stamp \<leftarrow> ask (tk_now (mp_clock P));
                  change_status (add_history (new_success_entry stamp reconcile_action ''complete''
                    (at_digests att) (word_of_nat (length (at_new_entries att))))) }
           else if at_err_msg att \<noteq> [] then
             do { stamp \<leftarrow> ask (tk_now (mp_clock P));
                  change_status (add_history (new_failure_entry stamp reconcile_action (at_err_msg att) (at_digests att))) }
           else State_Monad.return ());
          change_status (update_failure_counters (at_outcome att) (at_phases att));
          clock \<leftarrow> ask (tk_now (mp_clock P));
          change_status (\<lambda>st. st\<lparr>is_next_retry_at :=
            (if at_retry_after att > 0 then Some (clock + at_retry_after att) else None)\<rparr>);
          record_reconcile_metrics (at_outcome att) (at_reconciled att) (length (at_new_entries att));
          _ \<leftarrow> patch_mi P owned_conditions True;
          State_Monad.return () }"


section \<open>The gates\<close>

definition handle_cli_owned :: "('w, 'x, 'p, 'r) instance_params \<Rightarrow> ('w, 'z, 'x goerr option) mprog" where
  "handle_cli_owned P =
     do { mi \<leftarrow> the_object;
          if mi_deletion_timestamp mi \<noteq> None then
            do { forget_tracker (key_of mi);
                 if \<not> has_finalizer mi then State_Monad.return None
                 else do { err \<leftarrow> remove_finalizer P;
                           State_Monad.return
                             (case err of
                                Some e \<Rightarrow> if \<not> ae_not_found (mp_err P) e
                                           then Some (Fmt (''removing finalizer: '' @ err_text (mp_err P) e) [e]) else None
                              | None \<Rightarrow> None) } }
          else do { mark_mi P (mark_managed_externally (mp_cond P));
                    emit_event ''Normal'' ''ManagedExternally'' ''Reconcile''
                      ''ModuleInstance is managed externally by the CLI'';
                    patch_mi P owned_conditions False } }"

definition handle_own_instance ::
    "('w, 'x, 'p, 'r) instance_params \<Rightarrow> string \<Rightarrow> ('w, 'z, 'x goerr option) mprog" where
  "handle_own_instance P sig =
     do { mi \<leftarrow> the_object;
          err \<leftarrow> (if has_finalizer mi then remove_finalizer P else State_Monad.return None);
          case err of
            Some e \<Rightarrow>
              if ae_not_found (mp_err P) e
              then do { mi \<leftarrow> the_object; forget_tracker (key_of mi); State_Monad.return None }
              else State_Monad.return (Some (Fmt (''removing finalizer: '' @ err_text (mp_err P) e) [e]))
          | None \<Rightarrow>
              do { mi \<leftarrow> the_object;
                   if mi_deletion_timestamp mi \<noteq> None
                   then do { forget_tracker (key_of mi); State_Monad.return None }
                   else do { let msg = ''this ModuleInstance deploys the controller ('' @ sig @ ''); '' @
                               ''the controller never applies or prunes its own instance. Set spec.owner to cli'';
                             let already =
                               (case k_find (mp_cond P) ready_condition (is_conditions (mi_status mi)) of
                                  None \<Rightarrow> False
                                | Some ready \<Rightarrow> c_reason ready = ''SelfManagementRefused'' \<and>
                                    is_observed_generation (mi_status mi) = mi_generation mi);
                             mark_mi P (mark_self_management_refused (mp_cond P) msg);
                             observe_generation;
                             (if \<not> already
                              then emit_event ''Warning'' ''SelfManagementRefused'' ''Reconcile'' msg
                              else State_Monad.return ());
                             patch_mi P owned_conditions True } } }"

text \<open>None when no gate handled the instance.\<close>

definition handle_not_reconciled ::
    "('w, 'x, 'p, 'r) instance_params \<Rightarrow> ('w, 'z, 'x goerr option option) mprog" where
  "handle_not_reconciled P =
     do { mi \<leftarrow> the_object;
          if sp_owner (mi_spec mi) = owner_cli
          then do { err \<leftarrow> handle_cli_owned P; State_Monad.return (Some err) }
          else case is_own_instance mi of
                 Some sig \<Rightarrow> do { err \<leftarrow> handle_own_instance P sig; State_Monad.return (Some err) }
               | None \<Rightarrow> State_Monad.return None }"

definition handle_suspend :: "('w, 'x, 'p, 'r) instance_params \<Rightarrow> ('w, 'z, 'x goerr option) mprog" where
  "handle_suspend P =
     do { mark_mi P (mark_suspended (mp_cond P));
          observe_generation;
          emit_event ''Normal'' ''Suspended'' ''Suspend'' ''Reconciliation is suspended'';
          err \<leftarrow> patch_mi P owned_conditions True;
          case err of
            Some e \<Rightarrow> State_Monad.return (Some e)
          | None \<Rightarrow> do { metric ''duration''; State_Monad.return None } }"

definition instance_env :: "('w, 'x, 'p, 'r) instance_params \<Rightarrow> ('w, 'x) deletion_env" where
  "instance_env P =
     \<lparr>de_client = mp_client P, de_impersonator = Some (mp_impersonator P),
      de_default_service_account = mp_default_service_account P, de_wait = mp_deletion_wait P\<rparr>"

definition instance_target ::
    "('w, 'x, 'p, 'r) instance_params \<Rightarrow> module_instance \<Rightarrow> ('w, module_instance, 'z rsys_ext, 'x) deletion_target" where
  "instance_target P mi =
     \<lparr>dt_obj = mi_view,
      dt_prune = sp_prune (mi_spec mi),
      dt_delete_data = deletes_claims (sp_data_policy (mi_spec mi)),
      dt_service_account = sp_service_account (mi_spec mi),
      dt_entries = inventory_entries (is_inventory (mi_status mi)),
      dt_identities = recorded_identities [is_instance_uuid (mi_status mi), is_previous_instance_uuid (mi_status mi)],
      dt_clear_inventory = (\<lambda>mi. mi\<lparr>mi_status := (mi_status mi)\<lparr>is_inventory := None\<rparr>\<rparr>),
      dt_patch_status = patch_deletion_status P,
      dt_remove_finalizer = remove_finalizer P\<rparr>"

definition handle_deletion :: "('w, 'x, 'p, 'r) instance_params \<Rightarrow> ('w, 'z, 'x requeue) mprog" where
  "handle_deletion P =
     do { mi \<leftarrow> the_object;
          run_deletion_cleanup (mp_libs P) (instance_env P) (instance_target P mi) }"


section \<open>The phases\<close>

text \<open>A phase ends the attempt, with the attempt as the commit finds it and the result of the reconcile
  or with the value of a panic, or it goes on.\<close>

datatype 'x stop = Stop attempt "'x requeue" | StopPanic attempt string

definition and_then ::
    "('s, 'x stop + 'a) state \<Rightarrow> ('a \<Rightarrow> ('s, 'x stop + 'b) state) \<Rightarrow> ('s, 'x stop + 'b) state" where
  "and_then m f = do { r \<leftarrow> m; case r of Inl e \<Rightarrow> State_Monad.return (Inl e) | Inr x \<Rightarrow> f x }"

text \<open>A failed phase: its outcome, its message and the retry the outcome asks for.\<close>

definition fail_attempt :: "attempt \<Rightarrow> outcome \<Rightarrow> string \<Rightarrow> ('w, 'z, 'x stop + 'a) mprog" where
  "fail_attempt att oc msg =
     do { failures \<leftarrow> failures_now;
          let retry = retry_interval_for oc failures;
          State_Monad.return
            (Inl (Stop (att\<lparr>at_outcome := oc, at_err_msg := msg, at_retry_after := retry\<rparr>) (retry, None))) }"

text \<open>Phase 1: render under the pool, and export.\<close>

definition rendered_attempt ::
    "('w, 'x, 'p, 'r) instance_params \<Rightarrow> attempt \<Rightarrow> converted_render \<Rightarrow> attempt" where
  "rendered_attempt P att converted =
     (let digests = (at_digests att)\<lparr>dg_render := cr_digest converted,
                                     dg_inventory := inventory_digest_of (mp_export P) (cr_entries converted)\<rparr>
      in att\<lparr>at_digests := digests,
             at_rendered_version := Some (rr_module_version (cr_result converted)),
             at_rendered_inputs := Some (rendered_key (dg_source digests) (dg_config digests) (cr_result converted)
                                           (mp_controller_version P) (mp_library_version P))\<rparr>)"

definition module_ref :: "module_instance \<Rightarrow> string" where
  "module_ref mi = mod_path (sp_module (mi_spec mi)) @ ''@'' @ mod_version (sp_module (mi_spec mi))"

definition report_rendered ::
    "('w, 'x, 'p, 'r) instance_params \<Rightarrow> render_result \<Rightarrow> ('w, 'z, unit) mprog" where
  "report_rendered P result =
     do { mi \<leftarrow> the_object;
          mark_mi P (mark_module_resolved (mp_cond P) (module_ref mi));
          report_render_diagnostics (key_of mi) result }"

definition render_phase ::
    "('w, 'x, 'p, 'r) instance_params \<Rightarrow> attempt \<Rightarrow> ('w, 'z, 'x stop + attempt \<times> converted_render) mprog" where
  "render_phase P att0 =
     do { mark_mi P (mark_reconciling (mp_cond P) ''Progressing'' ''Reconciliation in progress'');
          mi \<leftarrow> the_object;
          let att = att0\<lparr>at_digests := (at_digests att0)
            \<lparr>dg_source := module_source_digest (mp_sha256 P) (mod_path (sp_module (mi_spec mi)))
                            (mod_version (sp_module (mi_spec mi))),
             dg_config := config_digest (mp_sha256 P) (mp_canonical P) (sp_values (mi_spec mi))\<rparr>\<rparr>;
          answer \<leftarrow> render_and_convert_instance P (instance_inputs_of mi);
          case answer of
            EndSlot e \<Rightarrow>
              (case render_timeout_message (mp_err P) e (mp_render_timeout P) of
                 Some msg \<Rightarrow>
                   do { emit_event ''Warning'' ''RenderTimedOut'' ''Render'' msg;
                        mark_mi P (mark_render_timed_out (mp_cond P) msg);
                        fail_attempt att FailedTransient msg }
               | None \<Rightarrow>
                   State_Monad.return (Inl (Stop (att\<lparr>at_skip_commit := True\<rparr>)
                     (0, Some (Fmt (''waiting for a render slot: '' @ err_text (mp_err P) e) [e])))))
          | EndPanic v \<Rightarrow> State_Monad.return (Inl (StopPanic att v))
          | EndFailed e \<Rightarrow>
              do { (oc, msg) \<leftarrow> classify_render_error P e; fail_attempt att oc msg }
          | EndConversion result reason e \<Rightarrow>
              do { report_rendered P result;
                   mark_mi P (mark_stalled (mp_cond P) reason (err_text (mp_err P) e));
                   fail_attempt att FailedStalled (err_text (mp_err P) e) }
          | EndConverted converted \<Rightarrow>
              do { report_rendered P (cr_result converted);
                   State_Monad.return (Inr (rendered_attempt P att converted, converted)) } }"

text \<open>Phase 4: the identity, the shrink verdict, the no-op verdict, the identity that applies and the
  apply guard.\<close>

record ('w, 'x) instance_plan =
  in_converted :: converted_render
  in_identities :: identity_plan
  in_refused :: "shrink_decision list"
  in_unchanged :: bool
  in_built :: "'x goerr + ('w, 'x) applier"
  in_guard :: "'x guarded_apply"

definition guard_phase ::
    "('w, 'x, 'p, 'r) instance_params \<Rightarrow> attempt \<Rightarrow> nat \<Rightarrow> ('w, 'x) instance_plan \<Rightarrow> uobj list \<Rightarrow>
     ('w, 'z, 'x stop + ('w, 'x) instance_plan) mprog" where
  "guard_phase P att adopted_at_start pl0 apply_list =
     do { mi \<leftarrow> the_object;
          built \<leftarrow> build_apply_client P;
          guard \<leftarrow> guard_apply (mp_can_apply P) (mp_err P) (case built of Inl e \<Rightarrow> Some e | Inr _ \<Rightarrow> None)
            (case built of Inl _ \<Rightarrow> mp_client P | Inr a \<Rightarrow> reader_of P mi a)
            apply_list (inventory_entries (is_inventory (mi_status mi))) (ip_instance (in_identities pl0))
            adopted_at_start;
          let pl = pl0\<lparr>in_built := built, in_guard := guard\<rparr>;
          if fails_apply (mp_err P) guard (in_unchanged pl) then
            do { (oc, msg) \<leftarrow> report_apply_failure P (the (ga_err guard)) (effective_sa_of P mi);
                 fail_attempt (att\<lparr>at_phases := (at_phases att)\<lparr>po_apply_ran := True, po_apply_failed := True\<rparr>\<rparr>) oc msg }
          else State_Monad.return (Inr pl) }"

definition plan_phase ::
    "('w, 'x, 'p, 'r) instance_params \<Rightarrow> bool \<Rightarrow> nat \<Rightarrow> attempt \<times> converted_render \<Rightarrow>
     ('w, 'z, 'x stop + attempt \<times> ('w, 'x) instance_plan) mprog" where
  "plan_phase P already_unsettled adopted_at_start rendered =
     do { let (att, converted) = rendered;
          mi \<leftarrow> the_object;
          let st = mi_status mi;
          let uuid = extract_instance_uuid (cr_resources converted);
          let identities = plan_identities (is_instance_uuid st) (is_previous_instance_uuid st) uuid False;
          change_status (\<lambda>st. st\<lparr>is_required_contracts := rr_required_contracts (cr_result converted)\<rparr>);
          if ip_refused identities then
            do { msg \<leftarrow> refuse_identity_change P already_unsettled (is_instance_uuid st)
                          (is_previous_instance_uuid st) uuid;
                 fail_attempt att FailedStalled msg }
          else do { w \<leftarrow> withhold_refused (mp_err P) (mp_decider P) (cr_resources converted);
                    case w of
                      Inl e \<Rightarrow>
                        do { mark_mi P (mark_not_ready (mp_cond P) ''ApplyFailed'' (err_text (mp_err P) e));
                             fail_attempt att FailedTransient (err_text (mp_err P) e) }
                    | Inr (apply_list, refused) \<Rightarrow>
                        and_then
                          (guard_phase P att adopted_at_start
                             \<lparr>in_converted = converted, in_identities = identities, in_refused = refused,
                              in_unchanged = keeps_no_op identities
                                (no_op (at_digests att) (last_applied_digests st) refused),
                              in_built = Inl (Fmt [] []),
                              in_guard = \<lparr>ga_err = None, ga_allowed = [], ga_taken_in = [], ga_pins = [],
                                          ga_let_go = [], ga_refused = [], ga_adopted = 0\<rparr>\<rparr> apply_list)
                          (\<lambda>pl. State_Monad.return (Inr (att, pl))) } }"

text \<open>Drift, the restore and the refusals of the apply verdict.\<close>

record instance_work =
  wk_apply :: "uobj list"
  wk_expired :: "uobj list"
  wk_no_op :: bool
  wk_restoring :: bool

definition drift_phase ::
    "('w, 'x, 'p, 'r) instance_params \<Rightarrow> attempt \<Rightarrow> ('w, 'x) instance_plan \<Rightarrow>
     ('w, 'z, 'x stop + attempt \<times> instance_work) mprog" where
  "drift_phase P att0 pl =
     do { let guard = in_guard pl;
          (missing, failed) \<leftarrow> detect_drift P (in_built pl) (ga_err guard)
                                (without_objects (ga_allowed guard) (ga_taken_in guard));
          let att = att0\<lparr>at_adopted := ga_adopted guard,
                         at_phases := (at_phases att0)\<lparr>po_drift_ran := True, po_drift_failed := failed\<rparr>\<rparr>;
          let (to_apply, still_no_op, restoring) =
            plan_restore (in_unchanged pl) missing (ga_taken_in guard) (ga_allowed guard);
          let refusing = refused_to_write (ga_refused guard) (in_unchanged pl);
          if 0 < length refusing then
            do { msg \<leftarrow> refuse_apply (mp_cond P) (mp_clock P) mi_view refusing;
                 fail_attempt (att\<lparr>at_phases := (at_phases att)\<lparr>po_apply_ran := True, po_apply_failed := True\<rparr>\<rparr>)
                   FailedTransient msg }
          else State_Monad.return (Inr (att,
                 \<lparr>wk_apply = to_apply, wk_expired = expired_jobs (in_unchanged pl) missing,
                  wk_no_op = still_no_op, wk_restoring = restoring\<rparr>)) }"

definition no_op_phase ::
    "('w, 'x, 'p, 'r) instance_params \<Rightarrow> nat \<Rightarrow> attempt \<Rightarrow> ('w, 'x) instance_plan \<Rightarrow> instance_work \<Rightarrow>
     ('w, 'z, 'x stop + unit) mprog" where
  "no_op_phase P adopted_at_start att pl wk =
     (if \<not> wk_no_op wk then State_Monad.return (Inr ())
      else do { emit_event ''Normal'' ''NoOp'' ''Reconcile'' ''No changes detected'';
                change_status (\<lambda>st. st\<lparr>is_instance_uuid := fill_empty (in_identities pl) (is_instance_uuid st)\<rparr>);
                change_status (forget_expired_jobs (mp_export P) (wk_expired wk));
                change_status (forget_let_go (mp_export P) (judged_objects (ga_let_go (in_guard pl))));
                report_adopted_elsewhere (ga_let_go (in_guard pl)) adopted_at_start;
                mi \<leftarrow> the_object;
                v \<leftarrow> judge_health_as P (in_built pl) (inventory_entries (is_inventory (mi_status mi)));
                mark_mi P (apply_health (mp_cond P) v);
                now \<leftarrow> ask (tk_now (mp_clock P));
                after \<leftarrow> instance_requeue P (health_requeue v (is_last_applied_at (mi_status mi)) now);
                State_Monad.return (Inl (Stop (att\<lparr>at_outcome := NoOp\<rparr>) (after, None))) })"

text \<open>Phase 5: apply, and the refusal of a provides shrink.\<close>

definition applied_text :: "apply_result \<Rightarrow> string" where
  "applied_text r =
     ''Applied '' @ itoa (ar_created r + ar_updated r + ar_unchanged r) @ '' resources ('' @
     itoa (ar_created r) @ '' created, '' @ itoa (ar_updated r) @ '' updated, '' @
     itoa (ar_unchanged r) @ '' unchanged)''"

definition apply_phase ::
    "('w, 'x, 'p, 'r) instance_params \<Rightarrow> attempt \<Rightarrow> ('w, 'x) instance_plan \<Rightarrow> instance_work \<Rightarrow>
     ('w, 'z, 'x stop + attempt \<times> ('w, 'x) applier) mprog" where
  "apply_phase P att0 pl wk =
     (case in_built pl of
        Inl e \<Rightarrow>
          do { mark_mi P (mark_stalled (mp_cond P) ''ImpersonationFailed'' (err_text (mp_err P) e));
               fail_attempt att0 FailedStalled (err_text (mp_err P) e) }
      | Inr a \<Rightarrow>
          do { let att = att0\<lparr>at_phases := (at_phases att0)\<lparr>po_apply_ran := True\<rparr>\<rparr>;
               mi \<leftarrow> the_object;
               r \<leftarrow> apply_instance P (in_identities pl) a (wk_apply wk)
                 \<lparr>ao_force = forces_conflicts (sp_rollout (mi_spec mi)),
                  ao_delete_data = deletes_claims (sp_data_policy (mi_spec mi)),
                  ao_taken_in = ga_pins (in_guard pl)\<rparr>;
               case r of
                 Inl e \<Rightarrow>
                   do { (oc, msg) \<leftarrow> report_apply_failure P e (effective_sa_of P mi);
                        fail_attempt (att\<lparr>at_phases := (at_phases att)\<lparr>po_apply_failed := True\<rparr>\<rparr>) oc msg }
               | Inr applied \<Rightarrow>
                   do { emit_event ''Normal'' ''Applied'' ''Apply'' (applied_text applied);
                        metric ''apply'';
                        if 0 < length (in_refused pl) then
                          do { let msg = refusal_message (in_refused pl);
                               emit_event ''Warning'' ''DependentsRemain'' ''Apply'' msg;
                               mark_mi P (mark_not_ready (mp_cond P) ''DependentsRemain'' msg);
                               fail_attempt att FailedTransient msg }
                        else do { clear_drift_after_apply P (wk_restoring wk);
                                  State_Monad.return (Inr (att\<lparr>at_new_entries :=
                                    without_entries (mp_export P)
                                      (without_entries (mp_export P) (cr_entries (in_converted pl)) (wk_expired wk))
                                      (judged_objects (ga_let_go (in_guard pl)))\<rparr>, a)) } } })"

text \<open>Phases 6 and 7: prune what the render no longer holds, then report the success.\<close>

definition finish_phase ::
    "('w, 'x, 'p, 'r) instance_params \<Rightarrow> nat \<Rightarrow> ('w, 'x) instance_plan \<Rightarrow> inventory_entry list \<Rightarrow>
     attempt \<times> ('w, 'x) applier \<Rightarrow> ('w, 'z, 'x stop) mprog" where
  "finish_phase P adopted_at_start pl stale applied =
     do { let (att0, a) = applied;
          mi \<leftarrow> the_object;
          p \<leftarrow> prune_stale_resources P (ap_client a) (ip_prune (in_identities pl)) stale (effective_sa_of P mi);
          failures \<leftarrow> failures_now;
          let att = att0\<lparr>at_outcome := pe_outcome p, at_reconciled := pe_reconciled p,
                         at_phases := (at_phases att0)\<lparr>po_prune_ran := True\<rparr>\<rparr>;
          case prune_failure (mp_err P) (pe_err p) (pe_reconciled p) failures of
            Some (retry, msg) \<Rightarrow>
              State_Monad.return (Stop (att\<lparr>at_phases := (at_phases att)\<lparr>po_prune_failed := True\<rparr>,
                                            at_err_msg := msg, at_retry_after := retry\<rparr>) (retry, None))
          | None \<Rightarrow>
              do { metric ''prune'';
                   mark_mi P (mark_ready (mp_cond P) (ready_message ready_succeeded (int (at_adopted att))));
                   emit_event ''Normal'' reconciliation_succeeded_reason ''Reconcile'' ready_succeeded;
                   report_adopted_elsewhere (ga_let_go (in_guard pl)) adopted_at_start;
                   v \<leftarrow> judge_health (mp_health P) (mp_err P) (mp_clock P) (reader_of P mi a) (at_new_entries att);
                   mark_mi P (apply_health (mp_cond P) v);
                   now \<leftarrow> ask (tk_now (mp_clock P));
                   after \<leftarrow> instance_requeue P (health_requeue v (Some now) now);
                   State_Monad.return (Stop att (after, None)) } }"

text \<open>The phases from the no-op verdict on. The entries of the inventory are read before the apply.\<close>

definition write_phases ::
    "('w, 'x, 'p, 'r) instance_params \<Rightarrow> nat \<Rightarrow> attempt \<Rightarrow> ('w, 'x) instance_plan \<Rightarrow> instance_work \<Rightarrow>
     ('w, 'z, 'x stop) mprog" where
  "write_phases P adopted_at_start att pl wk =
     do { r \<leftarrow> and_then (no_op_phase P adopted_at_start att pl wk)
            (\<lambda>_. do { mi \<leftarrow> the_object;
                      and_then (apply_phase P att pl wk)
                        (\<lambda>applied. State_Monad.return (Inr (applied,
                           stale_entries (mp_export P) (map_option inv_entries (is_inventory (mi_status mi)))
                             (cr_entries (in_converted pl))))) });
          case r of
            Inl stop \<Rightarrow> State_Monad.return stop
          | Inr (applied, stale) \<Rightarrow> finish_phase P adopted_at_start pl stale applied }"

definition attempt_phases ::
    "('w, 'x, 'p, 'r) instance_params \<Rightarrow> ('w, 'z, 'x stop) mprog" where
  "attempt_phases P =
     do { mi \<leftarrow> the_object;
          let conds = is_conditions (mi_status mi);
          let already_unsettled = ready_already_stalled_with (mp_cond P) conds ''IdentityChangeUnsettled'';
          let adopted_at_start = adopted_before (mp_cond P) conds;
          r \<leftarrow> and_then (render_phase P new_attempt)
            (\<lambda>rendered. and_then (plan_phase P already_unsettled adopted_at_start rendered)
              (\<lambda>(att, pl). and_then (drift_phase P att pl) (\<lambda>(att, wk). State_Monad.return (Inr (att, pl, wk)))));
          case r of
            Inl stop \<Rightarrow> State_Monad.return stop
          | Inr (att, pl, wk) \<Rightarrow> write_phases P adopted_at_start att pl wk }"


section \<open>The reconcile\<close>

datatype 'x reconcile_end = Ended "'x requeue" | Requeued | Panicked string

text \<open>The attempt with its deferred commit.\<close>

definition run_attempt :: "('w, 'x, 'p, 'r) instance_params \<Rightarrow> time \<Rightarrow> ('w, 'z, 'x reconcile_end) mprog" where
  "run_attempt P start =
     do { stop \<leftarrow> attempt_phases P;
          case stop of
            StopPanic att v \<Rightarrow> do { commit_panic_status P v (at_digests att) start; State_Monad.return (Panicked v) }
          | Stop att result \<Rightarrow>
              do { (if at_skip_commit att then State_Monad.return ()
                    else if at_outcome att = NoOp
                    then commit_no_op_status P att (no_op_inputs (mp_drift_render_interval P) (at_rendered_inputs att))
                    else commit_status P att start);
                   State_Monad.return (Ended result) } }"

definition reconcile_live :: "('w, 'x, 'p, 'r) instance_params \<Rightarrow> time \<Rightarrow> ('w, 'z, 'x reconcile_end) mprog" where
  "reconcile_live P start =
     do { mi \<leftarrow> the_object;
          if sp_suspend (mi_spec mi) then do { err \<leftarrow> handle_suspend P; State_Monad.return (Ended (0, err)) }
          else do { report_resume P;
                    skipped \<leftarrow> skip_instance_render P;
                    case skipped of
                      Some after \<Rightarrow> State_Monad.return (Ended (after, None))
                    | None \<Rightarrow> run_attempt P start } }"

text \<open>Past the gates: the finalizer, the deletion, the live reconcile.\<close>

definition reconcile_managed :: "('w, 'x, 'p, 'r) instance_params \<Rightarrow> ('w, 'z, 'x reconcile_end) mprog" where
  "reconcile_managed P =
     do { mi \<leftarrow> the_object;
          start \<leftarrow> ask (tk_now (mp_clock P));
          if \<not> has_finalizer mi then
            do { err \<leftarrow> add_finalizer P;
                 State_Monad.return
                   (case err of
                      Some e \<Rightarrow> Ended (0, Some (Fmt (''adding finalizer: '' @ err_text (mp_err P) e) [e]))
                    | None \<Rightarrow> Requeued) }
          else if mi_deletion_timestamp mi \<noteq> None then
            do { forget_tracker (key_of mi);
                 result \<leftarrow> handle_deletion P;
                 metric ''duration'';
                 State_Monad.return (Ended result) }
          else reconcile_live P start }"

definition reconcile_loaded :: "('w, 'x, 'p, 'r) instance_params \<Rightarrow> ('w, 'z, 'x reconcile_end) mprog" where
  "reconcile_loaded P =
     do { handled \<leftarrow> handle_not_reconciled P;
          case handled of
            Some err \<Rightarrow> State_Monad.return (Ended (0, err))
          | None \<Rightarrow> reconcile_managed P }"

definition instance_ref :: "string \<Rightarrow> string \<Rightarrow> object_ref" where
  "instance_ref namespace name =
     \<lparr>or_group = own_api_group, or_kind = ''ModuleInstance'', or_namespace = namespace, or_name = name\<rparr>"

definition reconcile_module_instance ::
    "('w, 'x, 'p, 'r) instance_params \<Rightarrow> string \<Rightarrow> string \<Rightarrow> ('w, 'z, 'x reconcile_end) mprog" where
  "reconcile_module_instance P namespace name =
     do { r \<leftarrow> request (ReadAct (instance_ref namespace name)) (mp_get_instance P);
          case r of
            Inl e \<Rightarrow> State_Monad.return (Ended (0, if ae_not_found (mp_err P) e then None else Some e))
          | Inr mi \<Rightarrow> do { change_object (\<lambda>_. mi); reconcile_loaded P } }"

end
