(* ===== verification/Package_Base.thy ===== *)
theory Package_Base
  imports Module_Instance Artifact
begin

text \<open>
  internal/reconcile/modulepackage.go, the parts, and internal/source/resolve.go: what a reconcile of a
  ModulePackage is given, its patches and counters, the Flux source, the path inside the artifact, the
  dependencies, and the identity that applies.
\<close>

section \<open>Parameters\<close>

type_synonym ('w, 'z, 'a) pprog = "('w, module_package, 'z, 'a) rprog"

definition pk_view :: "module_package object_view" where
  "pk_view =
     \<lparr>ov_conditions = (\<lambda>pkg. ps_conditions (pk_status pkg)),
      ov_set_conditions = (\<lambda>cs pkg. pkg\<lparr>pk_status := (pk_status pkg)\<lparr>ps_conditions := cs\<rparr>\<rparr>),
      ov_annotations = pk_annotations,
      ov_deletion_timestamp = pk_deletion_timestamp,
      ov_namespace = pk_namespace\<rparr>"

definition package_key :: "module_package \<Rightarrow> object_key" where
  "package_key pkg = (pk_namespace pkg, pk_name pkg)"

text \<open>A Flux source: its conditions and its artifact.\<close>

record flux_artifact =
  fa_url :: string
  fa_revision :: string
  fa_digest :: string

record flux_source =
  fx_conditions :: "cond list"
  fx_artifact :: "flux_artifact option"

text \<open>How a package render under the pool ends; the renderer names the kind of what it loaded.\<close>

datatype ('x, 'r) package_answer =
    PackageSlotError "'x goerr"
  | PackagePanic string
  | PackageFailure "'x goerr"
  | PackageDone string render_result 'r

text \<open>
  ModulePackageParams with the third-party code behind it. \<open>gp_get_package\<close>, \<open>gp_get_source\<close> and
  \<open>gp_get_dependency\<close> are reads of the client; \<open>gp_mkdir_temp\<close>, \<open>gp_fetch\<close>, \<open>gp_remove_all\<close> and
  \<open>gp_stat\<close> are the file system of the operator with the injected Fetcher.
\<close>

record ('w, 'x, 'p, 'r) package_params =
  gp_libs :: "('w, 'x, 'p) cleanup_libs"
  gp_sha256 :: "string \<Rightarrow> string"
  gp_canonical :: "string \<Rightarrow> string option"
  gp_can_apply :: can_apply
  gp_export :: "('x, 'r) export_lib"
  gp_health :: health_lib
  gp_client :: "('w, 'x) client"
  gp_api_reader :: "('w, 'x) client option"
  gp_impersonator :: "('w, 'x) impersonator"
  gp_manager :: "('w, 'x) resource_manager"
  gp_manager_client :: "('w, 'x) client"
  gp_new_manager :: "('w, 'x) client \<Rightarrow> ('w, 'x) resource_manager"
  gp_get_package :: "'w \<Rightarrow> ('x goerr + module_package) \<times> 'w"
  gp_get_dependency :: "string \<Rightarrow> string \<Rightarrow> 'w \<Rightarrow> ('x goerr + module_package) \<times> 'w"
  gp_get_source :: "string \<Rightarrow> string \<Rightarrow> string \<Rightarrow> 'w \<Rightarrow> ('x goerr + flux_source) \<times> 'w"
  gp_get_platform :: "'w \<Rightarrow> ('x goerr + platform_view) \<times> 'w"
  gp_patch_meta :: "module_package \<Rightarrow> 'w \<Rightarrow> ('x goerr + module_package) \<times> 'w"
  gp_patch_status :: "string list \<Rightarrow> module_package \<Rightarrow> 'w \<Rightarrow> 'x goerr option \<times> 'w"
  gp_mkdir_temp :: "'w \<Rightarrow> ('x goerr + string) \<times> 'w"
  gp_fetch :: "string \<Rightarrow> string \<Rightarrow> string \<Rightarrow> fetch_options \<Rightarrow> 'w \<Rightarrow> 'x goerr option \<times> 'w"
  gp_remove_all :: "string \<Rightarrow> 'w \<Rightarrow> unit \<times> 'w"
  gp_stat :: "string \<Rightarrow> 'w \<Rightarrow> errno + fnode"
  gp_render :: "string \<Rightarrow> 'w \<Rightarrow> ('x, 'r) package_answer \<times> 'w"
  gp_render_timeout :: duration
  gp_default_service_account :: string
  gp_controller_version :: string
  gp_library_version :: string
  gp_drift_render_interval :: duration
  gp_deletion_wait :: "'w deletion_wait"

abbreviation gp_err :: "('w, 'x, 'p, 'r) package_params \<Rightarrow> 'x errlib" where "gp_err P \<equiv> xl_err (gp_libs P)"
abbreviation gp_cond :: "('w, 'x, 'p, 'r) package_params \<Rightarrow> condlib" where "gp_cond P \<equiv> xl_cond (gp_libs P)"
abbreviation gp_clock :: "('w, 'x, 'p, 'r) package_params \<Rightarrow> 'w ticker" where "gp_clock P \<equiv> xl_clock (gp_libs P)"

definition default_package_interval :: duration where "default_package_interval = 5 * minute"

definition package_interval :: "module_package \<Rightarrow> duration" where
  "package_interval pkg =
     (if pp_interval (pk_spec pkg) = 0 then default_package_interval else pp_interval (pk_spec pkg))"

definition package_conditions :: "string list" where
  "package_conditions = [ready_condition, reconciling_condition, stalled_condition, drifted_condition, healthy_condition]"


section \<open>Patches and marks\<close>

definition change_package :: "(package_status \<Rightarrow> package_status) \<Rightarrow> ('w, 'z, unit) pprog" where
  "change_package f = change_object (\<lambda>pkg. pkg\<lparr>pk_status := f (pk_status pkg)\<rparr>)"

definition mark_pk :: "('w, 'x, 'p, 'r) package_params \<Rightarrow> mark \<Rightarrow> ('w, 'z, unit) pprog" where
  "mark_pk P m = mark_object (gp_clock P) pk_view m"

definition observe_package :: "('w, 'z, unit) pprog" where
  "observe_package =
     change_object (\<lambda>pkg. pkg\<lparr>pk_status := (pk_status pkg)\<lparr>ps_observed_generation := pk_generation pkg\<rparr>\<rparr>)"

definition patch_pk ::
    "('w, 'x, 'p, 'r) package_params \<Rightarrow> string list \<Rightarrow> bool \<Rightarrow> ('w, 'z, 'x goerr option) pprog" where
  "patch_pk P owned observe =
     do { (if observe then observe_package else State_Monad.return ());
          pkg \<leftarrow> the_object;
          request (PatchPackageAct (pk_status pkg)) (gp_patch_status P owned pkg) }"

definition patch_package_status :: "('w, 'x, 'p, 'r) package_params \<Rightarrow> ('w, 'z, 'x goerr option) pprog" where
  "patch_package_status P = patch_pk P package_conditions True"

definition patch_package_deletion_status ::
    "('w, 'x, 'p, 'r) package_params \<Rightarrow> ('w, 'z, 'x goerr option) pprog" where
  "patch_package_deletion_status P = patch_pk P package_conditions False"

definition patch_package_identity_status ::
    "('w, 'x, 'p, 'r) package_params \<Rightarrow> ('w, 'z, 'x goerr option) pprog" where
  "patch_package_identity_status P = patch_package_deletion_status P"

definition patch_package_finalizers ::
    "('w, 'x, 'p, 'r) package_params \<Rightarrow> (string list \<Rightarrow> string list) \<Rightarrow> ('w, 'z, 'x goerr option) pprog" where
  "patch_package_finalizers P edit =
     do { change_object (\<lambda>pkg. pkg\<lparr>pk_finalizers := edit (pk_finalizers pkg)\<rparr>);
          pkg \<leftarrow> the_object;
          r \<leftarrow> request (PatchFinalizersAct (pk_finalizers pkg)) (gp_patch_meta P pkg);
          case r of
            Inl e \<Rightarrow> State_Monad.return (Some e)
          | Inr pkg' \<Rightarrow> do { change_object (\<lambda>_. pkg'); State_Monad.return None } }"

definition add_package_finalizer :: "('w, 'x, 'p, 'r) package_params \<Rightarrow> ('w, 'z, 'x goerr option) pprog" where
  "add_package_finalizer P =
     patch_package_finalizers P (\<lambda>fs. if finalizer_name \<in> set fs then fs else fs @ [finalizer_name])"

definition remove_package_finalizer :: "('w, 'x, 'p, 'r) package_params \<Rightarrow> ('w, 'z, 'x goerr option) pprog" where
  "remove_package_finalizer P = patch_package_finalizers P (filter (\<lambda>f. f \<noteq> finalizer_name))"

definition has_package_finalizer :: "module_package \<Rightarrow> bool" where
  "has_package_finalizer pkg = (finalizer_name \<in> set (pk_finalizers pkg))"


section \<open>Failure counters and records\<close>

definition update_package_counters :: "outcome \<Rightarrow> phase_outcomes \<Rightarrow> package_status \<Rightarrow> package_status" where
  "update_package_counters oc ph st =
     (let c = ensure_counters (ps_failure_counters st);
          c = count_phase counter_apply (po_apply_ran ph) (po_apply_failed ph) c;
          c = count_phase counter_prune (po_prune_ran ph) (po_prune_failed ph) c;
          c = (if oc = FailedTransient \<or> oc = FailedStalled then increment_counter c counter_reconcile
               else reset_counter c counter_reconcile)
      in st\<lparr>ps_failure_counters := Some c\<rparr>)"

definition package_backoff :: "module_package \<Rightarrow> duration" where
  "package_backoff pkg = compute_backoff (reconcile_failure_count (ps_failure_counters (pk_status pkg)) + 1)"

definition record_package_history :: "history_entry \<Rightarrow> package_status \<Rightarrow> package_status" where
  "record_package_history e st = st\<lparr>ps_history := record_history (ps_history st) e\<rparr>"

definition package_inventory_digest :: "inventory option \<Rightarrow> string" where
  "package_inventory_digest i = (case i of None \<Rightarrow> [] | Some x \<Rightarrow> inv_digest x)"


section \<open>The Flux source\<close>

definition source_kinds :: "string list" where
  "source_kinds = [''OCIRepository'', ''GitRepository'', ''Bucket'']"

definition artifact_ref_of :: "string \<Rightarrow> flux_artifact \<Rightarrow> string \<times> flux_artifact" where
  "artifact_ref_of kind a = (kind, a)"

text \<open>source.Resolve. A source is read only when its kind is known.\<close>

definition resolve_source ::
    "('w, 'x, 'p, 'r) package_params \<Rightarrow> source_reference \<Rightarrow> string \<Rightarrow>
     ('w, 'z, 'x goerr + string \<times> flux_artifact) prog" where
  "resolve_source P ref object_namespace =
     (let ns = (if sf_namespace ref \<noteq> [] then sf_namespace ref else object_namespace);
          named = sf_kind ref @ '' '' @ ns @ ''/'' @ sf_name ref
      in if sf_kind ref \<notin> set source_kinds
         then State_Monad.return
           (Inl (wrapped (gp_err P) (ns @ ''/'' @ sf_name ref)
                  (wrapped (gp_err P) (''source kind '' @ quote (sf_kind ref)) (Sentinel ErrUnsupportedSourceKind))))
         else do { r \<leftarrow> request (ReadAct \<lparr>or_group = ''source.toolkit.fluxcd.io'', or_kind = sf_kind ref,
                                            or_namespace = ns, or_name = sf_name ref\<rparr>)
                           (gp_get_source P (sf_kind ref) ns (sf_name ref));
                   State_Monad.return
                     (case r of
                        Inl e \<Rightarrow>
                          if ae_not_found (gp_err P) e
                          then Inl (wrapped (gp_err P) named (Sentinel ErrSourceNotFound))
                          else Inl (wrapped (gp_err P) (''getting '' @ named) e)
                      | Inr src \<Rightarrow>
                          if \<not> (case k_find (gp_cond P) ready_condition (fx_conditions src) of
                                  None \<Rightarrow> False | Some ready \<Rightarrow> c_status ready = CTrue)
                          then Inl (wrapped (gp_err P) named (Sentinel ErrSourceNotReady))
                          else case fx_artifact src of
                                 None \<Rightarrow> Inl (wrapped (gp_err P) (named @ '' has no artifact'') (Sentinel ErrSourceNotReady))
                               | Some a \<Rightarrow> Inr (artifact_ref_of (sf_kind ref) a)) })"


section \<open>The path inside the artifact\<close>

definition resolve_package_path ::
    "'x errlib \<Rightarrow> (string \<Rightarrow> errno + fnode) \<Rightarrow> string \<Rightarrow> string \<Rightarrow> 'x goerr + string" where
  "resolve_package_path E stat root rel =
     (let cleaned = path_clean (''/'' @ rel);
          target = path_join [root, (if has_prefix cleaned ''/'' then drop 1 cleaned else cleaned)];
          file = path_join [target, ''instance.cue'']
      in if is_infix ''..'' cleaned
         then Inl (Fmt (''path '' @ quote rel @ '' contains traversal'') [])
         else case stat target of
                Inl e \<Rightarrow>
                  if e = ENOENT then Inl (Fmt (''path '' @ quote rel @ '' does not exist in artifact'') [])
                  else Inl (wrapped E (''stat '' @ quote rel) (path_error ''stat'' target e))
              | Inr nd \<Rightarrow>
                  if nd \<noteq> DirNode then Inl (Fmt (''path '' @ quote rel @ '' is not a directory'') [])
                  else case stat file of
                         Inl e \<Rightarrow>
                           if e = ENOENT
                           then Inl (Fmt (sentinel_text ErrInstanceFileMissing @ '' at '' @ quote rel)
                                       [Sentinel ErrInstanceFileMissing])
                           else Inl (wrapped E ''stat instance.cue'' (path_error ''stat'' file e))
                       | Inr _ \<Rightarrow> Inr target)"


section \<open>Dependencies\<close>

definition package_ref :: "string \<Rightarrow> string \<Rightarrow> object_ref" where
  "package_ref namespace name =
     \<lparr>or_group = own_api_group, or_kind = ''ModulePackage'', or_namespace = namespace, or_name = name\<rparr>"

definition package_is_ready :: "condlib \<Rightarrow> module_package \<Rightarrow> bool" where
  "package_is_ready K pkg =
     (case k_find K ready_condition (ps_conditions (pk_status pkg)) of
        None \<Rightarrow> False | Some ready \<Rightarrow> c_status ready = CTrue)"

text \<open>checkDependsOn: the text of the error, or the first dependency that blocks, or nothing.\<close>

fun check_depends_on ::
    "('w, 'x, 'p, 'r) package_params \<Rightarrow> string \<Rightarrow> object_reference list \<Rightarrow>
     ('w, 'z, string + string option) prog" where
  "check_depends_on P namespace [] = State_Monad.return (Inr None)"
| "check_depends_on P namespace (dep # deps) =
     (if nr_namespace dep \<noteq> [] \<and> nr_namespace dep \<noteq> namespace
      then State_Monad.return (Inl (''dependency '' @ nr_namespace dep @ ''/'' @ nr_name dep @
             '': cross-namespace dependencies are not supported''))
      else do { r \<leftarrow> request (ReadAct (package_ref namespace (nr_name dep)))
                      (gp_get_dependency P namespace (nr_name dep));
                case r of
                  Inl e \<Rightarrow>
                    State_Monad.return
                      (if ae_not_found (gp_err P) e
                       then Inr (Some (namespace @ ''/'' @ nr_name dep @ '' (not found)''))
                       else Inl (''getting dependency '' @ namespace @ ''/'' @ nr_name dep @ '': '' @ err_text (gp_err P) e))
                | Inr other \<Rightarrow>
                    if \<not> package_is_ready (gp_cond P) other
                    then State_Monad.return (Inr (Some (namespace @ ''/'' @ nr_name dep)))
                    else check_depends_on P namespace deps })"


section \<open>The identity that applies\<close>

definition package_sa_of :: "('w, 'x, 'p, 'r) package_params \<Rightarrow> module_package \<Rightarrow> string" where
  "package_sa_of P pkg =
     effective_service_account (pp_service_account (pk_spec pkg)) (gp_default_service_account P)"

definition build_package_client ::
    "('w, 'x, 'p, 'r) package_params \<Rightarrow> ('w, 'z, 'x goerr + ('w, 'x) applier) pprog" where
  "build_package_client P =
     do { pkg \<leftarrow> the_object;
          let effective_sa = package_sa_of P pkg;
          if effective_sa = []
          then State_Monad.return (Inr \<lparr>ap_manager = gp_manager P, ap_manager_client = gp_manager_client P,
                                        ap_client = gp_client P\<rparr>)
          else do { r \<leftarrow> new_impersonated_client (gp_err P) (gp_impersonator P) (pk_namespace pkg) effective_sa;
                    State_Monad.return (map_sum id (\<lambda>c. \<lparr>ap_manager = gp_new_manager P c,
                                                          ap_manager_client = c, ap_client = c\<rparr>) r) } }"

text \<open>With no ServiceAccount the manager's own reader judges; otherwise the impersonated client.\<close>

definition judge_package_health ::
    "('w, 'x, 'p, 'r) package_params \<Rightarrow> inventory_entry list \<Rightarrow> ('w, 'z, health_verdict) pprog" where
  "judge_package_health P entries =
     do { pkg \<leftarrow> the_object;
          if package_sa_of P pkg = []
          then judge_health (gp_health P) (gp_err P) (gp_clock P) (manager_reader (gp_api_reader P) (gp_client P)) entries
          else do { built \<leftarrow> build_package_client P;
                    case built of
                      Inl e \<Rightarrow> State_Monad.return (unreadable_verdict (gp_health P) (gp_err P) entries e)
                    | Inr a \<Rightarrow> judge_health (gp_health P) (gp_err P) (gp_clock P) (ap_client a) entries } }"

definition report_package_resume :: "('w, 'x, 'p, 'r) package_params \<Rightarrow> ('w, 'z, unit) pprog" where
  "report_package_resume P =
     do { pkg \<leftarrow> the_object;
          (case k_find (gp_cond P) ready_condition (ps_conditions (pk_status pkg)) of
             None \<Rightarrow> State_Monad.return ()
           | Some ready \<Rightarrow>
               if c_reason ready = ''Suspended''
               then emit_event ''Normal'' ''Resumed'' ''Resume'' ''Reconciliation resumed''
               else State_Monad.return ()) }"

end
