(* ===== verification/Module_Package.thy ===== *)
theory Module_Package
  imports Package_Base
begin

text \<open>
  internal/reconcile/modulepackage.go, the reconcile: the gates before it, its phases from the Flux
  source to the prune with every early return, the deferred status commit and the deletion.
\<close>

section \<open>The commits\<close>

definition commit_package_no_op ::
    "('w, 'x, 'p, 'r) package_params \<Rightarrow> attempt \<Rightarrow> ('w, 'z, unit) pprog" where
  "commit_package_no_op P att =
     do { now \<leftarrow> ask (tk_now (gp_clock P));
          observe_package;
          mark_pk P (mark_ready (gp_cond P) (ready_message ready_succeeded (int (at_adopted att))));
          change_package (\<lambda>st. (update_package_counters NoOp (at_phases att) st)
            \<lparr>ps_next_retry_at := None,
             ps_last_applied_version := record_no_op_version (at_rendered_version att) (ps_last_applied_version st),
             ps_last_applied_inputs := record_inputs (gp_sha256 P)
               (no_op_inputs (gp_drift_render_interval P) (at_rendered_inputs att)) now (ps_last_applied_inputs st)\<rparr>);
          _ \<leftarrow> patch_package_status P;
          State_Monad.return () }"

definition record_package_attempt :: "time \<Rightarrow> duration \<Rightarrow> digest_set \<Rightarrow> package_status \<Rightarrow> package_status" where
  "record_package_attempt now took digests st =
     st\<lparr>ps_last_attempted_action := reconcile_action, ps_last_attempted_at := Some now,
        ps_last_attempted_duration := Some took,
        ps_last_attempted_source_digest := dg_source digests,
        ps_last_attempted_config_digest := dg_config digests,
        ps_last_attempted_render_digest := dg_render digests\<rparr>"

definition record_package_success ::
    "('w, 'x, 'p, 'r) package_params \<Rightarrow> attempt \<Rightarrow> time \<Rightarrow> package_status \<Rightarrow> package_status" where
  "record_package_success P att now st =
     (let digests = at_digests att in
      st\<lparr>ps_last_applied_at := Some now,
         ps_last_applied_source_digest := dg_source digests,
         ps_last_applied_version := applied_version (at_rendered_version att),
         ps_last_applied_config_digest := dg_config digests,
         ps_last_applied_render_digest := dg_render digests,
         ps_last_applied_inputs :=
           record_inputs (gp_sha256 P) (at_rendered_inputs att) now (ps_last_applied_inputs st),
         ps_inventory := Some ((next_inventory (gp_export P) (ps_inventory st) (at_new_entries att))
                                 \<lparr>inv_digest := dg_inventory digests\<rparr>),
         ps_previous_instance_uuid := []\<rparr>)"

definition commit_package_status ::
    "('w, 'x, 'p, 'r) package_params \<Rightarrow> attempt \<Rightarrow> time \<Rightarrow> ('w, 'z, unit) pprog" where
  "commit_package_status P att start =
     do { now \<leftarrow> ask (tk_now (gp_clock P));
          observe_package;
          later \<leftarrow> ask (tk_now (gp_clock P));
          change_package (record_package_attempt now (later - start) (at_digests att));
          (if at_reconciled att then
             do { change_package (record_package_success P att now);
                  stamp \<leftarrow> ask (tk_now (gp_clock P));
                  change_package (record_package_history (new_success_entry stamp reconcile_action ''complete''
                    (at_digests att) (word_of_nat (length (at_new_entries att))))) }
           else if at_err_msg att \<noteq> [] then
             do { stamp \<leftarrow> ask (tk_now (gp_clock P));
                  change_package (record_package_history
                    (new_failure_entry stamp reconcile_action (at_err_msg att) (at_digests att))) }
           else State_Monad.return ());
          change_package (update_package_counters (at_outcome att) (at_phases att));
          clock \<leftarrow> ask (tk_now (gp_clock P));
          change_package (\<lambda>st. st\<lparr>ps_next_retry_at :=
            (if at_retry_after att > 0 then Some (clock + at_retry_after att) else None)\<rparr>);
          _ \<leftarrow> patch_package_status P;
          State_Monad.return () }"

definition commit_package_panic ::
    "('w, 'x, 'p, 'r) package_params \<Rightarrow> string \<Rightarrow> digest_set \<Rightarrow> time \<Rightarrow> ('w, 'z, unit) pprog" where
  "commit_package_panic P recovered digests start =
     (let msg = ''reconcile panicked: '' @ recovered
      in do { mark_pk P (mark_reconcile_panic (gp_cond P) msg);
              now \<leftarrow> ask (tk_now (gp_clock P));
              observe_package;
              later \<leftarrow> ask (tk_now (gp_clock P));
              change_package (record_package_attempt now (later - start) digests);
              stamp \<leftarrow> ask (tk_now (gp_clock P));
              change_package (record_package_history (new_failure_entry stamp reconcile_action msg digests));
              change_package (update_package_counters FailedTransient no_phases);
              change_package (\<lambda>st. st\<lparr>ps_next_retry_at := None\<rparr>);
              _ \<leftarrow> patch_package_status P;
              State_Monad.return () })"


section \<open>The deletion\<close>

definition package_env :: "('w, 'x, 'p, 'r) package_params \<Rightarrow> ('w, 'x) deletion_env" where
  "package_env P =
     \<lparr>de_client = gp_client P, de_impersonator = Some (gp_impersonator P),
      de_default_service_account = gp_default_service_account P, de_wait = gp_deletion_wait P\<rparr>"

definition package_target ::
    "('w, 'x, 'p, 'r) package_params \<Rightarrow> module_package \<Rightarrow> ('w, module_package, 'z rsys_ext, 'x) deletion_target" where
  "package_target P pkg =
     \<lparr>dt_obj = pk_view,
      dt_prune = pp_prune (pk_spec pkg),
      dt_delete_data = deletes_claims (pp_data_policy (pk_spec pkg)),
      dt_service_account = pp_service_account (pk_spec pkg),
      dt_entries = inventory_entries (ps_inventory (pk_status pkg)),
      dt_identities = recorded_identities [ps_instance_uuid (pk_status pkg), ps_previous_instance_uuid (pk_status pkg)],
      dt_clear_inventory = (\<lambda>pkg. pkg\<lparr>pk_status := (pk_status pkg)\<lparr>ps_inventory := None\<rparr>\<rparr>),
      dt_patch_status = patch_package_deletion_status P,
      dt_remove_finalizer = remove_package_finalizer P\<rparr>"

definition handle_package_deletion :: "('w, 'x, 'p, 'r) package_params \<Rightarrow> ('w, 'z, 'x requeue) pprog" where
  "handle_package_deletion P =
     do { pkg \<leftarrow> the_object;
          run_deletion_cleanup (gp_libs P) (package_env P) (package_target P pkg) }"


section \<open>The phases\<close>

text \<open>A phaseFail ends the attempt with its outcome, its message and its retry.\<close>

definition fail_package ::
    "attempt \<Rightarrow> outcome \<Rightarrow> string \<Rightarrow> duration \<Rightarrow> ('w, 'z, 'x stop + 'a) pprog" where
  "fail_package att oc msg retry =
     State_Monad.return
       (Inl (Stop (att\<lparr>at_outcome := oc, at_err_msg := msg, at_retry_after := retry\<rparr>) (retry, None)))"

text \<open>A failure that is retried on the bounded backoff.\<close>

definition fail_backing_off :: "attempt \<Rightarrow> string \<Rightarrow> ('w, 'z, 'x stop + 'a) pprog" where
  "fail_backing_off att msg = do { pkg \<leftarrow> the_object; fail_package att FailedTransient msg (package_backoff pkg) }"

definition resolve_phase ::
    "('w, 'x, 'p, 'r) package_params \<Rightarrow> duration \<Rightarrow> attempt \<Rightarrow> ('w, 'z, 'x stop + flux_artifact) pprog" where
  "resolve_phase P interval att =
     do { pkg \<leftarrow> the_object;
          r \<leftarrow> resolve_source P (pp_source (pk_spec pkg)) (pk_namespace pkg);
          case r of
            Inr (kind, a) \<Rightarrow> State_Monad.return (Inr a)
          | Inl e \<Rightarrow>
              do { emit_event ''Warning'' ''SourceNotReady'' ''Resolve'' (err_text (gp_err P) e);
                   if errors_is (gp_err P) ErrSourceNotFound e \<or> errors_is (gp_err P) ErrUnsupportedSourceKind e
                   then do { mark_pk P (mark_stalled (gp_cond P) ''SourceNotReady'' (err_text (gp_err P) e));
                             fail_package att FailedStalled (err_text (gp_err P) e) stalled_recheck_interval }
                   else do { mark_pk P (mark_not_ready (gp_cond P) ''SourceNotReady'' (err_text (gp_err P) e));
                             fail_package att FailedTransient (err_text (gp_err P) e) interval } } }"

definition package_skippable ::
    "('w, 'x, 'p, 'r) package_params \<Rightarrow> cond list \<Rightarrow> string \<Rightarrow> ('w, 'z, bool) pprog" where
  "package_skippable P conds source_digest =
     do { pkg \<leftarrow> the_object;
          if gp_drift_render_interval P \<le> 0 \<or> ps_last_applied_inputs (pk_status pkg) = None
          then State_Monad.return False
          else do { now \<leftarrow> ask (tk_now (gp_clock P));
                    may_skip (gp_sha256 P) (gp_cond P)
                      \<lparr>rs_interval = gp_drift_render_interval P, rs_now = now\<rparr>
                      conds (pk_generation pkg) (ps_observed_generation (pk_status pkg))
                      (ps_last_applied_inputs (pk_status pkg))
                      (do { (identity, skew) \<leftarrow> platform_key_parts (gp_get_platform P);
                            State_Monad.return
                              \<lparr>rk_source = source_digest,
                               rk_config = config_digest (gp_sha256 P) (gp_canonical P) None,
                               rk_package_identity = identity, rk_skew_policy = skew,
                               rk_controller_version = gp_controller_version P,
                               rk_library_version = gp_library_version P\<rparr> }) } }"

definition judge_skipped_package ::
    "('w, 'x, 'p, 'r) package_params \<Rightarrow> duration \<Rightarrow> ('w, 'z, duration) pprog" where
  "judge_skipped_package P interval =
     do { pkg \<leftarrow> the_object;
          v \<leftarrow> judge_package_health P (inventory_entries (ps_inventory (pk_status pkg)));
          mark_pk P (apply_health (gp_cond P) v);
          _ \<leftarrow> patch_pk P [healthy_condition] False;
          now \<leftarrow> ask (tk_now (gp_clock P));
          State_Monad.return
            (package_requeue (health_requeue v (ps_last_applied_at (pk_status pkg)) now) interval) }"

text \<open>The resolved source is recorded; the render is skipped when its inputs are unchanged.\<close>

definition source_phase ::
    "('w, 'x, 'p, 'r) package_params \<Rightarrow> duration \<Rightarrow> cond list \<Rightarrow> attempt \<Rightarrow>
     ('w, 'z, 'x stop + attempt \<times> flux_artifact) pprog" where
  "source_phase P interval conds att0 =
     and_then (resolve_phase P interval att0)
       (\<lambda>a. do { pkg \<leftarrow> the_object;
                 let resolved = \<lparr>ss_ref = Some (pp_source (pk_spec pkg)), ss_revision = fa_revision a,
                                 ss_digest = fa_digest a, ss_url = fa_url a\<rparr>;
                 let recorded = (ps_source (pk_status pkg) = Some resolved);
                 change_package (\<lambda>st. st\<lparr>ps_source := Some resolved\<rparr>);
                 let att = att0\<lparr>at_digests := (at_digests att0)\<lparr>dg_source := fa_digest a\<rparr>\<rparr>;
                 skip \<leftarrow> (if recorded then package_skippable P conds (fa_digest a) else State_Monad.return False);
                 if skip then
                   do { change_package (\<lambda>st. st\<lparr>ps_conditions := conds\<rparr>);
                        after \<leftarrow> judge_skipped_package P interval;
                        State_Monad.return (Inl (Stop (att\<lparr>at_skip_commit := True\<rparr>) (after, None))) }
                 else State_Monad.return (Inr (att, a)) })"

definition fetch_phase ::
    "('w, 'x, 'p, 'r) package_params \<Rightarrow> duration \<Rightarrow> attempt \<times> flux_artifact \<Rightarrow>
     ('w, 'z, 'x stop + attempt \<times> string) pprog" where
  "fetch_phase P interval resolved =
     do { let (att, a) = resolved;
          made \<leftarrow> tick (gp_mkdir_temp P);
          case made of
            Inl e \<Rightarrow>
              do { mark_pk P (mark_not_ready (gp_cond P) ''FetchFailed'' (''creating temp dir: '' @ err_text (gp_err P) e));
                   fail_package att FailedTransient (err_text (gp_err P) e) interval }
          | Inr dir \<Rightarrow>
              do { request (MakeDirAct dir) (\<lambda>w. ((), w));
                   err \<leftarrow> request (FetchAct (fa_url a) dir)
                     (gp_fetch P (fa_url a) (fa_digest a) dir
                       \<lparr>fo_format = format_for_kind [], fo_skip_root_validation = True\<rparr>);
                   case err of
                     Some e \<Rightarrow>
                       do { request (RemoveDirAct dir) (gp_remove_all P dir);
                            emit_event ''Warning'' ''FetchFailed'' ''Fetch'' (err_text (gp_err P) e);
                            mark_pk P (mark_not_ready (gp_cond P) ''FetchFailed'' (err_text (gp_err P) e));
                            fail_package att FailedTransient (err_text (gp_err P) e) interval }
                   | None \<Rightarrow> State_Monad.return (Inr (att, dir)) } }"

definition navigate_phase ::
    "('w, 'x, 'p, 'r) package_params \<Rightarrow> attempt \<Rightarrow> string \<Rightarrow> ('w, 'z, 'x stop + string) pprog" where
  "navigate_phase P att dir =
     do { pkg \<leftarrow> the_object;
          r \<leftarrow> ask (\<lambda>w. resolve_package_path (gp_err P) (\<lambda>path. gp_stat P path w) dir (pp_path (pk_spec pkg)));
          case r of
            Inr package_dir \<Rightarrow> State_Monad.return (Inr package_dir)
          | Inl e \<Rightarrow>
              do { let reason = (if errors_is (gp_err P) ErrInstanceFileMissing e
                                 then ''InstanceFileNotFound'' else ''PathNotFound'');
                   mark_pk P (mark_stalled (gp_cond P) reason (err_text (gp_err P) e));
                   emit_event ''Warning'' reason ''Load'' (err_text (gp_err P) e);
                   fail_package att FailedStalled (err_text (gp_err P) e) stalled_recheck_interval } }"

definition kind_module_instance :: string where "kind_module_instance = ''ModuleInstance''"

definition package_error_reason :: "'x errlib \<Rightarrow> 'x goerr \<Rightarrow> string" where
  "package_error_reason E err =
     (if errors_is E ErrUnsupportedKind err then ''UnsupportedKind'' else render_failure_reason E err)"

text \<open>The classification of a failed render.\<close>

definition classify_package_error ::
    "('w, 'x, 'p, 'r) package_params \<Rightarrow> duration \<Rightarrow> attempt \<Rightarrow> 'x goerr \<Rightarrow> ('w, 'z, 'x stop + 'a) pprog" where
  "classify_package_error P interval att err =
     (let E = gp_err P; K = gp_cond P; txt = err_text E err
      in if errors_is E ErrPlatformNotReady err then
           do { mark_pk P (mark_not_ready K ''PlatformNotReady'' txt);
                emit_event ''Warning'' ''PlatformNotReady'' ''Render'' txt;
                fail_package att FailedTransient txt interval }
         else if is_transient_failure E (Some err) then
           do { mark_pk P (mark_not_ready K ''ResolutionFailed'' txt);
                emit_event ''Warning'' ''ResolutionFailed'' ''Render'' txt;
                fail_backing_off att txt }
         else do { mark_pk P (mark_stalled K (package_error_reason E err) txt);
                   emit_event ''Warning'' (package_error_reason E err) ''Render'' (failure_event_note E err);
                   fail_package att FailedStalled txt stalled_recheck_interval })"

text \<open>The render under the pool. Its closure removes the directory when the render is done with it,
  a timed-out render when it returns; a render that was never called leaves it to the caller.\<close>

definition render_package ::
    "('w, 'x, 'p, 'r) package_params \<Rightarrow> duration \<Rightarrow> attempt \<Rightarrow> string \<Rightarrow> string \<Rightarrow>
     ('w, 'z, 'x stop + converted_render) pprog" where
  "render_package P interval att extract_dir package_dir =
     do { answer \<leftarrow> request RenderAct (gp_render P package_dir);
          pkg \<leftarrow> the_object;
          (case answer of
             PackageSlotError e \<Rightarrow>
               if errors_is (gp_err P) ErrRenderTimedOut e then State_Monad.return ()
               else request (RemoveDirAct extract_dir) (gp_remove_all P extract_dir)
           | _ \<Rightarrow> request (RemoveDirAct extract_dir) (gp_remove_all P extract_dir));
          case answer of
            PackageSlotError e \<Rightarrow>
              (case render_timeout_message (gp_err P) e (gp_render_timeout P) of
                 Some msg \<Rightarrow>
                   do { mark_pk P (mark_render_timed_out (gp_cond P) msg);
                        emit_event ''Warning'' ''RenderTimedOut'' ''Render'' msg;
                        fail_backing_off att msg }
               | None \<Rightarrow>
                   State_Monad.return (Inl (Stop (att\<lparr>at_skip_commit := True\<rparr>)
                     (0, Some (Fmt (''waiting for a render slot: '' @ err_text (gp_err P) e) [e])))))
          | PackagePanic v \<Rightarrow> State_Monad.return (Inl (StopPanic att v))
          | PackageFailure e \<Rightarrow> classify_package_error P interval att e
          | PackageDone kind result rendered \<Rightarrow>
              if kind \<noteq> kind_module_instance then
                (let msg = ''unexpected instance kind '' @ quote kind
                 in do { mark_pk P (mark_stalled (gp_cond P) ''UnsupportedKind'' msg);
                         fail_package att FailedStalled msg stalled_recheck_interval })
              else case convert_render (gp_err P) (gp_export P) result rendered of
                Inl e \<Rightarrow>
                  do { report_render_diagnostics (package_key pkg) result;
                       mark_pk P (mark_stalled (gp_cond P)
                         (case e of ConversionErr reason _ _ \<Rightarrow> reason | _ \<Rightarrow> []) (err_text (gp_err P) e));
                       fail_package att FailedStalled (err_text (gp_err P) e) stalled_recheck_interval }
              | Inr converted \<Rightarrow>
                  do { report_render_diagnostics (package_key pkg) result;
                       State_Monad.return (Inr converted) } }"

definition render_extracted ::
    "('w, 'x, 'p, 'r) package_params \<Rightarrow> duration \<Rightarrow> attempt \<times> string \<Rightarrow>
     ('w, 'z, 'x stop + attempt \<times> converted_render) pprog" where
  "render_extracted P interval fetched =
     do { let (att, dir) = fetched;
          nav \<leftarrow> navigate_phase P att dir;
          case nav of
            Inl stop \<Rightarrow>
              do { request (RemoveDirAct dir) (gp_remove_all P dir); State_Monad.return (Inl stop) }
          | Inr package_dir \<Rightarrow>
              and_then (render_package P interval att dir package_dir)
                (\<lambda>converted. State_Monad.return (Inr (att, converted))) }"


text \<open>computeModulePackageDigests, and what the render reported.\<close>

definition package_rendered_attempt ::
    "('w, 'x, 'p, 'r) package_params \<Rightarrow> attempt \<Rightarrow> converted_render \<Rightarrow> attempt" where
  "package_rendered_attempt P att converted =
     (let digests = (at_digests att)\<lparr>dg_render := cr_digest converted,
                                     dg_inventory := inventory_digest_of (gp_export P) (cr_entries converted),
                                     dg_config := config_digest (gp_sha256 P) (gp_canonical P) None\<rparr>
      in att\<lparr>at_digests := digests,
             at_rendered_version := Some (rr_module_version (cr_result converted)),
             at_rendered_inputs := Some (rendered_key (dg_source digests) (dg_config digests) (cr_result converted)
                                           (gp_controller_version P) (gp_library_version P))\<rparr>)"

definition refuse_package_identity ::
    "('w, 'x, 'p, 'r) package_params \<Rightarrow> bool \<Rightarrow> string \<Rightarrow> string \<Rightarrow> string \<Rightarrow> ('w, 'z, string) pprog" where
  "refuse_package_identity P already current previous rendered =
     (let msg = identity_change_unsettled_note current previous rendered
      in do { mark_pk P (mark_stalled (gp_cond P) ''IdentityChangeUnsettled'' msg);
              (if \<not> already then emit_event ''Warning'' ''IdentityChangeUnsettled'' ''Reconcile'' msg
               else State_Monad.return ());
              State_Monad.return msg })"

definition package_last_applied :: "package_status \<Rightarrow> digest_set" where
  "package_last_applied st =
     \<lparr>dg_source = ps_last_applied_source_digest st, dg_config = ps_last_applied_config_digest st,
      dg_render = ps_last_applied_render_digest st, dg_inventory = package_inventory_digest (ps_inventory st)\<rparr>"

record ('w, 'x) package_plan =
  pn_converted :: converted_render
  pn_identities :: identity_plan
  pn_unchanged :: bool
  pn_applier :: "('w, 'x) applier"
  pn_guard :: "'x guarded_apply"

text \<open>guardModulePackageApply: the client that applies, what the guard judged through it, or a failure
  with nothing written.\<close>

definition guard_package ::
    "('w, 'x, 'p, 'r) package_params \<Rightarrow> attempt \<Rightarrow> uobj list \<Rightarrow> string \<Rightarrow> nat \<Rightarrow> bool \<Rightarrow>
     ('w, 'z, 'x stop + ('w, 'x) applier \<times> 'x guarded_apply) pprog" where
  "guard_package P att resources identity adopted_at_start digests_unchanged =
     do { pkg \<leftarrow> the_object;
          built \<leftarrow> build_package_client P;
          case built of
            Inl e \<Rightarrow>
              do { mark_pk P (mark_stalled (gp_cond P) ''ImpersonationFailed'' (err_text (gp_err P) e));
                   fail_package att FailedStalled (err_text (gp_err P) e) stalled_recheck_interval }
          | Inr a \<Rightarrow>
              do { let failed = att\<lparr>at_phases := (at_phases att)\<lparr>po_apply_ran := True, po_apply_failed := True\<rparr>\<rparr>;
                   guard \<leftarrow> guard_apply (gp_can_apply P) (gp_err P) None
                     (applied_reader (package_sa_of P pkg) (ap_client a) (gp_api_reader P) (gp_client P))
                     resources (inventory_entries (ps_inventory (pk_status pkg))) identity adopted_at_start;
                   case ga_err guard of
                     Some e \<Rightarrow>
                       do { emit_event ''Warning'' ''ApplyFailed'' ''Apply'' (err_text (gp_err P) e);
                            if package_sa_of P pkg \<noteq> [] \<and> is_forbidden (gp_err P) e
                            then do { mark_pk P (mark_stalled (gp_cond P) ''ImpersonationFailed'' (err_text (gp_err P) e));
                                      fail_package failed FailedStalled (err_text (gp_err P) e) stalled_recheck_interval }
                            else do { mark_pk P (mark_not_ready (gp_cond P) ''ApplyFailed'' (err_text (gp_err P) e));
                                      fail_backing_off failed (err_text (gp_err P) e) } }
                   | None \<Rightarrow>
                       (let refusing = refused_to_write (ga_refused guard)
                              (digests_unchanged \<and> \<not> changes_inventory guard)
                        in if 0 < length refusing
                           then do { msg \<leftarrow> refuse_apply (gp_cond P) (gp_clock P) pk_view refusing;
                                     fail_backing_off failed msg }
                           else State_Monad.return (Inr (a, guard))) } }"

definition package_plan_phase ::
    "('w, 'x, 'p, 'r) package_params \<Rightarrow> cond list \<Rightarrow> attempt \<times> converted_render \<Rightarrow>
     ('w, 'z, 'x stop + attempt \<times> ('w, 'x) package_plan) pprog" where
  "package_plan_phase P conds rendered =
     do { let (att0, converted) = rendered;
          let att = package_rendered_attempt P att0 converted;
          pkg \<leftarrow> the_object;
          let st = pk_status pkg;
          let uuid = extract_instance_uuid (cr_resources converted);
          let identities = plan_identities (ps_instance_uuid st) (ps_previous_instance_uuid st) uuid True;
          if ip_refused identities then
            do { msg \<leftarrow> refuse_package_identity P (ready_already_stalled_with (gp_cond P) conds ''IdentityChangeUnsettled'')
                          (ps_instance_uuid st) (ps_previous_instance_uuid st) uuid;
                 fail_package att FailedStalled msg stalled_recheck_interval }
          else do { let unchanged = keeps_no_op identities (is_no_op (at_digests att) (package_last_applied st));
                    and_then (guard_package P att (cr_resources converted) (ip_instance identities)
                                (adopted_before (gp_cond P) conds) unchanged)
                      (\<lambda>(a, guard). State_Monad.return (Inr (att\<lparr>at_adopted := ga_adopted guard\<rparr>,
                         \<lparr>pn_converted = converted, pn_identities = identities, pn_unchanged = unchanged,
                          pn_applier = a, pn_guard = guard\<rparr>))) } }"

definition package_no_op_phase ::
    "('w, 'x, 'p, 'r) package_params \<Rightarrow> duration \<Rightarrow> cond list \<Rightarrow> attempt \<Rightarrow> ('w, 'x) package_plan \<Rightarrow>
     ('w, 'z, 'x stop + unit) pprog" where
  "package_no_op_phase P interval conds att pl =
     (if \<not> (pn_unchanged pl \<and> \<not> changes_inventory (pn_guard pl)) then State_Monad.return (Inr ())
      else do { emit_event ''Normal'' ''NoOp'' ''Reconcile'' ''No changes detected'';
                change_package (\<lambda>st. st\<lparr>ps_instance_uuid := fill_empty (pn_identities pl) (ps_instance_uuid st)\<rparr>);
                report_adopted_elsewhere (ga_let_go (pn_guard pl)) (adopted_before (gp_cond P) conds);
                pkg \<leftarrow> the_object;
                v \<leftarrow> judge_package_health P (inventory_entries (ps_inventory (pk_status pkg)));
                mark_pk P (apply_health (gp_cond P) v);
                now \<leftarrow> ask (tk_now (gp_clock P));
                State_Monad.return (Inl (Stop (att\<lparr>at_outcome := NoOp\<rparr>)
                  (package_requeue (health_requeue v (ps_last_applied_at (pk_status pkg)) now) interval, None))) })"

definition store_package_identity ::
    "('w, 'x, 'p, 'r) package_params \<Rightarrow> identity_plan \<Rightarrow> ('w, 'z, 'x goerr option) pprog" where
  "store_package_identity P identities =
     (case identity_store identities of
        None \<Rightarrow> State_Monad.return None
      | Some (current, previous) \<Rightarrow>
          do { change_package (\<lambda>st. st\<lparr>ps_instance_uuid := current, ps_previous_instance_uuid := previous\<rparr>);
               err \<leftarrow> patch_package_identity_status P;
               State_Monad.return
                 (map_option (\<lambda>e. Fmt (''recording the instance identity before the apply: '' @ err_text (gp_err P) e) [e])
                    err) })"

text \<open>The apply of applyAndPruneModulePackage: the attempt goes on, or ends.\<close>

definition package_apply_phase ::
    "('w, 'x, 'p, 'r) package_params \<Rightarrow> attempt \<Rightarrow> ('w, 'x) package_plan \<Rightarrow> ('w, 'z, 'x stop + attempt) pprog" where
  "package_apply_phase P att0 pl =
     do { stored \<leftarrow> store_package_identity P (pn_identities pl);
          case stored of
            Some e \<Rightarrow>
              do { mark_pk P (mark_not_ready (gp_cond P) ''ApplyFailed'' (err_text (gp_err P) e));
                   fail_backing_off att0 (err_text (gp_err P) e) }
          | None \<Rightarrow>
              do { let att = att0\<lparr>at_phases := (at_phases att0)\<lparr>po_apply_ran := True\<rparr>\<rparr>;
                   pkg \<leftarrow> the_object;
                   r \<leftarrow> apply_resources (gp_err P) (gp_clock P) (ap_manager_client (pn_applier pl))
                     (ap_manager (pn_applier pl)) (ga_allowed (pn_guard pl))
                     \<lparr>ao_force = forces_conflicts (pp_rollout (pk_spec pkg)),
                      ao_delete_data = deletes_claims (pp_data_policy (pk_spec pkg)),
                      ao_taken_in = ga_pins (pn_guard pl)\<rparr>;
                   case r of
                     Inl e \<Rightarrow>
                       do { let (reason, msg) = (case claim_conflict_report (gp_err P) e of
                                                   Some note \<Rightarrow> (''ClaimConflict'', note)
                                                 | None \<Rightarrow> (''ApplyFailed'', err_text (gp_err P) e));
                            emit_event ''Warning'' reason ''Apply'' msg;
                            mark_pk P (mark_not_ready (gp_cond P) reason msg);
                            fail_backing_off (att\<lparr>at_phases := (at_phases att)\<lparr>po_apply_failed := True\<rparr>\<rparr>) msg }
                   | Inr applied \<Rightarrow>
                       do { emit_event ''Normal'' ''Applied'' ''Apply'' (applied_text applied);
                            mark_pk P (clear_drifted (gp_cond P));
                            State_Monad.return (Inr att) } } }"

definition package_prune_phase ::
    "('w, 'x, 'p, 'r) package_params \<Rightarrow> attempt \<Rightarrow> ('w, 'x) package_plan \<Rightarrow> inventory_entry list \<Rightarrow>
     ('w, 'z, 'x stop + attempt) pprog" where
  "package_prune_phase P att0 pl stale =
     do { let att = att0\<lparr>at_phases := (at_phases att0)\<lparr>po_prune_ran := True\<rparr>\<rparr>;
          pkg \<leftarrow> the_object;
          if \<not> (pp_prune (pk_spec pkg) \<and> 0 < length stale)
          then State_Monad.return (Inr (att\<lparr>at_outcome := Applied\<rparr>))
          else do { (result, err) \<leftarrow> prune (xl_life (gp_libs P)) (xl_can_delete (gp_libs P)) (gp_err P)
                      (ap_client (pn_applier pl)) (ip_prune (pn_identities pl)) stale
                      (deletes_claims (pp_data_policy (pk_spec pkg)));
                    case err of
                      Some e \<Rightarrow>
                        do { emit_event ''Warning'' ''PruneFailed'' ''Prune'' (err_text (gp_err P) e);
                             mark_pk P (mark_not_ready (gp_cond P) ''PruneFailed'' (err_text (gp_err P) e));
                             fail_backing_off (att\<lparr>at_phases := (at_phases att)\<lparr>po_prune_failed := True\<rparr>\<rparr>)
                               (err_text (gp_err P) e) }
                    | None \<Rightarrow>
                        do { (if pr_deleted result > 0
                              then emit_event ''Normal'' ''Pruned'' ''Prune''
                                     (''Pruned '' @ itoa (pr_deleted result) @ '' stale resources'')
                              else State_Monad.return ());
                             report_kept_claims ''Prune'' (pr_kept result);
                             report_left_behind ''Prune'' (pr_left result);
                             State_Monad.return (Inr (att\<lparr>at_outcome := prune_outcome result\<rparr>)) } } }"

text \<open>Apply, prune and the report of the success. The inventory is read before the first write.\<close>

definition package_write_phases ::
    "('w, 'x, 'p, 'r) package_params \<Rightarrow> duration \<Rightarrow> cond list \<Rightarrow> attempt \<Rightarrow> ('w, 'x) package_plan \<Rightarrow>
     ('w, 'z, 'x stop) pprog" where
  "package_write_phases P interval conds att0 pl =
     do { pkg \<leftarrow> the_object;
          let stale = stale_entries (gp_export P) (map_option inv_entries (ps_inventory (pk_status pkg)))
                        (cr_entries (pn_converted pl));
          r \<leftarrow> and_then (package_apply_phase P att0 pl) (\<lambda>att. package_prune_phase P att pl stale);
          case r of
            Inl stop \<Rightarrow> State_Monad.return stop
          | Inr att1 \<Rightarrow>
              do { let att = att1\<lparr>at_reconciled := True, at_new_entries :=
                     without_entries (gp_export P) (cr_entries (pn_converted pl))
                       (judged_objects (ga_let_go (pn_guard pl)))\<rparr>;
                   mark_pk P (mark_ready (gp_cond P) (ready_message ready_succeeded (int (at_adopted att))));
                   emit_event ''Normal'' reconciliation_succeeded_reason ''Reconcile'' ready_succeeded;
                   report_adopted_elsewhere (ga_let_go (pn_guard pl)) (adopted_before (gp_cond P) conds);
                   v \<leftarrow> judge_health (gp_health P) (gp_err P) (gp_clock P)
                     (applied_reader (package_sa_of P pkg) (ap_client (pn_applier pl)) (gp_api_reader P) (gp_client P))
                     (at_new_entries att);
                   mark_pk P (apply_health (gp_cond P) v);
                   now \<leftarrow> ask (tk_now (gp_clock P));
                   State_Monad.return (Stop att
                     (package_requeue (health_requeue v (Some now) now) interval, None)) } }"

definition package_phases ::
    "('w, 'x, 'p, 'r) package_params \<Rightarrow> duration \<Rightarrow> ('w, 'z, 'x stop) pprog" where
  "package_phases P interval =
     do { pkg \<leftarrow> the_object;
          let conds = ps_conditions (pk_status pkg);
          mark_pk P (mark_reconciling (gp_cond P) ''Progressing'' ''Reconciliation in progress'');
          r \<leftarrow> and_then (source_phase P interval conds new_attempt)
            (\<lambda>resolved. and_then (fetch_phase P interval resolved)
              (\<lambda>fetched. and_then (render_extracted P interval fetched)
                (\<lambda>rendered. and_then (package_plan_phase P conds rendered)
                  (\<lambda>(att, pl). and_then (package_no_op_phase P interval conds att pl)
                    (\<lambda>_. State_Monad.return (Inr (att, pl)))))));
          case r of
            Inl stop \<Rightarrow> State_Monad.return stop
          | Inr (att, pl) \<Rightarrow> package_write_phases P interval conds att pl }"


section \<open>The reconcile\<close>

definition run_package_attempt ::
    "('w, 'x, 'p, 'r) package_params \<Rightarrow> duration \<Rightarrow> time \<Rightarrow> ('w, 'z, 'x reconcile_end) pprog" where
  "run_package_attempt P interval start =
     do { stop \<leftarrow> package_phases P interval;
          case stop of
            StopPanic att v \<Rightarrow>
              do { commit_package_panic P v (at_digests att) start; State_Monad.return (Panicked v) }
          | Stop att result \<Rightarrow>
              do { (if at_skip_commit att then State_Monad.return ()
                    else if at_outcome att = NoOp then commit_package_no_op P att
                    else commit_package_status P att start);
                   State_Monad.return (Ended result) } }"

text \<open>A dependency that is not ready, or cannot be read, is reported, and the interval waited.\<close>

definition wait_for_dependency ::
    "('w, 'x, 'p, 'r) package_params \<Rightarrow> duration \<Rightarrow> string \<Rightarrow> string \<Rightarrow> ('w, 'z, 'x reconcile_end) pprog" where
  "wait_for_dependency P interval event_type msg =
     do { mark_pk P (mark_not_ready (gp_cond P) ''DependenciesNotReady'' msg);
          emit_event event_type ''DependenciesNotReady'' ''DependsOn'' msg;
          observe_package;
          _ \<leftarrow> patch_package_status P;
          State_Monad.return (Ended (interval, None)) }"

definition suspend_package :: "('w, 'x, 'p, 'r) package_params \<Rightarrow> ('w, 'z, 'x reconcile_end) pprog" where
  "suspend_package P =
     do { mark_pk P (mark_suspended (gp_cond P));
          observe_package;
          emit_event ''Normal'' ''Suspended'' ''Suspend'' ''Reconciliation is suspended'';
          err \<leftarrow> patch_package_status P;
          State_Monad.return (Ended (0, err)) }"

definition reconcile_live_package ::
    "('w, 'x, 'p, 'r) package_params \<Rightarrow> duration \<Rightarrow> time \<Rightarrow> ('w, 'z, 'x reconcile_end) pprog" where
  "reconcile_live_package P interval start =
     do { pkg \<leftarrow> the_object;
          if pp_suspend (pk_spec pkg) then suspend_package P
          else do { report_package_resume P;
                    blocked \<leftarrow> check_depends_on P (pk_namespace pkg) (pp_depends_on (pk_spec pkg));
                    case blocked of
                      Inl txt \<Rightarrow> wait_for_dependency P interval ''Warning'' txt
                    | Inr (Some blocker) \<Rightarrow>
                        wait_for_dependency P interval ''Normal'' (''waiting for dependency '' @ blocker)
                    | Inr None \<Rightarrow> run_package_attempt P interval start } }"

definition reconcile_loaded_package :: "('w, 'x, 'p, 'r) package_params \<Rightarrow> ('w, 'z, 'x reconcile_end) pprog" where
  "reconcile_loaded_package P =
     do { pkg \<leftarrow> the_object;
          start \<leftarrow> ask (tk_now (gp_clock P));
          if \<not> has_package_finalizer pkg then
            do { err \<leftarrow> add_package_finalizer P;
                 State_Monad.return
                   (case err of
                      Some e \<Rightarrow> Ended (0, Some (Fmt (''adding finalizer: '' @ err_text (gp_err P) e) [e]))
                    | None \<Rightarrow> Requeued) }
          else if pk_deletion_timestamp pkg \<noteq> None then
            do { forget_tracker (package_key pkg);
                 result \<leftarrow> handle_package_deletion P;
                 State_Monad.return (Ended result) }
          else reconcile_live_package P (package_interval pkg) start }"

definition reconcile_module_package ::
    "('w, 'x, 'p, 'r) package_params \<Rightarrow> string \<Rightarrow> string \<Rightarrow> ('w, 'z, 'x reconcile_end) pprog" where
  "reconcile_module_package P namespace name =
     do { r \<leftarrow> request (ReadAct (package_ref namespace name)) (gp_get_package P);
          case r of
            Inl e \<Rightarrow> State_Monad.return (Ended (0, if ae_not_found (gp_err P) e then None else Some e))
          | Inr pkg \<Rightarrow> do { change_object (\<lambda>_. pkg); reconcile_loaded_package P } }"

end
