(* ===== verification/Object_Logic.thy ===== *)
theory Object_Logic
  imports Deletion_Cleanup Warnings
begin

text \<open>
  A small program logic for reconciles: \<open>runs J P m Q\<close> says that a program started with an object in
  \<open>J\<close> sends requests in \<open>P\<close> only and ends with its answer and its object in \<open>Q\<close>.
\<close>

definition runs ::
    "('o \<Rightarrow> bool) \<Rightarrow> (act \<Rightarrow> bool) \<Rightarrow> ('w, 'o, 'z, 'a) oprog \<Rightarrow> ('a \<Rightarrow> 'o \<Rightarrow> bool) \<Rightarrow> bool" where
  "runs J P m Q = (\<forall>s. J (os_obj s) \<longrightarrow> sends s P m \<and>
     Q (fst (run_state m s)) (os_obj (snd (run_state m s))))"

named_theorems runs_intro "how a program runs, one rule per construct or operation"

lemma runsI:
  "(\<And>s. J (os_obj s) \<Longrightarrow> sends s P m) \<Longrightarrow>
   (\<And>s r s'. J (os_obj s) \<Longrightarrow> run_state m s = (r, s') \<Longrightarrow> Q r (os_obj s')) \<Longrightarrow> runs J P m Q"
  unfolding runs_def by (metis prod.collapse)

lemma runsD:
  assumes "runs J P m Q" and "J (os_obj s)"
  shows "sends s P m" and "run_state m s = (r, s') \<Longrightarrow> Q r (os_obj s')"
proof -
  show "sends s P m" using assms unfolding runs_def by blast
  show "Q r (os_obj s')" if "run_state m s = (r, s')"
    using assms that unfolding runs_def by (metis fst_conv snd_conv)
qed

lemma runs_post: "runs J P m Q \<Longrightarrow> (\<And>r o'. Q r o' \<Longrightarrow> R r o') \<Longrightarrow> runs J P m R"
  unfolding runs_def by blast

lemma runs_pre: "(\<And>o'. I o' \<Longrightarrow> J o') \<Longrightarrow> runs J P m Q \<Longrightarrow> runs I P m Q"
  unfolding runs_def by blast

lemma runs_return [runs_intro]: "(\<And>o'. J o' \<Longrightarrow> Q x o') \<Longrightarrow> runs J P (State_Monad.return x) Q"
  by (simp add: runs_def sends_emits emits_return)

lemma runs_bind [runs_intro]:
  fixes m :: "('w, 'o, 'z, 'a) oprog"
  assumes "runs J P m R" and "\<And>x. runs (R x) P (f x) Q"
  shows "runs J P (m \<bind> f) Q"
proof (rule runsI)
  fix s :: "('w, ('o, 'z) osys_ext) sys_scheme"
  assume J: "J (os_obj s)"
  obtain x s1 where m: "run_state m s = (x, s1)" by fastforce
  have R: "R x (os_obj s1)" using runsD(2) [OF assms(1) J m] .
  show "sends s P (m \<bind> f)"
    by (rule sends_bind [where f = f, OF runsD(1) [OF assms(1) J] m runsD(1) [OF assms(2) R]])
  fix r s'
  assume "run_state (m \<bind> f) s = (r, s')"
  then have "run_state (f x) s1 = (r, s')" using m by simp
  then show "Q r (os_obj s')" using runsD(2) [OF assms(2) R] by blast
qed

lemma runs_if [runs_intro]:
  "(b \<Longrightarrow> runs J P m Q) \<Longrightarrow> (\<not> b \<Longrightarrow> runs J P n Q) \<Longrightarrow> runs J P (if b then m else n) Q"
  by simp

lemma runs_option [runs_intro]:
  "(x = None \<Longrightarrow> runs J P m Q) \<Longrightarrow> (\<And>y. x = Some y \<Longrightarrow> runs J P (f y) Q) \<Longrightarrow>
   runs J P (case x of None \<Rightarrow> m | Some y \<Rightarrow> f y) Q"
  by (cases x) simp_all

lemma runs_sum [runs_intro]:
  "(\<And>a. x = Inl a \<Longrightarrow> runs J P (f a) Q) \<Longrightarrow> (\<And>b. x = Inr b \<Longrightarrow> runs J P (g b) Q) \<Longrightarrow>
   runs J P (case x of Inl a \<Rightarrow> f a | Inr b \<Rightarrow> g b) Q"
  by (cases x) simp_all

lemma runs_prod [runs_intro]:
  "(\<And>a b. x = (a, b) \<Longrightarrow> runs J P (f a b) Q) \<Longrightarrow> runs J P (case x of (a, b) \<Rightarrow> f a b) Q"
  by (cases x) simp

text \<open>Reading the object: what holds of it holds of the value read.\<close>

lemma runs_read:
  fixes f :: "'o \<Rightarrow> ('w, 'o, 'z, 'a) oprog"
  assumes "\<And>o'. J o' \<Longrightarrow> runs J P (f o') Q"
  shows "runs J P (the_object \<bind> f) Q"
proof (rule runsI)
  fix s :: "('w, ('o, 'z) osys_ext) sys_scheme"
  assume J: "J (os_obj s)"
  have "run_state (the_object \<bind> f) s = run_state (f (os_obj s)) s" by simp
  then show "sends s P (the_object \<bind> f)"
    using runsD(1) [OF assms [OF J] J] by (simp add: sends_def)
  fix r s'
  assume "run_state (the_object \<bind> f) s = (r, s')"
  then show "Q r (os_obj s')" using runsD(2) [OF assms [OF J] J] by simp
qed

lemma runs_object [runs_intro]: "(\<And>o'. J o' \<Longrightarrow> Q o' o') \<Longrightarrow> runs J P the_object Q"
  by (simp add: runs_def sends_emits emits_the_object)

lemma runs_change [runs_intro]: "(\<And>o'. J o' \<Longrightarrow> Q () (f o')) \<Longrightarrow> runs J P (change_object f) Q"
  by (simp add: runs_def sends_emits emits_change_object)

text \<open>A program that leaves the object alone.\<close>

lemma keeps_object: "keeps sys.more m \<Longrightarrow> keeps os_obj m"
  unfolding keeps_def using same_object by blast

lemma runs_frame:
  "emits P m \<Longrightarrow> keeps os_obj m \<Longrightarrow> (\<And>x o'. J o' \<Longrightarrow> Q x o') \<Longrightarrow> runs J P m Q"
  by (auto simp: runs_def sends_emits keeps_def)

lemmas runs_outside = runs_frame [OF _ keeps_object]

lemma runs_ask [runs_intro]: "(\<And>x o'. J o' \<Longrightarrow> Q x o') \<Longrightarrow> runs J P (ask f) Q"
  by (rule runs_outside) (intro emits_intro keeps_intro | simp)+

lemma runs_tick [runs_intro]: "(\<And>x o'. J o' \<Longrightarrow> Q x o') \<Longrightarrow> runs J P (tick f) Q"
  by (rule runs_outside) (intro emits_intro keeps_intro | simp)+

lemma runs_request [runs_intro]: "P a \<Longrightarrow> (\<And>x o'. J o' \<Longrightarrow> Q x o') \<Longrightarrow> runs J P (request a f) Q"
  by (rule runs_outside) (intro emits_intro keeps_intro | simp)+

lemma runs_event [runs_intro]:
  "P (EventAct k r a t) \<Longrightarrow> (\<And>x o'. J o' \<Longrightarrow> Q x o') \<Longrightarrow> runs J P (emit_event k r a t) Q"
  by (rule runs_outside) (intro emits_intro keeps_intro | simp)+

lemma runs_mark_object [runs_intro]:
  "(\<And>cs o'. J o' \<Longrightarrow> Q () (ov_set_conditions V cs o')) \<Longrightarrow> runs J P (mark_object tk V m) Q"
  unfolding mark_object_def
  by (rule runs_bind [where R = "\<lambda>_. J"]) (intro runs_intro | simp)+

lemma runs_reports [runs_intro]:
  "(\<And>k r a t. P (EventAct k r a t)) \<Longrightarrow> (\<And>x o'. J o' \<Longrightarrow> Q x o') \<Longrightarrow> runs J P (report_adopted_elsewhere lg b) Q"
  "(\<And>k r a t. P (EventAct k r a t)) \<Longrightarrow> (\<And>x o'. J o' \<Longrightarrow> Q x o') \<Longrightarrow> runs J P (report_kept_claims ac kept) Q"
  "(\<And>k r a t. P (EventAct k r a t)) \<Longrightarrow> (\<And>x o'. J o' \<Longrightarrow> Q x o') \<Longrightarrow> runs J P (report_left_behind ac left) Q"
  by (rule runs_outside; (intro emits_intro keeps_intro)?; simp)+

end
