(* ===== verification/Invariant_Logic.thy ===== *)
theory Invariant_Logic
  imports Object_Logic Instance_Base
begin

text \<open>
  Invariants of an object under its reconcile, for every kind of object: what the reads, the events, the
  apply guard, the health judgement and the shared apply leave alone.
\<close>

section \<open>Programs that leave the object alone\<close>

lemma keeps_reads:
  "keeps sys.more (judge_health H E tk c entries)" "keeps sys.more (apply_guard CA E c inp)"
  "keeps sys.more (withhold_refused E d us)" "keeps sys.more (detect_drift_in E rm us)"
proof -
  have "keeps sys.more (read_entries E tk c es)" for es
    by (induction es) (auto simp: health_read_entry_def intro!: keeps_intro)
  then show "keeps sys.more (judge_health H E tk c entries)"
    unfolding judge_health_def by (intro keeps_intro)
  have "keeps sys.more (guard_loop CA E c inp us r)" for us r
    by (induction us arbitrary: r) (auto simp: Let_def intro!: keeps_intro split: option.split)
  then show "keeps sys.more (apply_guard CA E c inp)"
    unfolding apply_guard_def by (intro keeps_intro)
  have "keeps sys.more (decide_claim E d u)" for u
    unfolding decide_claim_def by (auto simp: Let_def intro!: keeps_intro split: sum.split)
  then have "keeps sys.more (withhold_loop E d us k r)" for us k r
    by (induction us arbitrary: k r) (auto intro!: keeps_intro split: sum.split)
  then show "keeps sys.more (withhold_refused E d us)" by (simp add: withhold_refused_def)
  have "keeps sys.more (drift_loop E rm us dr m)" for us dr m
    by (induction us arbitrary: dr m) (auto simp: diff_object_def intro!: keeps_intro split: sum.split)
  then show "keeps sys.more (detect_drift_in E rm us)" by (simp add: detect_drift_in_def)
qed

lemma keeps_apply: "keeps sys.more (apply_resources E tk c rm resources opts)"
proof -
  have claims: "keeps sys.more (check_claims E c us)" for us
    by (induction us) (auto intro!: keeps_intro split: sum.split option.split)
  have taken: "keeps sys.more (check_taken_in E c pins us)" for pins us
    by (induction us) (auto intro!: keeps_intro split: option.split)
  have "keeps sys.more (guard_delete E ctx c u os)" for ctx u os
    unfolding guard_delete_def by (intro keeps_intro)
  then have guarded: "keeps sys.more (run_guarded E ctx c p)" for ctx p
    by (induction p) (auto intro!: keeps_intro)
  have retry: "keeps sys.more (retry_loop E tk attempt resources n l pd d)" if "keeps sys.more attempt" for attempt resources n l pd d
    using that by (induction n arbitrary: l pd d) (auto simp: Let_def intro!: keeps_intro split: option.split)
  then show ?thesis
    unfolding apply_resources_def apply_with_discovery_retry_def Let_def
    by (intro keeps_intro claims taken retry guarded)
qed


section \<open>The contract of an invariant\<close>

text \<open>An invariant \<open>J\<close> of the object with the requests \<open>ok\<close> it allows: among them every request that
  changes nothing in the cluster, and every event.\<close>

locale object_invariant =
  fixes J :: "'o \<Rightarrow> bool" and ok :: "act \<Rightarrow> bool"
  assumes harmless_ok: "harmless a \<Longrightarrow> ok a"
    and event_ok: "ok (EventAct kind reason action txt)"
begin

abbreviation inv_runs :: "('w, 'o, 'z, 'a) oprog \<Rightarrow> bool" where
  "inv_runs m \<equiv> runs J ok m (\<lambda>_. J)"

lemma runs_tracker: "inv_runs (forget_tracker key)"
  by (rule runs_frame) (intro emits_intro keeps_intro | assumption)+

lemma runs_diagnostics: "inv_runs (report_render_diagnostics key r)"
proof (rule runs_frame)
  have "keeps sys.more (emit_each ws)" for ws by (induction ws) (auto intro!: keeps_intro)
  then show "keeps os_obj (report_render_diagnostics key r)"
    unfolding report_render_diagnostics_def emit_render_warnings_def
    by (intro keeps_intro keeps_object)
qed (intro emits_intro event_ok)

text \<open>Reads: the programs over a client that change nothing.\<close>

lemma read_ok: "is_read a \<Longrightarrow> ok a"
  by (rule harmless_ok [OF read_harmless])

lemma runs_outside': "emits ok m \<Longrightarrow> keeps sys.more m \<Longrightarrow> inv_runs m"
  by (rule runs_outside)

lemma runs_reads:
  "inv_runs (judge_health H E tk c entries)" "inv_runs (apply_guard CA E c inp)"
  "inv_runs (withhold_refused E d us)" "inv_runs (detect_drift_in E rm us)"
  "inv_runs (new_impersonated_client E im ns sa)" "inv_runs (platform_key_parts get)"
  by (rule runs_outside'; intro emits_intro keeps_intro keeps_reads read_ok harmless_ok; simp)+

lemma runs_guard_apply: "inv_runs (guard_apply CA E ie reader al es i n)"
  unfolding guard_apply_def Let_def
  by (intro runs_if runs_return runs_bind [where R = "\<lambda>_. J"] runs_reads; assumption)

lemma runs_events:
  "inv_runs (emit_event kind reason action txt)" "inv_runs (report_adopted_elsewhere lg b)"
  "inv_runs (report_kept_claims ac kept)" "inv_runs (report_left_behind ac left)"
  by (rule runs_event runs_reports, rule event_ok, assumption)+

lemmas object_rules = runs_tracker runs_diagnostics runs_reads runs_guard_apply runs_events runs_ask runs_tick
  runs_return

lemmas inv_split = runs_bind [where R = "\<lambda>_. J"] runs_if runs_option runs_sum runs_prod

end

end
