(* ===== verification/Package_Invariant.thy ===== *)
theory Package_Invariant
  imports Module_Package Invariant_Logic
begin

text \<open>
  Invariants of a ModulePackage under its reconcile: the edits a reconcile makes of the status, and the
  contract under which every request of a live reconcile is allowed and every state it passes through
  satisfies the invariant.
\<close>

inductive package_edit :: "('w, 'x, 'p, 'r) package_params \<Rightarrow> module_package \<Rightarrow> package_status \<Rightarrow> bool"
  for P pkg where
  edit_conditions: "package_edit P pkg ((pk_status pkg)\<lparr>ps_conditions := cs\<rparr>)"
| edit_observed: "package_edit P pkg ((pk_status pkg)\<lparr>ps_observed_generation := pk_generation pkg\<rparr>)"
| edit_source: "package_edit P pkg ((pk_status pkg)\<lparr>ps_source := src\<rparr>)"
| edit_identity: "package_edit P pkg ((pk_status pkg)\<lparr>ps_instance_uuid := i, ps_previous_instance_uuid := p\<rparr>)"
| edit_fill: "package_edit P pkg
    ((pk_status pkg)\<lparr>ps_instance_uuid := fill_empty plan (ps_instance_uuid (pk_status pkg))\<rparr>)"
| edit_attempt: "package_edit P pkg (record_package_attempt now took digests (pk_status pkg))"
| edit_success: "package_edit P pkg (record_package_success P att now (pk_status pkg))"
| edit_history: "package_edit P pkg (record_package_history e (pk_status pkg))"
| edit_counters: "package_edit P pkg (update_package_counters oc ph (pk_status pkg))"
| edit_retry: "package_edit P pkg ((pk_status pkg)\<lparr>ps_next_retry_at := t\<rparr>)"
| edit_no_op: "package_edit P pkg ((update_package_counters NoOp ph (pk_status pkg))
    \<lparr>ps_next_retry_at := None, ps_last_applied_version := v,
     ps_last_applied_inputs := record_inputs (gp_sha256 P) key now (ps_last_applied_inputs (pk_status pkg))\<rparr>)"

locale package_invariant = object_invariant J ok
  for P :: "('w, 'x, 'p, 'r) package_params" and J :: "module_package \<Rightarrow> bool" and ok :: "act \<Rightarrow> bool" +
  assumes edits: "J pkg \<Longrightarrow> package_edit P pkg st \<Longrightarrow> J (pkg\<lparr>pk_status := st\<rparr>)"
    and patch_ok: "J pkg \<Longrightarrow> ok (PatchPackageAct (pk_status pkg))"
    and apply_ok: "J pkg \<Longrightarrow>
      guard_allows \<lparr>ax_delete_claims = deletes_claims (pp_data_policy (pk_spec pkg)), ax_taken_in = pins\<rparr> a \<Longrightarrow> ok a"
    and prune_ok: "J pkg \<Longrightarrow>
      deletes_only (set (fst (split_kept_claims stale (deletes_claims (pp_data_policy (pk_spec pkg)))))) a \<Longrightarrow> ok a"
    and plans: "J pkg \<Longrightarrow> plan_laws (xl_life (gp_libs P))"
begin

lemma runs_edit: "(\<And>pkg. package_edit P pkg (f (pk_status pkg))) \<Longrightarrow> inv_runs (change_package f)"
  unfolding change_package_def by (rule runs_change) (rule edits)

lemma runs_observe: "inv_runs observe_package"
  unfolding observe_package_def by (rule runs_change) (rule edits, assumption, rule edit_observed)

lemma runs_mark: "inv_runs (mark_pk P m)"
  unfolding mark_pk_def by (rule runs_mark_object) (auto simp: pk_view_def intro: edits edit_conditions)

lemma runs_refuse: "inv_runs (refuse_apply K tk pk_view js)"
  unfolding refuse_apply_def Let_def
  by (intro runs_bind [where R = "\<lambda>_. J"] runs_event runs_return event_ok runs_mark_object)
    (auto simp: pk_view_def intro: edits edit_conditions)

lemma runs_patch: "inv_runs (patch_pk P owned observe)"
  unfolding patch_pk_def
  by (intro runs_bind [where R = "\<lambda>_. J"] runs_if runs_observe runs_read runs_request runs_return patch_ok; assumption)

lemma runs_harmless: "harmless a \<Longrightarrow> inv_runs (request a f)"
  by (rule runs_request) (auto intro: harmless_ok)

lemma runs_patches:
  "inv_runs (patch_package_status P)" "inv_runs (patch_package_deletion_status P)"
  "inv_runs (patch_package_identity_status P)"
  unfolding patch_package_status_def patch_package_deletion_status_def patch_package_identity_status_def
  by (rule runs_patch)+

lemma runs_and_then: "inv_runs m \<Longrightarrow> (\<And>x. inv_runs (f x)) \<Longrightarrow> inv_runs (and_then m f)"
  unfolding and_then_def by (rule inv_split object_rules | assumption)+

lemma runs_resolve: "inv_runs (resolve_source P r ns)"
  unfolding resolve_source_def Let_def
  by (rule inv_split object_rules runs_harmless | simp; fail | assumption)+

lemma runs_depends: "inv_runs (check_depends_on P ns deps)"
proof (induction deps)
  case (Cons dep deps)
  show ?case
    unfolding check_depends_on.simps
    by (rule Cons inv_split object_rules runs_harmless | simp; fail | assumption)+
qed (simp add: runs_return)

lemmas package_rules = runs_read runs_and_then runs_edit runs_observe runs_mark runs_refuse runs_patch runs_patches
  runs_resolve runs_depends object_rules inv_split edit_conditions edit_source edit_fill edit_identity
  edit_attempt edit_success edit_history edit_counters edit_retry edit_no_op

lemma runs_build: "inv_runs (build_package_client P)"
  unfolding build_package_client_def Let_def by (rule package_rules | assumption)+

lemma runs_health: "inv_runs (judge_package_health P entries)"
  unfolding judge_package_health_def by (rule runs_build package_rules | assumption)+

lemma runs_fail:
  "inv_runs (fail_package att oc msg retry)" "inv_runs (fail_backing_off att msg)"
  unfolding fail_backing_off_def fail_package_def by (rule package_rules | assumption)+

lemmas act_rules = runs_build runs_health runs_fail package_rules

lemma runs_source_phase: "inv_runs (source_phase P interval conds att)"
  unfolding source_phase_def resolve_phase_def package_skippable_def judge_skipped_package_def may_skip_def Let_def
  by (rule act_rules | assumption)+

lemma runs_answer:
  "(\<And>e. inv_runs (f1 e)) \<Longrightarrow> (\<And>v. inv_runs (f2 v)) \<Longrightarrow> (\<And>e. inv_runs (f3 e)) \<Longrightarrow>
   (\<And>kind res r. inv_runs (f4 kind res r)) \<Longrightarrow>
   inv_runs (case x of PackageSlotError e \<Rightarrow> f1 e | PackagePanic v \<Rightarrow> f2 v | PackageFailure e \<Rightarrow> f3 e
               | PackageDone kind res r \<Rightarrow> f4 kind res r)"
  by (cases x) simp_all

lemma runs_guard: "inv_runs (guard_package P att us i n unchanged)"
  unfolding guard_package_def Let_def by (rule act_rules | assumption)+

lemma runs_plan_phase: "inv_runs (package_plan_phase P conds rendered)"
  unfolding package_plan_phase_def refuse_package_identity_def Let_def
  by (rule runs_guard act_rules | assumption)+

lemma runs_no_op_phase: "inv_runs (package_no_op_phase P interval conds att pl)"
  unfolding package_no_op_phase_def by (rule act_rules | assumption)+

text \<open>The apply and the prune ask with the data policy of the object they read.\<close>

lemma runs_apply:
  assumes "J pkg"
  shows "inv_runs (apply_resources E tk c rm us
    \<lparr>ao_force = f, ao_delete_data = deletes_claims (pp_data_policy (pk_spec pkg)), ao_taken_in = pins\<rparr>)"
  by (rule runs_outside' [OF emits_mono [OF emits_apply_resources] keeps_apply])
    (simp add: apply_ok [OF assms])

lemma runs_apply_phase: "inv_runs (package_apply_phase P att pl)"
  unfolding package_apply_phase_def store_package_identity_def Let_def
  by (rule runs_apply act_rules | assumption)+

lemma runs_prune: "J pkg \<Longrightarrow>
   inv_runs (prune (xl_life (gp_libs P)) CD E c ids stale (deletes_claims (pp_data_policy (pk_spec pkg))))"
  unfolding prune_def
  by (rule runs_outside'; intro emits_intro keeps_intro emits_mono [OF emits_run_cleanup [OF plans]])
    (assumption, rule prune_ok)

lemma runs_prune_phase: "inv_runs (package_prune_phase P att pl stale)"
  unfolding package_prune_phase_def Let_def by (rule runs_prune act_rules | assumption)+

lemma runs_write_phases: "inv_runs (package_write_phases P interval conds att pl)"
  unfolding package_write_phases_def Let_def
  by (rule runs_apply_phase runs_prune_phase act_rules | assumption)+

lemma runs_commits:
  "inv_runs (commit_package_no_op P att)" "inv_runs (commit_package_panic P v digests start)"
  "inv_runs (commit_package_status P att start)"
  unfolding commit_package_no_op_def commit_package_panic_def commit_package_status_def Let_def
  by (rule act_rules | assumption)+

lemma runs_stop:
  "(\<And>att res. inv_runs (f att res)) \<Longrightarrow> (\<And>att v. inv_runs (g att v)) \<Longrightarrow>
   inv_runs (case stop of Stop att res \<Rightarrow> f att res | StopPanic att v \<Rightarrow> g att v)"
  by (cases stop) simp_all

end

text \<open>The phases that fetch and render, with the directory they fetch into.\<close>

locale package_run = package_invariant +
  assumes dir_ok: "touches_dir a \<Longrightarrow> ok a"
begin

lemma runs_dirs: "touches_dir a \<Longrightarrow> inv_runs (request a f)"
  by (rule runs_request) (auto intro: dir_ok)

lemma runs_fetch_phase: "inv_runs (fetch_phase P interval resolved)"
  unfolding fetch_phase_def Let_def
  by (rule act_rules runs_dirs runs_harmless | simp; fail | assumption)+

lemma runs_render_extracted: "inv_runs (render_extracted P interval fetched)"
  unfolding render_extracted_def navigate_phase_def render_package_def classify_package_error_def Let_def
  by (rule runs_answer act_rules runs_dirs runs_harmless | simp; fail | assumption)+

lemma runs_phases: "inv_runs (package_phases P interval)"
  unfolding package_phases_def Let_def
  by (rule runs_source_phase runs_fetch_phase runs_render_extracted runs_plan_phase runs_no_op_phase
      runs_write_phases act_rules | assumption)+

lemma runs_attempt: "inv_runs (run_package_attempt P interval start)"
  unfolding run_package_attempt_def by (rule runs_stop runs_phases runs_commits act_rules | assumption)+

lemma runs_live: "inv_runs (reconcile_live_package P interval start)"
  unfolding reconcile_live_package_def suspend_package_def report_package_resume_def wait_for_dependency_def
  by (rule runs_attempt act_rules | assumption)+

end

end
