(* ===== verification/Instance_Invariant.thy ===== *)
theory Instance_Invariant
  imports Module_Instance Invariant_Logic
begin

text \<open>
  Invariants of a ModuleInstance under its reconcile: the edits a reconcile makes of the status, as a
  relation, and the contract of an invariant under which every request of a live reconcile is
  allowed and every state it passes through satisfies the invariant.
\<close>

section \<open>What a reconcile changes of a status\<close>

text \<open>The edits of the phases and of the gates, and those of the commit at the end.\<close>

inductive phase_edit :: "('w, 'x, 'p, 'r) instance_params \<Rightarrow> module_instance \<Rightarrow> instance_status \<Rightarrow> bool"
  for P mi where
  edit_conditions: "phase_edit P mi ((mi_status mi)\<lparr>is_conditions := cs\<rparr>)"
| edit_observed: "phase_edit P mi ((mi_status mi)\<lparr>is_observed_generation := mi_generation mi\<rparr>)"
| edit_contracts: "phase_edit P mi ((mi_status mi)\<lparr>is_required_contracts := fqns\<rparr>)"
| edit_identity: "phase_edit P mi ((mi_status mi)\<lparr>is_instance_uuid := i, is_previous_instance_uuid := p\<rparr>)"
| edit_fill: "phase_edit P mi ((mi_status mi)\<lparr>is_instance_uuid := fill_empty plan (is_instance_uuid (mi_status mi))\<rparr>)"
| edit_forget: "phase_edit P mi (forget_objects (mp_export P) objs (mi_status mi))"

inductive commit_edit :: "('w, 'x, 'p, 'r) instance_params \<Rightarrow> module_instance \<Rightarrow> instance_status \<Rightarrow> bool"
  for P mi where
  edit_attempt: "commit_edit P mi (record_attempt now took digests (mi_status mi))"
| edit_success: "commit_edit P mi (record_success P att now (mi_status mi))"
| edit_history: "commit_edit P mi (add_history e (mi_status mi))"
| edit_counters: "commit_edit P mi (update_failure_counters oc ph (mi_status mi))"
| edit_retry: "commit_edit P mi ((mi_status mi)\<lparr>is_next_retry_at := t\<rparr>)"
| edit_no_op: "commit_edit P mi ((update_failure_counters NoOp ph (mi_status mi))
    \<lparr>is_next_retry_at := None, is_last_applied_version := v,
     is_last_applied_inputs := record_inputs (mp_sha256 P) key now (is_last_applied_inputs (mi_status mi))\<rparr>)"

text \<open>
  The contract of an invariant \<open>J\<close> of the object with the requests \<open>ok\<close> it allows, up to the first
  write: the edits of the phases preserve it.
\<close>

locale render_invariant = object_invariant J ok
  for P :: "('w, 'x, 'p, 'r) instance_params" and J :: "module_instance \<Rightarrow> bool" and ok :: "act \<Rightarrow> bool" +
  assumes edits: "J mi \<Longrightarrow> phase_edit P mi st \<Longrightarrow> J (mi\<lparr>mi_status := st\<rparr>)"
    and metric_ok: "ok (MetricAct name)"
    and patch_ok: "J mi \<Longrightarrow> ok (PatchStatusAct (mi_status mi))"
begin

lemma runs_edit: "(\<And>mi. phase_edit P mi (f (mi_status mi))) \<Longrightarrow> inv_runs (change_status f)"
  unfolding change_status_def by (rule runs_change) (rule edits)

lemma runs_observe: "inv_runs observe_generation"
  unfolding observe_generation_def by (rule runs_change) (rule edits, assumption, rule edit_observed)

lemma runs_mark: "inv_runs (mark_mi P m)"
  unfolding mark_mi_def by (rule runs_mark_object) (auto simp: mi_view_def intro: edits edit_conditions)

lemma runs_refuse: "inv_runs (refuse_apply K tk mi_view js)"
  unfolding refuse_apply_def Let_def
  by (intro runs_bind [where R = "\<lambda>_. J"] runs_event runs_return event_ok runs_mark_object)
    (auto simp: mi_view_def intro: edits edit_conditions)

lemma runs_patch: "inv_runs (patch_mi P owned observe)"
  unfolding patch_mi_def
  by (intro runs_bind [where R = "\<lambda>_. J"] runs_if runs_observe runs_read runs_request runs_return patch_ok; assumption)

lemma runs_metric: "inv_runs (metric name)"
  unfolding metric_def by (intro runs_request metric_ok)

lemmas inv_rules = runs_edit runs_observe runs_mark runs_refuse runs_patch runs_metric object_rules

lemma runs_build: "inv_runs (build_apply_client P)"
  unfolding build_apply_client_def Let_def by (rule runs_read inv_rules inv_split | assumption)+

lemma runs_health: "inv_runs (judge_health_as P built entries)"
  unfolding judge_health_as_def by (rule runs_read inv_rules inv_split | assumption)+

lemma runs_requeue: "inv_runs (instance_requeue P d)"
  unfolding instance_requeue_def by (rule inv_rules inv_split | assumption)+

lemma runs_failures: "inv_runs failures_now"
  unfolding failures_now_def by (rule runs_read inv_rules inv_split | assumption)+

lemma runs_fail: "inv_runs (fail_attempt att oc msg)"
  unfolding fail_attempt_def Let_def by (rule runs_failures inv_rules inv_split | assumption)+

lemma runs_and_then: "inv_runs m \<Longrightarrow> (\<And>x. inv_runs (f x)) \<Longrightarrow> inv_runs (and_then m f)"
  unfolding and_then_def by (rule inv_rules inv_split | assumption)+

lemmas act_rules = runs_read runs_build runs_health runs_requeue runs_failures runs_fail runs_and_then inv_rules inv_split

lemma runs_skip: "inv_runs (skip_instance_render P)"
  unfolding skip_instance_render_def instance_render_skippable_def judge_skipped_instance_def
    judge_instance_health_def may_skip_def Let_def
  by (rule act_rules | assumption)+

lemma runs_resume: "inv_runs (report_resume P)"
  unfolding report_resume_def by (rule act_rules | assumption)+

lemma runs_render_end:
  "(\<And>e. inv_runs (f1 e)) \<Longrightarrow> (\<And>v. inv_runs (f2 v)) \<Longrightarrow> (\<And>e. inv_runs (f3 e)) \<Longrightarrow>
   (\<And>res reason e. inv_runs (f4 res reason e)) \<Longrightarrow> (\<And>cr. inv_runs (f5 cr)) \<Longrightarrow>
   inv_runs (case x of EndSlot e \<Rightarrow> f1 e | EndPanic v \<Rightarrow> f2 v | EndFailed e \<Rightarrow> f3 e
               | EndConversion res reason e \<Rightarrow> f4 res reason e | EndConverted cr \<Rightarrow> f5 cr)"
  by (cases x) simp_all

lemma runs_render: "inv_runs (request RenderAct f)"
  by (rule runs_request) (simp_all add: harmless_ok)

lemma runs_render_phase: "inv_runs (render_phase P att)"
  unfolding render_phase_def render_and_convert_instance_def classify_render_error_def report_rendered_def Let_def
  by (rule runs_render_end runs_render act_rules | assumption)+

lemma runs_suspend: "inv_runs (handle_suspend P)"
  unfolding handle_suspend_def by (rule act_rules | assumption)+

lemma runs_report_failure: "inv_runs (report_apply_failure P e sa)"
  unfolding report_apply_failure_def mark_apply_failure_def by (rule act_rules | assumption)+

lemma runs_guard_phase: "inv_runs (guard_phase P att n pl us)"
  unfolding guard_phase_def Let_def by (rule runs_report_failure act_rules | assumption)+

lemma runs_plan_phase: "inv_runs (plan_phase P al n rendered)"
  unfolding plan_phase_def refuse_identity_change_def Let_def
  by (rule runs_guard_phase act_rules edit_contracts | assumption)+

lemma runs_drift_phase: "inv_runs (drift_phase P att pl)"
  unfolding drift_phase_def detect_drift_def mark_check_forbidden_def Let_def
  by (rule act_rules | assumption)+

lemma runs_no_op_phase: "inv_runs (no_op_phase P n att pl wk)"
  unfolding no_op_phase_def forget_expired_jobs_def forget_let_go_def
  by (rule act_rules edit_fill edit_forget | assumption)+

lemma runs_store: "inv_runs (store_identity P identities)"
  unfolding store_identity_def patch_identity_status_def patch_deletion_status_def
  by (rule act_rules edit_identity | assumption)+

text \<open>The phases up to the writes.\<close>

lemmas runs_read_phases = runs_render_phase runs_plan_phase runs_drift_phase runs_no_op_phase

end

text \<open>For the writes: what an apply or a prune sends under the data policy of an object in \<open>J\<close> is
  allowed.\<close>

locale phase_invariant = render_invariant +
  assumes apply_ok: "J mi \<Longrightarrow>
      guard_allows \<lparr>ax_delete_claims = deletes_claims (sp_data_policy (mi_spec mi)), ax_taken_in = pins\<rparr> a \<Longrightarrow> ok a"
    and prune_ok: "J mi \<Longrightarrow>
      deletes_only (set (fst (split_kept_claims stale (deletes_claims (sp_data_policy (mi_spec mi)))))) a \<Longrightarrow> ok a"
    and plans: "J mi \<Longrightarrow> plan_laws (xl_life (mp_libs P))"
begin

text \<open>The apply and the prune ask with the data policy of the object they read.\<close>

lemma runs_apply:
  assumes "J mi"
  shows "inv_runs (apply_instance P identities a us
    \<lparr>ao_force = f, ao_delete_data = deletes_claims (sp_data_policy (mi_spec mi)), ao_taken_in = pins\<rparr>)"
proof -
  have "emits ok (apply_resources E tk c rm us
      \<lparr>ao_force = f, ao_delete_data = deletes_claims (sp_data_policy (mi_spec mi)), ao_taken_in = pins\<rparr>)" for E tk c rm
    by (rule emits_mono [OF emits_apply_resources]) (simp add: apply_ok [OF assms])
  then have app: "inv_runs (apply_resources E tk c rm us
      \<lparr>ao_force = f, ao_delete_data = deletes_claims (sp_data_policy (mi_spec mi)), ao_taken_in = pins\<rparr>)" for E tk c rm
    by (rule runs_outside' [OF _ keeps_apply])
  show ?thesis
    unfolding apply_instance_def by (rule app runs_store act_rules | assumption)+
qed

lemma runs_apply_phase: "inv_runs (apply_phase P att pl wk)"
  unfolding apply_phase_def clear_drift_after_apply_def Let_def
  by (rule runs_apply runs_report_failure act_rules | assumption)+

lemma runs_prune: "J mi \<Longrightarrow>
   inv_runs (prune (xl_life (mp_libs P)) CD E c ids stale (deletes_claims (sp_data_policy (mi_spec mi))))"
  unfolding prune_def
  by (rule runs_outside'; intro emits_intro keeps_intro emits_mono [OF emits_run_cleanup [OF plans]])
    (assumption, rule prune_ok)

lemma runs_finish_phase: "inv_runs (finish_phase P n pl stale applied)"
  unfolding finish_phase_def prune_stale_resources_def Let_def
  by (rule runs_prune act_rules | assumption)+

lemma runs_phases: "inv_runs (attempt_phases P)"
  unfolding attempt_phases_def write_phases_def Let_def
  by (rule runs_render_phase runs_plan_phase runs_drift_phase runs_no_op_phase runs_apply_phase runs_finish_phase
      act_rules | assumption)+

end

text \<open>An invariant that the commit preserves as well holds at every moment of a live reconcile.\<close>

locale instance_invariant = phase_invariant +
  assumes commits: "J mi \<Longrightarrow> commit_edit P mi st \<Longrightarrow> J (mi\<lparr>mi_status := st\<rparr>)"
begin

lemma runs_commit_edit: "(\<And>mi. commit_edit P mi (f (mi_status mi))) \<Longrightarrow> inv_runs (change_status f)"
  unfolding change_status_def by (rule runs_change) (rule commits)

lemma runs_commits:
  "inv_runs (commit_no_op_status P att inputs)" "inv_runs (commit_panic_status P v digests start)"
  "inv_runs (commit_status P att start)"
  unfolding commit_no_op_status_def commit_panic_status_def commit_status_def record_reconcile_metrics_def Let_def
  by (rule runs_commit_edit edit_no_op edit_attempt edit_history edit_counters edit_retry edit_success act_rules
    | assumption)+

lemma runs_stop:
  "(\<And>att res. stop = Stop att res \<Longrightarrow> inv_runs (f att res)) \<Longrightarrow> (\<And>att v. stop = StopPanic att v \<Longrightarrow> inv_runs (g att v)) \<Longrightarrow>
   inv_runs (case stop of Stop att res \<Rightarrow> f att res | StopPanic att v \<Rightarrow> g att v)"
  by (cases stop) simp_all

lemma runs_attempt: "inv_runs (run_attempt P start)"
  unfolding run_attempt_def
  by (rule runs_stop runs_phases runs_commits act_rules | assumption)+

lemma runs_live: "inv_runs (reconcile_live P start)"
  unfolding reconcile_live_def
  by (rule runs_suspend runs_resume runs_skip runs_attempt act_rules | assumption)+

end

end
