(* ===== verification/Instance_Safety.thy ===== *)
theory Instance_Safety
  imports Instance_Invariant
begin

text \<open>
  What a reconcile of a ModuleInstance never does: the deletion cleanup as a target of the shared
  cleanup, the protection of claims, the gates, the order of the identity and the apply, and the
  well-formedness of every status it patches.
\<close>

section \<open>The deletion of a ModuleInstance\<close>

lemma emits_metric [emits_intro]: "ok (MetricAct name) \<Longrightarrow> emits ok (metric name)"
  by (simp add: metric_def emits_request)

lemma emits_patch_mi: "(\<And>st. ok (PatchStatusAct st)) \<Longrightarrow> emits ok (patch_mi P owned observe)"
  unfolding patch_mi_def observe_generation_def by (intro emits_intro)

lemma keeps_patch_mi: "keeps (\<lambda>s. deletion_view mi_view (os_obj s)) (patch_mi P owned observe)"
  by (simp add: keeps_def patch_mi_def observe_generation_def deletion_view_def mi_view_def)

lemma emits_patch_finalizers: "(\<And>fs. ok (PatchFinalizersAct fs)) \<Longrightarrow> emits ok (patch_finalizers P edit)"
  unfolding patch_finalizers_def by (intro emits_intro)

lemma failed_finalizer_patch:
  "run_state (patch_finalizers P edit) s = (Some e, s') \<Longrightarrow>
   deletion_view mi_view (os_obj s') = deletion_view mi_view (os_obj s)"
  by (auto simp: patch_finalizers_def split_beta deletion_view_def mi_view_def State_Monad.return_def
      split: sum.splits)

lemma instance_target_fields:
  "dt_obj (instance_target P mi) = mi_view"
  "dt_remove_finalizer (instance_target P mi) = remove_finalizer P"
  "dt_entries (instance_target P mi) = inventory_entries (is_inventory (mi_status mi))"
  "dt_delete_data (instance_target P mi) = deletes_claims (sp_data_policy (mi_spec mi))"
  "de_wait (instance_env P) = mp_deletion_wait P"
  by (simp_all add: instance_target_def instance_env_def)

interpretation instance_cleanup: cleanup_target "instance_target P mi"
  by unfold_locales
    (auto simp: instance_target_def patch_deletion_status_def remove_finalizer_def deletion_view_def mi_view_def
      intro!: emits_patch_mi emits_patch_finalizers
      intro: keeps_patch_mi [unfolded deletion_view_def mi_view_def, simplified]
      dest!: failed_finalizer_patch [unfolded deletion_view_def mi_view_def, simplified])


section \<open>A ModuleInstance to evaluate on\<close>

definition sample_status :: instance_status where
  "sample_status =
     \<lparr>is_observed_generation = 1, is_instance_uuid = ''u'', is_previous_instance_uuid = [], is_conditions = [],
      is_last_attempted_action = [], is_last_attempted_at = None, is_last_attempted_duration = None,
      is_last_attempted_source_digest = [], is_last_attempted_config_digest = [],
      is_last_attempted_render_digest = [], is_last_applied_at = None, is_last_applied_source_digest = [],
      is_last_applied_version = [], is_last_applied_inputs = None, is_last_applied_config_digest = [],
      is_last_applied_render_digest = [], is_failure_counters = None,
      is_inventory = Some \<lparr>inv_revision = 1, inv_digest = ''d'', inv_count = 1,
                           inv_entries = [sample_entry ''ConfigMap'' ''a'']\<rparr>,
      is_required_contracts = [], is_history = [], is_next_retry_at = None\<rparr>"

definition sample_instance :: module_instance where
  "sample_instance =
     \<lparr>mi_name = ''app'', mi_namespace = ''ns'', mi_generation = 1, mi_annotations = [],
      mi_finalizers = [finalizer_name], mi_deletion_timestamp = None,
      mi_spec = \<lparr>sp_suspend = False, sp_owner = owner_controller,
                 sp_module = \<lparr>mod_path = ''example.com/app'', mod_version = ''v1.0.0''\<rparr>, sp_values = None,
                 sp_prune = True, sp_data_policy = data_policy_keep, sp_service_account = ''deployer'',
                 sp_rollout = None\<rparr>,
      mi_status = sample_status\<rparr>"

definition sample_manager :: "(uobj list, string) resource_manager" where
  "sample_manager = \<lparr>rm_staged = (\<lambda>us f. Finished (Some [], None)), rm_diff = (\<lambda>u w. (Inr UnchangedAction, w))\<rparr>"

definition sample_ticker :: "uobj list ticker" where
  "sample_ticker = \<lparr>tk_now = (\<lambda>w. 100), tk_ctx_err = (\<lambda>w. None), tk_wait = (\<lambda>d w. (True, w))\<rparr>"

definition sample_libs :: "(uobj list, string, inventory_entry list) cleanup_libs" where
  "sample_libs =
     \<lparr>xl_err = sample_errors, xl_cond = std_conds, xl_clock = sample_ticker, xl_life = sample_lifecycle,
      xl_can_delete = (\<lambda>r u i. \<lparr>dv_proceed = True, dv_skip = SkipNone, dv_message = []\<rparr>)\<rparr>"

text \<open>A cluster that loads the given instance; the ServiceAccount it names does not exist and the
  render fails.\<close>

definition sample_params :: "module_instance \<Rightarrow> (uobj list, string, inventory_entry list, unit) instance_params" where
  "sample_params mi =
     \<lparr>mp_libs = sample_libs, mp_sha256 = id, mp_canonical = Some,
      mp_can_apply = (\<lambda>r live ii i. \<lparr>av_allowed = True, av_refuse = RefuseNone, av_message = []\<rparr>),
      mp_export = \<lparr>ex_export = (\<lambda>r. Inr []), ex_new_entry = (\<lambda>u. sample_entry (u_kind u) (u_name u)),
                   ex_render_digest = (\<lambda>us. Inr ''r''), ex_stale_set = (\<lambda>old new. []),
                   ex_inventory_digest = (\<lambda>es. ''d'')\<rparr>,
      mp_health = sample_health, mp_client = sample_client, mp_api_reader = None,
      mp_impersonator = \<lparr>im_account = (\<lambda>ns sa w. (Some (Ext ''NotFound''), w)), im_client = (\<lambda>u. Inr sample_client)\<rparr>,
      mp_manager = sample_manager, mp_manager_client = sample_client, mp_new_manager = (\<lambda>c. sample_manager),
      mp_decider = \<lparr>dd_stored = (\<lambda>n w. (Inr [], w)), dd_instances = (\<lambda>w. (Inr [], w))\<rparr>,
      mp_get_instance = (\<lambda>w. (Inr mi, w)), mp_get_platform = (\<lambda>w. (Inl (Ext ''NotFound''), w)),
      mp_patch_meta = (\<lambda>mi w. (Inr mi, w)), mp_patch_status = (\<lambda>owned mi w. (None, w)),
      mp_render = (\<lambda>i w. (RenderFailure (Ext ''Identity''), w)), mp_jitter = (\<lambda>d w. (d, w)),
      mp_render_timeout = 0, mp_default_service_account = [], mp_controller_version = ''1'',
      mp_library_version = ''1'', mp_drift_render_interval = 0, mp_reconcile_interval = 0,
      mp_deletion_wait = \<lparr>dw_blocked_after = 0, dw_min_recheck = 0, dw_max_recheck = 0, dw_now = None\<rparr>\<rparr>"

definition sample_start :: "module_instance \<Rightarrow> (uobj list, (module_instance, unit rsys_ext) osys_ext) sys_scheme" where
  "sample_start mi =
     \<lparr>sys_world = [], sys_trace = [], os_obj = mi, rs_tracker = None\<rparr>"

definition sample_deleting :: module_instance where
  "sample_deleting = sample_instance\<lparr>mi_deletion_timestamp := Some 50\<rparr>"

lemma sample_params_laws [simp]: "plan_laws (xl_life (mp_libs (sample_params mi)))"
  by (simp add: sample_params_def sample_libs_def sample_laws)

lemmas sample_instance_defs = sample_params_def sample_libs_def sample_start_def sample_deleting_def
  sample_instance_def sample_status_def


section \<open>Properties of the deletion\<close>

text \<open>C2: the cleanup finalizer leaves a deleting ModuleInstance only for a reason: nothing is to be
  deleted; or the deleting identity is lost and the inventory holds nothing to delete, the operator
  asked for an orphaning, or every delete was recorded as sent and the ServiceAccount is gone; or
  every plan ran, releases, and no deleted object is left in the cluster. Otherwise no finalizer
  patch is sent.\<close>

theorem deletion_releases_with_cause:
  assumes "plan_laws (xl_life (mp_libs P))"
    and "\<not> release_cause (mp_libs P) (instance_env P) (instance_target P (os_obj s)) s"
  shows "sends s (\<lambda>a. \<not> is_finalizer_patch a) (handle_deletion P)"
proof -
  have "sends s (\<lambda>a. \<not> is_finalizer_patch a)
      (run_deletion_cleanup (mp_libs P) (instance_env P) (instance_target P (os_obj s)))"
    using instance_cleanup.release_needs_cause [OF assms(2,1)] .
  then show ?thesis
    by (auto simp: handle_deletion_def intro: sends_bind [OF sends_emits [OF emits_the_object]])
qed

theorem deletion_releases_with_cause_witness:
  "sends (sample_start sample_deleting) (\<lambda>a. \<not> is_finalizer_patch a) (handle_deletion (sample_params sample_deleting))"
proof (rule deletion_releases_with_cause)
  show "\<not> release_cause (mp_libs (sample_params sample_deleting)) (instance_env (sample_params sample_deleting))
      (instance_target (sample_params sample_deleting) (os_obj (sample_start sample_deleting)))
      (sample_start sample_deleting)"
    by (simp add: release_cause_def early_release_def first_plan_def resolve_deleting_identity_def
        resolve_effective_sa_def instance_env_def instance_target_def new_impersonated_client_def
        recorded_wait_reason_def mi_view_def sample_instance_defs sample_lifecycle_def sample_errors_def
        std_conds_def is_service_account_not_found_def State_Monad.return_def Let_def)
qed simp

text \<open>C5: a deletion never gives up: when it neither fails nor asks to be run again, its last request
  was the patch that takes the finalizer off.\<close>

theorem deletion_never_gives_up:
  assumes "wait_ok (mp_deletion_wait P)" and "run_state (handle_deletion P) s = ((0, None), s')"
  shows "\<exists>fs. last (sys_trace s') = PatchFinalizersAct fs \<and> finalizer_name \<notin> set fs"
proof -
  have "run_state (run_deletion_cleanup (mp_libs P) (instance_env P) (instance_target P (os_obj s))) s = ((0, None), s')"
    using assms(2) by (simp add: handle_deletion_def)
  then obtain s0 where "run_state (remove_finalizer P) s0 = (None, s')"
    using instance_cleanup.never_gives_up [of "instance_env P" P "os_obj s" "mp_libs P"] assms(1)
    by (auto simp: instance_cleanup.finishes_removed_def instance_target_fields)
  then show ?thesis
    by (auto simp: remove_finalizer_def patch_finalizers_def split_beta State_Monad.return_def split: sum.splits)
qed

text \<open>C6: once every delete was sent, the Ready condition that records it survives every further
  reconcile of the deletion until the finalizer is off, whatever fails in between, so no later
  reconcile judges the deletion as a first one.\<close>

theorem deletion_record_survives:
  assumes "cond_laws (mp_cond P)" and "recorded_wait_reason (mp_cond P) mi_view (os_obj s) \<noteq> []"
  shows "(case run_state (handle_deletion P) s of (r, s') \<Rightarrow>
     recorded_wait_reason (mp_cond P) mi_view (os_obj s') \<noteq> [] \<or> r = (0, None))"
  using instance_cleanup.record_survives [of "mp_libs P" P "os_obj s" s "instance_env P"] assms
  by (simp add: handle_deletion_def split_beta instance_cleanup.recorded_in_def instance_target_fields
      instance_cleanup.finished_def)


text \<open>A deletion under which nothing is to be deleted, and one whose deletes were all sent before.\<close>

definition sample_orphaning :: "(uobj list, string, inventory_entry list, unit) instance_params" where
  "sample_orphaning = (sample_params sample_deleting)\<lparr>mp_libs := sample_libs\<lparr>xl_life := sample_lifecycle
     \<lparr>lc_may_release := (\<lambda>plan st i. \<lparr>hv_release = True, hv_because = HoldPruneDisabled, hv_message = []\<rparr>)\<rparr>\<rparr>\<rparr>"

theorem deletion_never_gives_up_witness:
  "\<exists>s' fs. run_state (handle_deletion sample_orphaning) (sample_start sample_deleting) = ((0, None), s') \<and>
     last (sys_trace s') = PatchFinalizersAct fs \<and> finalizer_name \<notin> set fs"
proof -
  have "fst (run_state (handle_deletion sample_orphaning) (sample_start sample_deleting)) = (0, None)"
    by (simp add: handle_deletion_def run_deletion_cleanup_def cleanup_pass_def early_release_def first_plan_def
        release_finalizer_def instance_target_def remove_finalizer_def patch_finalizers_def sample_orphaning_def
        sample_instance_defs State_Monad.return_def Let_def)
  then obtain s' where "run_state (handle_deletion sample_orphaning) (sample_start sample_deleting) = ((0, None), s')"
    by (metis prod.collapse)
  moreover have "wait_ok (mp_deletion_wait sample_orphaning)"
    by (simp add: wait_ok_def sample_orphaning_def sample_params_def)
  ultimately show ?thesis using deletion_never_gives_up by blast
qed

definition sample_waiting :: module_instance where
  "sample_waiting = sample_deleting\<lparr>mi_status := sample_status\<lparr>is_conditions :=
     [\<lparr>c_type = ready_condition, c_status = CFalse, c_reason = deletion_in_progress_reason, c_message = [],
       c_since = 60\<rparr>]\<rparr>\<rparr>"

theorem deletion_record_survives_witness:
  "case run_state (handle_deletion (sample_params sample_waiting)) (sample_start sample_waiting) of (r, s') \<Rightarrow>
     recorded_wait_reason std_conds mi_view (os_obj s') \<noteq> [] \<or> r = (0, None)"
proof -
  have "recorded_wait_reason std_conds mi_view (os_obj (sample_start sample_waiting)) \<noteq> []"
    by (simp add: recorded_wait_reason_def mi_view_def sample_waiting_def sample_start_def sample_deleting_def
        std_conds_def deletion_in_progress_reason_def)
  moreover have "mp_cond (sample_params sample_waiting) = std_conds"
    by (simp add: sample_params_def sample_libs_def)
  ultimately show ?thesis
    using deletion_record_survives [of "sample_params sample_waiting" "sample_start sample_waiting"] std_cond_laws
    by simp
qed


section \<open>Claims\<close>

text \<open>The invariant under which no request of a live reconcile deletes a claim.\<close>

definition keeps_claims :: "('w, 'x, 'p, 'r) instance_params \<Rightarrow> module_instance \<Rightarrow> bool" where
  "keeps_claims P mi = (plan_laws (xl_life (mp_libs P)) \<and> \<not> deletes_claims (sp_data_policy (mi_spec mi)))"

lemma deletes_only_claims:
  "deletes_only (set (fst (split_kept_claims entries False))) a \<Longrightarrow> \<not> deletes_claim a"
  by (cases a) (auto simp: deletes_only_def split_kept_claims_def)

interpretation claims: instance_invariant P "keeps_claims P" "\<lambda>a. \<not> deletes_claim a"
proof unfold_locales
  fix mi a
  show "keeps_claims P mi \<Longrightarrow> guard_allows \<lparr>ax_delete_claims = deletes_claims (sp_data_policy (mi_spec mi)),
      ax_taken_in = pins\<rparr> a \<Longrightarrow> \<not> deletes_claim a" for pins
    by (cases a) (simp_all add: keeps_claims_def)
  show "harmless a \<Longrightarrow> \<not> deletes_claim a" by (cases a) simp_all
qed (auto simp: keeps_claims_def deletes_only_claims)

lemma runs_trivial: "emits P m \<Longrightarrow> runs J P m (\<lambda>_ _. True)"
  by (simp add: runs_def sends_emits)

lemma emits_gates:
  assumes "\<And>a. is_bookkeeping a \<Longrightarrow> ok a"
  shows "emits ok (handle_cli_owned P)" and "emits ok (handle_own_instance P sig)"
proof -
  have "ok (EventAct k r ac t)" "ok (PatchStatusAct st)" "ok (PatchFinalizersAct fs)" for k r ac t st fs
    using assms by (simp_all add: is_bookkeeping_def)
  then show "emits ok (handle_cli_owned P)" "emits ok (handle_own_instance P sig)"
    unfolding handle_cli_owned_def handle_own_instance_def remove_finalizer_def mark_mi_def observe_generation_def Let_def
    by (intro emits_intro emits_patch_mi emits_patch_finalizers; simp)+
qed

lemma runs_gates:
  assumes "\<And>a. is_bookkeeping a \<Longrightarrow> ok a"
  shows "runs J ok (handle_not_reconciled P) (\<lambda>r mi. r = None \<longrightarrow> J mi)"
  unfolding handle_not_reconciled_def
  by (rule runs_read runs_if runs_option runs_bind [OF runs_trivial [OF emits_gates(1) [OF assms]]]
      runs_bind [OF runs_trivial [OF emits_gates(2) [OF assms]]] runs_return | assumption | simp)+

lemma sends_reconcile:
  fixes s :: "('w, (module_instance, 'z rsys_ext) osys_ext) sys_scheme"
  assumes "\<And>r. ok (ReadAct r)" and "\<And>mi. fst (mp_get_instance P (sys_world s)) = Inr mi \<Longrightarrow> J mi"
    and "runs J ok (reconcile_loaded P :: ('w, 'z, 'x reconcile_end) mprog) Q"
  shows "sends s ok (reconcile_module_instance P namespace name)"
proof -
  let ?get = "request (ReadAct (instance_ref namespace name)) (mp_get_instance P)"
  obtain r s1 where get: "run_state ?get s = (r, s1)" by fastforce
  have loaded: "sends s1 ok (do { change_object (\<lambda>_. mi); reconcile_loaded P })" if "r = Inr mi" for mi
  proof (rule sends_bind [OF sends_emits [OF emits_change_object]])
    show "run_state (change_object (\<lambda>_. mi)) s1 = ((), s1\<lparr>os_obj := mi\<rparr>)" by simp
    show "sends (s1\<lparr>os_obj := mi\<rparr>) ok (reconcile_loaded P)"
      by (rule runsD(1) [OF assms(3)]) (use assms(2) get that in \<open>auto simp: split_beta\<close>)
  qed
  have "emits ok ?get" by (rule emits_request) (rule assms(1))
  then show ?thesis
    unfolding reconcile_module_instance_def
    by (rule sends_bind [OF sends_emits get])
      (cases r, simp_all add: loaded sends_emits emits_return)
qed

text \<open>C1: unless its data policy is Delete, no reconcile of a ModuleInstance sends a delete of a
  PersistentVolumeClaim, on any path: not through a forced apply, a prune or the deletion cleanup,
  whatever the cluster, the resource manager and the verdicts answer.\<close>

theorem reconcile_protects_claims:
  assumes "plan_laws (xl_life (mp_libs P))"
    and "\<forall>mi. fst (mp_get_instance P (sys_world s)) = Inr mi \<longrightarrow> \<not> deletes_claims (sp_data_policy (mi_spec mi))"
  shows "sends s (\<lambda>a. \<not> deletes_claim a) (reconcile_module_instance P namespace name)"
proof -
  let ?ok = "\<lambda>a. \<not> deletes_claim a" and ?J = "keeps_claims P"
  have book: "?ok a" if "is_bookkeeping a" for a using that by (cases a) (simp_all add: is_bookkeeping_def)
  have cleanup: "runs ?J ?ok (handle_deletion P) (\<lambda>_ _. True)"
    unfolding handle_deletion_def
  proof (rule runs_read)
    fix mi
    assume J: "?J mi"
    have "emits ?ok (run_deletion_cleanup (mp_libs P) (instance_env P) (instance_target P mi))"
      by (rule emits_mono [OF instance_cleanup.cleanup_deletes [OF assms(1)]])
        (use J in \<open>auto simp: keeps_claims_def instance_target_fields dest: book deletes_only_claims claims.harmless_ok\<close>)
    then show "runs ?J ?ok (run_deletion_cleanup (mp_libs P) (instance_env P) (instance_target P mi)) (\<lambda>_ _. True)"
      by (rule runs_trivial)
  qed
  have finalizer: "runs ?J ?ok (add_finalizer P) (\<lambda>_ _. True)"
    unfolding add_finalizer_def by (rule runs_trivial [OF emits_patch_finalizers]) simp
  have trivial: "runs J ?ok (State_Monad.return x) (\<lambda>_ _. True)" "runs J ?ok (metric n) (\<lambda>_ _. True)" for J x n
    by (rule runs_trivial, intro emits_intro, simp?)+
  have live: "runs ?J ?ok (reconcile_live P start) (\<lambda>_ _. True)" for start
    by (rule runs_post [OF claims.runs_live]) simp
  have managed: "runs ?J ?ok (reconcile_managed P) (\<lambda>_ _. True)"
    unfolding reconcile_managed_def
    by (rule runs_read runs_if runs_bind [OF cleanup] runs_bind [OF finalizer] runs_bind [OF trivial(2)] trivial live
        claims.act_rules | assumption)+
  have gates: "runs ?J ?ok (handle_not_reconciled P) (\<lambda>r mi. r = None \<longrightarrow> ?J mi)"
    by (rule runs_gates) (rule book)
  have loaded: "runs ?J ?ok (reconcile_loaded P) (\<lambda>_ _. True)"
    unfolding reconcile_loaded_def
    by (rule runs_bind [OF gates], rule runs_option, rule runs_pre [OF _ managed]) (simp_all add: trivial)
  show ?thesis
    by (rule sends_reconcile [OF _ _ loaded]) (use assms in \<open>simp_all add: keeps_claims_def\<close>)
qed

theorem reconcile_protects_claims_witness:
  "sends (sample_start sample_deleting) (\<lambda>a. \<not> deletes_claim a)
     (reconcile_module_instance (sample_params sample_deleting) ''ns'' ''app'')"
  by (rule reconcile_protects_claims)
    (simp_all add: sample_instance_defs sample_laws deletes_claims_def data_policy_keep_def data_policy_delete_def)


section \<open>The gates\<close>

fun releases_finalizer :: "act \<Rightarrow> bool" where
  "releases_finalizer (PatchFinalizersAct fs) = (finalizer_name \<notin> set fs)"
| "releases_finalizer _ = False"

definition hands_off :: "act \<Rightarrow> bool" where
  "hands_off a = (is_read a \<or> is_status_note a \<or> releases_finalizer a)"

lemma emits_remove_finalizer: "emits hands_off (remove_finalizer P)"
  by (rule emitsI) (simp add: remove_finalizer_def patch_finalizers_def split_beta hands_off_def split: sum.split)

lemma emits_gates_hands_off:
  "emits hands_off (handle_cli_owned P)" "emits hands_off (handle_own_instance P sig)"
  unfolding handle_cli_owned_def handle_own_instance_def mark_mi_def observe_generation_def Let_def
  by (intro emits_intro emits_patch_mi emits_remove_finalizer; simp add: hands_off_def)+

text \<open>C8: an instance the CLI owns, and the one that deploys the controller, is never reconciled: no
  render, apply, prune or deletion cleanup, and no finalizer is ever put on it; all that is sent is
  a status patch, an event, and the release of a finalizer it still carries.\<close>

theorem gates_keep_hands_off:
  assumes "\<forall>mi. fst (mp_get_instance P (sys_world s)) = Inr mi \<longrightarrow>
    sp_owner (mi_spec mi) = owner_cli \<or> is_own_instance mi \<noteq> None"
  shows "sends s hands_off (reconcile_module_instance P namespace name)"
proof -
  let ?J = "\<lambda>mi. sp_owner (mi_spec mi) = owner_cli \<or> is_own_instance mi \<noteq> None"
  have cli: "runs J hands_off (do { err \<leftarrow> handle_cli_owned P; State_Monad.return (Some err) }) (\<lambda>r _. r \<noteq> None)" for J
    by (rule runs_bind [OF runs_trivial [OF emits_gates_hands_off(1)]]) (rule runs_return, simp)
  have own: "runs J hands_off (do { err \<leftarrow> handle_own_instance P sig; State_Monad.return (Some err) }) (\<lambda>r _. r \<noteq> None)" for J sig
    by (rule runs_bind [OF runs_trivial [OF emits_gates_hands_off(2)]]) (rule runs_return, simp)
  have gates: "runs ?J hands_off (handle_not_reconciled P) (\<lambda>r _. r \<noteq> None)"
    unfolding handle_not_reconciled_def by (rule runs_read runs_if runs_option cli own | simp)+
  have loaded: "runs ?J hands_off (reconcile_loaded P) (\<lambda>_ _. True)"
    unfolding reconcile_loaded_def
    by (rule runs_bind [OF gates], rule runs_option) (simp add: runs_def, rule runs_return, simp)
  show ?thesis
    by (rule sends_reconcile [OF _ _ loaded]) (use assms in \<open>simp_all add: hands_off_def\<close>)
qed

theorem gates_keep_hands_off_witness:
  "sends (sample_start sample_instance) hands_off
     (reconcile_module_instance (sample_params (sample_instance\<lparr>mi_spec := (mi_spec sample_instance)\<lparr>sp_owner := owner_cli\<rparr>\<rparr>))
        ''ns'' ''app'')"
  by (rule gates_keep_hands_off) (simp add: sample_params_def)

text \<open>A suspended instance is left as it is: the reconcile reads it, marks it and reports, with the
  conditions and the observed generation the only fields of the status that change.\<close>

theorem suspended_is_left_alone:
  assumes "mp_get_instance P (sys_world s) = (Inr mi, w)" and "sp_suspend (mi_spec mi)" and "has_finalizer mi"
    and "mi_deletion_timestamp mi = None" and "sp_owner (mi_spec mi) \<noteq> owner_cli" and "is_own_instance mi = None"
  shows "\<exists>cs rest. sys_trace (snd (run_state (reconcile_module_instance P namespace name) s)) =
     sys_trace s @ [ReadAct (instance_ref namespace name),
       EventAct ''Normal'' ''Suspended'' ''Suspend'' ''Reconciliation is suspended'',
       PatchStatusAct ((mi_status mi)\<lparr>is_conditions := cs, is_observed_generation := mi_generation mi\<rparr>)] @ rest \<and>
     set rest \<subseteq> {MetricAct ''duration''}"
  using assms
  by (auto simp: reconcile_module_instance_def reconcile_loaded_def handle_not_reconciled_def reconcile_managed_def
      reconcile_live_def handle_suspend_def mark_mi_def mark_object_def mi_view_def observe_generation_def
      emit_event_def patch_mi_def metric_def State_Monad.return_def split: option.splits)

definition sample_suspended :: module_instance where
  "sample_suspended = sample_instance\<lparr>mi_spec := (mi_spec sample_instance)\<lparr>sp_suspend := True\<rparr>\<rparr>"

theorem suspended_is_left_alone_witness:
  "\<exists>cs rest. sys_trace (snd (run_state (reconcile_module_instance (sample_params sample_suspended) ''ns'' ''app'')
       (sample_start sample_suspended))) =
     sys_trace (sample_start sample_suspended) @ [ReadAct (instance_ref ''ns'' ''app''),
       EventAct ''Normal'' ''Suspended'' ''Suspend'' ''Reconciliation is suspended'',
       PatchStatusAct ((mi_status sample_suspended)\<lparr>is_conditions := cs,
         is_observed_generation := mi_generation sample_suspended\<rparr>)] @ rest \<and>
     set rest \<subseteq> {MetricAct ''duration''}"
proof (rule suspended_is_left_alone)
  show "mp_get_instance (sample_params sample_suspended) (sys_world (sample_start sample_suspended)) =
      (Inr sample_suspended, [])"
    by (simp add: sample_params_def sample_start_def)
  show "sp_suspend (mi_spec sample_suspended)" "has_finalizer sample_suspended"
    "mi_deletion_timestamp sample_suspended = None" "sp_owner (mi_spec sample_suspended) \<noteq> owner_cli"
    by (simp_all add: sample_suspended_def sample_instance_def has_finalizer_def owner_cli_def owner_controller_def)
  show "is_own_instance sample_suspended = None"
    by code_simp
qed


section \<open>The identity is stored before the apply\<close>

definition quiet :: "act \<Rightarrow> bool" where
  "quiet a = (harmless a \<or> is_status_note a \<or> (\<exists>name. a = MetricAct name))"

interpretation quiet_phases: render_invariant P "\<lambda>_. True" quiet
  by unfold_locales (simp_all add: quiet_def)

lemma runs_emits: "runs (\<lambda>_. True) ok m Q \<Longrightarrow> emits ok m"
  by (simp add: runs_def sends_def emits_def)

text \<open>C7: nothing is written before the apply: the render, the plan and the drift phase only read and
  report; and an apply under a changed identity first patches the status with both identities, and
  sends nothing more when that patch fails.\<close>

theorem identity_stored_before_apply:
  assumes "ip_changed identities"
  shows "emits quiet (render_phase P att) \<and> emits quiet (plan_phase P al n rendered) \<and> emits quiet (drift_phase P att pl) \<and>
    (\<exists>rest. sys_trace (snd (run_state (apply_instance P identities a us opts) s)) =
       sys_trace s @ PatchStatusAct ((mi_status (os_obj s))\<lparr>is_instance_uuid := ip_instance identities,
                                      is_previous_instance_uuid := ip_previous identities\<rparr>) # rest \<and>
       (let stored = fst (run_state (store_identity P identities) s) in
        stored \<noteq> None \<longrightarrow> rest = [] \<and> fst (run_state (apply_instance P identities a us opts) s) = Inl (the stored)))"
proof (intro conjI)
  show "emits quiet (render_phase P att)" by (rule runs_emits [OF quiet_phases.runs_render_phase])
  show "emits quiet (plan_phase P al n rendered)" by (rule runs_emits [OF quiet_phases.runs_plan_phase])
  show "emits quiet (drift_phase P att pl)" by (rule runs_emits [OF quiet_phases.runs_drift_phase])
  let ?act = "PatchStatusAct ((mi_status (os_obj s))\<lparr>is_instance_uuid := ip_instance identities,
                               is_previous_instance_uuid := ip_previous identities\<rparr>)"
  obtain err s1 where store: "run_state (store_identity P identities) s = (err, s1)" by fastforce
  have patched: "sys_trace s1 = sys_trace s @ [?act]"
    using store assms
    by (auto simp: store_identity_def identity_store_def change_status_def patch_identity_status_def
        patch_deletion_status_def patch_mi_def State_Monad.return_def)
  show "\<exists>rest. sys_trace (snd (run_state (apply_instance P identities a us opts) s)) = sys_trace s @ ?act # rest \<and>
      (let stored = fst (run_state (store_identity P identities) s) in
       stored \<noteq> None \<longrightarrow> rest = [] \<and> fst (run_state (apply_instance P identities a us opts) s) = Inl (the stored))"
  proof (cases err)
    case None
    obtain rest where "sys_trace (snd (run_state (apply_resources (mp_err P) (mp_clock P) (ap_manager_client a)
        (ap_manager a) us opts) s1)) = sys_trace s1 @ rest"
      using emits_apply_resources [of opts] unfolding emits_def by metis
    then show ?thesis using None patched by (simp add: apply_instance_def store)
  next
    case (Some e)
    then show ?thesis using patched by (simp add: apply_instance_def store State_Monad.return_def)
  qed
qed

theorem identity_stored_before_apply_witness:
  "\<exists>rest. sys_trace (snd (run_state (apply_instance (sample_params sample_instance)
       (plan_identities ''u'' [] ''v'' False) \<lparr>ap_manager = sample_manager, ap_manager_client = sample_client,
        ap_client = sample_client\<rparr> [] \<lparr>ao_force = False, ao_delete_data = False, ao_taken_in = []\<rparr>)
       (sample_start sample_instance))) =
     PatchStatusAct (sample_status\<lparr>is_instance_uuid := ''v'', is_previous_instance_uuid := ''u''\<rparr>) # rest"
proof -
  let ?plan = "plan_identities ''u'' [] ''v'' False"
  let ?a = "\<lparr>ap_manager = sample_manager, ap_manager_client = sample_client, ap_client = sample_client\<rparr>"
  let ?opts = "\<lparr>ao_force = False, ao_delete_data = False, ao_taken_in = []\<rparr>"
  have "ip_changed ?plan" by (simp add: plan_identities_def)
  then have "\<exists>rest. sys_trace (snd (run_state (apply_instance (sample_params sample_instance) ?plan ?a [] ?opts)
      (sample_start sample_instance))) = sys_trace (sample_start sample_instance) @
      PatchStatusAct ((mi_status (os_obj (sample_start sample_instance)))\<lparr>is_instance_uuid := ip_instance ?plan,
        is_previous_instance_uuid := ip_previous ?plan\<rparr>) # rest"
    using identity_stored_before_apply [of ?plan "sample_params sample_instance" undefined undefined undefined undefined
        undefined ?a "[]" ?opts "sample_start sample_instance"] by blast
  moreover have "sys_trace (sample_start sample_instance) = []" "mi_status (os_obj (sample_start sample_instance)) = sample_status"
    "ip_instance ?plan = ''v''" "ip_previous ?plan = ''u''"
    by (simp_all add: sample_start_def sample_instance_def plan_identities_def)
  ultimately show ?thesis by simp
qed


section \<open>Well-formed statuses\<close>

text \<open>The history is bounded, the count of the inventory is the number of its entries, and recorded
  inputs are the digest of a complete key.\<close>

definition status_ok :: "(string \<Rightarrow> string) \<Rightarrow> instance_status \<Rightarrow> bool" where
  "status_ok sha256_hex st =
     (length (is_history st) \<le> max_history_entries \<and>
      (case is_inventory st of None \<Rightarrow> True | Some i \<Rightarrow> inv_count i = word_of_nat (length (inv_entries i))) \<and>
      (case is_last_applied_inputs st of None \<Rightarrow> True
       | Some ri \<Rightarrow> \<exists>k. key_complete k \<and> ri_digest ri = key_digest sha256_hex k))"

lemma record_inputs_ok:
  "(case field of None \<Rightarrow> True | Some ri \<Rightarrow> \<exists>k. key_complete k \<and> ri_digest ri = key_digest h k) \<Longrightarrow>
   (case record_inputs h key now field of None \<Rightarrow> True | Some ri \<Rightarrow> \<exists>k. key_complete k \<and> ri_digest ri = key_digest h k)"
  by (auto simp: record_inputs_def split: option.splits)

definition well_formed :: "('w, 'x, 'p, 'r) instance_params \<Rightarrow> module_instance \<Rightarrow> bool" where
  "well_formed P mi = (plan_laws (xl_life (mp_libs P)) \<and> status_ok (mp_sha256 P) (mi_status mi))"

fun patches_ok :: "(string \<Rightarrow> string) \<Rightarrow> act \<Rightarrow> bool" where
  "patches_ok h (PatchStatusAct st) = status_ok h st"
| "patches_ok h _ = True"

interpretation forms: instance_invariant P "well_formed P" "patches_ok (mp_sha256 P)"
proof unfold_locales
  fix mi st a pins stale
  show "well_formed P mi \<Longrightarrow> phase_edit P mi st \<Longrightarrow> well_formed P (mi\<lparr>mi_status := st\<rparr>)"
    by (erule phase_edit.cases)
      (auto simp: well_formed_def status_ok_def forget_objects_def Let_def split: option.splits)
  show "well_formed P mi \<Longrightarrow> commit_edit P mi st \<Longrightarrow> well_formed P (mi\<lparr>mi_status := st\<rparr>)"
    by (erule commit_edit.cases)
      (auto simp: well_formed_def status_ok_def record_attempt_def record_success_def add_history_def
        update_failure_counters_def next_inventory_def record_history_def Let_def record_inputs_ok)
  show "harmless a \<Longrightarrow> patches_ok (mp_sha256 P) a" by (cases a) simp_all
  show "guard_allows \<lparr>ax_delete_claims = deletes_claims (sp_data_policy (mi_spec mi)), ax_taken_in = pins\<rparr> a \<Longrightarrow>
      patches_ok (mp_sha256 P) a" by (cases a) simp_all
  show "deletes_only (set (fst (split_kept_claims stale (deletes_claims (sp_data_policy (mi_spec mi)))))) a \<Longrightarrow>
      patches_ok (mp_sha256 P) a" by (cases a) (auto simp: deletes_only_def)
qed (simp_all add: well_formed_def)

text \<open>C9: a live reconcile patches well-formed statuses only and leaves a well-formed one: at most ten
  history entries, an inventory whose count is the number of its entries on every path, restores and
  adoptions included, and render inputs that are never those of an incomplete key.\<close>

theorem live_status_well_formed:
  assumes "plan_laws (xl_life (mp_libs P))" and "status_ok (mp_sha256 P) (mi_status (os_obj s))"
  shows "sends s (patches_ok (mp_sha256 P)) (reconcile_live P start) \<and>
    status_ok (mp_sha256 P) (mi_status (os_obj (snd (run_state (reconcile_live P start) s))))"
proof -
  have J: "well_formed P (os_obj s)" using assms by (simp add: well_formed_def)
  obtain r s' where run: "run_state (reconcile_live P start) s = (r, s')" by fastforce
  show ?thesis
    using runsD [OF forms.runs_live J] run by (auto simp: well_formed_def)
qed

theorem live_status_well_formed_witness:
  "sends (sample_start sample_instance) (patches_ok id) (reconcile_live (sample_params sample_instance) 0)"
proof -
  have "status_ok (mp_sha256 (sample_params sample_instance)) (mi_status (os_obj (sample_start sample_instance)))"
    by (simp add: status_ok_def sample_instance_defs)
  from live_status_well_formed [OF sample_params_laws this] show ?thesis by (simp add: sample_params_def)
qed

end
