(* ===== verification/Package_Safety.thy ===== *)
theory Package_Safety
  imports Package_Invariant Instance_Safety
begin

text \<open>
  What a reconcile of a ModulePackage never does: its deletion as a target of the shared cleanup, the
  protection of claims, the wait for its dependencies, the path inside the artifact; and
  how both reconcilers classify a failed render.
\<close>

section \<open>The deletion of a ModulePackage\<close>

lemma emits_patch_pk: "(\<And>st. ok (PatchPackageAct st)) \<Longrightarrow> emits ok (patch_pk P owned observe)"
  unfolding patch_pk_def observe_package_def by (intro emits_intro)

lemma keeps_patch_pk: "keeps (\<lambda>s. deletion_view pk_view (os_obj s)) (patch_pk P owned observe)"
  by (simp add: keeps_def patch_pk_def observe_package_def deletion_view_def pk_view_def)

lemma emits_patch_package_finalizers:
  "(\<And>fs. ok (PatchFinalizersAct fs)) \<Longrightarrow> emits ok (patch_package_finalizers P edit)"
  unfolding patch_package_finalizers_def by (intro emits_intro)

lemma failed_package_finalizer_patch:
  "run_state (patch_package_finalizers P edit) s = (Some e, s') \<Longrightarrow>
   deletion_view pk_view (os_obj s') = deletion_view pk_view (os_obj s)"
  by (auto simp: patch_package_finalizers_def split_beta deletion_view_def pk_view_def State_Monad.return_def
      split: sum.splits)

lemma package_target_fields:
  "dt_obj (package_target P pkg) = pk_view"
  "dt_remove_finalizer (package_target P pkg) = remove_package_finalizer P"
  "dt_entries (package_target P pkg) = inventory_entries (ps_inventory (pk_status pkg))"
  "dt_delete_data (package_target P pkg) = deletes_claims (pp_data_policy (pk_spec pkg))"
  "de_wait (package_env P) = gp_deletion_wait P"
  by (simp_all add: package_target_def package_env_def)

interpretation package_cleanup: cleanup_target "package_target P pkg"
  by unfold_locales
    (auto simp: package_target_def patch_package_deletion_status_def remove_package_finalizer_def deletion_view_def
      pk_view_def intro!: emits_patch_pk emits_patch_package_finalizers
      intro: keeps_patch_pk [unfolded deletion_view_def pk_view_def, simplified]
      dest!: failed_package_finalizer_patch [unfolded deletion_view_def pk_view_def, simplified])


section \<open>A ModulePackage to evaluate on\<close>

definition sample_package_status :: package_status where
  "sample_package_status =
     \<lparr>ps_observed_generation = 1, ps_instance_uuid = ''u'', ps_previous_instance_uuid = [], ps_conditions = [],
      ps_source = None, ps_last_attempted_action = [], ps_last_attempted_at = None,
      ps_last_attempted_duration = None, ps_last_attempted_source_digest = [],
      ps_last_attempted_config_digest = [], ps_last_attempted_render_digest = [], ps_last_applied_at = None,
      ps_last_applied_source_digest = [], ps_last_applied_version = [], ps_last_applied_inputs = None,
      ps_last_applied_config_digest = [], ps_last_applied_render_digest = [], ps_failure_counters = None,
      ps_inventory = Some \<lparr>inv_revision = 1, inv_digest = ''d'', inv_count = 1,
                           inv_entries = [sample_entry ''ConfigMap'' ''a'']\<rparr>,
      ps_history = [], ps_next_retry_at = None\<rparr>"

definition sample_package :: module_package where
  "sample_package =
     \<lparr>pk_name = ''app'', pk_namespace = ''ns'', pk_generation = 1, pk_annotations = [],
      pk_finalizers = [finalizer_name], pk_deletion_timestamp = None,
      pk_spec = \<lparr>pp_source = \<lparr>sf_api_version = [], sf_kind = ''GitRepository'', sf_name = ''repo'', sf_namespace = []\<rparr>,
                 pp_path = ''apps/app'', pp_interval = 0,
                 pp_depends_on = [\<lparr>nr_namespace = [], nr_name = ''base''\<rparr>], pp_prune = True,
                 pp_data_policy = data_policy_keep, pp_suspend = False, pp_service_account = [],
                 pp_rollout = None\<rparr>,
      pk_status = sample_package_status\<rparr>"

definition sample_ready :: "cond list" where
  "sample_ready = [\<lparr>c_type = ready_condition, c_status = CTrue, c_reason = ''Succeeded'', c_message = [], c_since = 1\<rparr>]"

text \<open>A cluster with the package, its ready source and, when given, its dependency; the artifact holds
  the instance, and the render waits for a slot in vain when told to, and fails otherwise.\<close>

definition sample_package_params ::
    "module_package \<Rightarrow> module_package option \<Rightarrow> bool \<Rightarrow>
     (uobj list, string, inventory_entry list, unit) package_params" where
  "sample_package_params pkg dep stuck =
     \<lparr>gp_libs = sample_libs, gp_sha256 = id, gp_canonical = Some,
      gp_can_apply = (\<lambda>r live ii i. \<lparr>av_allowed = True, av_refuse = RefuseNone, av_message = []\<rparr>),
      gp_export = mp_export (sample_params undefined), gp_health = sample_health, gp_client = sample_client,
      gp_api_reader = None,
      gp_impersonator = \<lparr>im_account = (\<lambda>ns sa w. (Some (Ext ''NotFound''), w)), im_client = (\<lambda>u. Inr sample_client)\<rparr>,
      gp_manager = sample_manager, gp_manager_client = sample_client, gp_new_manager = (\<lambda>c. sample_manager),
      gp_get_package = (\<lambda>w. (Inr pkg, w)),
      gp_get_dependency = (\<lambda>ns n w. (case dep of None \<Rightarrow> Inl (Ext ''NotFound'') | Some d \<Rightarrow> Inr d, w)),
      gp_get_source = (\<lambda>k ns n w. (Inr \<lparr>fx_conditions = sample_ready, fx_artifact =
        Some \<lparr>fa_url = ''http://source/a'', fa_revision = ''main'', fa_digest = ''sha256:a''\<rparr>\<rparr>, w)),
      gp_get_platform = (\<lambda>w. (Inl (Ext ''NotFound''), w)),
      gp_patch_meta = (\<lambda>pkg w. (Inr pkg, w)), gp_patch_status = (\<lambda>owned pkg w. (None, w)),
      gp_mkdir_temp = (\<lambda>w. (Inr ''/tmp/x'', w)), gp_fetch = (\<lambda>u d dir opts w. (None, w)),
      gp_remove_all = (\<lambda>dir w. ((), w)), gp_stat = (\<lambda>path w. Inr DirNode),
      gp_render = (\<lambda>dir w. (if stuck then PackageSlotError (Ext ''Stuck'') else PackageFailure (Ext ''Identity''), w)),
      gp_render_timeout = 0, gp_default_service_account = [], gp_controller_version = ''1'',
      gp_library_version = ''1'', gp_drift_render_interval = 0,
      gp_deletion_wait = \<lparr>dw_blocked_after = 0, dw_min_recheck = 0, dw_max_recheck = 0, dw_now = None\<rparr>\<rparr>"

definition sample_package_start ::
    "module_package \<Rightarrow> (uobj list, (module_package, unit rsys_ext) osys_ext) sys_scheme" where
  "sample_package_start pkg = \<lparr>sys_world = [], sys_trace = [], os_obj = pkg, rs_tracker = None\<rparr>"

lemma sample_package_laws [simp]: "plan_laws (xl_life (gp_libs (sample_package_params pkg dep stuck)))"
  by (simp add: sample_package_params_def sample_libs_def sample_laws)


section \<open>Claims\<close>

definition package_keeps_claims :: "('w, 'x, 'p, 'r) package_params \<Rightarrow> module_package \<Rightarrow> bool" where
  "package_keeps_claims P pkg =
     (plan_laws (xl_life (gp_libs P)) \<and> \<not> deletes_claims (pp_data_policy (pk_spec pkg)))"

interpretation package_claims: package_run P "package_keeps_claims P" "\<lambda>a. \<not> deletes_claim a"
proof unfold_locales
  fix pkg a
  show "package_keeps_claims P pkg \<Longrightarrow> guard_allows \<lparr>ax_delete_claims = deletes_claims (pp_data_policy (pk_spec pkg)),
      ax_taken_in = pins\<rparr> a \<Longrightarrow> \<not> deletes_claim a" for pins
    by (cases a) (simp_all add: package_keeps_claims_def)
  show "touches_dir a \<Longrightarrow> \<not> deletes_claim a" by (cases a) simp_all
qed (auto simp: package_keeps_claims_def deletes_only_claims)

text \<open>A reconcile is its first read and what follows on the object read.\<close>

lemma sends_reconcile_package:
  fixes s :: "('w, (module_package, 'z rsys_ext) osys_ext) sys_scheme"
  assumes "\<And>r. ok (ReadAct r)" and "\<And>pkg. fst (gp_get_package P (sys_world s)) = Inr pkg \<Longrightarrow> J pkg"
    and "runs J ok (reconcile_loaded_package P :: ('w, 'z, 'x reconcile_end) pprog) Q"
  shows "sends s ok (reconcile_module_package P namespace name)"
proof -
  let ?get = "request (ReadAct (package_ref namespace name)) (gp_get_package P)"
  obtain r s1 where get: "run_state ?get s = (r, s1)" by fastforce
  have loaded: "sends s1 ok (do { change_object (\<lambda>_. pkg); reconcile_loaded_package P })" if "r = Inr pkg" for pkg
  proof (rule sends_bind [OF sends_emits [OF emits_change_object]])
    show "run_state (change_object (\<lambda>_. pkg)) s1 = ((), s1\<lparr>os_obj := pkg\<rparr>)" by simp
    show "sends (s1\<lparr>os_obj := pkg\<rparr>) ok (reconcile_loaded_package P)"
      by (rule runsD(1) [OF assms(3)]) (use assms(2) get that in \<open>auto simp: split_beta\<close>)
  qed
  have "emits ok ?get" by (rule emits_request) (rule assms(1))
  then show ?thesis
    unfolding reconcile_module_package_def
    by (rule sends_bind [OF sends_emits get])
      (cases r, simp_all add: loaded sends_emits emits_return)
qed

text \<open>C15: unless its data policy is Delete, no reconcile of a ModulePackage sends a delete of a
  PersistentVolumeClaim: not through a forced apply, a prune or the deletion cleanup.\<close>

theorem package_protects_claims:
  assumes "plan_laws (xl_life (gp_libs P))"
    and "\<forall>pkg. fst (gp_get_package P (sys_world s)) = Inr pkg \<longrightarrow> \<not> deletes_claims (pp_data_policy (pk_spec pkg))"
  shows "sends s (\<lambda>a. \<not> deletes_claim a) (reconcile_module_package P namespace name)"
proof -
  let ?ok = "\<lambda>a. \<not> deletes_claim a" and ?J = "package_keeps_claims P"
  have book: "?ok a" if "is_bookkeeping a" for a using that by (cases a) (simp_all add: is_bookkeeping_def)
  have cleanup: "runs ?J ?ok (handle_package_deletion P) (\<lambda>_ _. True)"
    unfolding handle_package_deletion_def
  proof (rule runs_read)
    fix pkg
    assume J: "?J pkg"
    have "emits ?ok (run_deletion_cleanup (gp_libs P) (package_env P) (package_target P pkg))"
      by (rule emits_mono [OF package_cleanup.cleanup_deletes [OF assms(1)]])
        (use J in \<open>auto simp: package_keeps_claims_def package_target_fields
          dest: book deletes_only_claims package_claims.harmless_ok\<close>)
    then show "runs ?J ?ok (run_deletion_cleanup (gp_libs P) (package_env P) (package_target P pkg)) (\<lambda>_ _. True)"
      by (rule runs_trivial)
  qed
  have finalizer: "runs ?J ?ok (add_package_finalizer P) (\<lambda>_ _. True)"
    unfolding add_package_finalizer_def by (rule runs_trivial [OF emits_patch_package_finalizers]) simp
  have trivial: "runs J ?ok (State_Monad.return x) (\<lambda>_ _. True)" for J x
    by (rule runs_trivial, intro emits_intro)
  have live: "runs ?J ?ok (reconcile_live_package P interval start) (\<lambda>_ _. True)" for interval start
    by (rule runs_post [OF package_claims.runs_live]) simp
  have loaded: "runs ?J ?ok (reconcile_loaded_package P) (\<lambda>_ _. True)"
    unfolding reconcile_loaded_package_def
    by (rule runs_read runs_if runs_bind [OF cleanup] runs_bind [OF finalizer] trivial live
        package_claims.act_rules | assumption)+
  show ?thesis
    by (rule sends_reconcile_package [OF _ _ loaded]) (use assms in \<open>simp_all add: package_keeps_claims_def\<close>)
qed

theorem package_protects_claims_witness:
  "sends (sample_package_start sample_package) (\<lambda>a. \<not> deletes_claim a)
     (reconcile_module_package (sample_package_params sample_package None False) ''ns'' ''app'')"
  by (rule package_protects_claims)
    (simp_all add: sample_package_params_def sample_libs_def sample_laws sample_package_def deletes_claims_def
      data_policy_keep_def data_policy_delete_def)


section \<open>Dependencies\<close>

text \<open>Requests of a package that waits: it reads, reports and patches its status.\<close>

definition waiting :: "act \<Rightarrow> bool" where
  "waiting a = (is_read a \<or> is_status_note a)"

text \<open>A dependency that blocks whatever the world: of another namespace, unreadable, or not ready.\<close>

definition blocks :: "('w, 'x, 'p, 'r) package_params \<Rightarrow> string \<Rightarrow> object_reference \<Rightarrow> bool" where
  "blocks P namespace dep =
     (nr_namespace dep \<noteq> [] \<and> nr_namespace dep \<noteq> namespace \<or>
      (\<forall>w other. fst (gp_get_dependency P namespace (nr_name dep) w) = Inr other \<longrightarrow>
                 \<not> package_is_ready (gp_cond P) other))"

lemma blocked_dependency:
  "dep \<in> set deps \<Longrightarrow> blocks P namespace dep \<Longrightarrow>
   yields (\<lambda>r. r \<noteq> Inr None) (check_depends_on P namespace deps)"
proof (induction deps)
  case (Cons d deps)
  show ?case
  proof (cases "d = dep")
    case True
    then show ?thesis
      using Cons.prems(2) by (auto simp: yields_def blocks_def State_Monad.return_def split_beta split: sum.split)
  next
    case False
    then show ?thesis using Cons by (auto simp: yields_def State_Monad.return_def split_beta split: sum.split)
  qed
qed simp

lemma emits_depends: "(\<And>r. ok (ReadAct r)) \<Longrightarrow> emits ok (check_depends_on P namespace deps)"
proof (induction deps)
  case (Cons d deps)
  then show ?case unfolding check_depends_on.simps by (intro emits_intro; simp)
qed (simp add: emits_return)

lemma emits_mark_pk [emits_intro]: "emits ok (mark_pk P m)"
  unfolding mark_pk_def mark_object_def by (intro emits_intro)

lemma emits_waiting: "emits waiting (wait_for_dependency P interval t msg)" "emits waiting (suspend_package P)"
  "emits waiting (report_package_resume P)"
  unfolding wait_for_dependency_def suspend_package_def report_package_resume_def patch_package_status_def
    observe_package_def
  by (intro emits_intro emits_patch_pk; simp add: waiting_def)+

text \<open>C16: while a dependency of a ModulePackage is in another namespace, missing, unreadable or not
  Ready, its live reconcile only reads, reports and patches the status: no source is fetched, nothing
  is rendered, applied or pruned.\<close>

theorem package_waits_for_dependencies:
  assumes "dep \<in> set (pp_depends_on (pk_spec (os_obj s)))" and "blocks P (pk_namespace (os_obj s)) dep"
  shows "sends s waiting (reconcile_live_package P interval start)"
proof -
  let ?check = "check_depends_on P (pk_namespace (os_obj s)) (pp_depends_on (pk_spec (os_obj s)))"
  have "emits waiting (do { blocked \<leftarrow> ?check;
                            case blocked of
                              Inl txt \<Rightarrow> wait_for_dependency P interval ''Warning'' txt
                            | Inr (Some blocker) \<Rightarrow>
                                wait_for_dependency P interval ''Normal'' (''waiting for dependency '' @ blocker)
                            | Inr None \<Rightarrow> run_package_attempt P interval start })"
    by (rule emits_bind_yields [OF emits_depends blocked_dependency [OF assms]])
      (auto simp: waiting_def intro: emits_waiting split: sum.split option.split)
  then have "emits waiting (if pp_suspend (pk_spec (os_obj s)) then suspend_package P
      else do { report_package_resume P;
                blocked \<leftarrow> ?check;
                case blocked of
                  Inl txt \<Rightarrow> wait_for_dependency P interval ''Warning'' txt
                | Inr (Some blocker) \<Rightarrow>
                    wait_for_dependency P interval ''Normal'' (''waiting for dependency '' @ blocker)
                | Inr None \<Rightarrow> run_package_attempt P interval start })"
    by (intro emits_if emits_waiting(2)) (rule emits_bind [OF emits_waiting(3)], assumption)
  from sends_emits [OF this, of s] show ?thesis
    by (simp add: reconcile_live_package_def sends_def)
qed

theorem package_waits_for_dependencies_witness:
  "sends (sample_package_start sample_package) waiting
     (reconcile_live_package (sample_package_params sample_package (Some sample_package) False) 0 0)"
proof (rule package_waits_for_dependencies)
  show "\<lparr>nr_namespace = [], nr_name = ''base''\<rparr> \<in> set (pp_depends_on (pk_spec (os_obj (sample_package_start sample_package))))"
    by (simp add: sample_package_start_def sample_package_def)
  show "blocks (sample_package_params sample_package (Some sample_package) False)
      (pk_namespace (os_obj (sample_package_start sample_package))) \<lparr>nr_namespace = [], nr_name = ''base''\<rparr>"
    by (simp add: blocks_def sample_package_params_def sample_libs_def package_is_ready_def sample_package_def
        sample_package_status_def std_conds_def)
qed


section \<open>How a failed render is classified\<close>

text \<open>What a failed render leads to, by the causes it carries: the outcome, and the reason reported.\<close>

definition retried_failure :: "'x errlib \<Rightarrow> 'x goerr \<Rightarrow> bool" where
  "retried_failure E e =
     (carries e (el_fetch E) \<and>
      \<not> carries e (\<lambda>x. el_wrong_kind E x \<or> el_invalid_package E x \<or> el_missing_required_field E x \<or>
        el_identity E x \<or> el_unresolved_demands E x \<or> el_unmatched_components E x))"

definition failure_class :: "'x errlib \<Rightarrow> 'x goerr \<Rightarrow> outcome \<times> string" where
  "failure_class E e =
     (if carries_sentinel E e ErrPlatformNotReady then (FailedTransient, ''PlatformNotReady'')
      else if retried_failure E e then (FailedTransient, ''ResolutionFailed'')
      else (FailedStalled,
        if carries e (el_skew E) then ''SkewRefused''
        else if carries e (el_duplicate_identities E) then ''DuplicateIdentities''
        else if carries e (\<lambda>x. el_identity E x \<or> el_unresolved_demands E x \<or> el_unmatched_components E x) \<or>
          carries_sentinel E e ErrAcquire then ''ResolutionFailed''
        else ''RenderFailed''))"

lemma transient_causes: "is_transient_failure E (Some e) = retried_failure E e"
  by (auto simp: is_transient_failure_def is_terminal_cause_def is_typed_resolution_error_def retried_failure_def
      as_lib_carries carries_disj)

lemmas failure_class_simps = failure_class_def render_failure_reason_def is_skew_refusal_def is_duplicate_identities_def
  is_typed_resolution_error_def as_lib_carries errors_is_carries carries_disj transient_causes

text \<open>C13: what a failed render leads to depends only on the library errors it carries, at any depth of
  wraps and joins. It is tried again on the backoff exactly when the platform is not ready, or when it
  carries a registry fetch failure and none of the six terminal causes (a wrong artifact kind, an
  invalid package, a missing required field, an identity mismatch, unresolved demands, unmatched
  components); anything else stalls. The reason of the one event it sends is that of the first class
  that applies. Both reconcilers decide alike, but for a package of an unsupported kind.\<close>

theorem failures_follow_causes:
  fixes P :: "('w, 'x, 'p, 'r) instance_params" and G :: "('w, 'x, 'p, 'r) package_params"
  shows "(let (outcome, reason) = failure_class (mp_err P) e; (answer, s') = run_state (classify_render_error P e) s
      in is_transient_failure (mp_err P) (Some e) = retried_failure (mp_err P) e \<and> fst answer = outcome \<and>
         (\<exists>txt. sys_trace s' = sys_trace s @ [EventAct ''Warning'' reason ''Render'' txt])) \<and>
    (let (outcome, reason) = failure_class (gp_err G) e; (answer, t') = run_state (classify_package_error G interval att e) t
      in (\<exists>att' r. answer = Inl (Stop att' r) \<and> at_outcome att' = outcome) \<and>
         (\<exists>txt. sys_trace t' = sys_trace t @ [EventAct ''Warning''
            (if outcome = FailedStalled \<and> carries_sentinel (gp_err G) e ErrUnsupportedKind
             then ''UnsupportedKind'' else reason) ''Render'' txt]))"
  by (simp add: classify_render_error_def classify_package_error_def package_error_reason_def failure_class_simps
      fail_package_def fail_backing_off_def mark_mi_def mark_pk_def mark_object_def emit_event_def State_Monad.return_def
      Let_def)

end
