(* ===== verification/Package_Dirs.thy ===== *)
theory Package_Dirs
  imports Package_Safety
begin

text \<open>
  The directory a ModulePackage reconcile fetches its artifact into: the path it loads stays inside, and
  every directory made is removed.
\<close>

section \<open>The path inside the artifact\<close>

lemma join_names:
  assumes p: "list_all plain_name p" and ns: "list_all plain_name ns"
  shows "path_join [path_text p, join ''/'' ns] = path_text (p @ ns)"
proof (cases "ns = []")
  case True
  have "clean_list True (split_path (path_text p @ ''/'')) = p"
    using split_path_text_append [OF p, of "[]"] clean_plain [OF p, of True "[]"]
    by (simp add: clean_list_def clean_step_def)
  then show ?thesis
    using True by (simp add: path_join_def path_clean_def is_abs_def Let_def path_text_def)
next
  case False
  then have "split_path (join ''/'' ns) = ns"
    using ns by (intro split_path_join) (auto simp: list_all_iff plain_name_def)
  then show ?thesis using join_inside [OF p ns] False by simp
qed

lemma join_name:
  assumes "list_all plain_name p" and "plain_name c"
  shows "path_join [path_text p, c] = path_text (p @ [c])"
  using join_names [of p "[c]"] assms by simp

lemma clean_rooted:
  obtains ns where "list_all plain_name ns" and "path_clean (CHR ''/'' # s) = CHR ''/'' # join ''/'' ns"
proof -
  obtain ns where "clean_list True (split_path (CHR ''/'' # s)) = ns" and "list_all plain_name ns"
    using clean_list_shape [of "split_path (CHR ''/'' # s)" True] split_path_names by (force simp: list_all_iff)
  then show ?thesis using that [of ns] by (simp add: path_clean_def is_abs_def Let_def)
qed

text \<open>Whatever the path of the spec says, the directory that is loaded is lexically the extracted artifact or
  below it, is a directory, and holds an instance file.\<close>

theorem package_path_inside:
  assumes d: "list_all plain_name d"
    and found: "resolve_package_path E stat (path_text d) rel = Inr target"
  shows "\<exists>ns nd. list_all plain_name ns \<and> target = path_text (d @ ns) \<and> stat target = Inr DirNode \<and>
    stat (path_text (d @ ns @ [''instance.cue''])) = Inr nd"
proof -
  obtain ns where ns: "list_all plain_name ns" and clean: "path_clean (CHR ''/'' # rel) = CHR ''/'' # join ''/'' ns"
    using clean_rooted .
  have target: "path_join [path_text d, join ''/'' ns] = path_text (d @ ns)" using join_names [OF d ns] .
  have "plain_name ''instance.cue''" by (simp add: plain_name_def)
  then have inside: "path_join [path_text (d @ ns), ''instance.cue''] = path_text (d @ ns @ [''instance.cue''])"
    using join_name [of "d @ ns" "''instance.cue''"] d ns by simp
  show ?thesis
    using found ns
    by (auto simp: resolve_package_path_def has_prefix_def clean target inside Let_def split: if_splits sum.splits)
qed

theorem package_path_inside_witness:
  "\<exists>ns nd. list_all plain_name ns \<and> ''/tmp/x/apps/app'' = path_text ([''tmp'', ''x''] @ ns) \<and>
     (Inr DirNode :: errno + fnode) = Inr DirNode \<and> (Inr DirNode :: errno + fnode) = Inr nd"
proof -
  have "list_all plain_name [''tmp'', ''x'']" by (simp add: plain_name_def)
  moreover have "resolve_package_path sample_errors (\<lambda>_. Inr DirNode) (path_text [''tmp'', ''x'']) ''./apps//app'' =
      Inr ''/tmp/x/apps/app''"
    by code_simp
  ultimately show ?thesis using package_path_inside by blast
qed


section \<open>The directories\<close>

fun removes_dirs :: "act list \<Rightarrow> bool" where
  "removes_dirs [] = True"
| "removes_dirs (a # as) =
     ((case a of MakeDirAct d \<Rightarrow> RemoveDirAct d \<in> set as | _ \<Rightarrow> True) \<and> removes_dirs as)"

lemma removes_dirs_append: "removes_dirs as \<Longrightarrow> removes_dirs bs \<Longrightarrow> removes_dirs (as @ bs)"
  by (induction as) (auto split: act.splits)

fun makes_dir :: "act \<Rightarrow> bool" where
  "makes_dir (MakeDirAct d) = True"
| "makes_dir _ = False"

lemma removes_dirs_none: "list_all (\<lambda>a. \<not> makes_dir a) as \<Longrightarrow> removes_dirs as"
  by (induction as) (auto split: act.splits)

text \<open>\<open>tidy ds m\<close>: every directory the program makes is removed by it, and so are those of \<open>ds\<close>.\<close>

definition tidy :: "string set \<Rightarrow> ('w, 'z, 'a) prog \<Rightarrow> bool" where
  "tidy ds m = (\<forall>s. \<exists>new. sys_trace (snd (run_state m s)) = sys_trace s @ new \<and> removes_dirs new \<and>
     RemoveDirAct ` ds \<subseteq> set new)"

lemma tidy_emits: "emits (\<lambda>a. \<not> makes_dir a) m \<Longrightarrow> tidy {} m"
  unfolding emits_def tidy_def using removes_dirs_none by fastforce

lemma tidyE:
  assumes "tidy ds m" and "run_state m s = (x, s1)"
  obtains new where "sys_trace s1 = sys_trace s @ new" and "removes_dirs new" and "RemoveDirAct ` ds \<subseteq> set new"
  using assms unfolding tidy_def by (metis snd_conv)

lemma tidy_then:
  assumes "tidy ds m" and "yields R m" and "\<And>x. R x \<Longrightarrow> tidy es (f x)"
  shows "tidy (ds \<union> es) (m \<bind> f)"
  unfolding tidy_def
proof
  fix s
  obtain x s1 where m: "run_state m s = (x, s1)" by fastforce
  obtain y s2 where f: "run_state (f x) s1 = (y, s2)" by fastforce
  obtain n1 where n1: "sys_trace s1 = sys_trace s @ n1" "removes_dirs n1" "RemoveDirAct ` ds \<subseteq> set n1"
    using tidyE [OF assms(1) m] .
  obtain n2 where n2: "sys_trace s2 = sys_trace s1 @ n2" "removes_dirs n2" "RemoveDirAct ` es \<subseteq> set n2"
    using tidyE [OF assms(3) [OF yieldsD [OF assms(2) m]] f] .
  show "\<exists>new. sys_trace (snd (run_state (m \<bind> f) s)) = sys_trace s @ new \<and> removes_dirs new \<and>
      RemoveDirAct ` (ds \<union> es) \<subseteq> set new"
    using n1 n2 m f removes_dirs_append [OF n1(2) n2(2)] by (intro exI [of _ "n1 @ n2"]) auto
qed

lemma yields_any: "yields (\<lambda>_. True) m"
  by (simp add: yields_def)

lemma tidy_first: "tidy ds m \<Longrightarrow> (\<And>x. tidy {} (f x)) \<Longrightarrow> tidy ds (m \<bind> f)"
  using tidy_then [of ds m "\<lambda>_. True" "{}" f] by (simp add: yields_any)

lemma tidy_later: "tidy {} m \<Longrightarrow> (\<And>x. tidy ds (f x)) \<Longrightarrow> tidy ds (m \<bind> f)"
  using tidy_then [of "{}" m "\<lambda>_. True" ds f] by (simp add: yields_any)

lemma tidy_remove: "tidy {d} (request (RemoveDirAct d) f)"
  by (simp add: tidy_def)

lemma tidy_request: "\<not> makes_dir a \<Longrightarrow> tidy {} (request a f)"
  by (rule tidy_emits) (rule emits_request)

text \<open>The phases around the fetch make no directory.\<close>

interpretation no_dirs: package_invariant P "\<lambda>_. plan_laws (xl_life (gp_libs P))" "\<lambda>a. \<not> makes_dir a"
proof unfold_locales
  fix a
  show "harmless a \<Longrightarrow> \<not> makes_dir a" by (cases a) simp_all
  show "guard_allows ctx a \<Longrightarrow> \<not> makes_dir a" for ctx by (cases a) simp_all
  show "deletes_only es a \<Longrightarrow> \<not> makes_dir a" for es by (cases a) (auto simp: deletes_only_def)
qed simp_all

lemma tidy_phase: "plan_laws l \<Longrightarrow> runs (\<lambda>_. plan_laws l) (\<lambda>a. \<not> makes_dir a) m Q \<Longrightarrow> tidy {} m"
  by (rule tidy_emits) (simp add: runs_emits)


lemma tidy_and_then: "tidy {} m \<Longrightarrow> (\<And>x. tidy {} (f x)) \<Longrightarrow> tidy {} (and_then m f)"
  unfolding and_then_def
  by (erule tidy_first) (auto intro: tidy_emits emits_return split: sum.split)

lemma tidy_return: "tidy {} (State_Monad.return x)"
  by (intro tidy_emits emits_return)

text \<open>What goes on with a fetched artifact removes its directory.\<close>

lemma tidy_fetch:
  fixes P :: "('w, 'x, 'p, 'r) package_params" and k :: "attempt \<times> string \<Rightarrow> ('w, 'z, 'x stop + 'a) pprog"
  assumes "\<And>att dir. tidy {dir} (k (att, dir))"
  shows "tidy {} (and_then (fetch_phase P interval resolved) k)"
proof -
  obtain att a where res: "resolved = (att, a)" by fastforce
  show ?thesis
    unfolding tidy_def
  proof
    fix s :: "('w, (module_package, 'z rsys_ext) osys_ext) sys_scheme"
    let ?dir = "fst (gp_mkdir_temp P (sys_world s))"
    let ?goal = "\<exists>new. sys_trace (snd (run_state (and_then (fetch_phase P interval resolved) k) s)) = sys_trace s @ new \<and>
      removes_dirs new \<and> RemoveDirAct ` {} \<subseteq> set new"
    show ?goal
    proof (cases ?dir)
      case (Inl e)
      then show ?thesis
        by (simp add: res fetch_phase_def and_then_def mark_pk_def mark_object_def fail_package_def
            State_Monad.return_def split_beta)
    next
      case (Inr dir)
      define s1 where "s1 = s\<lparr>sys_world := snd (gp_mkdir_temp P (sys_world s)), sys_trace := sys_trace s @ [MakeDirAct dir]\<rparr>"
      define got where "got = gp_fetch P (fa_url a) (fa_digest a) dir
        \<lparr>fo_format = format_for_kind [], fo_skip_root_validation = True\<rparr> (sys_world s1)"
      define s2 where "s2 = s1\<lparr>sys_world := snd got, sys_trace := sys_trace s1 @ [FetchAct (fa_url a) dir]\<rparr>"
      show ?thesis
      proof (cases "fst got")
        case None
        have run: "run_state (and_then (fetch_phase P interval resolved) k) s = run_state (k (att, dir)) s2"
          using Inr None
          by (simp add: res fetch_phase_def and_then_def s2_def s1_def got_def State_Monad.return_def split_beta)
        obtain y s3 where "run_state (k (att, dir)) s2 = (y, s3)" by fastforce
        with tidyE [OF assms this] obtain new where "sys_trace s3 = sys_trace s2 @ new" "removes_dirs new"
          "RemoveDirAct dir \<in> set new" "run_state (k (att, dir)) s2 = (y, s3)" by auto
        then show ?thesis
          by (simp add: run s2_def s1_def)
      next
        case (Some e)
        then show ?thesis
          using Inr
          by (simp add: res fetch_phase_def and_then_def got_def s1_def mark_pk_def mark_object_def fail_package_def
              emit_event_def State_Monad.return_def split_beta)
      qed
    qed
  qed
qed

definition never_times_out :: "('w, 'x, 'p, 'r) package_params \<Rightarrow> bool" where
  "never_times_out P = (\<forall>dir w e. fst (gp_render P dir w) = PackageSlotError e \<longrightarrow> \<not> errors_is (gp_err P) ErrRenderTimedOut e)"

lemma tidy_render:
  fixes P :: "('w, 'x, 'p, 'r) package_params"
  assumes "plan_laws (xl_life (gp_libs P))" and "never_times_out P"
  shows "tidy {dir} (render_package P interval att dir package_dir :: ('w, 'z, 'x stop + converted_render) pprog)"
proof -
  have removal: "tidy {dir} (case answer of
        PackageSlotError e \<Rightarrow>
          if errors_is (gp_err P) ErrRenderTimedOut e then State_Monad.return ()
          else request (RemoveDirAct dir) (gp_remove_all P dir)
      | _ \<Rightarrow> request (RemoveDirAct dir) (gp_remove_all P dir))"
    if "\<forall>e. answer = PackageSlotError e \<longrightarrow> \<not> errors_is (gp_err P) ErrRenderTimedOut e" for answer
    using that by (cases answer) (simp_all add: tidy_remove)
  have answers: "yields (\<lambda>a. \<forall>e. a = PackageSlotError e \<longrightarrow> \<not> errors_is (gp_err P) ErrRenderTimedOut e)
      (request RenderAct (gp_render P package_dir))"
    using assms(2) by (simp add: yields_def never_times_out_def)
  show ?thesis
    unfolding render_package_def Let_def
    apply (rule tidy_then [where ds = "{}", simplified])
      apply (rule tidy_request, simp)
     apply (rule answers)
    apply (rule tidy_later)
     apply (rule tidy_emits, rule emits_the_object)
    apply (rule tidy_first)
     apply (rule removal, assumption)
    apply (unfold classify_package_error_def Let_def)
    apply (rule tidy_phase [OF assms(1)])
    apply (rule no_dirs.runs_answer no_dirs.act_rules | assumption)+
    done
qed

lemma tidy_render_extracted:
  fixes P :: "('w, 'x, 'p, 'r) package_params"
  assumes "plan_laws (xl_life (gp_libs P))" and "never_times_out P"
  shows "tidy {dir} (render_extracted P interval (att, dir) :: ('w, 'z, 'x stop + attempt \<times> converted_render) pprog)"
proof -
  have navigate: "tidy {} (navigate_phase P att dir :: ('w, 'z, 'x stop + string) pprog)"
    unfolding navigate_phase_def Let_def
    by (rule tidy_phase [OF assms(1)], (rule no_dirs.act_rules | assumption)+)
  have stopped: "tidy {dir} (do { request (RemoveDirAct dir) (gp_remove_all P dir);
      State_Monad.return (Inl stop :: 'x stop + attempt \<times> converted_render) } :: ('w, 'z, _) pprog)" for stop
    by (intro tidy_first tidy_remove tidy_return)
  have rendered: "tidy {dir} (and_then (render_package P interval att dir package_dir)
      (\<lambda>converted. State_Monad.return (Inr (att, converted))) :: ('w, 'z, 'x stop + attempt \<times> converted_render) pprog)"
    for package_dir
    unfolding and_then_def
    by (rule tidy_first [OF tidy_render [OF assms]]) (auto intro: tidy_return split: sum.split)
  show ?thesis
    unfolding render_extracted_def
    by (simp add: stopped rendered split: sum.split) (intro tidy_later navigate allI; auto simp: stopped rendered split: sum.split)
qed

lemma tidy_phases:
  fixes P :: "('w, 'x, 'p, 'r) package_params"
  assumes "plan_laws (xl_life (gp_libs P))" and "never_times_out P"
  shows "tidy {} (package_phases P interval :: ('w, 'z, 'x stop) pprog)"
proof -
  note phase = tidy_phase [OF assms(1)]
  have later: "tidy {} (and_then (package_plan_phase P conds rendered)
      (\<lambda>(att, pl). and_then (package_no_op_phase P interval conds att pl)
        (\<lambda>_. State_Monad.return (Inr (att, pl)))) :: ('w, 'z, 'x stop + attempt \<times> ('w, 'x) package_plan) pprog)"
    for conds rendered
    by (intro tidy_and_then phase [OF no_dirs.runs_plan_phase])
      (auto intro!: tidy_and_then phase [OF no_dirs.runs_no_op_phase] tidy_return)
  have "tidy {dir} (and_then (render_extracted P interval (att, dir)) f :: ('w, 'z, 'x stop + 'b) pprog)"
    if "\<And>x. tidy {} (f x)" for att dir and f :: "_ \<Rightarrow> ('w, 'z, 'x stop + 'b) pprog"
    unfolding and_then_def
    by (rule tidy_first [OF tidy_render_extracted [OF assms]]) (auto intro: tidy_return that split: sum.split)
  note fetched = tidy_fetch [OF this [OF later]]
  show ?thesis
    unfolding package_phases_def Let_def
    apply (rule tidy_later, rule tidy_emits, rule emits_the_object)
    apply (rule tidy_later, rule tidy_emits, rule emits_mark_pk)
    apply (rule tidy_first)
     apply (rule tidy_and_then, rule phase, rule no_dirs.runs_source_phase, rule fetched)
    apply (auto intro: tidy_return phase [OF no_dirs.runs_write_phases] split: sum.split)
    done
qed

text \<open>C17: unless a render times out, which then removes the directory when it returns, every temporary
  directory an attempt makes is removed before the attempt ends, on every path: a failed fetch, a
  path that is not in the artifact, a render that was refused a slot, failed or panicked.\<close>

theorem package_dirs_removed:
  assumes "plan_laws (xl_life (gp_libs P))" and "never_times_out P"
  shows "\<exists>new. sys_trace (snd (run_state (run_package_attempt P interval start) s)) = sys_trace s @ new \<and> removes_dirs new"
proof -
  have commits: "tidy {} (case stop of
        StopPanic att v \<Rightarrow> do { commit_package_panic P v (at_digests att) start; State_Monad.return (Panicked v) }
      | Stop att result \<Rightarrow>
          do { (if at_skip_commit att then State_Monad.return ()
                else if at_outcome att = NoOp then commit_package_no_op P att
                else commit_package_status P att start);
               State_Monad.return (Ended result) })" for stop
    by (rule tidy_phase [OF assms(1)], (rule no_dirs.runs_stop no_dirs.runs_commits no_dirs.act_rules | assumption)+)
  have "tidy {} (run_package_attempt P interval start)"
    unfolding run_package_attempt_def by (rule tidy_first [OF tidy_phases [OF assms] commits])
  then show ?thesis unfolding tidy_def by blast
qed

theorem package_dirs_removed_witness:
  "\<exists>new. sys_trace (snd (run_state (run_package_attempt (sample_package_params sample_package None True) 0 0)
       (sample_package_start sample_package))) = new \<and> removes_dirs new"
proof -
  have "never_times_out (sample_package_params sample_package None True)"
    by (simp add: never_times_out_def sample_package_params_def sample_libs_def sample_errors_def errors_is_def)
  from package_dirs_removed [OF sample_package_laws this, of 0 0 "sample_package_start sample_package"]
  show ?thesis by (simp add: sample_package_start_def)
qed

end
