(* ===== verification/Instance_Outcome.thy ===== *)
theory Instance_Outcome
  imports Instance_Safety
begin

text \<open>
  How an attempt on a ModuleInstance ends: when it is tried again, how far it comes and what its drift
  detection, its apply and its prune answer, and how these answers decide the record of what was
  applied, the failure counters and the history.
\<close>

section \<open>How the phases end\<close>

definition failed_outcome :: "outcome \<Rightarrow> bool" where
  "failed_outcome oc = (oc = FailedTransient \<or> oc = FailedStalled)"

text \<open>What the phases after the drift detection leave of an attempt: whether that ran and failed, and the
  digests.\<close>

definition frame :: "attempt \<Rightarrow> bool \<times> bool \<times> digest_set" where
  "frame att = (po_drift_ran (at_phases att), po_drift_failed (at_phases att), at_digests att)"

text \<open>An attempt before its outcome is known, with a frame in \<open>Q\<close>.\<close>

definition undecided_attempt :: "(bool \<times> bool \<times> digest_set \<Rightarrow> bool) \<Rightarrow> attempt \<Rightarrow> bool" where
  "undecided_attempt Q att =
     (\<not> at_reconciled att \<and> \<not> at_skip_commit att \<and> at_outcome att = NoOp \<and>
      \<not> po_prune_ran (at_phases att) \<and> \<not> po_prune_failed (at_phases att) \<and> Q (frame att))"

text \<open>An attempt that goes on: nothing failed yet.\<close>

definition clean_attempt :: "(bool \<times> bool \<times> digest_set \<Rightarrow> bool) \<Rightarrow> attempt \<Rightarrow> bool" where
  "clean_attempt Q att = (undecided_attempt Q att \<and> \<not> po_apply_failed (at_phases att))"

fun attempt_of :: "'x stop \<Rightarrow> attempt" where
  "attempt_of (Stop att r) = att"
| "attempt_of (StopPanic att v) = att"

fun stop_ok :: "'x stop \<Rightarrow> bool" where
  "stop_ok (StopPanic att v) = (\<not> at_reconciled att)"
| "stop_ok (Stop att (after, err)) =
     (if at_skip_commit att then err \<noteq> None \<and> \<not> at_reconciled att
      else err = None \<and>
        (if failed_outcome (at_outcome att)
         then \<not> at_reconciled att \<and> after = at_retry_after att \<and> 0 < after \<and> after \<le> stalled_recheck_interval
         else at_reconciled att = (at_outcome att \<noteq> NoOp)))"

text \<open>How a phase before the prune ends.\<close>

definition phase_ok :: "(bool \<times> bool \<times> digest_set \<Rightarrow> bool) \<Rightarrow> ('a \<Rightarrow> attempt) \<Rightarrow> 'x stop + 'a \<Rightarrow> bool" where
  "phase_ok Q sel r =
     (case r of
        Inl e \<Rightarrow> stop_ok e \<and> \<not> at_reconciled (attempt_of e) \<and> \<not> po_prune_ran (at_phases (attempt_of e)) \<and>
          Q (frame (attempt_of e))
      | Inr x \<Rightarrow> clean_attempt Q (sel x))"

lemma phase_ok_simps [simp]:
  "phase_ok Q sel (Inl e) = (stop_ok e \<and> \<not> at_reconciled (attempt_of e) \<and> \<not> po_prune_ran (at_phases (attempt_of e)) \<and>
     Q (frame (attempt_of e)))"
  "phase_ok Q sel (Inr x) = clean_attempt Q (sel x)"
  by (simp_all add: phase_ok_def)

lemmas yields_rules = yields_if yields_option yields_sum yields_prod

lemma retry_interval_bounds: "0 < retry_interval_for oc n" "retry_interval_for oc n \<le> stalled_recheck_interval"
  using backoff_nat_bounds [of "nat (sint (n + 1) - 1)"]
  by (auto simp: retry_interval_for_def compute_backoff_nat backoff_consts)

lemma yields_fail:
  "undecided_attempt Q att \<Longrightarrow> failed_outcome oc \<Longrightarrow> yields (phase_ok Q sel) (fail_attempt att oc msg)"
  unfolding fail_attempt_def Let_def
  by (intro yields_intro) (simp add: undecided_attempt_def clean_attempt_def frame_def retry_interval_bounds)

lemma yields_fail_pair:
  "undecided_attempt Q att \<Longrightarrow> yields (\<lambda>(oc, msg). failed_outcome oc) m \<Longrightarrow>
   yields (phase_ok Q sel) (m \<bind> (\<lambda>(oc, msg). fail_attempt att oc msg))"
  by (erule yields_via) (auto intro: yields_fail)

lemma yields_and_then:
  "yields (phase_ok Q sel) m \<Longrightarrow> (\<And>x. clean_attempt Q (sel x) \<Longrightarrow> yields (phase_ok Q sel') (f x)) \<Longrightarrow>
   yields (phase_ok Q sel') (and_then m f)"
  unfolding and_then_def by (erule yields_via) (auto intro!: yields_rules yields_return)

lemma yields_classify: "yields (\<lambda>(oc, msg). failed_outcome oc) (classify_render_error P e)"
  unfolding classify_render_error_def Let_def by (intro yields_intro) (simp_all add: failed_outcome_def)

lemma yields_report: "yields (\<lambda>(oc, msg). failed_outcome oc) (report_apply_failure P e sa)"
proof -
  have "yields failed_outcome (mark_apply_failure P e sa)"
    unfolding mark_apply_failure_def by (intro yields_intro) (simp_all add: failed_outcome_def)
  then have marked: "yields (\<lambda>(oc, msg). failed_outcome oc)
      (do { oc \<leftarrow> mark_apply_failure P e sa; State_Monad.return (oc, msg) })" for msg
    by (rule yields_via) (simp add: yields_return)
  show ?thesis
    unfolding report_apply_failure_def
    by (rule yields_option, rule yields_bind, rule marked, rule yields_bind, rule yields_bind, rule yields_return)
      (simp add: failed_outcome_def)
qed

lemmas failing = failed_outcome_def undecided_attempt_def clean_attempt_def frame_def

lemma yields_render_end:
  "(\<And>e. x = EndSlot e \<Longrightarrow> yields R (f1 e)) \<Longrightarrow> (\<And>v. x = EndPanic v \<Longrightarrow> yields R (f2 v)) \<Longrightarrow>
   (\<And>e. x = EndFailed e \<Longrightarrow> yields R (f3 e)) \<Longrightarrow> (\<And>res reason e. x = EndConversion res reason e \<Longrightarrow> yields R (f4 res reason e)) \<Longrightarrow>
   (\<And>cr. x = EndConverted cr \<Longrightarrow> yields R (f5 cr)) \<Longrightarrow>
   yields R (case x of EndSlot e \<Rightarrow> f1 e | EndPanic v \<Rightarrow> f2 v | EndFailed e \<Rightarrow> f3 e
               | EndConversion res reason e \<Rightarrow> f4 res reason e | EndConverted cr \<Rightarrow> f5 cr)"
  by (cases x) simp_all

definition undrifted :: "bool \<times> bool \<times> digest_set \<Rightarrow> bool" where
  "undrifted fr = (\<not> fst fr)"

lemma yields_render_phase: "clean_attempt undrifted att \<Longrightarrow> yields (phase_ok undrifted fst) (render_phase P att)"
  unfolding render_phase_def Let_def
  by (rule yields_fail_pair yields_fail yields_render_end yields_option yields_return yields_classify yields_bind
      | simp add: failing undrifted_def rendered_attempt_def Let_def)+

lemma yields_guard_phase: "clean_attempt Q att \<Longrightarrow> yields (phase_ok Q (\<lambda>_. att)) (guard_phase P att n pl us)"
  unfolding guard_phase_def Let_def
  by (rule yields_fail_pair yields_report yields_if yields_return yields_bind | simp add: failing)+

lemma yields_plan_phase: "clean_attempt Q (fst rendered) \<Longrightarrow> yields (phase_ok Q fst) (plan_phase P al n rendered)"
  unfolding plan_phase_def Let_def split_beta
  by (rule yields_fail yields_and_then [OF yields_guard_phase] yields_if yields_return yields_sum yields_prod yields_bind
      | simp add: failing)+

lemma run_bind_yields: "(\<And>x. yields (R x) (f x)) \<Longrightarrow> R (fst (run_state m s)) (fst (run_state (m \<bind> f) s))"
  by (simp add: yields_def split_beta)

lemma drift_phase_ok:
  "clean_attempt Q att \<Longrightarrow>
   phase_ok (\<lambda>fr. fr = (True, snd (fst (run_state (detect_drift P (in_built pl) (ga_err (in_guard pl))
      (without_objects (ga_allowed (in_guard pl)) (ga_taken_in (in_guard pl)))) s)), at_digests att)) fst
    (fst (run_state (drift_phase P att pl) s))"
  unfolding drift_phase_def Let_def split_beta
  by (rule run_bind_yields [where R = "\<lambda>x. phase_ok (\<lambda>fr. fr = (True, snd x, at_digests att)) fst"])
    (rule yields_fail yields_if yields_return yields_bind | simp add: failing)+

lemma yields_no_op_phase: "clean_attempt Q att \<Longrightarrow> yields (phase_ok Q (\<lambda>_. att)) (no_op_phase P n att pl wk)"
  unfolding no_op_phase_def by (rule yields_if yields_return yields_bind | simp add: failing)+

lemma yields_apply_phase: "clean_attempt Q att \<Longrightarrow> yields (phase_ok Q fst) (apply_phase P att pl wk)"
  unfolding apply_phase_def Let_def
  by (rule yields_fail_pair yields_fail yields_report yields_if yields_return yields_sum yields_bind | simp add: failing)+

definition prune_end_ok :: "'x prune_end \<Rightarrow> bool" where
  "prune_end_ok p = (if pe_reconciled p then (pe_outcome p = Applied \<or> pe_outcome p = AppliedAndPruned) \<and> pe_err p = None
                     else failed_outcome (pe_outcome p))"

lemma yields_prune: "yields prune_end_ok (prune_stale_resources P c ids stale sa)"
  unfolding prune_stale_resources_def Let_def
  by (rule yields_if yields_return yields_option yields_prod yields_bind
    | simp add: prune_end_ok_def failed_outcome_def prune_outcome_def)+

text \<open>The error of the prune of an attempt, none when there is nothing to prune.\<close>

definition prune_error ::
    "('w, 'x, 'p, 'r) instance_params \<Rightarrow> ('w, 'x) client \<Rightarrow> string list \<Rightarrow> inventory_entry list \<Rightarrow>
     ('w, (module_instance, 'z rsys_ext) osys_ext) sys_scheme \<Rightarrow> 'x goerr option" where
  "prune_error P c ids stale s =
     (if \<not> sp_prune (mi_spec (os_obj s)) \<or> stale = [] then None
      else snd (fst (run_state (prune (xl_life (mp_libs P)) (xl_can_delete (mp_libs P)) (mp_err P) c ids stale
             (deletes_claims (sp_data_policy (mi_spec (os_obj s))))) s)))"

lemma prune_reconciles:
  "pe_reconciled (fst (run_state (prune_stale_resources P c ids stale sa) s)) = (prune_error P c ids stale s = None)"
  by (auto simp: prune_stale_resources_def prune_error_def State_Monad.return_def split_beta Let_def split: option.split)

lemma finish_phase_ok:
  assumes "clean_attempt Q att0"
  shows "\<exists>att r. fst (run_state (finish_phase P n pl stale (att0, a)) s) = Stop att r \<and> stop_ok (Stop att r :: 'x stop) \<and>
    \<not> at_skip_commit att \<and> at_outcome att \<noteq> NoOp \<and> frame att = frame att0 \<and>
    po_apply_ran (at_phases att) = po_apply_ran (at_phases att0) \<and> \<not> po_apply_failed (at_phases att) \<and>
    po_prune_ran (at_phases att) \<and>
    po_prune_failed (at_phases att) = (prune_error P (ap_client a) (ip_prune (in_identities pl)) stale s \<noteq> None) \<and>
    at_reconciled att = (prune_error P (ap_client a) (ip_prune (in_identities pl)) stale s = None)"
proof -
  let ?m = "prune_stale_resources P (ap_client a) (ip_prune (in_identities pl)) stale (effective_sa_of P (os_obj s))"
  obtain p s1 where p: "run_state ?m s = (p, s1)" by fastforce
  have ok: "prune_end_ok p" using yieldsD [OF yields_prune p] .
  have same: "pe_reconciled p = (prune_error P (ap_client a) (ip_prune (in_identities pl)) stale s = None)"
    using prune_reconciles [of P "ap_client a" "ip_prune (in_identities pl)" stale "effective_sa_of P (os_obj s)" s] p by simp
  have bounds: "0 < compute_backoff (n + 1) \<and> compute_backoff (n + 1) \<le> stalled_recheck_interval" for n
    using retry_interval_bounds [of FailedTransient n] by (simp add: retry_interval_for_def)
  show ?thesis
    using assms ok p bounds
    by (cases "pe_err p"; cases "pe_reconciled p")
      (auto simp: finish_phase_def prune_failure_def prune_end_ok_def failing same [symmetric] split_beta Let_def
        State_Monad.return_def backoff_consts failures_now_def)
qed

lemma yields_finish_phase:
  "clean_attempt Q (fst applied) \<Longrightarrow> yields stop_ok (finish_phase P n pl stale applied)"
  unfolding yields_def using finish_phase_ok [of Q "fst applied" P n pl stale "snd applied"] by (metis prod.collapse)

lemma yields_write_phases: "clean_attempt Q att \<Longrightarrow> yields stop_ok (write_phases P n att pl wk)"
  unfolding write_phases_def
  by (rule yields_via [where R = "phase_ok Q (\<lambda>x. fst (fst x))"],
      rule yields_and_then [OF yields_no_op_phase], assumption, rule yields_bind,
      rule yields_and_then [OF yields_apply_phase], assumption)
    (auto intro!: yields_return yields_rules yields_finish_phase)

lemma new_attempt_undecided: "clean_attempt undrifted new_attempt"
  by (simp add: failing undrifted_def new_attempt_def no_phases_def)

lemma yields_weaken:
  "yields (phase_ok Q sel) m \<Longrightarrow> yields (phase_ok (\<lambda>fr. True) sel) m"
  by (auto simp: yields_def phase_ok_def failing split: sum.splits)

lemma yields_drift_phase: "clean_attempt Q att \<Longrightarrow> yields (phase_ok (\<lambda>fr. True) fst) (drift_phase P att pl)"
  unfolding drift_phase_def Let_def split_beta
  by (rule yields_fail yields_if yields_return yields_bind | simp add: failing)+

lemma attempt_stops_ok:
  fixes P :: "('w, 'x, 'p, 'r) instance_params" and s :: "('w, (module_instance, 'z rsys_ext) osys_ext) sys_scheme"
  shows "stop_ok (fst (run_state (attempt_phases P) s))"
proof -
  have "yields stop_ok (attempt_phases P :: ('w, 'z, 'x stop) mprog)"
    unfolding attempt_phases_def Let_def
    by (rule yields_bind, rule yields_via [where R = "phase_ok (\<lambda>fr. True) fst"],
        rule yields_and_then [OF yields_weaken [OF yields_render_phase [OF new_attempt_undecided]]],
        rule yields_and_then [OF yields_plan_phase], assumption, unfold split_beta,
        rule yields_and_then [OF yields_drift_phase], assumption)
      (auto intro!: yields_return yields_rules yields_write_phases)
  then show ?thesis by (simp add: yields_def)
qed

text \<open>C4: every attempt that fails is tried again: it ends with a positive delay of at most the stalled
  recheck, the one its status names; an attempt cut short before its render ends with an error;
  and an attempt counts as reconciled exactly when its outcome is that of a finished apply and
  prune.\<close>

theorem failed_attempts_retry:
  fixes P :: "('w, 'x, 'p, 'r) instance_params" and s :: "('w, (module_instance, 'z rsys_ext) osys_ext) sys_scheme"
  shows "stop_ok (fst (run_state (attempt_phases P) s)) \<and>
   fst (run_state (run_attempt P start) s) =
     (case fst (run_state (attempt_phases P) s) of Stop att r \<Rightarrow> Ended r | StopPanic att v \<Rightarrow> Panicked v)"
  by (simp add: attempt_stops_ok run_attempt_def split_beta State_Monad.return_def split: stop.split)


section \<open>How far an attempt comes\<close>

text \<open>The drift detection, the apply and the prune of an attempt, each as the run that its phase makes when
  the phases before it let the attempt go on; none when the attempt ended before.\<close>

definition drift_start where
  "drift_start P s =
     (let conds = is_conditions (mi_status (os_obj s)) in
      case run_state (render_phase P new_attempt) s of
        (Inl stop, s1) \<Rightarrow> None
      | (Inr rendered, s1) \<Rightarrow>
          (case run_state (plan_phase P (ready_already_stalled_with (mp_cond P) conds ''IdentityChangeUnsettled'')
                  (adopted_before (mp_cond P) conds) rendered) s1 of
             (Inl stop, s2) \<Rightarrow> None
           | (Inr (att, pl), s2) \<Rightarrow> Some (att, pl, s2)))"

text \<open>Whether the drift detection failed.\<close>

definition drift_answer where
  "drift_answer P s = map_option (\<lambda>(att, pl, s2). snd (fst (run_state (detect_drift P (in_built pl) (ga_err (in_guard pl))
     (without_objects (ga_allowed (in_guard pl)) (ga_taken_in (in_guard pl)))) s2))) (drift_start P s)"

text \<open>The apply: the plan and the work it is made of, the identity that applies, the state it starts in, its
  answer and the state it leaves.\<close>

definition apply_answer where
  "apply_answer P s =
     (case drift_start P s of
        None \<Rightarrow> None
      | Some (att, pl, s2) \<Rightarrow>
          (case run_state (drift_phase P att pl) s2 of
             (Inl stop, s3) \<Rightarrow> None
           | (Inr (att', wk), s3) \<Rightarrow>
               (case in_built pl of
                  Inl e \<Rightarrow> None
                | Inr a \<Rightarrow>
                    if wk_no_op wk then None
                    else Some (pl, wk, a, s3, run_state (apply_instance P (in_identities pl) a (wk_apply wk)
                      \<lparr>ao_force = forces_conflicts (sp_rollout (mi_spec (os_obj s3))),
                       ao_delete_data = deletes_claims (sp_data_policy (mi_spec (os_obj s3))),
                       ao_taken_in = ga_pins (in_guard pl)\<rparr>) s3))))"

text \<open>The error of the prune that follows a successful apply no object of which was withheld.\<close>

definition prune_answer where
  "prune_answer P s =
     (case apply_answer P s of
        Some (pl, wk, a, s3, Inr applied, s4) \<Rightarrow>
          if in_refused pl \<noteq> [] then None
          else Some (prune_error P (ap_client a) (ip_prune (in_identities pl))
                 (stale_entries (mp_export P) (map_option inv_entries (is_inventory (mi_status (os_obj s3))))
                    (cr_entries (in_converted pl)))
                 (snd (run_state (do { emit_event ''Normal'' ''Applied'' ''Apply'' (applied_text applied);
                                       metric ''apply'';
                                       clear_drift_after_apply P (wk_restoring wk) }) s4)))
      | _ \<Rightarrow> None)"

lemma attempt_runs:
  "run_state (attempt_phases P) s =
     (let conds = is_conditions (mi_status (os_obj s)); n = adopted_before (mp_cond P) conds in
      case run_state (render_phase P new_attempt) s of
        (Inl stop, s1) \<Rightarrow> (stop, s1)
      | (Inr rendered, s1) \<Rightarrow>
          (case run_state (plan_phase P (ready_already_stalled_with (mp_cond P) conds ''IdentityChangeUnsettled'') n
                  rendered) s1 of
             (Inl stop, s2) \<Rightarrow> (stop, s2)
           | (Inr (att, pl), s2) \<Rightarrow>
               (case run_state (drift_phase P att pl) s2 of
                  (Inl stop, s3) \<Rightarrow> (stop, s3)
                | (Inr (att', wk), s3) \<Rightarrow> run_state (write_phases P n att' pl wk) s3)))"
  by (simp add: attempt_phases_def and_then_def State_Monad.return_def Let_def split_beta split: sum.split)


lemma apply_phase_runs:
  assumes "in_built pl = Inr a" and "clean_attempt Q att"
    and answer: "run_state (apply_instance P (in_identities pl) a (wk_apply wk)
      \<lparr>ao_force = forces_conflicts (sp_rollout (mi_spec (os_obj s))),
       ao_delete_data = deletes_claims (sp_data_policy (mi_spec (os_obj s))), ao_taken_in = ga_pins (in_guard pl)\<rparr>) s = (ans, s4)"
  shows "case ans of
      Inl e \<Rightarrow> \<exists>att' r s'. run_state (apply_phase P att pl wk) s = (Inl (Stop att' r), s') \<and> \<not> at_skip_commit att' \<and>
        po_apply_ran (at_phases att') \<and> po_apply_failed (at_phases att')
    | Inr applied \<Rightarrow>
        if in_refused pl \<noteq> []
        then \<exists>att' r s'. run_state (apply_phase P att pl wk) s = (Inl (Stop att' r), s') \<and> \<not> at_skip_commit att' \<and>
          po_apply_ran (at_phases att') \<and> \<not> po_apply_failed (at_phases att')
        else \<exists>att'. run_state (apply_phase P att pl wk) s = (Inr (att', a), snd (run_state
            (do { emit_event ''Normal'' ''Applied'' ''Apply'' (applied_text applied); metric ''apply'';
                  clear_drift_after_apply P (wk_restoring wk) }) s4)) \<and>
          po_apply_ran (at_phases att') \<and> \<not> po_apply_failed (at_phases att')"
  using assms(1,2) answer
  by (auto simp: apply_phase_def fail_attempt_def failures_now_def failing State_Monad.return_def split_beta Let_def
      split: sum.split)

lemma write_phases_shape:
  assumes clean: "clean_attempt Q att" and run: "run_state (write_phases P n att pl wk) s = (stop, s')"
  defines "answer a \<equiv> run_state (apply_instance P (in_identities pl) a (wk_apply wk)
      \<lparr>ao_force = forces_conflicts (sp_rollout (mi_spec (os_obj s))),
       ao_delete_data = deletes_claims (sp_data_policy (mi_spec (os_obj s))), ao_taken_in = ga_pins (in_guard pl)\<rparr>) s"
    and "rest applied \<equiv> do { emit_event ''Normal'' ''Applied'' ''Apply'' (applied_text applied); metric ''apply'';
                  clear_drift_after_apply P (wk_restoring wk) }"
    and "stale \<equiv> stale_entries (mp_export P) (map_option inv_entries (is_inventory (mi_status (os_obj s))))
        (cr_entries (in_converted pl))"
  shows "Q (frame (attempt_of stop)) \<and>
    (if wk_no_op wk then \<not> at_reconciled (attempt_of stop) \<and> \<not> po_prune_ran (at_phases (attempt_of stop))
     else case in_built pl of
       Inl e \<Rightarrow> \<not> at_reconciled (attempt_of stop) \<and> \<not> po_prune_ran (at_phases (attempt_of stop))
     | Inr a \<Rightarrow> \<exists>att' r. stop = Stop att' r \<and> \<not> at_skip_commit att' \<and> po_apply_ran (at_phases att') \<and>
         (case answer a of
            (Inl e, s4) \<Rightarrow> po_apply_failed (at_phases att') \<and> \<not> at_reconciled att' \<and> \<not> po_prune_ran (at_phases att')
          | (Inr applied, s4) \<Rightarrow> \<not> po_apply_failed (at_phases att') \<and>
              (if in_refused pl \<noteq> [] then \<not> at_reconciled att' \<and> \<not> po_prune_ran (at_phases att')
               else at_outcome att' \<noteq> NoOp \<and> po_prune_ran (at_phases att') \<and>
                 po_prune_failed (at_phases att') = (prune_error P (ap_client a) (ip_prune (in_identities pl)) stale
                   (snd (run_state (rest applied) s4)) \<noteq> None) \<and>
                 at_reconciled att' = (prune_error P (ap_client a) (ip_prune (in_identities pl)) stale
                   (snd (run_state (rest applied) s4)) = None))))"
proof -
  have no_op: "phase_ok Q (\<lambda>_. att) (fst (run_state (no_op_phase P n att pl wk) s))"
    by (rule yields_no_op_phase [OF clean, unfolded yields_def, THEN spec])
  show ?thesis
  proof (cases "wk_no_op wk")
    case True
    then obtain stop' s1 where "run_state (no_op_phase P n att pl wk) s = (Inl stop', s1)"
      by (fastforce simp: no_op_phase_def State_Monad.return_def split_beta)
    then show ?thesis
      using True no_op run by (simp add: write_phases_def and_then_def State_Monad.return_def)
  next
    case False
    obtain applied s4 where applied: "run_state (apply_phase P att pl wk) s = (applied, s4)" by fastforce
    have ok: "phase_ok Q fst applied" using yieldsD [OF yields_apply_phase [OF clean] applied] .
    have ends: "(stop, s') = (case applied of Inl stop' \<Rightarrow> (stop', s4)
        | Inr x \<Rightarrow> run_state (finish_phase P n pl stale x) s4)"
      using False run applied
      by (auto simp: write_phases_def no_op_phase_def and_then_def State_Monad.return_def stale_def split: sum.splits)
    show ?thesis
    proof (cases "in_built pl")
      case (Inl e)
      then have "\<exists>stop'. applied = Inl stop'"
        using applied by (auto simp: apply_phase_def fail_attempt_def State_Monad.return_def split_beta Let_def)
      then show ?thesis using False Inl ok ends by auto
    next
      case (Inr a)
      obtain ans t where ans: "answer a = (ans, t)" by fastforce
      note runs = apply_phase_runs [OF Inr clean ans [unfolded answer_def]]
      show ?thesis
      proof (cases "\<exists>r. ans = Inr r \<and> in_refused pl = []")
        case False
        then show ?thesis
          using \<open>\<not> wk_no_op wk\<close> Inr ans runs ok ends applied by (cases ans) auto
      next
        case True
        then obtain r att' where r: "ans = Inr r" "in_refused pl = []" and att': "applied = (Inr (att', a))"
          "s4 = snd (run_state (rest r) t)" "po_apply_ran (at_phases att')"
          using runs applied by (auto simp: rest_def)
        have "clean_attempt Q att'" using ok att'(1) by simp
        then have "Q (frame att')" by (simp add: clean_attempt_def undecided_attempt_def)
        moreover have "fst (run_state (finish_phase P n pl stale (att', a)) s4) = stop"
          using ends att'(1) by (simp add: prod_eq_iff)
        ultimately show ?thesis
          using \<open>\<not> wk_no_op wk\<close> Inr ans r att' finish_phase_ok [OF \<open>clean_attempt Q att'\<close>, of P n pl stale a s4] by auto
      qed
    qed
  qed
qed

lemma render_phase_digests:
  "run_state (render_phase P new_attempt) s = (Inr (att, cr), s1) \<Longrightarrow>
   at_digests att = \<lparr>dg_source = module_source_digest (mp_sha256 P) (mod_path (sp_module (mi_spec (os_obj s))))
       (mod_version (sp_module (mi_spec (os_obj s)))),
     dg_config = config_digest (mp_sha256 P) (mp_canonical P) (sp_values (mi_spec (os_obj s))),
     dg_render = cr_digest cr, dg_inventory = inventory_digest_of (mp_export P) (cr_entries cr)\<rparr>"
  by (auto simp: render_phase_def rendered_attempt_def mark_mi_def mark_object_def mi_view_def fail_attempt_def
      State_Monad.return_def split_beta Let_def split: render_end.splits option.splits)

lemma plan_phase_converted:
  "run_state (plan_phase P al n rendered) s = (Inr (att, pl), s1) \<Longrightarrow> att = fst rendered \<and> in_converted pl = snd rendered"
  by (auto simp: plan_phase_def guard_phase_def and_then_def fail_attempt_def State_Monad.return_def split_beta Let_def
      split: sum.splits if_splits)

lemma ends_before_drift:
  assumes "drift_start P s = None" and "run_state (attempt_phases P) s = (stop, s')"
  shows "phase_ok undrifted attempt_of (Inl stop)"
proof -
  let ?conds = "is_conditions (mi_status (os_obj s))"
  let ?plan = "plan_phase P (ready_already_stalled_with (mp_cond P) ?conds ''IdentityChangeUnsettled'')
    (adopted_before (mp_cond P) ?conds)"
  obtain r1 s1 where r1: "run_state (render_phase P new_attempt) s = (r1, s1)" by fastforce
  have ok1: "phase_ok undrifted fst r1" using yieldsD [OF yields_render_phase [OF new_attempt_undecided] r1] .
  show ?thesis
  proof (cases r1)
    case (Inl stop1)
    then show ?thesis using assms(2) r1 ok1 by (simp add: attempt_runs Let_def)
  next
    case (Inr rendered)
    obtain r2 s2 where r2: "run_state (?plan rendered) s1 = (r2, s2)" by fastforce
    have "phase_ok undrifted fst r2" using yieldsD [OF yields_plan_phase r2] ok1 Inr by simp
    moreover have "r2 = Inl stop"
      using assms Inr r1 r2 by (auto simp: drift_start_def attempt_runs Let_def split: sum.splits)
    ultimately show ?thesis by simp
  qed
qed

lemma goes_on_to_drift:
  assumes "drift_start P s = Some (att, pl, s2)"
  shows "clean_attempt undrifted att" and "run_state (attempt_phases P) s =
      (case run_state (drift_phase P att pl) s2 of
         (Inl stop, s3) \<Rightarrow> (stop, s3)
       | (Inr (att', wk), s3) \<Rightarrow>
           run_state (write_phases P (adopted_before (mp_cond P) (is_conditions (mi_status (os_obj s)))) att' pl wk) s3)"
    and "at_digests att = \<lparr>dg_source = module_source_digest (mp_sha256 P) (mod_path (sp_module (mi_spec (os_obj s))))
         (mod_version (sp_module (mi_spec (os_obj s)))),
       dg_config = config_digest (mp_sha256 P) (mp_canonical P) (sp_values (mi_spec (os_obj s))),
       dg_render = cr_digest (in_converted pl),
       dg_inventory = inventory_digest_of (mp_export P) (cr_entries (in_converted pl))\<rparr>"
proof -
  let ?conds = "is_conditions (mi_status (os_obj s))"
  let ?plan = "plan_phase P (ready_already_stalled_with (mp_cond P) ?conds ''IdentityChangeUnsettled'')
    (adopted_before (mp_cond P) ?conds)"
  obtain rendered s1 where r1: "run_state (render_phase P new_attempt) s = (Inr rendered, s1)"
    and r2: "run_state (?plan rendered) s1 = (Inr (att, pl), s2)"
    using assms by (auto simp: drift_start_def Let_def split: sum.splits prod.splits)
  have "clean_attempt undrifted (fst rendered)"
    using yieldsD [OF yields_render_phase [OF new_attempt_undecided] r1] by simp
  from yieldsD [OF yields_plan_phase [OF this] r2] show "clean_attempt undrifted att" by simp
  show "run_state (attempt_phases P) s =
      (case run_state (drift_phase P att pl) s2 of
         (Inl stop, s3) \<Rightarrow> (stop, s3)
       | (Inr (att', wk), s3) \<Rightarrow> run_state (write_phases P (adopted_before (mp_cond P) ?conds) att' pl wk) s3)"
    using r1 r2 by (simp add: attempt_runs Let_def)
  show "at_digests att = \<lparr>dg_source = module_source_digest (mp_sha256 P) (mod_path (sp_module (mi_spec (os_obj s))))
         (mod_version (sp_module (mi_spec (os_obj s)))),
       dg_config = config_digest (mp_sha256 P) (mp_canonical P) (sp_values (mi_spec (os_obj s))),
       dg_render = cr_digest (in_converted pl),
       dg_inventory = inventory_digest_of (mp_export P) (cr_entries (in_converted pl))\<rparr>"
    using plan_phase_converted [OF r2] render_phase_digests [of P s "fst rendered" "snd rendered" s1] r1 by simp
qed

text \<open>How an attempt ends is told by its answers.\<close>

lemma attempt_shape:
  assumes "run_state (attempt_phases P) s = (stop, s')"
  shows "(case drift_answer P s of
      None \<Rightarrow> \<not> po_drift_ran (at_phases (attempt_of stop))
    | Some failed \<Rightarrow> po_drift_ran (at_phases (attempt_of stop)) \<and> po_drift_failed (at_phases (attempt_of stop)) = failed) \<and>
   (case apply_answer P s of
      None \<Rightarrow> True
    | Some (pl, wk, a, s3, ans, s4) \<Rightarrow> \<exists>att r. stop = Stop att r \<and> \<not> at_skip_commit att \<and> po_apply_ran (at_phases att) \<and>
        po_apply_failed (at_phases att) = (\<exists>e. ans = Inl e)) \<and>
   (case prune_answer P s of
      None \<Rightarrow> \<not> at_reconciled (attempt_of stop) \<and> \<not> po_prune_ran (at_phases (attempt_of stop))
    | Some err \<Rightarrow> \<exists>att r. stop = Stop att r \<and> \<not> at_skip_commit att \<and> at_outcome att \<noteq> NoOp \<and> po_prune_ran (at_phases att) \<and>
        po_prune_failed (at_phases att) = (err \<noteq> None) \<and> at_reconciled att = (err = None)) \<and>
   (\<forall>att pl s2. drift_start P s = Some (att, pl, s2) \<longrightarrow> at_digests (attempt_of stop) = at_digests att)"
proof (cases "drift_start P s")
  case None
  then show ?thesis
    using ends_before_drift [OF None assms]
    by (simp add: drift_answer_def apply_answer_def prune_answer_def undrifted_def frame_def)
next
  case (Some start)
  then obtain att pl s2 where start: "drift_start P s = Some (att, pl, s2)" by (cases start) auto
  obtain r3 s3 where r3: "run_state (drift_phase P att pl) s2 = (r3, s3)" by fastforce
  define failed where "failed = snd (fst (run_state (detect_drift P (in_built pl) (ga_err (in_guard pl))
      (without_objects (ga_allowed (in_guard pl)) (ga_taken_in (in_guard pl)))) s2))"
  have drift: "drift_answer P s = Some failed" by (simp add: drift_answer_def start failed_def)
  have ok: "phase_ok (\<lambda>fr. fr = (True, failed, at_digests att)) fst r3"
    using drift_phase_ok [OF goes_on_to_drift(1) [OF start], of P pl s2] r3 by (simp add: failed_def)
  show ?thesis
  proof (cases r3)
    case (Inl stop3)
    then show ?thesis
      using ok assms goes_on_to_drift(2) [OF start] r3
      by (simp add: drift start apply_answer_def prune_answer_def frame_def)
  next
    case (Inr x)
    obtain att' wk where x: "x = (att', wk)" by fastforce
    have clean: "clean_attempt (\<lambda>fr. fr = (True, failed, at_digests att)) att'" using ok Inr x by simp
    from write_phases_shape [OF clean, of P "adopted_before (mp_cond P) (is_conditions (mi_status (os_obj s)))" pl wk s3 stop s']
    show ?thesis
      using assms goes_on_to_drift(2) [OF start] r3 Inr x
      by (cases "in_built pl") (auto simp: drift start apply_answer_def prune_answer_def frame_def split: sum.splits prod.splits if_splits)
  qed
qed

section \<open>What an attempt records\<close>

text \<open>What the next no-op verdict compares with, when it was applied, the revision of the inventory,
  the history and the failure counters.\<close>

definition applied_record :: "instance_status \<Rightarrow> digest_set \<times> time option \<times> int64 option" where
  "applied_record st = (last_applied_digests st, is_last_applied_at st, map_option inv_revision (is_inventory st))"

definition accounts :: "instance_status \<Rightarrow> (digest_set \<times> time option \<times> int64 option) \<times> failure_counters option \<times> history_entry list" where
  "accounts st = (applied_record st, is_failure_counters st, is_history st)"

definition accounts_are ::
    "('w, 'x, 'p, 'r) instance_params \<Rightarrow> (digest_set \<times> time option \<times> int64 option) \<times> failure_counters option \<times> history_entry list \<Rightarrow>
     module_instance \<Rightarrow> bool" where
  "accounts_are P v mi = (plan_laws (xl_life (mp_libs P)) \<and> accounts (mi_status mi) = v)"

lemmas accounts_defs = accounts_def applied_record_def last_applied_digests_def inventory_digest_def

text \<open>No phase touches the accounts: only the commit does.\<close>

interpretation phases: phase_invariant P "accounts_are P v" "\<lambda>_. True"
proof unfold_locales
  fix mi st
  show "accounts_are P v mi \<Longrightarrow> phase_edit P mi st \<Longrightarrow> accounts_are P v (mi\<lparr>mi_status := st\<rparr>)"
    by (erule phase_edit.cases)
      (auto simp: accounts_are_def accounts_defs forget_objects_def Let_def split: option.splits)
qed (simp_all add: accounts_are_def)

lemma phases_keep_accounts:
  "plan_laws (xl_life (mp_libs P)) \<Longrightarrow> run_state (attempt_phases P) s = (stop, s1) \<Longrightarrow>
   accounts (mi_status (os_obj s1)) = accounts (mi_status (os_obj s))"
  using runsD(2) [OF phases.runs_phases, of P "accounts (mi_status (os_obj s))" s]
  by (auto simp: accounts_are_def)

lemmas commit_steps = mark_mi_def mark_object_def mi_view_def change_status_def observe_generation_def patch_mi_def
  record_reconcile_metrics_def metric_def State_Monad.return_def

lemma commit_panic_accounts:
  "accounts (mi_status (os_obj (snd (run_state (commit_panic_status P v digests start) s)))) =
   (applied_record (mi_status (os_obj s)),
    is_failure_counters (update_failure_counters FailedTransient no_phases (mi_status (os_obj s))),
    record_history (is_history (mi_status (os_obj s)))
      (new_failure_entry (tk_now (mp_clock P) (sys_world s)) reconcile_action (''reconcile panicked: '' @ v) digests))"
  by (simp add: commit_panic_status_def commit_steps accounts_defs record_attempt_def add_history_def
      update_failure_counters_def Let_def)

lemma commit_no_op_accounts:
  "accounts (mi_status (os_obj (snd (run_state (commit_no_op_status P att inputs) s)))) =
   (applied_record (mi_status (os_obj s)),
    is_failure_counters (update_failure_counters NoOp (at_phases att) (mi_status (os_obj s))),
    is_history (mi_status (os_obj s)))"
  by (simp add: commit_no_op_status_def commit_steps accounts_defs update_failure_counters_def Let_def)

lemma commit_accounts:
  "accounts (mi_status (os_obj (snd (run_state (commit_status P att start) s)))) =
   (let st = mi_status (os_obj s); now = tk_now (mp_clock P) (sys_world s) in
    ((if at_reconciled att
      then (at_digests att, Some now, Some (case is_inventory st of None \<Rightarrow> 1 | Some i \<Rightarrow> inv_revision i + 1))
      else applied_record st),
     is_failure_counters (update_failure_counters (at_outcome att) (at_phases att) st),
     (if at_reconciled att then record_history (is_history st) (new_success_entry now reconcile_action ''complete''
          (at_digests att) (word_of_nat (length (at_new_entries att))))
      else if at_err_msg att \<noteq> [] then record_history (is_history st) (new_failure_entry now reconcile_action
          (at_err_msg att) (at_digests att))
      else is_history st)))"
  by (simp add: commit_status_def commit_steps accounts_defs record_attempt_def record_success_def add_history_def
      update_failure_counters_def next_inventory_def Let_def)

lemmas commit_records =
  commit_panic_accounts [unfolded accounts_def prod.inject, THEN conjunct1]
  commit_panic_accounts [unfolded accounts_def prod.inject, THEN conjunct2, THEN conjunct1]
  commit_panic_accounts [unfolded accounts_def prod.inject, THEN conjunct2, THEN conjunct2]
  commit_no_op_accounts [unfolded accounts_def prod.inject, THEN conjunct1]
  commit_no_op_accounts [unfolded accounts_def prod.inject, THEN conjunct2, THEN conjunct1]
  commit_no_op_accounts [unfolded accounts_def prod.inject, THEN conjunct2, THEN conjunct2]
  commit_accounts [unfolded accounts_def Let_def prod.inject, THEN conjunct1]
  commit_accounts [unfolded accounts_def Let_def prod.inject, THEN conjunct2, THEN conjunct1]
  commit_accounts [unfolded accounts_def Let_def prod.inject, THEN conjunct2, THEN conjunct2]

lemma run_attempt_object:
  "run_state (attempt_phases P) s = (stop, s1) \<Longrightarrow>
   os_obj (snd (run_state (run_attempt P start) s)) =
     (case stop of
        StopPanic att v \<Rightarrow> os_obj (snd (run_state (commit_panic_status P v (at_digests att) start) s1))
      | Stop att r \<Rightarrow>
          if at_skip_commit att then os_obj s1
          else if at_outcome att = NoOp
          then os_obj (snd (run_state (commit_no_op_status P att
                 (no_op_inputs (mp_drift_render_interval P) (at_rendered_inputs att))) s1))
          else os_obj (snd (run_state (commit_status P att start) s1)))"
  by (simp add: run_attempt_def split_beta State_Monad.return_def split: stop.split)

text \<open>C3: the record a later reconcile compares its render with (the four digests, the time and the
  inventory revision) moves exactly when the attempt applied the render and then the prune of what
  the render no longer holds ended without an error, or had nothing to do: then to the digests of
  the module, of the values, of that render and of its inventory, to the time of the commit and to
  the next revision. Every other attempt leaves it: one whose render, guard, apply or prune failed,
  one that was refused, withheld a claim, panicked, was cut short or found nothing to change.\<close>

theorem applied_record_moves_on_success:
  assumes laws: "plan_laws (xl_life (mp_libs P))"
  shows "(let s1 = snd (run_state (attempt_phases P) s);
              mi = os_obj s;
              st' = mi_status (os_obj (snd (run_state (run_attempt P start) s)))
          in case prune_answer P s of
               Some None \<Rightarrow>
                 (\<exists>att pl s2. drift_start P s = Some (att, pl, s2) \<and>
                    applied_record st' =
                      (\<lparr>dg_source = module_source_digest (mp_sha256 P) (mod_path (sp_module (mi_spec mi)))
                          (mod_version (sp_module (mi_spec mi))),
                        dg_config = config_digest (mp_sha256 P) (mp_canonical P) (sp_values (mi_spec mi)),
                        dg_render = cr_digest (in_converted pl),
                        dg_inventory = inventory_digest_of (mp_export P) (cr_entries (in_converted pl))\<rparr>,
                       Some (tk_now (mp_clock P) (sys_world s1)),
                       Some (case is_inventory (mi_status mi) of None \<Rightarrow> 1 | Some i \<Rightarrow> inv_revision i + 1)))
             | _ \<Rightarrow> applied_record st' = applied_record (mi_status mi))"
proof -
  obtain stop s1 where run: "run_state (attempt_phases P) s = (stop, s1)" by fastforce
  have kept: "applied_record (mi_status (os_obj s1)) = applied_record (mi_status (os_obj s))"
    using phases_keep_accounts [OF laws run] by (simp add: accounts_def)
  then have revision: "(case is_inventory (mi_status (os_obj s1)) of None \<Rightarrow> 1 | Some i \<Rightarrow> inv_revision i + 1) =
      (case is_inventory (mi_status (os_obj s)) of None \<Rightarrow> 1 | Some i \<Rightarrow> inv_revision i + 1)"
    by (auto simp: applied_record_def split: option.splits)
  have moves: "applied_record (mi_status (os_obj (snd (run_state (run_attempt P start) s)))) =
      (case stop of Stop att r \<Rightarrow>
         if at_reconciled att \<and> \<not> at_skip_commit att \<and> at_outcome att \<noteq> NoOp
         then (at_digests att, Some (tk_now (mp_clock P) (sys_world s1)),
               Some (case is_inventory (mi_status (os_obj s)) of None \<Rightarrow> 1 | Some i \<Rightarrow> inv_revision i + 1))
         else applied_record (mi_status (os_obj s))
       | _ \<Rightarrow> applied_record (mi_status (os_obj s)))"
    using kept revision by (cases stop) (auto simp: run_attempt_object [OF run] commit_records)
  show ?thesis
  proof (cases "prune_answer P s = Some None")
    case True
    then obtain att pl s2 where start: "drift_start P s = Some (att, pl, s2)"
      by (cases "drift_start P s") (auto simp: prune_answer_def apply_answer_def)
    obtain att' r where "stop = Stop att' r" "\<not> at_skip_commit att'" "at_outcome att' \<noteq> NoOp" "at_reconciled att'"
      "at_digests att' = at_digests att"
      using attempt_shape [OF run] start by (auto simp: True)
    then show ?thesis using True start moves run goes_on_to_drift(3) [OF start] by simp
  next
    case False
    then have "\<not> at_reconciled (attempt_of stop)" using attempt_shape [OF run] by (auto split: option.splits)
    then show ?thesis using False moves by (cases stop) (auto split: option.splits)
  qed
qed

theorem applied_record_moves_on_success_witness:
  "applied_record (mi_status (os_obj (snd (run_state (run_attempt (sample_params sample_instance) 0)
       (sample_start sample_instance))))) = applied_record sample_status"
proof -
  have "drift_start (sample_params sample_instance) (sample_start sample_instance) = None"
    by (simp add: drift_start_def render_phase_def render_and_convert_instance_def
        classify_render_error_def fail_attempt_def failures_now_def sample_params_def sample_libs_def
        mark_mi_def mark_object_def emit_event_def State_Monad.return_def Let_def split_beta)
  then have "prune_answer (sample_params sample_instance) (sample_start sample_instance) = None"
    by (simp add: prune_answer_def apply_answer_def)
  then show ?thesis
    using applied_record_moves_on_success [OF sample_params_laws, of sample_instance "sample_start sample_instance" 0]
    by (simp add: sample_start_def sample_instance_def)
qed

lemma counters_after:
  fixes oc ph and st :: instance_status
  defines "c \<equiv> ensure_counters (is_failure_counters st)"
  shows "ensure_counters (is_failure_counters (update_failure_counters oc ph st)) =
    \<lparr>fc_reconcile = (if failed_outcome oc then fc_reconcile c + 1 else 0),
     fc_apply = (if \<not> po_apply_ran ph then fc_apply c else if po_apply_failed ph then fc_apply c + 1 else 0),
     fc_prune = (if \<not> po_prune_ran ph then fc_prune c else if po_prune_failed ph then fc_prune c + 1 else 0),
     fc_drift = (if \<not> po_drift_ran ph then fc_drift c else if po_drift_failed ph then fc_drift c + 1 else 0)\<rparr>"
  by (simp add: update_failure_counters_def count_phase_def counter_ops counter_names failed_outcome_def c_def
      ensure_counters_def Let_def)

text \<open>The history with one more entry: the newest comes first, with the next sequence number, and the
  oldest falls off beyond ten.\<close>

definition history_grows ::
    "history_entry list \<Rightarrow> time \<Rightarrow> string \<Rightarrow> string \<Rightarrow> digest_set \<Rightarrow> int64 \<Rightarrow> history_entry list \<Rightarrow> bool" where
  "history_grows h now phase msg digests n h' =
     (h' = take 10 (\<lparr>he_sequence = next_sequence h, he_action = ''reconcile'', he_phase = phase,
        he_started_at = Some now, he_finished_at = Some now,
        he_source_digest = dg_source digests, he_config_digest = dg_config digests,
        he_render_digest = dg_render digests, he_inventory_digest = dg_inventory digests,
        he_inventory_count = n, he_message = msg\<rparr> # h))"

lemma recorded_history:
  "history_grows h now phase [] digests n (record_history h (new_success_entry now reconcile_action phase digests n))"
  "history_grows h now [] msg digests 0 (record_history h (new_failure_entry now reconcile_action msg digests))"
  by (simp_all add: history_grows_def record_history_def new_success_entry_def new_failure_entry_def Let_def
      max_history_entries_def reconcile_action_def)

text \<open>C10: the failure counters and the history account for every attempt. The reconcile counter grows by
  one with a failure or a panic and is reset by any other attempt; the drift, apply and prune
  counters follow what the drift detection, the apply and the prune of the attempt answered, and stay
  when they were not reached (an apply that the guard refuses counts as a failed one). A finished
  apply and prune adds a success to the history, with the digests and the number of entries recorded;
  a failure with a message and a panic add a failure with that message; nothing else adds one.\<close>

theorem attempt_bookkeeping:
  assumes laws: "plan_laws (xl_life (mp_libs P))"
  shows "(let (stop, s1) = run_state (attempt_phases P) s;
              st = mi_status (os_obj s);
              st' = mi_status (os_obj (snd (run_state (run_attempt P start) s)));
              c = ensure_counters (is_failure_counters st); c' = ensure_counters (is_failure_counters st');
              now = tk_now (mp_clock P) (sys_world s1)
          in (case stop of
                StopPanic att v \<Rightarrow> c' = c\<lparr>fc_reconcile := fc_reconcile c + 1\<rparr> \<and>
                  history_grows (is_history st) now [] (''reconcile panicked: '' @ v) (at_digests att) 0 (is_history st')
              | Stop att r \<Rightarrow>
                  if at_skip_commit att then st' = mi_status (os_obj s1) \<and> c' = c \<and> is_history st' = is_history st
                  else fc_reconcile c' = (if failed_outcome (at_outcome att) then fc_reconcile c + 1 else 0) \<and>
                    fc_drift c' = (case drift_answer P s of
                      None \<Rightarrow> fc_drift c | Some failed \<Rightarrow> if failed then fc_drift c + 1 else 0) \<and>
                    fc_apply c' = (case apply_answer P s of
                      Some (pl, wk, a, s3, Inl e, s4) \<Rightarrow> fc_apply c + 1
                    | Some (pl, wk, a, s3, Inr applied, s4) \<Rightarrow> 0
                    | None \<Rightarrow> if \<not> po_apply_ran (at_phases att) then fc_apply c
                              else if po_apply_failed (at_phases att) then fc_apply c + 1 else 0) \<and>
                    fc_prune c' = (case prune_answer P s of
                      None \<Rightarrow> fc_prune c | Some None \<Rightarrow> 0 | Some (Some e) \<Rightarrow> fc_prune c + 1) \<and>
                    (if prune_answer P s = Some None
                     then history_grows (is_history st) now ''complete'' [] (at_digests att)
                       (word_of_nat (length (at_new_entries att))) (is_history st')
                     else if failed_outcome (at_outcome att) \<and> at_err_msg att \<noteq> []
                     then history_grows (is_history st) now [] (at_err_msg att) (at_digests att) 0 (is_history st')
                     else is_history st' = is_history st)))"
proof -
  obtain stop s1 where run: "run_state (attempt_phases P) s = (stop, s1)" by fastforce
  have kept: "is_failure_counters (mi_status (os_obj s1)) = is_failure_counters (mi_status (os_obj s))"
    "is_history (mi_status (os_obj s1)) = is_history (mi_status (os_obj s))"
    using phases_keep_accounts [OF laws run] by (simp_all add: accounts_def)
  have ok: "stop_ok stop" using attempt_stops_ok [of P s] run by simp
  note shape = attempt_shape [OF run]
  show ?thesis
  proof (cases stop)
    case (StopPanic att v)
    then show ?thesis
      by (simp add: run run_attempt_object [OF run] commit_records kept counters_after no_phases_def failed_outcome_def
          recorded_history)
  next
    case (Stop att r)
    have counters_are: "ensure_counters (is_failure_counters (update_failure_counters oc (at_phases att) (mi_status (os_obj s1)))) =
        (let c = ensure_counters (is_failure_counters (mi_status (os_obj s))) in
         \<lparr>fc_reconcile = (if failed_outcome oc then fc_reconcile c + 1 else 0),
          fc_apply = (case apply_answer P s of
             Some (pl, wk, a, s3, Inl e, s4) \<Rightarrow> fc_apply c + 1
           | Some (pl, wk, a, s3, Inr applied, s4) \<Rightarrow> 0
           | None \<Rightarrow> if \<not> po_apply_ran (at_phases att) then fc_apply c
                     else if po_apply_failed (at_phases att) then fc_apply c + 1 else 0),
          fc_prune = (case prune_answer P s of None \<Rightarrow> fc_prune c | Some None \<Rightarrow> 0 | Some (Some e) \<Rightarrow> fc_prune c + 1),
          fc_drift = (case drift_answer P s of None \<Rightarrow> fc_drift c | Some failed \<Rightarrow> if failed then fc_drift c + 1 else 0)\<rparr>)" for oc
      using shape Stop unfolding counters_after kept Let_def by (auto split: option.splits sum.splits)
    have reconciled: "at_reconciled att = (prune_answer P s = Some None)"
      using shape Stop by (auto split: option.splits)
    consider "at_skip_commit att" | "\<not> at_skip_commit att" "at_outcome att = NoOp"
      | "\<not> at_skip_commit att" "at_outcome att \<noteq> NoOp" by blast
    then show ?thesis
    proof cases
      case 1
      then show ?thesis using Stop by (simp add: run run_attempt_object [OF run] kept)
    next
      case 2
      moreover have "prune_answer P s \<noteq> Some None" using 2 shape Stop by auto
      ultimately show ?thesis
        using Stop
        by (simp add: run run_attempt_object [OF run] commit_records kept counters_are failed_outcome_def Let_def)
    next
      case 3
      moreover have "prune_answer P s \<noteq> Some None \<Longrightarrow> failed_outcome (at_outcome att)"
        using 3 ok Stop reconciled by (cases r) (auto split: if_splits)
      ultimately show ?thesis
        using Stop reconciled
        by (simp add: run run_attempt_object [OF run] commit_records kept counters_are recorded_history Let_def)
    qed
  qed
qed

theorem attempt_bookkeeping_witness:
  "\<exists>st'. st' = mi_status (os_obj (snd (run_state (run_attempt (sample_params sample_instance) 0)
       (sample_start sample_instance)))) \<and> fc_reconcile (ensure_counters (is_failure_counters st')) = 1"
proof -
  have "\<exists>att r. fst (run_state (attempt_phases (sample_params sample_instance)) (sample_start sample_instance)) = Stop att r \<and>
      \<not> at_skip_commit att \<and> at_outcome att = FailedStalled"
    by (simp add: attempt_phases_def render_phase_def and_then_def render_and_convert_instance_def
        classify_render_error_def fail_attempt_def failures_now_def new_attempt_def sample_params_def sample_libs_def
        sample_errors_def is_transient_failure_def is_terminal_cause_def as_lib_def is_typed_resolution_error_def
        errors_is_def mark_mi_def mark_object_def emit_event_def State_Monad.return_def Let_def split_beta)
  moreover obtain stop s1 where run: "run_state (attempt_phases (sample_params sample_instance))
      (sample_start sample_instance) = (stop, s1)" by fastforce
  ultimately obtain att r where "stop = Stop att r" "\<not> at_skip_commit att" "at_outcome att = FailedStalled" by auto
  then show ?thesis
    using attempt_bookkeeping [OF sample_params_laws, of sample_instance "sample_start sample_instance" 0] run
    by (simp add: failed_outcome_def sample_start_def sample_instance_def sample_status_def ensure_counters_def
        zero_counters_def Let_def)
qed

end
