(* ===== verification/Registration_Rules.thy ===== *)
theory Registration_Rules
  imports Platform_Store Shrink Instance_Base
begin

text \<open>
  The rules a TransformerRegistration is judged by, as functions: the controller's
  transformerregistration_controller.go, transformerregistration_contracts.go,
  transformerregistration_dependents.go and transformerregistration_buildcompat.go, without the
  programs that read the cluster. A catalog is a value of the OPM library, read through its Provides
  and Requires; a Go map is an association list in the order of an iteration.
\<close>

section \<open>The catalog and the registry failures\<close>

record 'x catalog =
  ct_provides :: "'x goerr + string list"
  ct_requires :: "'x goerr + (string \<times> string) list"

text \<open>What the controller asks of the library beyond \<open>errlib\<close>: whether an error is ErrTransient, the
  status of a FetchError, the path and major of a qualified module path
  (ast.SplitPackageVersion), and semver.Compare.\<close>

record 'x registry_lib =
  rl_transient :: "'x \<Rightarrow> bool"
  rl_fetch_status :: "'x \<Rightarrow> int option"
  rl_split :: "string \<Rightarrow> (string \<times> string) option"
  rl_semver :: "string \<Rightarrow> string \<Rightarrow> int"

definition keeps_verdict :: "'x errlib \<Rightarrow> 'x registry_lib \<Rightarrow> 'x goerr \<Rightarrow> bool" where
  "keeps_verdict E L err =
     (if \<not> is_transient_failure E (Some err) then False
      else if as_lib (rl_transient L) err then True
      else as_first (rl_fetch_status L) err = Some 429)"

definition verdict_stands :: "registration \<Rightarrow> bool" where
  "verdict_stands c = (rt_accepted (tr_status c) \<and> rt_observed_generation (tr_status c) = tr_generation c)"

definition hold_backoff :: "time \<Rightarrow> time \<Rightarrow> duration" where
  "hold_backoff since now =
     (let delay = now - since
      in if delay < backoff_base_delay then backoff_base_delay
         else if delay > backoff_max_delay then backoff_max_delay else delay)"


section \<open>The guard finalizer\<close>

definition claim_finalizer_name :: string where "claim_finalizer_name = ''opmodel.dev/dependents''"

definition contributes_after_deletion :: "registration \<Rightarrow> bool" where
  "contributes_after_deletion c = (claim_finalizer_name \<in> set (tr_finalizers c))"

text \<open>A claim that is not on its way out.\<close>

definition competes :: "registration \<Rightarrow> bool" where
  "competes c = (\<not> (tr_deletion_timestamp c \<noteq> None \<and> \<not> contributes_after_deletion c))"

text \<open>The names of the instances that demand a contract the claim provides, sorted.\<close>

definition demands :: "registration \<Rightarrow> module_instance \<Rightarrow> bool" where
  "demands c mi = list_ex (\<lambda>fqn. fqn \<in> set (rg_provides (tr_spec c))) (is_required_contracts (mi_status mi))"

definition instance_path :: "module_instance \<Rightarrow> string" where
  "instance_path mi = mi_namespace mi @ ''/'' @ mi_name mi"

definition dependents_of :: "registration \<Rightarrow> module_instance list \<Rightarrow> string list" where
  "dependents_of c mis = sort (map instance_path (filter (demands c) mis))"


section \<open>One claim for a catalog, one provider for a contract\<close>

definition older_claim :: "registration \<Rightarrow> registration \<Rightarrow> bool" where
  "older_claim a b = (if tr_created a = tr_created b then tr_name a < tr_name b else tr_created a < tr_created b)"

definition holder_step :: "registration \<Rightarrow> registration \<Rightarrow> registration \<Rightarrow> registration" where
  "holder_step c h x =
     (if tr_name x = tr_name c \<or> rg_catalog (tr_spec x) \<noteq> rg_catalog (tr_spec c) then h
      else if \<not> competes x then h
      else if older_claim x h then x else h)"

definition holder_of :: "registration list \<Rightarrow> registration \<Rightarrow> string" where
  "holder_of cs c =
     (let h = foldl (holder_step c) c cs in if tr_name h = tr_name c then [] else tr_name h)"

text \<open>The first contract another registry entry provides, with that entry, or two empty strings.\<close>

fun subscribed_walk :: "(string \<times> string list) list \<Rightarrow> string \<Rightarrow> string list \<Rightarrow> string \<times> string" where
  "subscribed_walk providers own [] = ([], [])"
| "subscribed_walk providers own (fqn # fqns) =
     (case find (\<lambda>held. held \<noteq> own) (case map_of providers fqn of None \<Rightarrow> [] | Some es \<Rightarrow> es) of
        Some held \<Rightarrow> (fqn, held)
      | None \<Rightarrow> subscribed_walk providers own fqns)"

definition subscribed_contract ::
    "string list \<Rightarrow> (string \<times> string list) list \<Rightarrow> string \<Rightarrow> string \<times> string" where
  "subscribed_contract provides providers own = subscribed_walk providers own (sort provides)"

fun holder_walk :: "string list \<Rightarrow> registration list \<Rightarrow> string \<times> string" where
  "holder_walk claimed [] = ([], [])"
| "holder_walk claimed (x # xs) =
     (case find (\<lambda>fqn. fqn \<in> set (rg_provides (tr_spec x))) claimed of
        Some fqn \<Rightarrow> (fqn, tr_name x)
      | None \<Rightarrow> holder_walk claimed xs)"

definition holds_contracts :: "registration \<Rightarrow> registration \<Rightarrow> bool" where
  "holds_contracts c x = (\<not> (tr_name x = tr_name c \<or> \<not> rt_active (tr_status x)) \<and> competes x)"

definition active_contract_holder :: "registration list \<Rightarrow> registration \<Rightarrow> string \<times> string" where
  "active_contract_holder cs c =
     holder_walk (sort (rg_provides (tr_spec c))) (sort_key tr_name (filter (holds_contracts c) cs))"


section \<open>The contracts and the provider of a claim\<close>

text \<open>No text when the lists match.\<close>

definition provides_drift :: "'x errlib \<Rightarrow> 'x catalog \<Rightarrow> string list \<Rightarrow> string option" where
  "provides_drift E cat claimed =
     (case ct_provides cat of
        Inl e \<Rightarrow> Some (''Claimed catalog's provider contracts could not be derived: '' @ err_text E e)
      | Inr derived \<Rightarrow>
          (let want = sort claimed; got = sort derived
           in if want = got then None
              else Some (''Claim lists provider contracts ['' @ join '', '' want @
                ''] but the catalog implements ['' @ join '', '' got @
                '']; acceptance requires them to match exactly'')))"

datatype identity_verdict = IdentityOK module_instance | IdentityPending string | IdentityRefused string

definition owns_claim :: "string \<Rightarrow> inventory_entry \<Rightarrow> bool" where
  "owns_claim name e = (ie_group e = api_group \<and> ie_kind e = registration_kind \<and> ie_name e = name)"

definition provider_path :: "registration \<Rightarrow> string" where
  "provider_path c = pv_namespace (rg_provider (tr_spec c)) @ ''/'' @ pv_name (rg_provider (tr_spec c))"

text \<open>checkProviderIdentity, on the answer of the read of the instance.\<close>

definition provider_identity ::
    "'x errlib \<Rightarrow> registration \<Rightarrow> 'x goerr + module_instance \<Rightarrow> identity_verdict" where
  "provider_identity E c answer =
     (case answer of
        Inl e \<Rightarrow>
          if ae_not_found E e
          then IdentityRefused (''Claim names provider ModuleInstance '' @ provider_path c @
                 '', which does not exist, so the claim is not rendered output'')
          else IdentityPending (''Provider ModuleInstance '' @ provider_path c @ '' could not be read: '' @ err_text E e)
      | Inr mi \<Rightarrow>
          (case is_inventory (mi_status mi) of
             None \<Rightarrow> IdentityPending (''Provider ModuleInstance '' @ provider_path c @ '' has not written an inventory yet'')
           | Some stock \<Rightarrow>
               if list_ex (owns_claim (tr_name c)) (inv_entries stock) then IdentityOK mi
               else IdentityRefused (''Claim '' @ tr_name c @ '' names provider ModuleInstance '' @ provider_path c @
                 '', whose inventory does not own it, so the claim did not come from the instance it names'')))"


section \<open>Build compatibility\<close>

definition opm_namespace_prefixes :: "string list" where
  "opm_namespace_prefixes = [''opmodel.dev/'', ''testing.opmodel.dev/'']"

definition in_opm_namespace :: "string \<Rightarrow> bool" where
  "in_opm_namespace path = list_ex (has_prefix path) opm_namespace_prefixes"

definition conservative_refusal :: "string \<Rightarrow> string \<Rightarrow> string \<Rightarrow> string \<Rightarrow> string \<Rightarrow> string" where
  "conservative_refusal base qualified catalog_version platform_version why =
     ''Claimed catalog requires '' @ qualified @ '' at '' @ quote catalog_version @
     '' but the platform resolved '' @ quote platform_version @ '': '' @ why @
     ''. The comparison is conservative: a cue.mod requirement records what the provider was tidied '' @
     ''against, not what it uses, so lowering the requirement on '' @ base @ '' is the author's fix.''"

definition version_at :: "(string \<times> string) list \<Rightarrow> string \<Rightarrow> string" where
  "version_at reqs path = (case map_of reqs path of None \<Rightarrow> [] | Some v \<Rightarrow> v)"

definition resolved_majors :: "string list \<Rightarrow> (string \<times> string) list \<Rightarrow> string" where
  "resolved_majors paths reqs =
     join '', '' (map (\<lambda>p. if version_at reqs p \<noteq> [] then p @ '' at '' @ version_at reqs p else p) paths)"

text \<open>The platform's paths of one base path, sorted.\<close>

definition majors_of :: "'x registry_lib \<Rightarrow> (string \<times> string) list \<Rightarrow> string \<Rightarrow> string list" where
  "majors_of L reqs base =
     sort (filter (\<lambda>p. map_option fst (rl_split L p) = Some base) (map fst reqs))"

text \<open>One requirement: no text when it is compatible.\<close>

definition incompatible_path ::
    "'x registry_lib \<Rightarrow> (string \<times> string) list \<Rightarrow> (string \<times> string) list \<Rightarrow> string \<Rightarrow> string" where
  "incompatible_path L wants reqs path =
     (if \<not> in_opm_namespace path then []
      else case rl_split L path of
        None \<Rightarrow> []
      | Some (base, major) \<Rightarrow>
          (let want = version_at wants path
           in case map_of reqs path of
                Some have \<Rightarrow>
                  if want = [] \<or> have = [] then []
                  else if rl_semver L want have > 0
                  then conservative_refusal base path want have
                         ''a provider cannot require a newer build than the platform it runs in''
                  else []
              | None \<Rightarrow>
                  if majors_of L reqs base = [] then []
                  else conservative_refusal base path want (resolved_majors (majors_of L reqs base) reqs)
                         ''majors are not comparable, so the requirement is refused without comparing versions''))"

fun incompatible_walk ::
    "'x registry_lib \<Rightarrow> (string \<times> string) list \<Rightarrow> (string \<times> string) list \<Rightarrow> string list \<Rightarrow> string" where
  "incompatible_walk L wants reqs [] = []"
| "incompatible_walk L wants reqs (p # ps) =
     (if incompatible_path L wants reqs p \<noteq> [] then incompatible_path L wants reqs p
      else incompatible_walk L wants reqs ps)"

definition build_incompatibility ::
    "'x registry_lib \<Rightarrow> 'x catalog \<Rightarrow> (string \<times> string) list \<Rightarrow> 'x goerr + string" where
  "build_incompatibility L cat reqs =
     (case ct_requires cat of
        Inl e \<Rightarrow> Inl e
      | Inr wants \<Rightarrow> Inr (incompatible_walk L wants reqs (sort (map fst wants))))"


section \<open>Watches\<close>

text \<open>An update of a claim is seen when its generation moved or it acquired a deletion timestamp.\<close>

definition claim_spec_or_deletion_changed :: "registration \<Rightarrow> registration \<Rightarrow> bool" where
  "claim_spec_or_deletion_changed old new =
     (tr_generation new \<noteq> tr_generation old \<or>
      (tr_deletion_timestamp old = None \<and> tr_deletion_timestamp new \<noteq> None))"

definition provides_any :: "registration \<Rightarrow> string set \<Rightarrow> bool" where
  "provides_any c demanded = list_ex (\<lambda>fqn. fqn \<in> demanded) (rg_provides (tr_spec c))"

definition claims_of_platform :: "'x goerr + registration list \<Rightarrow> string list" where
  "claims_of_platform answer = (case answer of Inl e \<Rightarrow> [] | Inr cs \<Rightarrow> map tr_name cs)"

definition names_provider :: "registration \<Rightarrow> module_instance \<Rightarrow> bool" where
  "names_provider c mi =
     (pv_namespace (rg_provider (tr_spec c)) = mi_namespace mi \<and> pv_name (rg_provider (tr_spec c)) = mi_name mi)"

definition claims_of_instance :: "'x goerr + registration list \<Rightarrow> module_instance \<Rightarrow> string list" where
  "claims_of_instance answer mi =
     (case answer of
        Inl e \<Rightarrow> []
      | Inr cs \<Rightarrow>
          map tr_name (filter (\<lambda>c. \<not> (\<not> names_provider c mi \<and>
            \<not> provides_any c (set (is_required_contracts (mi_status mi))))) cs))"

record provider_facts =
  fa_ready :: "cond_status option"
  fa_inventory_digest :: string
  fa_demand :: string

definition read_provider_facts :: "condlib \<Rightarrow> module_instance \<Rightarrow> provider_facts" where
  "read_provider_facts K mi =
     \<lparr>fa_ready = map_option c_status (k_find K ready_condition (is_conditions (mi_status mi))),
      fa_inventory_digest = (case is_inventory (mi_status mi) of None \<Rightarrow> [] | Some i \<Rightarrow> inv_digest i),
      fa_demand = join [CHR 0x0A] (is_required_contracts (mi_status mi))\<rparr>"

text \<open>An update of an instance is seen when one of these facts moved.\<close>

definition provider_facts_changed :: "condlib \<Rightarrow> module_instance \<Rightarrow> module_instance \<Rightarrow> bool" where
  "provider_facts_changed K old new = (read_provider_facts K old \<noteq> read_provider_facts K new)"

end
