(* ===== verification/Platform_Inventory.thy ===== *)
theory Platform_Inventory
  imports Platform_Store Conditions "HOL-Library.Multiset"
begin

text \<open>
  internal/controller/platform_inventory.go: what a built platform's contract inventory says about
  recording the package, and the report of unfulfilled contracts.
\<close>

section \<open>The inventory\<close>

text \<open>The OPM library's platform.ContractInventory; a Go map is an association list.\<close>

record comparable_predicates =
  cp_broader :: string
  cp_narrower :: string
  cp_contracts :: "string list"

record contract_inventory =
  ci_defined_by :: "(string \<times> string) list"
  ci_provided_by :: "(string \<times> string list) list"
  ci_over_subscribed :: "string list"
  ci_collisions :: "string list"
  ci_colliding_entries :: "(string \<times> string list) list"
  ci_comparable :: "comparable_predicates list"
  ci_unfulfilled :: "string list"
  ci_routable :: bool
  ci_discriminated :: bool
  ci_fulfilled :: bool

definition listed_at :: "(string \<times> string list) list \<Rightarrow> string \<Rightarrow> string list" where
  "listed_at m k = (case map_of m k of None \<Rightarrow> [] | Some xs \<Rightarrow> xs)"

definition newline :: string where "newline = [CHR 0x0A]"


section \<open>Wording\<close>

definition counted :: "nat \<Rightarrow> string \<Rightarrow> string \<Rightarrow> string" where
  "counted n singular plural = (if n = 1 then ''1 '' @ singular else itoa n @ '' '' @ plural)"

definition defined_by :: "contract_inventory \<Rightarrow> string \<Rightarrow> string" where
  "defined_by i contract =
     (case map_of (ci_defined_by i) contract of
        None \<Rightarrow> []
      | Some c \<Rightarrow> if c \<noteq> [] then '' (defined by '' @ c @ '')'' else [])"

definition collision_finding :: "contract_inventory \<Rightarrow> string" where
  "collision_finding i =
     (let keys = sort (ci_collisions i)
      in ''platform is not routable: '' @ counted (length keys) ''colliding contract'' ''colliding contracts'' @
         ''; a platform package cannot be generated until all but one of the registry entries defining each is disabled:'' @
         concat (map (\<lambda>k. newline @ ''  '' @ k @ '' defined by '' @
           join '', '' (sort (listed_at (ci_colliding_entries i) k))) keys))"

definition unroutable_finding :: string where
  "unroutable_finding =
     ''platform is not routable; the contract inventory names no over-subscribed or colliding contract, '' @
     ''so a platform package cannot be generated''"

definition over_subscribed_finding :: "contract_inventory \<Rightarrow> string" where
  "over_subscribed_finding i =
     (let contracts = sort (ci_over_subscribed i)
      in ''platform is not routable: '' @
         counted (length contracts) ''over-subscribed contract'' ''over-subscribed contracts'' @
         ''; a platform package cannot be generated until one competing catalog is disabled or its claim removed:'' @
         concat (map (\<lambda>c. newline @ ''  '' @ c @ defined_by i c @ '' provided by '' @
           join '', '' (sort (listed_at (ci_provided_by i) c))) contracts))"

text \<open>slices.SortFunc orders the pairs by their names; pairs with the same names keep no order.\<close>

definition comparable_key :: "comparable_predicates \<Rightarrow> string \<times> string" where
  "comparable_key p = (cp_broader p, cp_narrower p)"

fun insert_row :: "comparable_predicates \<Rightarrow> comparable_predicates list \<Rightarrow> comparable_predicates list" where
  "insert_row p [] = [p]"
| "insert_row p (q # qs) =
     (if cp_broader p < cp_broader q \<or> (cp_broader p = cp_broader q \<and> cp_narrower p \<le> cp_narrower q)
      then p # q # qs else q # insert_row p qs)"

definition sort_rows :: "comparable_predicates list \<Rightarrow> comparable_predicates list" where
  "sort_rows rows = foldr insert_row rows []"

definition comparable_finding :: "contract_inventory \<Rightarrow> string" where
  "comparable_finding i =
     (let rows = sort_rows (ci_comparable i)
      in ''platform is not discriminated: '' @
         counted (length rows) ''comparable transformer pair'' ''comparable transformer pairs'' @
         ''; every component the narrower transformer matches is also matched by the broader one, so both would render:'' @
         concat (map (\<lambda>r. newline @ ''  '' @ cp_broader r @ '' (broader) and '' @ cp_narrower r @ '' (narrower) over '' @
           join '', '' (sort (cp_contracts r))) rows))"


section \<open>The gate\<close>

text \<open>The reason and the message of a refusal; nothing when the package may be recorded.\<close>

definition inventory_refusal :: "contract_inventory \<Rightarrow> (string \<times> string) option" where
  "inventory_refusal i =
     (let collisions = (0 < length (ci_collisions i));
          over = (0 < length (ci_over_subscribed i));
          unexplained = (\<not> ci_routable i \<and> length (ci_collisions i) = 0 \<and> length (ci_over_subscribed i) = 0);
          findings = (if collisions then [collision_finding i] else []) @
                     (if over then [over_subscribed_finding i] else []) @
                     (if unexplained then [unroutable_finding] else []) @
                     (if \<not> ci_discriminated i then [comparable_finding i] else []);
          reason = (if collisions then ''ContractCollisions''
                    else if over \<or> unexplained then ''OverSubscribedContracts''
                    else ''ComparablePredicates'')
      in if length findings = 0 then None else Some (reason, join (newline @ newline) findings))"

definition contracts_fulfilled_condition :: string where
  "contracts_fulfilled_condition = ''ContractsFulfilled''"

text \<open>The mark of setContractsFulfilled.\<close>

definition set_contracts_fulfilled :: "condlib \<Rightarrow> contract_inventory \<Rightarrow> mark" where
  "set_contracts_fulfilled K i =
     (if length (ci_defined_by i) = 0 then
        k_set K CTrue contracts_fulfilled_condition ''NoContractsDefined''
          ''the enabled catalogs define no contract, so nothing was verified''
      else if \<not> ci_fulfilled i then
        (let contracts = sort (ci_unfulfilled i)
         in k_set K CFalse contracts_fulfilled_condition ''UnfulfilledContracts''
              (counted (length contracts) ''provider-fulfilled contract is'' ''provider-fulfilled contracts are'' @
               '' defined by an enabled catalog and implemented by nothing on the platform; a module demanding one will not resolve until a provider registers:'' @
               concat (map (\<lambda>c. newline @ ''  '' @ c @ defined_by i c) contracts)))
      else k_set K CTrue contracts_fulfilled_condition ''ContractsFulfilled''
             (''every provider-fulfilled contract the enabled catalogs define has a provider ('' @
              itoa (length (ci_defined_by i)) @ '' defined)''))"


section \<open>Properties\<close>

text \<open>Two inventories that say the same in another order.\<close>

definition same_inventory :: "contract_inventory \<Rightarrow> contract_inventory \<Rightarrow> bool" where
  "same_inventory i j =
     (ci_defined_by i = ci_defined_by j \<and>
      (\<forall>k. mset (listed_at (ci_provided_by i) k) = mset (listed_at (ci_provided_by j) k)) \<and>
      (\<forall>k. mset (listed_at (ci_colliding_entries i) k) = mset (listed_at (ci_colliding_entries j) k)) \<and>
      mset (ci_over_subscribed i) = mset (ci_over_subscribed j) \<and>
      mset (ci_collisions i) = mset (ci_collisions j) \<and>
      mset (ci_comparable i) = mset (ci_comparable j) \<and>
      ci_routable i = ci_routable j \<and> ci_discriminated i = ci_discriminated j)"

lemma sort_mset: "mset xs = mset ys \<Longrightarrow> sort xs = sort (ys :: 'a :: linorder list)"
  by (metis properties_for_sort sorted_sort mset_sort)

lemma mset_length: "mset xs = mset ys \<Longrightarrow> length xs = length ys"
  by (metis size_mset)

lemma mset_insert_row [simp]: "mset (insert_row p rows) = add_mset p (mset rows)"
  by (induction rows) auto

lemma mset_sort_rows [simp]: "mset (sort_rows rows) = mset rows"
  by (induction rows) (auto simp: sort_rows_def)

definition row_le :: "comparable_predicates \<Rightarrow> comparable_predicates \<Rightarrow> bool" where
  "row_le p q = (cp_broader p < cp_broader q \<or> (cp_broader p = cp_broader q \<and> cp_narrower p \<le> cp_narrower q))"

lemma row_le_trans: "row_le p q \<Longrightarrow> row_le q r \<Longrightarrow> row_le p r"
  by (auto simp: row_le_def)

lemma row_le_total: "row_le p q \<or> row_le q p"
  by (auto simp: row_le_def)

lemma sorted_insert_row: "sorted_wrt row_le rows \<Longrightarrow> sorted_wrt row_le (insert_row p rows)"
proof (induction rows)
  case (Cons q rows)
  have set: "set (insert_row p rows) = insert p (set rows)"
    using mset_insert_row [of p rows] by (metis set_mset_add_mset_insert set_mset_mset)
  show ?case
  proof (cases "row_le p q")
    case True
    then show ?thesis using Cons.prems row_le_trans by (auto simp: row_le_def [symmetric])
  next
    case False
    then have "row_le q p" using row_le_total by blast
    then show ?thesis using Cons False by (simp add: row_le_def [symmetric] set)
  qed
qed simp

lemma sorted_sort_rows: "sorted_wrt row_le (sort_rows rows)"
  unfolding sort_rows_def by (induction rows) (auto intro: sorted_insert_row)

text \<open>With one row for each pair of names the sorted rows are determined by the set of rows.\<close>

definition distinct_pairs :: "comparable_predicates list \<Rightarrow> bool" where
  "distinct_pairs rows = distinct (map comparable_key rows)"

lemma sorted_rows_unique:
  assumes "sorted_wrt row_le xs" and "sorted_wrt row_le ys" and "mset xs = mset ys" and "distinct_pairs xs"
  shows "xs = ys"
  using assms
proof (induction xs arbitrary: ys)
  case (Cons x xs)
  then obtain y ys' where ys: "ys = y # ys'" by (cases ys) auto
  have sets: "set (x # xs) = set (y # ys')" using Cons.prems(3) ys by (metis set_mset_mset)
  have "row_le x y" "row_le y x"
    using Cons.prems(1,2) ys sets by (auto simp: row_le_def)
  then have "comparable_key x = comparable_key y" by (auto simp: row_le_def comparable_key_def)
  moreover have "y \<in> set (x # xs)" using sets by auto
  ultimately have "x = y" using Cons.prems(4) by (auto simp: distinct_pairs_def)
  then show ?case using Cons ys by (auto simp: distinct_pairs_def)
qed simp

lemma sort_rows_mset: "mset xs = mset ys \<Longrightarrow> distinct_pairs xs \<Longrightarrow> sort_rows xs = sort_rows ys"
proof (rule sorted_rows_unique)
  assume "mset xs = mset ys" "distinct_pairs xs"
  moreover have "mset (map comparable_key (sort_rows xs)) = mset (map comparable_key xs)" by simp
  ultimately show "distinct_pairs (sort_rows xs)"
    unfolding distinct_pairs_def by (metis mset_eq_imp_distinct_iff)
qed (simp_all add: sorted_sort_rows)

definition may_record :: "contract_inventory \<Rightarrow> bool" where
  "may_record i = (ci_collisions i = [] \<and> ci_over_subscribed i = [] \<and> ci_routable i \<and> ci_discriminated i)"

text \<open>C28: the gate refuses exactly the inventories with a collision, an over-subscribed contract, a
  routing or a discrimination verdict against them, also one that explains nothing; a collision names
  the reason before an over-subscription, and that before a comparable pair; and the reason and the
  message are those of every listing of the same inventory, so a repeated finding is the same text.\<close>

theorem inventory_gate:
  assumes "same_inventory i j" and "distinct_pairs (ci_comparable i)"
  shows "(inventory_refusal i = None \<longleftrightarrow> may_record i) \<and> inventory_refusal i = inventory_refusal j \<and>
    (case inventory_refusal i of
       None \<Rightarrow> True
     | Some (reason, msg) \<Rightarrow>
         msg \<noteq> [] \<and>
         reason = (if ci_collisions i \<noteq> [] then ''ContractCollisions''
                   else if ci_over_subscribed i \<noteq> [] \<or> \<not> ci_routable i then ''OverSubscribedContracts''
                   else ''ComparablePredicates''))"
proof -
  have lengths: "length (ci_collisions i) = length (ci_collisions j)"
    "length (ci_over_subscribed i) = length (ci_over_subscribed j)"
    using assms(1) by (auto simp: same_inventory_def intro: mset_length)
  have rows: "sort_rows (ci_comparable i) = sort_rows (ci_comparable j)"
    using assms by (auto simp: same_inventory_def intro: sort_rows_mset)
  have sorts: "sort (ci_collisions i) = sort (ci_collisions j)"
    "sort (ci_over_subscribed i) = sort (ci_over_subscribed j)"
    "sort (listed_at (ci_provided_by i) k) = sort (listed_at (ci_provided_by j) k)"
    "sort (listed_at (ci_colliding_entries i) k) = sort (listed_at (ci_colliding_entries j) k)" for k
    using assms(1) by (auto simp: same_inventory_def intro: sort_mset)
  have findings: "collision_finding i = collision_finding j" "over_subscribed_finding i = over_subscribed_finding j"
    "comparable_finding i = comparable_finding j"
    using assms(1) by (simp_all add: collision_finding_def over_subscribed_finding_def comparable_finding_def
        sorts rows defined_by_def same_inventory_def)
  have same: "inventory_refusal i = inventory_refusal j"
    using assms(1) lengths by (simp add: inventory_refusal_def findings same_inventory_def Let_def)
  have words: "collision_finding i \<noteq> []" "over_subscribed_finding i \<noteq> []" "comparable_finding i \<noteq> []"
    "unroutable_finding \<noteq> []"
    by (simp_all add: collision_finding_def over_subscribed_finding_def comparable_finding_def unroutable_finding_def Let_def)
  have joined: "join sep (x # xs) = [] \<longleftrightarrow> x = [] \<and> (xs = [] \<or> sep = [] \<and> join sep xs = [])" for sep x xs
    by (cases xs) auto
  show ?thesis
    unfolding same [symmetric]
    by (auto simp: inventory_refusal_def may_record_def Let_def words joined)
qed

definition sample_inventory :: contract_inventory where
  "sample_inventory =
     \<lparr>ci_defined_by = [(''c/backup@v1'', ''opmodel.dev/a@v0'')],
      ci_provided_by = [(''c/backup@v1'', [''opmodel.dev/b@v1'', ''opmodel.dev/a@v1''])],
      ci_over_subscribed = [''c/backup@v1''], ci_collisions = [], ci_colliding_entries = [],
      ci_comparable = [], ci_unfulfilled = [], ci_routable = False, ci_discriminated = True, ci_fulfilled = True\<rparr>"

theorem inventory_gate_witness:
  "\<exists>msg. inventory_refusal sample_inventory = Some (''OverSubscribedContracts'', msg) \<and>
     inventory_refusal (sample_inventory
       \<lparr>ci_provided_by := [(''c/backup@v1'', [''opmodel.dev/a@v1'', ''opmodel.dev/b@v1''])]\<rparr>) =
       Some (''OverSubscribedContracts'', msg)"
proof -
  let ?j = "sample_inventory\<lparr>ci_provided_by := [(''c/backup@v1'', [''opmodel.dev/a@v1'', ''opmodel.dev/b@v1''])]\<rparr>"
  have "same_inventory sample_inventory ?j" "distinct_pairs (ci_comparable sample_inventory)"
    by (auto simp: same_inventory_def sample_inventory_def listed_at_def distinct_pairs_def)
  note inventory_gate [OF this]
  moreover have "\<not> may_record sample_inventory" "ci_collisions sample_inventory = []"
    "ci_over_subscribed sample_inventory \<noteq> []"
    by (simp_all add: may_record_def sample_inventory_def)
  ultimately show ?thesis by (auto split: option.splits prod.splits)
qed

end
