(* ===== verification/Registration.thy ===== *)
theory Registration
  imports Registration_Rules Platform_Inventory Object_Logic
begin

text \<open>
  The reconcile of a TransformerRegistration: the acceptance of a claim, its activation, the verdict
  that is kept through a registry failure, and the removal that waits for the dependents
  (internal/controller/transformerregistration_controller.go and
  transformerregistration_dependents.go).
\<close>

section \<open>Parameters and state\<close>

text \<open>The state of a reconciler that reads the platform store, which is process-local.\<close>

record ('w, 'o, 'b) ssys = "('w, 'o) osys" +
  ss_store :: "'b platform_store"

type_synonym ('w, 'o, 'b, 'z, 'a) sprog = "('w, 'o, ('b, 'z) ssys_ext, 'a) oprog"
type_synonym ('w, 'b, 'z, 'a) tprog = "('w, registration, 'b option, 'z, 'a) sprog"

text \<open>
  TransformerRegistrationReconciler with the third-party code behind it: the client, the kernel that
  acquires a catalog, the module file of the generated platform (\<open>tp_read_mod\<close> is os.ReadFile of it,
  \<open>tp_parse_mod\<close> is modfile.Parse, with the dependencies that are not nil), the contract inventory of
  a built platform (\<open>'b\<close>; none when the record carries no platform), and wait.Jitter.
\<close>

record ('w, 'x, 'b) registration_params =
  tp_err :: "'x errlib"
  tp_cond :: condlib
  tp_clock :: "'w ticker"
  tp_lib :: "'x registry_lib"
  tp_get_claim :: "string \<Rightarrow> 'w \<Rightarrow> ('x goerr + registration) \<times> 'w"
  tp_get_instance :: "string \<Rightarrow> string \<Rightarrow> 'w \<Rightarrow> ('x goerr + module_instance) \<times> 'w"
  tp_list_claims :: "'w \<Rightarrow> ('x goerr + registration list) \<times> 'w"
  tp_list_instances :: "'w \<Rightarrow> ('x goerr + module_instance list) \<times> 'w"
  tp_patch :: "string list \<Rightarrow> registration \<Rightarrow> 'w \<Rightarrow> 'x goerr option \<times> 'w"
  tp_patch_meta :: "registration \<Rightarrow> 'w \<Rightarrow> ('x goerr + registration) \<times> 'w"
  tp_acquire :: "string \<Rightarrow> string \<Rightarrow> 'w \<Rightarrow> ('x goerr + 'x catalog) \<times> 'w"
  tp_read_mod :: "string \<Rightarrow> 'w \<Rightarrow> 'x goerr + string"
  tp_parse_mod :: "string \<Rightarrow> 'x goerr + (string \<times> string) list"
  tp_contracts :: "'b \<Rightarrow> 'x goerr + contract_inventory"
  tp_jitter :: "duration \<Rightarrow> 'w \<Rightarrow> duration \<times> 'w"

definition active_condition :: string where "active_condition = ''Active''"

definition registration_view :: "registration object_view" where
  "registration_view =
     \<lparr>ov_conditions = (\<lambda>c. rt_conditions (tr_status c)),
      ov_set_conditions = (\<lambda>cs c. c\<lparr>tr_status := (tr_status c)\<lparr>rt_conditions := cs\<rparr>\<rparr>),
      ov_annotations = (\<lambda>c. []), ov_deletion_timestamp = tr_deletion_timestamp, ov_namespace = (\<lambda>c. [])\<rparr>"

definition registration_ref :: "string \<Rightarrow> object_ref" where
  "registration_ref name =
     \<lparr>or_group = api_group, or_kind = registration_kind, or_namespace = [], or_name = name\<rparr>"

definition provider_ref :: "registration \<Rightarrow> object_ref" where
  "provider_ref c =
     \<lparr>or_group = api_group, or_kind = ''ModuleInstance'',
      or_namespace = pv_namespace (rg_provider (tr_spec c)), or_name = pv_name (rg_provider (tr_spec c))\<rparr>"

definition change_registration :: "(registration_status \<Rightarrow> registration_status) \<Rightarrow> ('w, 'b, 'z, unit) tprog" where
  "change_registration f = change_object (\<lambda>c. c\<lparr>tr_status := f (tr_status c)\<rparr>)"

definition mark_tr :: "('w, 'x, 'b) registration_params \<Rightarrow> mark \<Rightarrow> ('w, 'b, 'z, unit) tprog" where
  "mark_tr P m = mark_object (tp_clock P) registration_view m"

text \<open>The patcher sends the metadata and the status.\<close>

definition patch_registration :: "('w, 'x, 'b) registration_params \<Rightarrow> ('w, 'b, 'z, 'x goerr option) tprog" where
  "patch_registration P =
     do { c \<leftarrow> the_object;
          request (PatchRegistrationAct (tr_finalizers c) (tr_status c))
            (tp_patch P [ready_condition, reconciling_condition, stalled_condition, active_condition] c) }"

definition lease_current :: "('w, 'o, 'b, 'z, 'b generated option) sprog" where
  "lease_current =
     State (\<lambda>s. case lease (ss_store s) of None \<Rightarrow> (None, s) | Some (g, st) \<Rightarrow> (Some g, s\<lparr>ss_store := st\<rparr>))"

definition release_held :: "'b generated \<Rightarrow> ('w, 'o, 'b, 'z, unit) sprog" where
  "release_held g = State (\<lambda>s. ((), s\<lparr>ss_store := release_lease (gn_identity g) (ss_store s)\<rparr>))"


section \<open>The ruling\<close>

text \<open>What acceptance decides of a claim; each return of Reconcile records one.\<close>

datatype 'x ruling =
    Defer string string
  | Refuse string string
  | Hold "'x goerr"
  | Accept module_instance

definition rule_unacquired :: "('w, 'x, 'b) registration_params \<Rightarrow> registration \<Rightarrow> 'x goerr \<Rightarrow> 'x ruling" where
  "rule_unacquired P c err =
     (let named = rg_catalog (tr_spec c) @ '' at '' @ rg_version (tr_spec c)
      in if as_lib (el_wrong_kind (tp_err P)) err
         then Refuse ''CatalogWrongKind'' (''Claimed artifact '' @ named @ '' is not a catalog: '' @ err_text (tp_err P) err)
         else if verdict_stands c \<and> keeps_verdict (tp_err P) (tp_lib P) err then Hold err
         else Refuse ''CatalogUnresolved''
           (''Claimed catalog '' @ named @ '' could not be resolved: '' @ err_text (tp_err P) err))"

definition platform_requirements ::
    "('w, 'x, 'b) registration_params \<Rightarrow> string \<Rightarrow> 'w \<Rightarrow> 'x goerr + (string \<times> string) list" where
  "platform_requirements P dir w =
     (case tp_read_mod P dir w of
        Inl e \<Rightarrow> Inl (Fmt (''reading generated platform cue.mod/module.cue: '' @ err_text (tp_err P) e) [e])
      | Inr bytes \<Rightarrow>
          (case tp_parse_mod P bytes of
             Inl e \<Rightarrow> Inl (Fmt (''parsing generated platform cue.mod/module.cue: '' @ err_text (tp_err P) e) [e])
           | Inr reqs \<Rightarrow> Inr reqs))"

text \<open>The last arm: no other active claim provides one of the claim's contracts.\<close>

definition judge_active ::
    "('w, 'x, 'b) registration_params \<Rightarrow> registration \<Rightarrow> module_instance \<Rightarrow> ('w, 'z, 'x ruling) prog" where
  "judge_active P c provider =
     do { r \<leftarrow> request (ListAct registration_kind) (tp_list_claims P);
          State_Monad.return (case r of
            Inl e \<Rightarrow> Defer ''ContractClaimed''
              (''Competing providers of this claim's contracts could not be listed: '' @ err_text (tp_err P) e)
          | Inr cs \<Rightarrow>
              (let (contract, holder) = active_contract_holder cs c
               in if contract \<noteq> []
                  then Refuse ''ContractClaimed'' (''Contract '' @ contract @ '' is already provided by active claim '' @
                    holder @ ''; a contract has exactly one provider, so remove one of the two providers'')
                  else Accept provider)) }"

definition judge_contracts ::
    "('w, 'x, 'b) registration_params \<Rightarrow> 'b option generated \<Rightarrow> registration \<Rightarrow> module_instance \<Rightarrow>
     ('w, 'z, 'x ruling) prog" where
  "judge_contracts P g c provider =
     (case gn_platform g of
        None \<Rightarrow> State_Monad.return (Defer ''PlatformNotReady''
          ''The generated platform's contract providers could not be read: no platform has been built'')
      | Some p \<Rightarrow>
          (case tp_contracts P p of
             Inl e \<Rightarrow> State_Monad.return (Defer ''PlatformNotReady''
               (''The generated platform's contract providers could not be read: '' @ err_text (tp_err P) e))
           | Inr i \<Rightarrow>
               (let (contract, entry) =
                  subscribed_contract (rg_provides (tr_spec c)) (ci_provided_by i) (rg_catalog (tr_spec c))
                in if contract \<noteq> []
                   then State_Monad.return (Refuse ''ContractSubscribed'' (''Contract '' @ contract @
                     '' is already provided by subscribed catalog '' @ entry @
                     ''; a contract has exactly one provider, so disable that subscription or withdraw this claim''))
                   else judge_active P c provider)))"

definition judge_holder ::
    "('w, 'x, 'b) registration_params \<Rightarrow> 'b option generated \<Rightarrow> registration \<Rightarrow> module_instance \<Rightarrow>
     ('w, 'z, 'x ruling) prog" where
  "judge_holder P g c provider =
     do { r \<leftarrow> request (ListAct registration_kind) (tp_list_claims P);
          case r of
            Inl e \<Rightarrow> State_Monad.return (Defer ''DuplicateClaim'' (''Competing claims for catalog '' @
              rg_catalog (tr_spec c) @ '' could not be listed: '' @ err_text (tp_err P) e))
          | Inr cs \<Rightarrow>
              (if holder_of cs c \<noteq> []
               then State_Monad.return (Refuse ''DuplicateClaim'' (''Claim '' @ holder_of cs c @
                 '' already holds provider catalog '' @ rg_catalog (tr_spec c) @ ''; remove one of the two claims''))
               else judge_contracts P g c provider) }"

definition judge_build ::
    "('w, 'x, 'b) registration_params \<Rightarrow> 'b option generated \<Rightarrow> registration \<Rightarrow> 'x catalog \<Rightarrow> module_instance \<Rightarrow>
     ('w, 'z, 'x ruling) prog" where
  "judge_build P g c cat provider =
     do { reqs \<leftarrow> ask (platform_requirements P (gn_dir g));
          case reqs of
            Inl e \<Rightarrow> State_Monad.return (Defer ''PlatformNotReady''
              (''The generated platform's resolution could not be read: '' @ err_text (tp_err P) e))
          | Inr reqs \<Rightarrow>
              (case build_incompatibility (tp_lib P) cat reqs of
                 Inl e \<Rightarrow> State_Monad.return (Refuse ''BuildIncompatible''
                   (''Claimed catalog's committed requirements could not be read: '' @ err_text (tp_err P) e))
               | Inr msg \<Rightarrow>
                   if msg \<noteq> [] then State_Monad.return (Refuse ''BuildIncompatible'' msg)
                   else judge_holder P g c provider) }"

definition judge_claim ::
    "('w, 'x, 'b) registration_params \<Rightarrow> 'b option generated \<Rightarrow> registration \<Rightarrow> ('w, 'z, 'x ruling) prog" where
  "judge_claim P g c =
     do { acquired \<leftarrow> request (AcquireAct (rg_catalog (tr_spec c)) (rg_version (tr_spec c)))
            (tp_acquire P (rg_catalog (tr_spec c)) (rg_version (tr_spec c)));
          case acquired of
            Inl err \<Rightarrow> State_Monad.return (rule_unacquired P c err)
          | Inr cat \<Rightarrow>
              (case provides_drift (tp_err P) cat (rg_provides (tr_spec c)) of
                 Some msg \<Rightarrow> State_Monad.return (Refuse ''ProvidesMismatch'' msg)
               | None \<Rightarrow>
                   do { answer \<leftarrow> request (ReadAct (provider_ref c))
                          (tp_get_instance P (pv_namespace (rg_provider (tr_spec c))) (pv_name (rg_provider (tr_spec c))));
                        case provider_identity (tp_err P) c answer of
                          IdentityPending msg \<Rightarrow> State_Monad.return (Defer ''ProviderInventoryPending'' msg)
                        | IdentityRefused msg \<Rightarrow> State_Monad.return (Refuse ''ProviderMismatch'' msg)
                        | IdentityOK provider \<Rightarrow> judge_build P g c cat provider }) }"


section \<open>Recording the ruling\<close>

definition is_condition_true :: "condlib \<Rightarrow> string \<Rightarrow> cond list \<Rightarrow> bool" where
  "is_condition_true K t cs = (case k_find K t cs of None \<Rightarrow> False | Some x \<Rightarrow> c_status x = CTrue)"

text \<open>Whether a condition does not yet say this.\<close>

definition says_other :: "condlib \<Rightarrow> string \<Rightarrow> cond_status \<Rightarrow> string \<Rightarrow> string \<Rightarrow> cond list \<Rightarrow> bool" where
  "says_other K t st reason msg cs =
     (case k_find K t cs of
        None \<Rightarrow> True
      | Some prior \<Rightarrow> c_status prior \<noteq> st \<or> c_reason prior \<noteq> reason \<or> c_message prior \<noteq> msg)"

definition transitioned :: "condlib \<Rightarrow> registration \<Rightarrow> string \<Rightarrow> string \<Rightarrow> bool" where
  "transitioned K c reason msg = says_other K ready_condition CFalse reason msg (rt_conditions (tr_status c))"

definition observe_registration :: "('w, 'b, 'z, unit) tprog" where
  "observe_registration =
     change_object (\<lambda>c. c\<lparr>tr_status := (tr_status c)\<lparr>rt_observed_generation := tr_generation c\<rparr>\<rparr>)"

definition hold_claim :: "('w, 'b, 'z, unit) tprog" where
  "hold_claim =
     change_object (\<lambda>c. c\<lparr>tr_finalizers := (if claim_finalizer_name \<in> set (tr_finalizers c) then tr_finalizers c
                                            else tr_finalizers c @ [claim_finalizer_name])\<rparr>)"

definition gate_activation ::
    "('w, 'x, 'b) registration_params \<Rightarrow> module_instance \<Rightarrow> ('w, 'b, 'z, unit) tprog" where
  "gate_activation P provider =
     do { c \<leftarrow> the_object;
          if rt_active (tr_status c) then State_Monad.return ()
          else if \<not> is_condition_true (tp_cond P) ready_condition (is_conditions (mi_status provider))
          then mark_tr P (k_set (tp_cond P) CFalse active_condition ''ProviderNotReady''
                 (''Waiting for provider ModuleInstance '' @ provider_path c @ '' to report Ready''))
          else do { change_registration (\<lambda>st. st\<lparr>rt_active := True\<rparr>);
                    mark_tr P (k_set (tp_cond P) CTrue active_condition ''ProviderReady''
                      (''Provider ModuleInstance '' @ provider_path c @ '' is Ready'')) } }"

definition accept_claim ::
    "('w, 'x, 'b) registration_params \<Rightarrow> module_instance \<Rightarrow> ('w, 'b, 'z, 'x requeue) tprog" where
  "accept_claim P provider =
     do { hold_claim;
          observe_registration;
          change_registration (\<lambda>st. st\<lparr>rt_accepted := True\<rparr>);
          c \<leftarrow> the_object;
          mark_tr P (mark_ready_with_reason (tp_cond P) ''Accepted''
            (''Claim accepted for catalog '' @ rg_catalog (tr_spec c) @ '' at '' @ rg_version (tr_spec c)));
          gate_activation P provider;
          err \<leftarrow> patch_registration P;
          State_Monad.return (0, err) }"

definition refuse_claim ::
    "('w, 'x, 'b) registration_params \<Rightarrow> string \<Rightarrow> string \<Rightarrow> ('w, 'b, 'z, 'x requeue) tprog" where
  "refuse_claim P reason msg =
     do { c \<leftarrow> the_object;
          (if transitioned (tp_cond P) c reason msg then emit_event ''Warning'' reason ''Accept'' msg
           else State_Monad.return ());
          observe_registration;
          change_registration (\<lambda>st. st\<lparr>rt_accepted := False\<rparr>);
          mark_tr P (mark_stalled (tp_cond P) reason msg);
          c' \<leftarrow> the_object;
          (if \<not> rt_active (tr_status c') then mark_tr P (\<lambda>now. k_delete (tp_cond P) active_condition)
           else State_Monad.return ());
          err \<leftarrow> patch_registration P;
          State_Monad.return (stalled_recheck_interval, err) }"

definition defer_verdict ::
    "('w, 'x, 'b) registration_params \<Rightarrow> string \<Rightarrow> string \<Rightarrow> ('w, 'b, 'z, 'x requeue) tprog" where
  "defer_verdict P reason msg =
     do { observe_registration;
          mark_tr P (mark_reconciling (tp_cond P) reason msg);
          err \<leftarrow> patch_registration P;
          State_Monad.return (stalled_recheck_interval, err) }"

definition hold_message :: "registration \<Rightarrow> string" where
  "hold_message c =
     ''Claimed catalog '' @ rg_catalog (tr_spec c) @ '' at '' @ rg_version (tr_spec c) @
     '' could not be fetched because of a transient registry failure; '' @
     ''the claim keeps its last verdict and the fetch is retried''"

definition hold_verdict_kept ::
    "('w, 'x, 'b) registration_params \<Rightarrow> 'x goerr \<Rightarrow> ('w, 'b, 'z, 'x requeue) tprog" where
  "hold_verdict_kept P cause =
     do { c \<leftarrow> the_object;
          let reason = ''CatalogUnresolved'';
          let msg = hold_message c;
          (if says_other (tp_cond P) reconciling_condition CTrue reason msg (rt_conditions (tr_status c))
           then emit_event ''Warning'' reason ''Accept'' (msg @ '': '' @ err_text (tp_err P) cause)
           else State_Monad.return ());
          mark_tr P (k_reconciling (tp_cond P) reason msg);
          marked \<leftarrow> the_object;
          (if \<not> is_condition_true (tp_cond P) ready_condition (rt_conditions (tr_status marked))
           then mark_tr P (k_set (tp_cond P) CUnknown ready_condition reason msg)
           else State_Monad.return ());
          held \<leftarrow> the_object;
          now \<leftarrow> ask (tk_now (tp_clock P));
          let since = (case k_find (tp_cond P) reconciling_condition (rt_conditions (tr_status held)) of
                         None \<Rightarrow> now | Some x \<Rightarrow> c_since x);
          later \<leftarrow> ask (tk_now (tp_clock P));
          after \<leftarrow> tick (tp_jitter P (hold_backoff since later));
          err \<leftarrow> patch_registration P;
          State_Monad.return (after, err) }"

fun record_ruling ::
    "('w, 'x, 'b) registration_params \<Rightarrow> 'x ruling \<Rightarrow> ('w, 'b, 'z, 'x requeue) tprog" where
  "record_ruling P (Defer reason msg) = defer_verdict P reason msg"
| "record_ruling P (Refuse reason msg) = refuse_claim P reason msg"
| "record_ruling P (Hold cause) = hold_verdict_kept P cause"
| "record_ruling P (Accept provider) = accept_claim P provider"


section \<open>The removal\<close>

definition release_claim :: "('w, 'x, 'b) registration_params \<Rightarrow> ('w, 'b, 'z, 'x goerr option) tprog" where
  "release_claim P =
     do { change_object (\<lambda>c. c\<lparr>tr_finalizers := filter (\<lambda>f. f \<noteq> claim_finalizer_name) (tr_finalizers c)\<rparr>);
          c \<leftarrow> the_object;
          r \<leftarrow> request (PatchFinalizersAct (tr_finalizers c)) (tp_patch_meta P c);
          case r of
            Inl e \<Rightarrow> State_Monad.return (Some e)
          | Inr c' \<Rightarrow> do { change_object (\<lambda>_. c'); State_Monad.return None } }"

definition dependents_message :: "string list \<Rightarrow> string" where
  "dependents_message names =
     ''Deletion blocked: '' @ itoa (length names) @
     '' module instance(s) still demand contracts this claim provides ('' @ join '', '' names @
     ''); remove them before removing the provider''"

definition block_removal ::
    "('w, 'x, 'b) registration_params \<Rightarrow> string list \<Rightarrow> ('w, 'b, 'z, 'x requeue) tprog" where
  "block_removal P names =
     do { c \<leftarrow> the_object;
          let msg = dependents_message names;
          (if transitioned (tp_cond P) c ''DependentsRemain'' msg
           then emit_event ''Warning'' ''DependentsRemain'' ''Delete'' msg else State_Monad.return ());
          mark_tr P (mark_stalled (tp_cond P) ''DependentsRemain'' msg);
          err \<leftarrow> patch_registration P;
          State_Monad.return (stalled_recheck_interval, err) }"

definition reconcile_removal :: "('w, 'x, 'b) registration_params \<Rightarrow> ('w, 'b, 'z, 'x requeue) tprog" where
  "reconcile_removal P =
     do { c \<leftarrow> the_object;
          if claim_finalizer_name \<notin> set (tr_finalizers c) then State_Monad.return (0, None)
          else do { r \<leftarrow> request (ListAct ''ModuleInstance'') (tp_list_instances P);
                    case r of
                      Inl e \<Rightarrow>
                        (let listing = Fmt (''listing module instances: '' @ err_text (tp_err P) e) [e]
                         in State_Monad.return (0, Some (Fmt (''counting dependents of claim '' @ tr_name c @ '': '' @
                              err_text (tp_err P) listing) [listing])))
                    | Inr mis \<Rightarrow>
                        if 0 < length (dependents_of c mis) then block_removal P (dependents_of c mis)
                        else do { err \<leftarrow> release_claim P;
                                  State_Monad.return (0, map_option (\<lambda>e. Fmt (''removing finalizer from claim '' @
                                    tr_name c @ '': '' @ err_text (tp_err P) e) [e]) err) } } }"


section \<open>The reconcile\<close>

definition reconcile_claim :: "('w, 'x, 'b) registration_params \<Rightarrow> ('w, 'b, 'z, 'x requeue) tprog" where
  "reconcile_claim P =
     do { leased \<leftarrow> lease_current;
          case leased of
            None \<Rightarrow> defer_verdict P ''PlatformNotReady''
              ''No platform has been generated yet, so the claim cannot be judged''
          | Some g \<Rightarrow>
              do { c \<leftarrow> the_object;
                   ruling \<leftarrow> judge_claim P g c;
                   result \<leftarrow> record_ruling P ruling;
                   release_held g;
                   State_Monad.return result } }"

definition reconcile_registration ::
    "('w, 'x, 'b) registration_params \<Rightarrow> string \<Rightarrow> ('w, 'b, 'z, 'x requeue) tprog" where
  "reconcile_registration P name =
     do { r \<leftarrow> request (ReadAct (registration_ref name)) (tp_get_claim P name);
          case r of
            Inl e \<Rightarrow> State_Monad.return (0, if ae_not_found (tp_err P) e then None else Some e)
          | Inr c \<Rightarrow>
              do { change_object (\<lambda>_. c);
                   if tr_deletion_timestamp c \<noteq> None then reconcile_removal P else reconcile_claim P } }"

end
