(* ===== verification/Layout.thy ===== *)
theory Layout
  imports Platform_Store Deletion
begin

text \<open>
  internal/platform/layout.go: the directories of generated platform modules, written by
  staging and rename, over a file system whose every operation may fail.
\<close>

section \<open>The platform directory\<close>

text \<open>
  The entries of the root directory by name. An entry is \<open>Whole\<close> with its files, or \<open>Part\<close>:
  a directory that is being filled or emptied. \<open>dk_seen\<close> is every content of the root that a
  reader could observe, in order, and \<open>dk_ops\<close> counts the operations for the fault oracle.
\<close>

type_synonym files = "(string \<times> string) list"

datatype node = Whole files | Part

type_synonym entries = "(string \<times> node) list"

record disk =
  dk_entries :: entries
  dk_seen :: "entries list"
  dk_ops :: nat

type_synonym 'a disk_prog = "(disk, 'a) state"

text \<open>One operation of package os: the fault oracle says whether it fails; it leaves a content in
  either case.\<close>

definition disk_step ::
    "(nat \<Rightarrow> 'x option) \<Rightarrow> (entries \<Rightarrow> entries) \<Rightarrow> (entries \<Rightarrow> entries) \<Rightarrow> 'x goerr option disk_prog" where
  "disk_step F done0 failed =
     State (\<lambda>d. let fault = F (dk_ops d);
                    e = (if fault = None then done0 (dk_entries d) else failed (dk_entries d))
                in (map_option Ext fault,
                    \<lparr>dk_entries = e, dk_seen = dk_seen d @ [e], dk_ops = dk_ops d + 1\<rparr>))"

definition disk_entries :: "entries disk_prog" where
  "disk_entries = State (\<lambda>d. (dk_entries d, d))"

definition os_exists :: "'x goerr" where "os_exists = Fmt ''file exists'' []"
definition os_missing :: "'x goerr" where "os_missing = Fmt ''file does not exist'' []"

definition mkdir_all :: "(nat \<Rightarrow> 'x option) \<Rightarrow> 'x goerr option disk_prog" where
  "mkdir_all F = disk_step F id id"

definition mkdir :: "(nat \<Rightarrow> 'x option) \<Rightarrow> string \<Rightarrow> 'x goerr option disk_prog" where
  "mkdir F name =
     do { es \<leftarrow> disk_entries;
          if map_of es name \<noteq> None then State_Monad.return (Some os_exists)
          else disk_step F (AList.update name Part) id }"

definition write_to :: "(nat \<Rightarrow> 'x option) \<Rightarrow> string \<Rightarrow> files \<Rightarrow> 'x goerr option disk_prog" where
  "write_to F name fs = disk_step F (AList.update name (Whole fs)) (AList.update name Part)"

text \<open>RemoveAll first empties the directory, then unlinks it; a failure may leave it half empty.\<close>

definition spoil :: "string \<Rightarrow> entries \<Rightarrow> entries" where
  "spoil name es = (if map_of es name = None then es else AList.update name Part es)"

definition remove_all :: "(nat \<Rightarrow> 'x option) \<Rightarrow> string \<Rightarrow> 'x goerr option disk_prog" where
  "remove_all F name =
     do { err \<leftarrow> disk_step F (spoil name) (spoil name);
          case err of Some e \<Rightarrow> State_Monad.return (Some e)
          | None \<Rightarrow> disk_step F (AList.delete name) (spoil name) }"

definition rename :: "(nat \<Rightarrow> 'x option) \<Rightarrow> string \<Rightarrow> string \<Rightarrow> 'x goerr option disk_prog" where
  "rename F a b =
     do { es \<leftarrow> disk_entries;
          case map_of es a of
            None \<Rightarrow> State_Monad.return (Some os_missing)
          | Some n \<Rightarrow>
              if map_of es b \<noteq> None then State_Monad.return (Some os_exists)
              else disk_step F (\<lambda>es. AList.delete a (AList.update b n es)) id }"

datatype 'x stat_answer = StatFound | StatMissing | StatFailed "'x goerr"

definition stat :: "(nat \<Rightarrow> 'x option) \<Rightarrow> string \<Rightarrow> 'x stat_answer disk_prog" where
  "stat F name =
     do { es \<leftarrow> disk_entries;
          err \<leftarrow> disk_step F id id;
          State_Monad.return
            (case err of Some e \<Rightarrow> StatFailed e
             | None \<Rightarrow> if map_of es name = None then StatMissing else StatFound) }"


section \<open>layout.go\<close>

definition package_prefix :: string where "package_prefix = ''gen-''"
definition staging_prefix :: string where "staging_prefix = ''.staging-''"
definition aside_prefix :: string where "aside_prefix = ''.aside-''"

text \<open>\<open>ly_join\<close> is filepath.Join.\<close>

record layout =
  ly_root :: string
  ly_join :: "string \<Rightarrow> string \<Rightarrow> string"

definition layout_dir :: "layout \<Rightarrow> (string \<Rightarrow> string) \<Rightarrow> package_identity \<Rightarrow> string" where
  "layout_dir l sha256_hex i = ly_join l (ly_root l) (identity_string sha256_hex i)"

definition wrapped :: "'x errlib \<Rightarrow> string \<Rightarrow> 'x goerr \<Rightarrow> 'x goerr" where
  "wrapped E what e = Fmt (what @ '': '' @ err_text E e) [e]"

text \<open>The swap of Write: the staged directory is complete.\<close>

definition layout_swap ::
    "'x errlib \<Rightarrow> (nat \<Rightarrow> 'x option) \<Rightarrow> string \<Rightarrow> string \<Rightarrow> string \<Rightarrow> string \<Rightarrow> ('x goerr + string) disk_prog" where
  "layout_swap E F dir name staging aside =
     do { found \<leftarrow> stat F name;
          early \<leftarrow> (case found of
             StatFound \<Rightarrow>
               do { err \<leftarrow> rename F name aside;
                    case err of
                      Some e \<Rightarrow> do { _ \<leftarrow> remove_all F staging;
                                     State_Monad.return (Some (wrapped E (''moving aside existing module directory '' @ dir) e)) }
                    | None \<Rightarrow> State_Monad.return None }
           | StatMissing \<Rightarrow> State_Monad.return None
           | StatFailed e \<Rightarrow> do { _ \<leftarrow> remove_all F staging;
                                  State_Monad.return (Some (wrapped E (''inspecting module directory '' @ dir) e)) });
          case early of
            Some e \<Rightarrow> State_Monad.return (Inl e)
          | None \<Rightarrow>
              do { err \<leftarrow> rename F staging name;
                   case err of
                     Some e \<Rightarrow> do { _ \<leftarrow> remove_all F staging;
                                    _ \<leftarrow> rename F aside name;
                                    State_Monad.return (Inl (wrapped E (''swapping module directory '' @ dir @ '' into place'') e)) }
                   | None \<Rightarrow> do { _ \<leftarrow> remove_all F aside;
                                  State_Monad.return (Inr dir) } } }"

text \<open>Write, with the random suffix of crypto/rand or its error as a parameter.\<close>

definition layout_write ::
    "'x errlib \<Rightarrow> (nat \<Rightarrow> 'x option) \<Rightarrow> layout \<Rightarrow> (string \<Rightarrow> string) \<Rightarrow> 'x goerr + string \<Rightarrow> package_identity \<Rightarrow>
     files \<Rightarrow> ('x goerr + string) disk_prog" where
  "layout_write E F l sha256_hex random i fs =
     (let name = identity_string sha256_hex i; dir = layout_dir l sha256_hex i
      in if ly_root l = [] then State_Monad.return (Inl (Fmt ''platform layout has no root directory'' []))
         else if fs = [] then State_Monad.return (Inl (Fmt ''no files to write'' []))
         else do { err \<leftarrow> mkdir_all F;
                   case err of
                     Some e \<Rightarrow> State_Monad.return (Inl (wrapped E (''creating platform directory '' @ ly_root l) e))
                   | None \<Rightarrow>
                   (case random of
                     Inl e \<Rightarrow> State_Monad.return (Inl (wrapped E ''generating staging suffix'' e))
                   | Inr suffix0 \<Rightarrow>
                     (let staging = staging_prefix @ name @ ''-'' @ suffix0;
                          aside = aside_prefix @ name @ ''-'' @ suffix0
                      in do { err \<leftarrow> mkdir F staging;
                              case err of
                                Some e \<Rightarrow> State_Monad.return
                                  (Inl (wrapped E (''creating staging directory '' @ ly_join l (ly_root l) staging) e))
                              | None \<Rightarrow>
                                  do { err \<leftarrow> write_to F staging fs;
                                       case err of
                                         Some e \<Rightarrow> do { _ \<leftarrow> remove_all F staging;
                                                        State_Monad.return (Inl (wrapped E ''writing platform module files'' e)) }
                                       | None \<Rightarrow> layout_swap E F dir name staging aside } })) })"

datatype 'x read_dir = DirMissing | DirFailed "'x goerr" | DirListed "string list"

text \<open>ReadDir lists the names in order, unless the root is missing or the listing fails.\<close>

definition read_dir :: "(nat \<Rightarrow> 'x option) \<Rightarrow> bool \<Rightarrow> 'x read_dir disk_prog" where
  "read_dir F root_exists =
     do { err \<leftarrow> disk_step F id id;
          es \<leftarrow> disk_entries;
          State_Monad.return
            (if \<not> root_exists then DirMissing
             else case err of Some e \<Rightarrow> DirFailed e | None \<Rightarrow> DirListed (sort (map fst es))) }"

fun prune_names ::
    "'x errlib \<Rightarrow> (nat \<Rightarrow> 'x option) \<Rightarrow> string set \<Rightarrow> string list \<Rightarrow> 'x goerr list disk_prog" where
  "prune_names E F kept [] = State_Monad.return []"
| "prune_names E F kept (n # ns) =
     (if n \<in> kept then prune_names E F kept ns
      else do { err \<leftarrow> remove_all F n;
                errs \<leftarrow> prune_names E F kept ns;
                State_Monad.return (case err of Some e \<Rightarrow> wrapped E (''removing '' @ n) e # errs | None \<Rightarrow> errs) })"

definition layout_prune ::
    "'x errlib \<Rightarrow> (nat \<Rightarrow> 'x option) \<Rightarrow> layout \<Rightarrow> (string \<Rightarrow> string) \<Rightarrow> bool \<Rightarrow> package_identity list \<Rightarrow>
     'x goerr option disk_prog" where
  "layout_prune E F l sha256_hex root_exists keep =
     do { r \<leftarrow> read_dir F root_exists;
          case r of
            DirMissing \<Rightarrow> State_Monad.return None
          | DirFailed e \<Rightarrow> State_Monad.return (Some (wrapped E (''listing platform directory '' @ ly_root l) e))
          | DirListed names \<Rightarrow>
              do { errs \<leftarrow> prune_names E F (identity_string sha256_hex ` set keep) names;
                   State_Monad.return (if errs = [] then None else Some (Joined errs)) } }"

definition layout_reset ::
    "'x errlib \<Rightarrow> (nat \<Rightarrow> 'x option) \<Rightarrow> layout \<Rightarrow> (string \<Rightarrow> string) \<Rightarrow> bool \<Rightarrow> 'x goerr option disk_prog" where
  "layout_reset E F l sha256_hex root_exists =
     (if ly_root l = [] then State_Monad.return (Some (Fmt ''platform layout has no root directory'' []))
      else do { err \<leftarrow> layout_prune E F l sha256_hex root_exists [];
                case err of
                  Some e \<Rightarrow> State_Monad.return (Some e)
                | None \<Rightarrow>
                    do { err \<leftarrow> mkdir_all F;
                         State_Monad.return
                           (map_option (wrapped E (''creating platform directory '' @ ly_root l)) err) } })"

definition layout_packages ::
    "'x errlib \<Rightarrow> (nat \<Rightarrow> 'x option) \<Rightarrow> layout \<Rightarrow> bool \<Rightarrow> ('x goerr + string list) disk_prog" where
  "layout_packages E F l root_exists =
     do { r \<leftarrow> read_dir F root_exists;
          State_Monad.return
            (case r of
               DirMissing \<Rightarrow> Inr []
             | DirFailed e \<Rightarrow> Inl (wrapped E (''listing platform directory '' @ ly_root l) e)
             | DirListed names \<Rightarrow> Inr (sort (filter (\<lambda>n. has_prefix n package_prefix) names))) }"


section \<open>What a reader can observe\<close>

text \<open>\<open>observes P A m B\<close>: run from entries that satisfy \<open>A\<close>, the program ends with an answer and entries
  that satisfy \<open>B\<close>, and every content it leaves on the way satisfies \<open>P\<close>.\<close>

definition observes ::
    "(entries \<Rightarrow> bool) \<Rightarrow> (entries \<Rightarrow> bool) \<Rightarrow> 'a disk_prog \<Rightarrow> ('a \<Rightarrow> entries \<Rightarrow> bool) \<Rightarrow> bool" where
  "observes P A m B =
     (\<forall>d. A (dk_entries d) \<longrightarrow>
        B (fst (run_state m d)) (dk_entries (snd (run_state m d))) \<and>
        (\<exists>new. dk_seen (snd (run_state m d)) = dk_seen d @ new \<and> list_all P new))"

named_theorems observes_intro "what a reader can observe, one rule per operation"

lemma observes_return [observes_intro]: "(\<And>e. A e \<Longrightarrow> B x e) \<Longrightarrow> observes P A (State_Monad.return x) B"
  by (simp add: observes_def State_Monad.return_def)

lemma observes_bind [observes_intro]:
  assumes "observes P A m C" and "\<And>x. observes P (C x) (f x) B"
  shows "observes P A (m \<bind> f) B"
  unfolding observes_def
proof (intro allI impI)
  fix d :: disk assume "A (dk_entries d)"
  obtain x d1 where m: "run_state m d = (x, d1)" by fastforce
  obtain y d2 where f: "run_state (f x) d1 = (y, d2)" by fastforce
  from assms(1) \<open>A (dk_entries d)\<close> m obtain n1 where
    n1: "C x (dk_entries d1)" "dk_seen d1 = dk_seen d @ n1" "list_all P n1"
    unfolding observes_def by (metis fst_conv snd_conv)
  from assms(2) n1(1) f obtain n2 where
    n2: "B y (dk_entries d2)" "dk_seen d2 = dk_seen d1 @ n2" "list_all P n2"
    unfolding observes_def by (metis fst_conv snd_conv)
  have "dk_seen d2 = dk_seen d @ n1 @ n2 \<and> list_all P (n1 @ n2)" using n1 n2 by simp
  then show "B (fst (run_state (m \<bind> f) d)) (dk_entries (snd (run_state (m \<bind> f) d))) \<and>
      (\<exists>new. dk_seen (snd (run_state (m \<bind> f) d)) = dk_seen d @ new \<and> list_all P new)"
    using n2(1) m f by auto
qed

lemma observes_if [observes_intro]:
  "observes P (\<lambda>e. A e \<and> b) m B \<Longrightarrow> observes P (\<lambda>e. A e \<and> \<not> b) n B \<Longrightarrow> observes P A (if b then m else n) B"
  by (simp add: observes_def)

lemma observes_option [observes_intro]:
  "observes P (\<lambda>e. A e \<and> x = None) m B \<Longrightarrow> (\<And>y. observes P (\<lambda>e. A e \<and> x = Some y) (f y) B) \<Longrightarrow>
   observes P A (case x of None \<Rightarrow> m | Some y \<Rightarrow> f y) B"
  by (cases x) (simp_all add: observes_def)

lemma observes_weaken: "observes P A m C \<Longrightarrow> (\<And>e. A' e \<Longrightarrow> A e) \<Longrightarrow> (\<And>x e. C x e \<Longrightarrow> B x e) \<Longrightarrow> observes P A' m B"
  unfolding observes_def by blast

lemma observes_entries: "observes P A disk_entries (\<lambda>x e. A e \<and> x = e)"
  by (simp add: observes_def disk_entries_def)

lemma observes_step:
  "(\<And>e. A e \<Longrightarrow> P (g e) \<and> B None (g e)) \<Longrightarrow> (\<And>e x. A e \<Longrightarrow> P (f e) \<and> B (Some x) (f e)) \<Longrightarrow>
   observes P A (disk_step F g f) B"
  by (auto simp: observes_def disk_step_def Let_def split: option.split)

lemma observes_remove_all:
  assumes "\<And>e. A e \<Longrightarrow> A (spoil n e) \<and> A (AList.delete n e) \<and> P (spoil n e) \<and> P (AList.delete n e)"
  shows "observes P A (remove_all F n) (\<lambda>_. A)"
  unfolding remove_all_def
  by (rule observes_bind [OF observes_step [where B = "\<lambda>_. A"]])
    (auto simp: assms intro!: observes_intro observes_step)

lemma observes_stat:
  "(\<And>e. A e \<Longrightarrow> P e) \<Longrightarrow>
   observes P A (stat F n) (\<lambda>r e. A e \<and> (r = StatMissing \<longrightarrow> map_of e n = None))"
  unfolding stat_def
  by (rule observes_bind [OF observes_entries], rule observes_bind [OF observes_step [where B = "\<lambda>_ e. A e \<and> _ = e"]])
    (auto intro!: observes_intro split: option.split)

text \<open>A failed rename changes nothing; one that succeeds moves the entry.\<close>

lemma observes_rename:
  assumes "\<And>e. A e \<Longrightarrow> P e"
    and "\<And>e n. A e \<Longrightarrow> map_of e a = Some n \<Longrightarrow> map_of e b = None \<Longrightarrow>
      P (AList.delete a (AList.update b n e)) \<and> D (AList.delete a (AList.update b n e))"
  shows "observes P A (rename F a b) (\<lambda>r e. case r of None \<Rightarrow> D e | Some _ \<Rightarrow> A e)"
  unfolding rename_def
  by (rule observes_bind [OF observes_entries], intro observes_option observes_if observes_return observes_step)
    (auto simp: assms)

text \<open>Going on or giving up after an operation that may fail.\<close>

lemma observes_try:
  assumes "observes P A m (\<lambda>r e. case r of None \<Rightarrow> D e | Some _ \<Rightarrow> A' e)"
    and "observes P D ok B" and "\<And>x. observes P A' (bad x) B"
  shows "observes P A (m \<bind> (\<lambda>r. case r of None \<Rightarrow> ok | Some x \<Rightarrow> bad x)) B"
proof (rule observes_bind [OF assms(1)])
  fix r show "observes P (\<lambda>e. case r of None \<Rightarrow> D e | Some _ \<Rightarrow> A' e) (case r of None \<Rightarrow> ok | Some x \<Rightarrow> bad x) B"
    using assms(2,3) by (cases r) simp_all
qed

lemma map_of_spoil: "map_of (spoil n e) = (if map_of e n = None then map_of e else (map_of e)(n \<mapsto> Part))"
  by (simp add: spoil_def update_conv')

lemmas entry_simps = map_of_spoil update_conv' delete_conv'

text \<open>What the package directories may look like while Write stores \<open>fs\<close> as \<open>name\<close>: the others are
  untouched, and this one is absent, what it was, or complete with the new files.\<close>

definition package_name :: "string \<Rightarrow> bool" where
  "package_name n = has_prefix n package_prefix"

definition untouched :: "entries \<Rightarrow> string \<Rightarrow> entries \<Rightarrow> bool" where
  "untouched e0 name e = (\<forall>n. package_name n \<and> n \<noteq> name \<longrightarrow> map_of e n = map_of e0 n)"

definition readable :: "entries \<Rightarrow> string \<Rightarrow> files \<Rightarrow> entries \<Rightarrow> bool" where
  "readable e0 name fs e =
     (untouched e0 name e \<and> map_of e name \<in> {map_of e0 name, None, Some (Whole fs)})"

lemma untouched_edits:
  "\<not> package_name m \<or> m = name \<Longrightarrow> untouched e0 name e \<Longrightarrow> untouched e0 name (AList.update m x e)"
  "\<not> package_name m \<or> m = name \<Longrightarrow> untouched e0 name e \<Longrightarrow> untouched e0 name (AList.delete m e)"
  "\<not> package_name m \<or> m = name \<Longrightarrow> untouched e0 name e \<Longrightarrow> untouched e0 name (spoil m e)"
  by (auto simp: untouched_def entry_simps)

definition stored :: "entries \<Rightarrow> string \<Rightarrow> files \<Rightarrow> 'a + 'b \<Rightarrow> entries \<Rightarrow> bool" where
  "stored e0 name fs r e =
     (untouched e0 name e \<and>
      (case r of Inl _ \<Rightarrow> map_of e name \<in> {map_of e0 name, None}
       | Inr _ \<Rightarrow> map_of e name = Some (Whole fs)))"

lemma observes_swap:
  assumes name: "package_name name" "\<not> package_name staging" "\<not> package_name aside" "staging \<noteq> aside"
  shows "observes (readable e0 name fs)
    (\<lambda>e. untouched e0 name e \<and> map_of e name = map_of e0 name \<and> map_of e staging = Some (Whole fs) \<and> map_of e aside = None)
    (layout_swap E F dir name staging aside) (stored e0 name fs)"
proof -
  let ?P = "readable e0 name fs"
  let ?A1 = "\<lambda>e. untouched e0 name e \<and> map_of e name = map_of e0 name \<and> map_of e staging = Some (Whole fs) \<and> map_of e aside = None"
  let ?A2 = "\<lambda>e. untouched e0 name e \<and> map_of e name = None \<and> map_of e staging = Some (Whole fs) \<and> map_of e aside = map_of e0 name"
  let ?C = "\<lambda>early e. case early of None \<Rightarrow> ?A2 e | Some _ \<Rightarrow> untouched e0 name e \<and> map_of e name = map_of e0 name"
  have neq: "staging \<noteq> name" "aside \<noteq> name" "aside \<noteq> staging" using name by auto
  note edits = untouched_edits readable_def entry_simps name neq
  have drop: "observes ?P (\<lambda>e. untouched e0 name e \<and> map_of e name = x) (remove_all F m)
      (\<lambda>_ e. untouched e0 name e \<and> map_of e name = x)"
    if "\<not> package_name m" "m \<noteq> name" "x \<in> {map_of e0 name, None, Some (Whole fs)}" for m x
    by (rule observes_remove_all) (use that in \<open>auto simp: edits\<close>)
  have dropped: "observes ?P (\<lambda>e. untouched e0 name e \<and> map_of e name = map_of e0 name)
      (remove_all F staging \<bind> (\<lambda>_. State_Monad.return (Some x))) ?C" for x
    by (rule observes_bind [OF drop]) (auto simp: name neq intro!: observes_return)
  have early: "observes ?P (\<lambda>e. ?A1 e \<and> (found = StatMissing \<longrightarrow> map_of e name = None))
      (case found of StatFound \<Rightarrow> rename F name aside \<bind> (\<lambda>err. case err of
           Some e \<Rightarrow> remove_all F staging \<bind> (\<lambda>_. State_Monad.return (Some (m1 e))) | None \<Rightarrow> State_Monad.return None)
       | StatMissing \<Rightarrow> State_Monad.return None
       | StatFailed e \<Rightarrow> remove_all F staging \<bind> (\<lambda>_. State_Monad.return (Some (m2 e)))) ?C" for found m1 m2
  proof (cases found)
    case StatFound
    show ?thesis
      unfolding StatFound stat_answer.case
      by (rule observes_try [where D = ?A2 and A' = ?A1])
        (auto simp: edits intro!: observes_return observes_weaken [OF observes_rename [where A = ?A1 and D = ?A2]]
          observes_weaken [OF dropped] split: option.split)
  qed (auto intro!: observes_return observes_weaken [OF dropped])
  have place: "observes ?P ?A2
      (rename F staging name \<bind> (\<lambda>err. case err of
         None \<Rightarrow> remove_all F aside \<bind> (\<lambda>_. State_Monad.return (Inr dir))
       | Some e \<Rightarrow> remove_all F staging \<bind> (\<lambda>_. rename F aside name \<bind> (\<lambda>_. State_Monad.return (Inl (m e))))))
      (stored e0 name fs)" for m
  proof (rule observes_try [OF observes_rename [where D = "\<lambda>e. untouched e0 name e \<and> map_of e name = Some (Whole fs)"]])
    show "observes ?P (\<lambda>e. untouched e0 name e \<and> map_of e name = Some (Whole fs))
        (remove_all F aside \<bind> (\<lambda>_. State_Monad.return (Inr dir))) (stored e0 name fs)"
      by (rule observes_bind [OF drop]) (auto simp: name neq stored_def intro!: observes_return)
  next
    fix x
    let ?A3 = "\<lambda>e. untouched e0 name e \<and> map_of e name = None \<and> map_of e aside = map_of e0 name"
    have cleared: "observes ?P ?A2 (remove_all F staging) (\<lambda>_. ?A3)"
      by (rule observes_weaken [OF observes_remove_all [where A = ?A3]]) (auto simp: edits)
    show "observes ?P ?A2 (remove_all F staging \<bind> (\<lambda>_. rename F aside name \<bind> (\<lambda>_. State_Monad.return (Inl (m x)))))
        (stored e0 name fs)"
      by (rule observes_bind [OF cleared], rule observes_bind [OF observes_rename
            [where D = "\<lambda>e. untouched e0 name e \<and> map_of e name = map_of e0 name"]])
        (auto simp: edits stored_def intro!: observes_return split: option.splits)
  qed (auto simp: edits)
  show ?thesis
    unfolding layout_swap_def
  proof (rule observes_bind [OF observes_stat], goal_cases)
    case (2 found)
    show ?case
      by (rule observes_try [OF observes_weaken [OF early] place])
        (auto intro!: observes_return simp: stored_def split: option.splits)
  qed (auto simp: edits)
qed

lemma package_names:
  "package_name (identity_string sha256_hex i)" "\<not> package_name (staging_prefix @ n)" "\<not> package_name (aside_prefix @ n)"
  "staging_prefix @ n \<noteq> aside_prefix @ m"
  by (simp_all add: package_name_def has_prefix_def package_prefix_def identity_string_def staging_prefix_def
      aside_prefix_def Let_def)

lemma observes_stage:
  assumes name: "package_name name" "\<not> package_name staging" "\<not> package_name aside" "staging \<noteq> aside"
    and fresh: "map_of e0 aside = None"
  shows "observes (readable e0 name fs) (\<lambda>e. e = e0)
    (mkdir F staging \<bind> (\<lambda>err. case err of
       Some e \<Rightarrow> State_Monad.return (Inl (m1 e))
     | None \<Rightarrow> write_to F staging fs \<bind> (\<lambda>err. case err of
         Some e \<Rightarrow> remove_all F staging \<bind> (\<lambda>_. State_Monad.return (Inl (m2 e)))
       | None \<Rightarrow> layout_swap E F dir name staging aside))) (stored e0 name fs)"
proof -
  let ?P = "readable e0 name fs"
  let ?A = "\<lambda>e. untouched e0 name e \<and> map_of e name = map_of e0 name \<and> map_of e aside = None"
  have neq: "staging \<noteq> name" "name \<noteq> staging" "aside \<noteq> name" "aside \<noteq> staging" using name by auto
  have self: "untouched e0 name e0" by (simp add: untouched_def)
  note edits = untouched_edits readable_def entry_simps name neq self fresh
  have swap: "observes ?P (\<lambda>e. ?A e \<and> map_of e staging = Some (Whole fs))
      (layout_swap E F dir name staging aside) (stored e0 name fs)"
    by (rule observes_weaken [OF observes_swap [OF name]]) auto
  have drop: "observes ?P ?A (remove_all F staging \<bind> (\<lambda>_. State_Monad.return (Inl x))) (stored e0 name fs)" for x
    by (rule observes_bind [OF observes_remove_all]) (auto simp: edits stored_def intro!: observes_return)
  have fill: "observes ?P ?A (write_to F staging fs \<bind> (\<lambda>err. case err of
        None \<Rightarrow> layout_swap E F dir name staging aside
      | Some e \<Rightarrow> remove_all F staging \<bind> (\<lambda>_. State_Monad.return (Inl (m2 e))))) (stored e0 name fs)"
    unfolding write_to_def
    by (rule observes_try [OF observes_step swap drop]) (auto simp: edits)
  have make: "observes ?P (\<lambda>e. e = e0) (mkdir F staging) (\<lambda>r e. case r of None \<Rightarrow> ?A e | Some _ \<Rightarrow> e = e0)"
    unfolding mkdir_def
    by (rule observes_bind [OF observes_entries], intro observes_if observes_return observes_step)
      (auto simp: edits)
  show ?thesis
    by (rule observes_try [OF make fill]) (auto simp: stored_def self intro!: observes_return)
qed

lemma observes_write:
  assumes "\<And>sx. random = Inr sx \<Longrightarrow> map_of e0 (aside_prefix @ identity_string sha256_hex i @ ''-'' @ sx) = None"
  shows "observes (readable e0 (identity_string sha256_hex i) fs) (\<lambda>e. e = e0)
    (layout_write E F l sha256_hex random i fs) (stored e0 (identity_string sha256_hex i) fs)"
proof -
  let ?n = "identity_string sha256_hex i"
  let ?P = "readable e0 ?n fs"
  have self: "?P e0" "untouched e0 ?n e0" by (simp_all add: readable_def untouched_def)
  have gone: "observes ?P (\<lambda>e. e = e0) (State_Monad.return (Inl x)) (stored e0 ?n fs)" for x
    by (rule observes_return) (simp add: stored_def self)
  show ?thesis
  proof (cases random)
    case (Inl x)
    show ?thesis
      unfolding layout_write_def mkdir_all_def Let_def Inl sum.case
      by (intro observes_if observes_weaken [OF gone] observes_try [OF observes_step gone gone])
        (auto simp: self)
  next
    case (Inr sx)
    note stage = observes_stage [OF package_names(1-3), OF package_names(4) assms [OF Inr]]
    show ?thesis
      unfolding layout_write_def mkdir_all_def Let_def Inr sum.case
      by (intro observes_if observes_weaken [OF gone] observes_try [OF observes_step stage gone]) (auto simp: self)
  qed
qed

text \<open>C33: whatever file operation fails, at no moment of a Write is a package directory partly written:
  the other packages are untouched and the one written is absent, as it was, or complete; a Write
  that succeeds leaves it complete, and one that fails leaves it as it was or absent.\<close>

theorem layout_write_atomic:
  assumes "\<And>sx. random = Inr sx \<Longrightarrow>
    map_of (dk_entries d) (aside_prefix @ identity_string sha256_hex i @ ''-'' @ sx) = None"
  shows "stored (dk_entries d) (identity_string sha256_hex i) fs
      (fst (run_state (layout_write E F l sha256_hex random i fs) d))
      (dk_entries (snd (run_state (layout_write E F l sha256_hex random i fs) d))) \<and>
    (\<exists>new. dk_seen (snd (run_state (layout_write E F l sha256_hex random i fs) d)) = dk_seen d @ new \<and>
       list_all (readable (dk_entries d) (identity_string sha256_hex i) fs) new)"
  using observes_write [of random "dk_entries d", OF assms, of fs E F l] unfolding observes_def by simp

theorem layout_write_atomic_witness:
  "case run_state (layout_write sample_errors (\<lambda>n. if n = 6 then Some ''EIO'' else None)
       \<lparr>ly_root = ''/p'', ly_join = (\<lambda>a b. a @ ''/'' @ b)\<rparr> id (Inr ''ff'')
       \<lparr>pi_generation = 3, pi_claims = []\<rparr> [(''a.cue'', ''x'')])
     \<lparr>dk_entries = [(''gen-3'', Part)], dk_seen = [], dk_ops = 0\<rparr> of
   (r, d) \<Rightarrow> stored [(''gen-3'', Part)] ''gen-3'' [(''a.cue'', ''x'')] r (dk_entries d)"
proof -
  let ?d = "\<lparr>dk_entries = [(''gen-3'', Part)], dk_seen = [], dk_ops = 0\<rparr>"
  have "identity_string id \<lparr>pi_generation = 3, pi_claims = []\<rparr> = ''gen-3''"
    by code_simp
  with layout_write_atomic [where d = ?d and random = "Inr ''ff''" and sha256_hex = id and
      i = "\<lparr>pi_generation = 3, pi_claims = []\<rparr>" and fs = "[(''a.cue'', ''x'')]" and E = sample_errors
      and F = "\<lambda>n. if n = 6 then Some ''EIO'' else None" and l = "\<lparr>ly_root = ''/p'', ly_join = (\<lambda>a b. a @ ''/'' @ b)\<rparr>"]
  show ?thesis by (auto simp: aside_prefix_def split_beta)
qed

text \<open>A prune never touches a directory it keeps, also when a removal fails half way.\<close>

lemma layout_prune_keeps:
  fixes keep :: "package_identity list" and sha256_hex :: "string \<Rightarrow> string"
  defines "A \<equiv> \<lambda>e0 e. \<forall>i \<in> set keep. map_of e (identity_string sha256_hex i) = map_of e0 (identity_string sha256_hex i)"
  shows "observes (A e0) (A e0) (layout_prune E F l sha256_hex root_exists keep) (\<lambda>_. A e0)"
proof -
  have names: "observes (A e0) (A e0) (prune_names E F (identity_string sha256_hex ` set keep) ns) (\<lambda>_. A e0)" for ns
  proof (induction ns)
    case (Cons n ns)
    have "observes (A e0) (A e0) (remove_all F n) (\<lambda>_. A e0)" if "n \<notin> identity_string sha256_hex ` set keep"
      by (rule observes_remove_all) (use that in \<open>auto simp: A_def entry_simps\<close>)
    then show ?case
      using Cons by (auto intro!: observes_bind [where C = "\<lambda>_. A e0"] observes_return)
  qed (simp add: observes_return)
  have listing: "observes (A e0) (A e0) (read_dir F root_exists) (\<lambda>_. A e0)"
    unfolding read_dir_def
    by (rule observes_bind [OF observes_step [where B = "\<lambda>_. A e0"]], auto,
        rule observes_bind [OF observes_entries], auto intro: observes_return)
  show ?thesis
    unfolding layout_prune_def
  proof (rule observes_bind [OF listing])
    fix r show "observes (A e0) (A e0) (case r of DirMissing \<Rightarrow> State_Monad.return None
        | DirFailed e \<Rightarrow> State_Monad.return (Some (wrapped E (''listing platform directory '' @ ly_root l) e))
        | DirListed names \<Rightarrow> prune_names E F (identity_string sha256_hex ` set keep) names \<bind>
            (\<lambda>errs. State_Monad.return (if errs = [] then None else Some (Joined errs)))) (\<lambda>_. A e0)"
      by (cases r) (auto intro!: observes_return observes_bind [OF names])
  qed
qed

end
