(* ===== verification/Platform_Gen.thy ===== *)
theory Platform_Gen
  imports Registration Layout
begin

text \<open>
  The reconcile of the Platform (internal/controller/platform_controller.go) and the version it
  reports (internal/version/version.go): the entries of the generated module, the skip of a repeated
  tuple, the generation with its gate, and the watch of the claims.
\<close>

section \<open>version.go\<close>

text \<open>The build information of the binary, by what version.go reads; a dependency is none where the
  list holds a nil pointer.\<close>

record dep_module =
  dm_path :: string
  dm_version :: string
  dm_replace :: "(string \<times> string) option"

record build_info =
  bi_settings :: "(string \<times> string) list"
  bi_deps :: "dep_module option list"

definition controller_version :: string where "controller_version = ''1.0.0-beta.10''"

definition library_module :: string where "library_module = ''github.com/open-platform-model/library''"

definition vcs_step :: "string \<times> bool \<Rightarrow> string \<times> string \<Rightarrow> string \<times> bool" where
  "vcs_step found s =
     (if fst s = ''vcs.revision'' then (snd s, snd found)
      else if fst s = ''vcs.modified'' then (fst found, snd s = ''true'')
      else found)"

definition full_version :: "build_info option \<Rightarrow> string" where
  "full_version info =
     (case info of
        None \<Rightarrow> ''v'' @ controller_version
      | Some i \<Rightarrow>
          (let (revision, dirty) = foldl vcs_step ([], False) (bi_settings i)
           in if revision = [] then ''v'' @ controller_version
              else ''v'' @ controller_version @ ''+g'' @ (if 7 < length revision then take 7 revision else revision) @
                   (if dirty then ''.dirty'' else [])))"

fun library_walk :: "dep_module option list \<Rightarrow> string" where
  "library_walk [] = []"
| "library_walk (None # ds) = library_walk ds"
| "library_walk (Some d # ds) =
     (if dm_path d \<noteq> library_module then library_walk ds
      else case dm_replace d of
             Some (path, version) \<Rightarrow> if version \<noteq> [] then version else ''(devel) '' @ path
           | None \<Rightarrow> dm_version d)"

definition library_version :: "build_info option \<Rightarrow> string" where
  "library_version info = (case info of None \<Rightarrow> [] | Some i \<Rightarrow> library_walk (bi_deps i))"


section \<open>The entries of a package\<close>

text \<open>The library's platformmodule.Entry and platformmodule.Input.\<close>

record entry =
  en_path :: string
  en_version :: string
  en_enable :: bool

record 'd module_input =
  mn_name :: string
  mn_type :: string
  mn_module_path :: string
  mn_entries :: "entry list"
  mn_deps :: 'd

definition platform_singleton_name :: string where "platform_singleton_name = singleton_name"

definition platform_module_path :: string where
  "platform_module_path = ''opmodel.dev/platforms/cluster@v0''"

definition transient_recheck_interval :: duration where "transient_recheck_interval = minute"

definition is_active_claim :: "registration \<Rightarrow> bool" where
  "is_active_claim c =
     (if \<not> rt_accepted (tr_status c) \<or> \<not> rt_active (tr_status c) then False
      else if tr_deletion_timestamp c \<noteq> None \<and> \<not> contributes_after_deletion c then False
      else True)"

definition active_of :: "registration list \<Rightarrow> registration list" where
  "active_of cs = sort_key tr_name (filter is_active_claim cs)"

definition claim_coordinates :: "registration list \<Rightarrow> claim_coordinate list" where
  "claim_coordinates cs =
     map (\<lambda>c. \<lparr>cc_catalog = rg_catalog (tr_spec c), cc_version = rg_version (tr_spec c)\<rparr>) cs"

definition missing_version :: "string \<Rightarrow> 'x goerr" where
  "missing_version path =
     Fmt (''registry entry '' @ quote path @ '': version is required (stored object predates the required field)'') []"

fun subscription_entries :: "(string \<times> subscription) list \<Rightarrow> 'x goerr + entry list" where
  "subscription_entries [] = Inr []"
| "subscription_entries ((path, s) # rest) =
     (if sub_version s = [] then Inl (missing_version path)
      else case subscription_entries rest of
             Inl e \<Rightarrow> Inl e
           | Inr es \<Rightarrow>
               Inr (\<lparr>en_path = path, en_version = sub_version s,
                     en_enable = (case sub_enable s of None \<Rightarrow> True | Some b \<Rightarrow> b)\<rparr> # es))"

fun claim_entries :: "string set \<Rightarrow> registration list \<Rightarrow> entry list" where
  "claim_entries seen [] = []"
| "claim_entries seen (c # cs) =
     (if rg_catalog (tr_spec c) \<in> seen then claim_entries seen cs
      else \<lparr>en_path = rg_catalog (tr_spec c), en_version = rg_version (tr_spec c), en_enable = True\<rparr> #
           claim_entries (insert (rg_catalog (tr_spec c)) seen) cs)"

definition platform_entries :: "platform \<Rightarrow> registration list \<Rightarrow> 'x goerr + entry list" where
  "platform_entries p claims =
     (case subscription_entries (pf_registry (pf_spec p)) of
        Inl e \<Rightarrow> Inl e
      | Inr es \<Rightarrow> Inr (sort_key en_path (es @ claim_entries (set (map fst (pf_registry (pf_spec p)))) claims)))"

definition resolved_registry :: "platform \<Rightarrow> entry list \<Rightarrow> resolved_entry list" where
  "resolved_registry p es =
     map (\<lambda>e. \<lparr>re_catalog = en_path e, re_version = en_version e, re_enabled = en_enable e,
               re_source = (if map_of (pf_registry (pf_spec p)) (en_path e) = None
                            then registry_entry_registration else registry_entry_subscription)\<rparr>) es"


section \<open>The watch of the claims\<close>

definition claim_contribution :: "registration \<Rightarrow> claim_coordinate \<times> bool" where
  "claim_contribution c =
     (let none = (\<lparr>cc_catalog = [], cc_version = []\<rparr>, False)
      in if \<not> rt_accepted (tr_status c) \<or> \<not> rt_active (tr_status c) then none
         else if tr_deletion_timestamp c \<noteq> None \<and> \<not> contributes_after_deletion c then none
         else (\<lparr>cc_catalog = rg_catalog (tr_spec c), cc_version = rg_version (tr_spec c)\<rparr>, True))"

datatype claim_event = Created registration | Removed registration | Updated registration registration

fun claim_contribution_predicate :: "claim_event \<Rightarrow> bool" where
  "claim_contribution_predicate (Created c) = snd (claim_contribution c)"
| "claim_contribution_predicate (Removed c) = snd (claim_contribution c)"
| "claim_contribution_predicate (Updated old new) =
     (let (was, was_contributing) = claim_contribution old;
          (is_now, is_contributing) = claim_contribution new
      in was_contributing \<noteq> is_contributing \<or> was \<noteq> is_now)"

definition map_claim_to_platform :: "registration \<Rightarrow> string list" where
  "map_claim_to_platform c = [platform_singleton_name]"


section \<open>Parameters and state\<close>

text \<open>The platform directory is part of the state.\<close>

record ('w, 'o, 'b) psys = "('w, 'o, 'b) ssys" +
  ps_disk :: disk

type_synonym ('w, 'b, 'z, 'a) fprog = "('w, platform, 'b option, 'z psys_ext, 'a) sprog"

text \<open>
  PlatformReconciler with the third-party code behind it: the client, the library's
  platformmodule.NewRegistry (\<open>pp_new_source\<close>, for the registry mapping and the environment),
  Closure and Generate, the kernel's AcquirePlatformFromDir, the contract inventory of a built
  platform, the operations of the directory, and the build information. \<open>pp_injected\<close> is the field
  ModFiles.
\<close>

record ('w, 'x, 'b, 'm, 'd) platform_params =
  pp_err :: "'x errlib"
  pp_cond :: condlib
  pp_clock :: "'w ticker"
  pp_get :: "'w \<Rightarrow> ('x goerr + platform) \<times> 'w"
  pp_list_claims :: "'w \<Rightarrow> ('x goerr + registration list) \<times> 'w"
  pp_patch :: "string list \<Rightarrow> platform \<Rightarrow> 'w \<Rightarrow> 'x goerr option \<times> 'w"
  pp_injected :: "'m option"
  pp_new_source :: "'w \<Rightarrow> ('x goerr + 'm) \<times> 'w"
  pp_closure :: "'m \<Rightarrow> entry list \<Rightarrow> 'w \<Rightarrow> ('x goerr + 'd) \<times> 'w"
  pp_generate :: "'d module_input \<Rightarrow> 'x goerr + files"
  pp_layout :: layout
  pp_sha256_hex :: "string \<Rightarrow> string"
  pp_faults :: "nat \<Rightarrow> 'x option"
  pp_random :: "'w \<Rightarrow> ('x goerr + string) \<times> 'w"
  pp_acquire :: "string \<Rightarrow> 'w \<Rightarrow> ('x goerr + 'b) \<times> 'w"
  pp_contracts :: "'b option \<Rightarrow> 'x goerr + contract_inventory"
  pp_build :: "build_info option"

definition platform_object_view :: "platform object_view" where
  "platform_object_view =
     \<lparr>ov_conditions = (\<lambda>p. pf_conditions (pf_status p)),
      ov_set_conditions = (\<lambda>cs p. p\<lparr>pf_status := (pf_status p)\<lparr>pf_conditions := cs\<rparr>\<rparr>),
      ov_annotations = (\<lambda>p. []), ov_deletion_timestamp = pf_deletion_timestamp, ov_namespace = (\<lambda>p. [])\<rparr>"

definition platform_ref :: object_ref where
  "platform_ref = \<lparr>or_group = api_group, or_kind = ''Platform'', or_namespace = [], or_name = singleton_name\<rparr>"

definition the_store :: "('w, 'o, 'b, 'z, 'b platform_store) sprog" where
  "the_store = State (\<lambda>s. (ss_store s, s))"

definition change_store :: "('b platform_store \<Rightarrow> 'b platform_store) \<Rightarrow> ('w, 'o, 'b, 'z, unit) sprog" where
  "change_store f = State (\<lambda>s. ((), s\<lparr>ss_store := f (ss_store s)\<rparr>))"

definition on_disk :: "'a disk_prog \<Rightarrow> ('w, 'o, 'b, 'z psys_ext, 'a) sprog" where
  "on_disk m = State (\<lambda>s. let (a, d) = run_state m (ps_disk s) in (a, s\<lparr>ps_disk := d\<rparr>))"

definition change_platform :: "(platform_status \<Rightarrow> platform_status) \<Rightarrow> ('w, 'b, 'z, unit) fprog" where
  "change_platform f = change_object (\<lambda>p. p\<lparr>pf_status := f (pf_status p)\<rparr>)"

definition mark_pf :: "('w, 'x, 'b, 'm, 'd) platform_params \<Rightarrow> mark \<Rightarrow> ('w, 'b, 'z, unit) fprog" where
  "mark_pf P m = mark_object (pp_clock P) platform_object_view m"

definition patch_platform :: "('w, 'x, 'b, 'm, 'd) platform_params \<Rightarrow> ('w, 'b, 'z, 'x goerr option) fprog" where
  "patch_platform P =
     do { p \<leftarrow> the_object;
          request (PatchPlatformAct (pf_status p))
            (pp_patch P [ready_condition, reconciling_condition, stalled_condition, contracts_fulfilled_condition] p) }"

text \<open>os.Stat of a path: the entries of the root directory are directories.\<close>

definition dir_exists :: "layout \<Rightarrow> (nat \<Rightarrow> 'x option) \<Rightarrow> string \<Rightarrow> bool disk_prog" where
  "dir_exists l F path =
     (if path = [] then State_Monad.return False
      else do { es \<leftarrow> disk_entries;
                err \<leftarrow> disk_step F id id;
                State_Monad.return (err = None \<and> list_ex (\<lambda>e. ly_join l (ly_root l) (fst e) = path) es) })"

definition resolve_skew :: "platform \<Rightarrow> skew_policy" where
  "resolve_skew p =
     resolve_skew_policy \<lparr>pf_skew_policy = pf_policy (pf_spec p), pf_package_identity = pf_identity (pf_status p)\<rparr>"


section \<open>Recording the outcome\<close>

definition record_effective_registry ::
    "('w, 'x, 'b, 'm, 'd) platform_params \<Rightarrow> package_identity \<Rightarrow> entry list \<Rightarrow> ('w, 'b, 'z, unit) fprog" where
  "record_effective_registry P identity es =
     change_object (\<lambda>p. p\<lparr>pf_status := (pf_status p)
       \<lparr>pf_identity := identity_string (pp_sha256_hex P) identity, pf_resolved := resolved_registry p es\<rparr>\<rparr>)"

definition observe_platform :: "('w, 'x, 'b, 'm, 'd) platform_params \<Rightarrow> ('w, 'b, 'z, unit) fprog" where
  "observe_platform P =
     change_object (\<lambda>p. p\<lparr>pf_status := (pf_status p)
       \<lparr>pf_observed_generation := pf_generation p, pf_controller_version := full_version (pp_build P)\<rparr>\<rparr>)"

definition is_transient_platform_failure :: "'x errlib \<Rightarrow> 'x goerr option \<Rightarrow> bool" where
  "is_transient_platform_failure E err =
     (is_transient_failure E err \<or>
      (case err of None \<Rightarrow> False | Some e \<Rightarrow> errors_is E ContextDeadlineExceeded e))"

definition fail_reconcile ::
    "('w, 'x, 'b, 'm, 'd) platform_params \<Rightarrow> string \<Rightarrow> 'x goerr option \<Rightarrow> string \<Rightarrow> ('w, 'b, 'z, 'x requeue) fprog" where
  "fail_reconcile P reason classify msg =
     do { p \<leftarrow> the_object;
          let transition = says_other (pp_cond P) ready_condition CFalse reason msg (pf_conditions (pf_status p));
          observe_platform P;
          mark_pf P (mark_stalled (pp_cond P) reason msg);
          (if transition then emit_event ''Warning'' reason ''Generate'' msg else State_Monad.return ());
          err \<leftarrow> patch_platform P;
          State_Monad.return
            (if is_transient_platform_failure (pp_err P) classify then transient_recheck_interval
             else stalled_recheck_interval, err) }"

definition generated_message :: "int64 \<Rightarrow> string" where
  "generated_message g = ''Platform module generated and built for generation '' @ itoa_int (sint g)"

text \<open>What both success paths write on the Platform.\<close>

definition report_generated ::
    "('w, 'x, 'b, 'm, 'd) platform_params \<Rightarrow> package_identity \<Rightarrow> entry list \<Rightarrow> contract_inventory \<Rightarrow>
     ('w, 'b, 'z, unit) fprog" where
  "report_generated P identity es i =
     do { observe_platform P;
          record_effective_registry P identity es;
          mark_pf P (set_contracts_fulfilled (pp_cond P) i);
          p \<leftarrow> the_object;
          mark_pf P (mark_ready_with_reason (pp_cond P) ''Generated'' (generated_message (pf_generation p))) }"


section \<open>The generation\<close>

definition mod_files :: "('w, 'x, 'b, 'm, 'd) platform_params \<Rightarrow> ('w, 'z, 'x goerr + 'm) prog" where
  "mod_files P =
     (case pp_injected P of Some src \<Rightarrow> State_Monad.return (Inr src) | None \<Rightarrow> tick (pp_new_source P))"

text \<open>The package that was built and passed the gate becomes the current one.\<close>

definition record_package ::
    "('w, 'x, 'b, 'm, 'd) platform_params \<Rightarrow> package_identity \<Rightarrow> entry list \<Rightarrow> string \<Rightarrow> 'b \<Rightarrow> contract_inventory \<Rightarrow>
     ('w, 'b, 'z, 'x requeue) fprog" where
  "record_package P identity es dir built i =
     do { p \<leftarrow> the_object;
          change_store (set_generated \<lparr>gn_identity = identity, gn_dir = dir, gn_platform = Some built,
                                       gn_skew = resolve_skew p\<rparr>);
          st \<leftarrow> the_store;
          _ \<leftarrow> on_disk (layout_prune (pp_err P) (pp_faults P) (pp_layout P) (pp_sha256_hex P) True
                 (identity # leased (pp_sha256_hex P) st));
          report_generated P identity es i;
          emit_event ''Normal'' ''Generated'' ''Generate'' (generated_message (pf_generation p));
          err \<leftarrow> patch_platform P;
          State_Monad.return (0, err) }"

text \<open>The build of the module directory and the gate on recording it.\<close>

definition build_package ::
    "('w, 'x, 'b, 'm, 'd) platform_params \<Rightarrow> package_identity \<Rightarrow> entry list \<Rightarrow> string \<Rightarrow>
     ('w, 'b, 'z, 'x requeue) fprog" where
  "build_package P identity es dir =
     do { built \<leftarrow> request (OtherAct ''AcquirePlatformFromDir'') (pp_acquire P dir);
          case built of
            Inl e \<Rightarrow> fail_reconcile P ''BuildFailed'' (Some e) (''building platform module: '' @ err_text (pp_err P) e)
          | Inr b \<Rightarrow>
              (case pp_contracts P (Some b) of
                 Inl e \<Rightarrow> fail_reconcile P ''BuildFailed'' (Some e)
                   (''reading the platform's contract inventory: '' @ err_text (pp_err P) e)
               | Inr i \<Rightarrow>
                   (case inventory_refusal i of
                      Some (reason, msg) \<Rightarrow> fail_reconcile P reason None msg
                    | None \<Rightarrow> record_package P identity es dir b i)) }"

definition generate_package ::
    "('w, 'x, 'b, 'm, 'd) platform_params \<Rightarrow> package_identity \<Rightarrow> entry list \<Rightarrow> ('w, 'b, 'z, 'x requeue) fprog" where
  "generate_package P identity es =
     do { src \<leftarrow> mod_files P;
          case src of
            Inl e \<Rightarrow> fail_reconcile P ''BuildFailed'' (Some e) (''configuring module registry: '' @ err_text (pp_err P) e)
          | Inr src \<Rightarrow>
              do { deps \<leftarrow> request (OtherAct ''Closure'') (pp_closure P src es);
                   case deps of
                     Inl e \<Rightarrow> fail_reconcile P ''BuildFailed'' (Some e)
                       (''resolving platform dependencies: '' @ err_text (pp_err P) e)
                   | Inr deps \<Rightarrow>
                       do { p \<leftarrow> the_object;
                            case pp_generate P \<lparr>mn_name = pf_name p, mn_type = pf_type (pf_spec p),
                                mn_module_path = platform_module_path, mn_entries = es, mn_deps = deps\<rparr> of
                              Inl e \<Rightarrow> fail_reconcile P ''GenerateFailed'' (Some e)
                                (''generating platform module: '' @ err_text (pp_err P) e)
                            | Inr fs \<Rightarrow>
                                do { random \<leftarrow> tick (pp_random P);
                                     dir \<leftarrow> on_disk (layout_write (pp_err P) (pp_faults P) (pp_layout P)
                                       (pp_sha256_hex P) random identity fs);
                                     case dir of
                                       Inl e \<Rightarrow> fail_reconcile P ''GenerateFailed'' (Some e)
                                         (''writing platform module: '' @ err_text (pp_err P) e)
                                     | Inr dir \<Rightarrow> build_package P identity es dir } } } }"


section \<open>The reconcile\<close>

text \<open>The inventory of the package held, when it is the one this reconcile would produce.\<close>

definition held_inventory ::
    "('w, 'x, 'b, 'm, 'd) platform_params \<Rightarrow> package_identity \<Rightarrow> ('w, 'b, 'z, contract_inventory option) fprog" where
  "held_inventory P identity =
     do { st \<leftarrow> the_store;
          case store_generated st of
            None \<Rightarrow> State_Monad.return None
          | Some held \<Rightarrow>
              if gn_identity held \<noteq> identity then State_Monad.return None
              else do { there \<leftarrow> on_disk (dir_exists (pp_layout P) (pp_faults P) (gn_dir held));
                        State_Monad.return
                          (if there then (case pp_contracts P (gn_platform held) of Inl e \<Rightarrow> None | Inr i \<Rightarrow> Some i)
                           else None) } }"

definition skip_generation ::
    "('w, 'x, 'b, 'm, 'd) platform_params \<Rightarrow> package_identity \<Rightarrow> entry list \<Rightarrow> contract_inventory \<Rightarrow>
     ('w, 'b, 'z, 'x requeue) fprog" where
  "skip_generation P identity es i =
     do { report_generated P identity es i;
          err \<leftarrow> patch_platform P;
          State_Monad.return (0, err) }"

definition package_of :: "platform \<Rightarrow> registration list \<Rightarrow> package_identity" where
  "package_of p claims = new_package_identity (pf_generation p) (claim_coordinates claims)"

definition reconcile_tuple ::
    "('w, 'x, 'b, 'm, 'd) platform_params \<Rightarrow> registration list \<Rightarrow> ('w, 'b, 'z, 'x requeue) fprog" where
  "reconcile_tuple P claims =
     do { p \<leftarrow> the_object;
          case platform_entries p claims of
            Inl e \<Rightarrow> fail_reconcile P ''BuildFailed'' (Some e) (err_text (pp_err P) e)
          | Inr es \<Rightarrow>
              do { held \<leftarrow> held_inventory P (package_of p claims);
                   case held of
                     Some i \<Rightarrow> skip_generation P (package_of p claims) es i
                   | None \<Rightarrow> generate_package P (package_of p claims) es } }"

definition reconcile_platform ::
    "('w, 'x, 'b, 'm, 'd) platform_params \<Rightarrow> string \<Rightarrow> ('w, 'b, 'z, 'x requeue) fprog" where
  "reconcile_platform P name =
     (if name \<noteq> platform_singleton_name then State_Monad.return (0, None)
      else do { r \<leftarrow> request (ReadAct platform_ref) (pp_get P);
                case r of
                  Inl e \<Rightarrow>
                    if ae_not_found (pp_err P) e then do { change_store clear_store; State_Monad.return (0, None) }
                    else State_Monad.return (0, Some e)
                | Inr p \<Rightarrow>
                    do { change_object (\<lambda>_. p);
                         if pf_deletion_timestamp p \<noteq> None
                         then do { change_store clear_store; State_Monad.return (0, None) }
                         else do { cs \<leftarrow> request (ListAct registration_kind) (pp_list_claims P);
                                   case cs of
                                     Inl e \<Rightarrow> State_Monad.return (0, Some (wrapped (pp_err P)
                                       ''listing transformer registrations'' e))
                                   | Inr cs \<Rightarrow> reconcile_tuple P (active_of cs) } } })"

end
