(* ===== verification/Registration_Holder.thy ===== *)
theory Registration_Holder
  imports Registration
begin

text \<open>
  The rules of acceptance: one claim holds a catalog, one claim a contract, and a requirement is
  compared within its major.
\<close>

section \<open>The holder of a catalog\<close>

definition rival :: "registration \<Rightarrow> registration \<Rightarrow> bool" where
  "rival c x = (tr_name x \<noteq> tr_name c \<and> rg_catalog (tr_spec x) = rg_catalog (tr_spec c) \<and> competes x)"

lemma older_irrefl [simp]: "\<not> older_claim a a"
  by (simp add: older_claim_def)

lemma older_trans: "older_claim a b \<Longrightarrow> older_claim b c \<Longrightarrow> older_claim a c"
  by (auto simp: older_claim_def split: if_splits)

lemma older_total: "tr_name a \<noteq> tr_name b \<Longrightarrow> older_claim a b \<or> older_claim b a"
  by (auto simp: older_claim_def)

lemma not_older_trans: "\<not> older_claim a b \<Longrightarrow> \<not> older_claim b c \<Longrightarrow> \<not> older_claim a c"
  by (auto simp: older_claim_def split: if_splits)

lemma holder_step_rival: "holder_step c h x = (if rival c x \<and> older_claim x h then x else h)"
  by (auto simp: holder_step_def rival_def)

text \<open>The fold keeps the oldest of what it started with and the rivals.\<close>

lemma holder_fold:
  "let h = foldl (holder_step c) h0 cs in
     (h = h0 \<or> h \<in> set cs \<and> rival c h) \<and> \<not> older_claim h0 h \<and>
     (\<forall>x \<in> set cs. rival c x \<longrightarrow> \<not> older_claim x h)"
proof (induction cs arbitrary: h0)
  case (Cons x cs)
  define h1 where "h1 = holder_step c h0 x"
  define h where "h = foldl (holder_step c) h1 cs"
  have ih: "h = h1 \<or> h \<in> set cs \<and> rival c h" "\<not> older_claim h1 h" "\<forall>y \<in> set cs. rival c y \<longrightarrow> \<not> older_claim y h"
    using Cons.IH [of h1] by (simp_all add: h_def Let_def)
  have "\<not> older_claim h0 h1" "rival c x \<longrightarrow> \<not> older_claim x h1"
    by (auto simp: h1_def holder_step_rival dest: older_trans)
  with ih have "\<not> older_claim h0 h" "rival c x \<longrightarrow> \<not> older_claim x h"
    by (blast dest: not_older_trans)+
  moreover have "h = h0 \<or> h \<in> set (x # cs) \<and> rival c h"
    using ih(1) by (auto simp: h1_def holder_step_rival)
  ultimately show ?case using ih(3) by (auto simp: h_def h1_def Let_def)
qed simp

definition named_claims :: "registration list \<Rightarrow> bool" where
  "named_claims cs = (distinct (map tr_name cs) \<and> list_all (\<lambda>c. tr_name c \<noteq> []) cs)"

lemma same_name: "named_claims cs \<Longrightarrow> a \<in> set cs \<Longrightarrow> b \<in> set cs \<Longrightarrow> tr_name a = tr_name b \<Longrightarrow> a = b"
  by (auto simp: named_claims_def distinct_map dest: inj_onD)

lemma holder_none:
  assumes "named_claims cs" and "c \<in> set cs"
  shows "holder_of cs c = [] \<longleftrightarrow> (\<forall>x \<in> set cs. rival c x \<longrightarrow> older_claim c x)"
proof -
  define h where "h = foldl (holder_step c) c cs"
  have h: "h = c \<or> h \<in> set cs \<and> rival c h" "\<forall>x \<in> set cs. rival c x \<longrightarrow> \<not> older_claim x h"
    using holder_fold [of c c cs] by (simp_all add: h_def Let_def)
  have empty: "holder_of cs c = [] \<longleftrightarrow> h = c"
    using assms h(1) by (auto simp: holder_of_def h_def [symmetric] Let_def rival_def named_claims_def list_all_iff)
  show ?thesis
  proof
    assume "holder_of cs c = []"
    then show "\<forall>x \<in> set cs. rival c x \<longrightarrow> older_claim c x"
      using empty h(2) older_total by (metis rival_def)
  next
    assume oldest: "\<forall>x \<in> set cs. rival c x \<longrightarrow> older_claim c x"
    have "h = c"
    proof (rule ccontr)
      assume "h \<noteq> c"
      then have "rival c h" "older_claim c h" using h(1) oldest by auto
      moreover have "\<not> older_claim c h" using holder_fold [of c c cs] by (simp add: h_def Let_def)
      ultimately show False by simp
    qed
    then show "holder_of cs c = []" using empty by simp
  qed
qed

lemma holder_order:
  assumes "named_claims cs" and "mset cs' = mset cs" and "c \<in> set cs"
  shows "holder_of cs' c = holder_of cs c"
proof -
  have sets: "set cs' = set cs" using assms(2) by (metis set_mset_mset)
  define h where "h = foldl (holder_step c) c cs"
  define h' where "h' = foldl (holder_step c) c cs'"
  have h: "h = c \<or> h \<in> set cs \<and> rival c h" "\<not> older_claim c h" "\<forall>x \<in> set cs. rival c x \<longrightarrow> \<not> older_claim x h"
    using holder_fold [of c c cs] by (simp_all add: h_def Let_def)
  have h': "h' = c \<or> h' \<in> set cs \<and> rival c h'" "\<not> older_claim c h'" "\<forall>x \<in> set cs. rival c x \<longrightarrow> \<not> older_claim x h'"
    using holder_fold [of c c cs'] by (simp_all add: h'_def Let_def sets)
  have "\<not> older_claim h h'" "\<not> older_claim h' h" using h h' by auto
  then have "tr_name h = tr_name h'" using older_total by blast
  moreover have "h \<in> set cs" "h' \<in> set cs" using h(1) h'(1) assms(3) by auto
  ultimately have "h = h'" using same_name [OF assms(1)] by blast
  then show ?thesis by (simp add: holder_of_def h_def h'_def)
qed

text \<open>C26: of the claims that compete for a catalog exactly the oldest holds it, ties broken by name:
  no two of them are let through the duplicate check, one always is, every other one is refused, and
  neither the order of the listing nor a reconcile of any claim moves the decision.\<close>

theorem one_holder_per_catalog:
  assumes "named_claims cs" and "c \<in> set cs" and "competes c"
  shows "(\<exists>!h. h \<in> set cs \<and> competes h \<and> rg_catalog (tr_spec h) = rg_catalog (tr_spec c) \<and> holder_of cs h = []) \<and>
    (\<forall>cs'. mset cs' = mset cs \<longrightarrow> holder_of cs' c = holder_of cs c)"
proof (intro conjI allI impI)
  define h where "h = foldl (holder_step c) c cs"
  have h: "h = c \<or> h \<in> set cs \<and> rival c h" "\<not> older_claim c h" "\<forall>x \<in> set cs. rival c x \<longrightarrow> \<not> older_claim x h"
    using holder_fold [of c c cs] by (simp_all add: h_def Let_def)
  have member: "h \<in> set cs" "competes h" "rg_catalog (tr_spec h) = rg_catalog (tr_spec c)"
    using h(1) assms by (auto simp: rival_def)
  have "older_claim h x" if "x \<in> set cs" "rival h x" for x
  proof (cases "tr_name x = tr_name c")
    case True
    then have "x = c" using same_name [OF assms(1) that(1) assms(2)] by simp
    then show ?thesis using h(2) that(2) older_total [of h x] by (auto simp: rival_def)
  next
    case False
    then have "rival c x" using that member by (auto simp: rival_def)
    then show ?thesis using h(3) that older_total [of h x] by (auto simp: rival_def)
  qed
  then have none: "holder_of cs h = []" using holder_none [OF assms(1) member(1)] by blast
  show "\<exists>!h. h \<in> set cs \<and> competes h \<and> rg_catalog (tr_spec h) = rg_catalog (tr_spec c) \<and> holder_of cs h = []"
  proof (rule ex1I [of _ h])
    fix x
    assume x: "x \<in> set cs \<and> competes x \<and> rg_catalog (tr_spec x) = rg_catalog (tr_spec c) \<and> holder_of cs x = []"
    show "x = h"
    proof (rule ccontr)
      assume "x \<noteq> h"
      then have "tr_name x \<noteq> tr_name h" using same_name [OF assms(1)] x member by blast
      then have "rival h x" "rival x h" using x member by (auto simp: rival_def)
      then have "older_claim h x" "older_claim x h"
        using holder_none [OF assms(1)] none member(1) x by blast+
      then show False using older_trans older_irrefl by blast
    qed
  qed (use member none in blast)
next
  fix cs'
  assume "mset cs' = mset cs"
  then show "holder_of cs' c = holder_of cs c" using holder_order [OF assms(1)] assms(2) by blast
qed


section \<open>Claims to evaluate on\<close>

definition sample_claim :: "string \<Rightarrow> time \<Rightarrow> string \<Rightarrow> string list \<Rightarrow> registration" where
  "sample_claim name created catalog provides =
     \<lparr>tr_name = name, tr_generation = 1, tr_created = created, tr_finalizers = [claim_finalizer_name],
      tr_deletion_timestamp = None,
      tr_spec = \<lparr>rg_catalog = catalog, rg_version = ''1.0.0'', rg_provides = provides,
                 rg_provider = \<lparr>pv_namespace = ''ns'', pv_name = ''k8up''\<rparr>\<rparr>,
      tr_status = \<lparr>rt_observed_generation = 1, rt_conditions = [], rt_accepted = True, rt_active = True\<rparr>\<rparr>"

definition old_claim :: registration where
  "old_claim = sample_claim ''ns.k8up'' 10 ''opmodel.dev/k8up@v1'' [''c/backup@v1'']"

definition new_claim :: registration where
  "new_claim = sample_claim ''other.k8up'' 20 ''opmodel.dev/k8up@v1'' [''c/backup@v1'']"

definition sample_registry_lib :: "string registry_lib" where
  "sample_registry_lib =
     \<lparr>rl_transient = (\<lambda>x. x = ''Fetch''), rl_fetch_status = (\<lambda>x. if x = ''Fetch'' then Some 0 else None),
      rl_split = (\<lambda>p. case split_at (CHR ''@'') p of [base, major] \<Rightarrow> Some (base, major) | _ \<Rightarrow> None),
      rl_semver = (\<lambda>a b. if a = b then 0 else if a < b then -1 else 1)\<rparr>"

text \<open>A registry that times out or serves a catalog with the claim's contracts, and a cluster with the
  given claims and instance.\<close>

definition sample_registration_params ::
    "registration list \<Rightarrow> module_instance \<Rightarrow> bool \<Rightarrow> (unit, string, unit) registration_params" where
  "sample_registration_params cs mi down =
     \<lparr>tp_err = sample_errors, tp_cond = std_conds,
      tp_clock = \<lparr>tk_now = (\<lambda>w. 100), tk_ctx_err = (\<lambda>w. None), tk_wait = (\<lambda>d w. (True, w))\<rparr>,
      tp_lib = sample_registry_lib,
      tp_get_claim = (\<lambda>name w. (case find (\<lambda>c. tr_name c = name) cs of
        None \<Rightarrow> Inl (Ext ''NotFound'') | Some c \<Rightarrow> Inr c, w)),
      tp_get_instance = (\<lambda>ns name w. (Inr mi, w)), tp_list_claims = (\<lambda>w. (Inr cs, w)),
      tp_list_instances = (\<lambda>w. (Inr [mi], w)), tp_patch = (\<lambda>owned c w. (None, w)),
      tp_patch_meta = (\<lambda>c w. (Inr c, w)),
      tp_acquire = (\<lambda>path v w. (if down then Inl (Ext ''Fetch'')
        else Inr \<lparr>ct_provides = Inr [''c/backup@v1''], ct_requires = Inr []\<rparr>, w)),
      tp_read_mod = (\<lambda>dir w. Inr []), tp_parse_mod = (\<lambda>bytes. Inr []),
      tp_contracts = (\<lambda>p. Inr sample_inventory), tp_jitter = (\<lambda>d w. (d + 1, w))\<rparr>"

theorem one_holder_per_catalog_witness:
  "\<exists>!h. h \<in> {new_claim, old_claim} \<and> competes h \<and> rg_catalog (tr_spec h) = ''opmodel.dev/k8up@v1'' \<and>
     holder_of [new_claim, old_claim] h = []"
proof -
  have named: "named_claims [new_claim, old_claim]"
    by (simp add: named_claims_def new_claim_def old_claim_def sample_claim_def)
  have competing: "competes new_claim"
    by (simp add: competes_def contributes_after_deletion_def new_claim_def sample_claim_def)
  show ?thesis
    using one_holder_per_catalog [OF named _ competing] by (simp add: new_claim_def sample_claim_def)
qed


section \<open>The holder of a contract\<close>

lemma holder_walk_finds:
  "x \<in> set xs \<Longrightarrow> fqn \<in> set claimed \<Longrightarrow> fqn \<in> set (rg_provides (tr_spec x)) \<Longrightarrow> [] \<notin> set claimed \<Longrightarrow>
   fst (holder_walk claimed xs) \<noteq> []"
proof (induction xs)
  case (Cons y ys)
  show ?case
  proof (cases "find (\<lambda>fqn. fqn \<in> set (rg_provides (tr_spec y))) claimed")
    case None
    then have "x \<noteq> y" using Cons.prems(2,3) by (auto simp: find_None_iff)
    then show ?thesis using Cons None by simp
  next
    case (Some f)
    then have "f \<in> set claimed" by (auto simp: find_Some_iff)
    then show ?thesis using Some Cons.prems(4) by auto
  qed
qed simp

lemma holder_finds:
  assumes "x \<in> set cs" and "holds_contracts c x" and "fqn \<in> set (rg_provides (tr_spec c))"
    and "fqn \<in> set (rg_provides (tr_spec x))" and "[] \<notin> set (rg_provides (tr_spec c))"
  shows "fst (active_contract_holder cs c) \<noteq> []"
  unfolding active_contract_holder_def
  by (rule holder_walk_finds [of x _ fqn]) (use assms in auto)

text \<open>A claim that was refused stays active, and as long as it does it holds its contracts against
  every other claim: an accepted provider of one of them is refused too, although the refused claim
  contributes nothing to the platform.\<close>

theorem refused_claim_locks_out_provider:
  assumes "\<forall>w. fst (tp_list_claims P w) = Inr cs" and "a \<in> set cs" and "tr_name a \<noteq> tr_name b"
    and "\<not> rt_accepted (tr_status a)" and "rt_active (tr_status a)" and "tr_deletion_timestamp a = None"
    and "fqn \<in> set (rg_provides (tr_spec a))" and "fqn \<in> set (rg_provides (tr_spec b))"
    and "[] \<notin> set (rg_provides (tr_spec b))"
  shows "\<exists>msg. fst (run_state (judge_active P b provider) s) = Refuse ''ContractClaimed'' msg"
proof -
  have "fst (active_contract_holder cs b) \<noteq> []"
    using holder_finds [of a cs b fqn] assms by (simp add: holds_contracts_def competes_def)
  then show ?thesis
    using assms(1) by (simp add: judge_active_def State_Monad.return_def split_beta)
qed

theorem refused_claim_locks_out_provider_witness:
  "\<exists>a b msg. \<not> rt_accepted (tr_status a) \<and> rt_accepted (tr_status b) \<and>
     fst (run_state (judge_active (sample_registration_params [a, b] undefined False) b undefined)
       \<lparr>sys_world = (), sys_trace = []\<rparr>) = Refuse ''ContractClaimed'' msg"
proof -
  define a where "a = old_claim\<lparr>tr_status := (tr_status old_claim)\<lparr>rt_accepted := False\<rparr>\<rparr>"
  define b where "b = sample_claim ''ns.velero'' 5 ''opmodel.dev/velero@v0'' [''c/backup@v1'']"
  have "\<forall>w. fst (tp_list_claims (sample_registration_params [a, b] undefined False) w) = Inr [a, b]"
    by (simp add: sample_registration_params_def)
  from refused_claim_locks_out_provider [OF this, of a b "''c/backup@v1''"]
  have "\<exists>msg. fst (run_state (judge_active (sample_registration_params [a, b] undefined False) b undefined)
      \<lparr>sys_world = (), sys_trace = []\<rparr>) = Refuse ''ContractClaimed'' msg"
    by (simp add: a_def b_def old_claim_def sample_claim_def)
  moreover have "\<not> rt_accepted (tr_status a)" "rt_accepted (tr_status b)"
    by (simp_all add: a_def b_def old_claim_def sample_claim_def)
  ultimately show ?thesis by blast
qed


section \<open>Build compatibility\<close>

text \<open>A requirement of the catalog the platform meets.\<close>

definition meets :: "'x registry_lib \<Rightarrow> (string \<times> string) list \<Rightarrow> (string \<times> string) list \<Rightarrow> string \<Rightarrow> bool" where
  "meets L wants reqs path =
     (\<not> in_opm_namespace path \<or>
      (case rl_split L path of
         None \<Rightarrow> True
       | Some (base, major) \<Rightarrow>
           (case map_of reqs path of
              Some have \<Rightarrow> version_at wants path = [] \<or> have = [] \<or> rl_semver L (version_at wants path) have \<le> 0
            | None \<Rightarrow> \<forall>p \<in> set (map fst reqs). map_option fst (rl_split L p) \<noteq> Some base)))"

lemma refusal_not_Nil [simp]: "conservative_refusal base path want have why \<noteq> []"
  by (simp add: conservative_refusal_def)

lemma sort_Nil_iff [simp]: "sort xs = [] \<longleftrightarrow> xs = []"
  by (metis length_0_conv length_sort)

lemma incompatible_meets: "incompatible_path L wants reqs path = [] \<longleftrightarrow> meets L wants reqs path"
  by (auto simp: incompatible_path_def meets_def majors_of_def filter_empty_conv Let_def split: option.split)

lemma incompatible_walk_meets: "incompatible_walk L wants reqs ps = [] \<longleftrightarrow> (\<forall>p \<in> set ps. meets L wants reqs p)"
  by (induction ps) (auto simp: incompatible_meets)

lemma map_order: "mset ys = mset xs \<Longrightarrow> distinct (map fst xs) \<Longrightarrow> map_of ys = map_of xs"
  by (metis map_of_eq_Some_iff mset_eq_imp_distinct_iff mset_map set_mset_mset option.exhaust ext)

text \<open>The build check accepts a catalog exactly when the platform meets each of its requirements: in
  the OPM namespaces, the platform's own resolution of the same major is at least as new, or carries
  no version, and a path the platform does not carry in that major it carries in no major; and
  neither the verdict nor its wording depends on the order the requirements or the platform's
  resolution are read in.\<close>

theorem build_check_spec:
  assumes "ct_requires cat = Inr wants" and "ct_requires cat' = Inr wants'"
    and "distinct (map fst wants)" and "mset wants' = mset wants"
    and "distinct (map fst reqs)" and "mset reqs' = mset reqs"
  shows "(build_incompatibility L cat reqs = Inr [] \<longleftrightarrow> (\<forall>p \<in> fst ` set wants. meets L wants reqs p)) \<and>
    build_incompatibility L cat' reqs' = build_incompatibility L cat reqs"
proof
  show "build_incompatibility L cat reqs = Inr [] \<longleftrightarrow> (\<forall>p \<in> fst ` set wants. meets L wants reqs p)"
    using assms(1) by (simp add: build_incompatibility_def incompatible_walk_meets)
  have maps: "map_of wants' = map_of wants" "map_of reqs' = map_of reqs"
    using map_order assms(3-6) by blast+
  have paths: "sort (map fst wants') = sort (map fst wants)"
    "sort (filter q (map fst reqs')) = sort (filter q (map fst reqs))" for q
    using assms(4,6) by (auto intro!: sort_mset simp: mset_map [symmetric] mset_filter simp del: mset_map)
      (metis mset_map)+
  have versions: "version_at wants' = version_at wants" "version_at reqs' = version_at reqs"
    by (simp_all add: version_at_def fun_eq_iff maps)
  have majors: "majors_of L reqs' base = majors_of L reqs base" for base
    by (simp add: majors_of_def paths)
  have step: "incompatible_path L wants' reqs' p = incompatible_path L wants reqs p" for p
    unfolding incompatible_path_def versions maps majors resolved_majors_def ..
  have "incompatible_walk L wants' reqs' ps = incompatible_walk L wants reqs ps" for ps
    by (induction ps) (simp_all add: step)
  then show "build_incompatibility L cat' reqs' = build_incompatibility L cat reqs"
    using assms(1,2) by (simp add: build_incompatibility_def paths)
qed

theorem build_check_spec_witness:
  "build_incompatibility sample_registry_lib
     \<lparr>ct_provides = Inr [], ct_requires = Inr [(''opmodel.dev/core@v0'', ''v0.2.0''), (''cue.dev/x@v0'', ''v9'')]\<rparr>
     [(''opmodel.dev/core@v0'', ''v0.3.0'')] = Inr []"
proof -
  let ?wants = "[(''opmodel.dev/core@v0'', ''v0.2.0''), (''cue.dev/x@v0'', ''v9'')]"
  let ?reqs = "[(''opmodel.dev/core@v0'', ''v0.3.0'')]"
  have "\<forall>p \<in> fst ` set ?wants. meets sample_registry_lib ?wants ?reqs p"
    by code_simp
  then show ?thesis
    using build_check_spec [of "\<lparr>ct_provides = Inr [], ct_requires = Inr ?wants\<rparr>" ?wants
        "\<lparr>ct_provides = Inr [], ct_requires = Inr ?wants\<rparr>" ?wants ?reqs ?reqs sample_registry_lib] by simp
qed

end
