(* ===== verification/Registration_Safety.thy ===== *)
theory Registration_Safety
  imports Registration_Holder
begin

text \<open>
  What a reconcile of a TransformerRegistration never does: the activation gate and its latch, the
  verdict kept through a registry outage, the removal that waits for dependents, and what the watch
  of the providers does not see.
\<close>

section \<open>Activation\<close>

definition owned_by :: "registration \<Rightarrow> module_instance \<Rightarrow> bool" where
  "owned_by c mi =
     (case is_inventory (mi_status mi) of
        None \<Rightarrow> False | Some stock \<Rightarrow> list_ex (owns_claim (tr_name c)) (inv_entries stock))"

text \<open>An instance a read of the claim's provider answers, which owns the claim.\<close>

definition provider_of :: "('w, 'x, 'b) registration_params \<Rightarrow> registration \<Rightarrow> module_instance \<Rightarrow> bool" where
  "provider_of P c mi =
     ((\<exists>w. fst (tp_get_instance P (pv_namespace (rg_provider (tr_spec c))) (pv_name (rg_provider (tr_spec c))) w) = Inr mi) \<and>
      owned_by c mi)"

lemma identity_ok: "provider_identity E c answer = IdentityOK mi \<Longrightarrow> answer = Inr mi \<and> owned_by c mi"
  by (auto simp: provider_identity_def owned_by_def split: sum.splits option.splits if_splits)

definition ruled :: "('w, 'x, 'b) registration_params \<Rightarrow> registration \<Rightarrow> 'x ruling \<Rightarrow> bool" where
  "ruled P c r = (\<forall>mi. r = Accept mi \<longrightarrow> provider_of P c mi)"

lemma yields_active: "provider_of P c mi \<Longrightarrow> yields (ruled P c) (judge_active P c mi)"
  unfolding judge_active_def
  by (rule yields_bind, rule yields_return) (auto simp: ruled_def Let_def split: sum.split prod.split)

lemma yields_holder: "provider_of P c mi \<Longrightarrow> yields (ruled P c) (judge_holder P g c mi)"
  unfolding judge_holder_def judge_contracts_def Let_def
  by (rule yields_bind)
    (auto intro!: yields_return yields_active simp: ruled_def split: sum.split option.split prod.split)

lemma yields_build: "provider_of P c mi \<Longrightarrow> yields (ruled P c) (judge_build P g c cat mi)"
  unfolding judge_build_def
  by (rule yields_bind) (auto intro!: yields_return yields_holder simp: ruled_def split: sum.split)

lemma yields_identity:
  "yields (\<lambda>answer. \<forall>mi. answer = Inr mi \<longrightarrow> (\<exists>w. fst (tp_get_instance P ns name w) = Inr mi))
     (request a (tp_get_instance P ns name))"
  by (auto simp: yields_def)

lemma yields_judge: "yields (ruled P c) (judge_claim P g c)"
  unfolding judge_claim_def
  by (rule yields_bind)
    (auto intro!: yields_return yields_via [OF yields_identity] yields_build simp: ruled_def rule_unacquired_def Let_def
      provider_of_def dest!: identity_ok split: sum.split option.split identity_verdict.split)

text \<open>What a patch of the claim may say, given the claim that was read.\<close>

fun gate_ok :: "('w, 'x, 'b) registration_params \<Rightarrow> registration \<Rightarrow> act \<Rightarrow> bool" where
  "gate_ok P c (PatchRegistrationAct fs st) =
     ((rt_active (tr_status c) \<longrightarrow> rt_active st) \<and>
      (rt_active st \<and> \<not> rt_active (tr_status c) \<longrightarrow>
         rt_accepted st \<and>
         (\<exists>mi. provider_of P c mi \<and> is_condition_true (tp_cond P) ready_condition (is_conditions (mi_status mi)))) \<and>
      (rt_accepted st \<and> \<not> rt_accepted (tr_status c) \<longrightarrow>
         claim_finalizer_name \<in> set fs \<and> (\<exists>mi. provider_of P c mi)))"
| "gate_ok P c _ = True"

lemmas claim_steps = mark_tr_def mark_object_def registration_view_def change_registration_def observe_registration_def
  patch_registration_def emit_event_def hold_claim_def State_Monad.return_def

lemma record_gate:
  assumes "os_obj s = c" and "ruled P c r"
  shows "sends s (gate_ok P c) (record_ruling P r)"
proof (cases r)
  case (Accept mi)
  then have "provider_of P c mi" using assms(2) by (simp add: ruled_def)
  then show ?thesis
    using assms(1) Accept
    by (auto simp: sends_def accept_claim_def gate_activation_def claim_steps)
next
  case (Refuse reason msg)
  then show ?thesis using assms(1) by (simp add: sends_def refuse_claim_def claim_steps)
next
  case (Defer reason msg)
  then show ?thesis using assms(1) by (simp add: sends_def defer_verdict_def claim_steps)
next
  case (Hold e)
  then show ?thesis using assms(1) by (simp add: sends_def hold_verdict_kept_def claim_steps Let_def)
qed


section \<open>The shape of a reconcile\<close>

lemma sends_mono: "sends s P m \<Longrightarrow> (\<And>a. P a \<Longrightarrow> Q a) \<Longrightarrow> sends s Q m"
  unfolding sends_def by (meson list.pred_mono_strong)

lemma run_lease_current [simp]:
  "run_state lease_current s =
     (case lease (ss_store s) of None \<Rightarrow> (None, s) | Some (g, st) \<Rightarrow> (Some g, s\<lparr>ss_store := st\<rparr>))"
  by (simp add: lease_current_def)

lemma run_release_held [simp]:
  "run_state (release_held g) s = ((), s\<lparr>ss_store := release_lease (gn_identity g) (ss_store s)\<rparr>)"
  by (simp add: release_held_def)

lemma emits_leases [emits_intro]: "emits ok lease_current" "emits ok (release_held g)"
  by (rule emitsI; simp split: option.split prod.split)+

definition looks :: "act \<Rightarrow> bool" where
  "looks a = (is_read a \<or> (\<exists>path v. a = AcquireAct path v))"

lemma emits_judge: "emits looks (judge_claim P g c)"
proof -
  have "emits looks (judge_active P c mi)" for mi
    unfolding judge_active_def by (intro emits_intro) (simp add: looks_def)
  then have "emits looks (judge_contracts P g c mi)" for mi
    unfolding judge_contracts_def Let_def by (intro emits_intro; auto intro: emits_intro split: prod.split)
  then have "emits looks (judge_holder P g c mi)" for mi
    unfolding judge_holder_def by (intro emits_intro; simp add: looks_def)
  then have "emits looks (judge_build P g c cat mi)" for cat mi
    unfolding judge_build_def by (intro emits_intro; simp)
  then show ?thesis
    unfolding judge_claim_def
    by (intro emits_intro; auto intro: emits_intro simp: looks_def split: identity_verdict.split)
qed

lemma keeps_judge: "keeps sys.more (judge_claim P g c)"
proof -
  have "keeps sys.more (judge_active P c mi)" for mi
    unfolding judge_active_def by (intro keeps_intro)
  then have "keeps sys.more (judge_contracts P g c mi)" for mi
    unfolding judge_contracts_def Let_def by (auto intro!: keeps_intro split: prod.split option.split sum.split)
  then have "keeps sys.more (judge_holder P g c mi)" for mi
    unfolding judge_holder_def by (auto intro!: keeps_intro split: sum.split)
  then have "keeps sys.more (judge_build P g c cat mi)" for cat mi
    unfolding judge_build_def by (auto intro!: keeps_intro split: sum.split)
  then show ?thesis
    unfolding judge_claim_def by (auto intro!: keeps_intro split: sum.split option.split identity_verdict.split)
qed

lemma sends_reconcile_claim:
  fixes s :: "('w, (registration, ('b option, 'z) ssys_ext) osys_ext) sys_scheme"
  assumes look: "\<And>a. looks a \<Longrightarrow> ok a"
    and judged: "\<And>g. yields R (judge_claim P g (os_obj s) :: ('w, (registration, ('b option, 'z) ssys_ext) osys_ext, 'x ruling) prog)"
    and recorded: "\<And>s' r. os_obj (s' :: ('w, (registration, ('b option, 'z) ssys_ext) osys_ext) sys_scheme) = os_obj s \<Longrightarrow>
      R r \<Longrightarrow> sends s' ok (record_ruling P r)"
    and unleased: "lease (ss_store s) = None \<Longrightarrow> sends s ok (defer_verdict P ''PlatformNotReady''
      ''No platform has been generated yet, so the claim cannot be judged'')"
  shows "sends s ok (reconcile_claim P)"
proof (cases "lease (ss_store s)")
  case None
  then show ?thesis using unleased by (simp add: reconcile_claim_def sends_def)
next
  case (Some leased)
  then obtain g st where lease: "lease (ss_store s) = Some (g, st)" by (cases leased) auto
  let ?s = "s\<lparr>ss_store := st\<rparr>"
  obtain r s1 where judge: "run_state (judge_claim P g (os_obj s)) ?s = (r, s1)" by fastforce
  have "sys.more s1 = sys.more ?s" using keepsE [OF keeps_judge judge] .
  then have obj: "os_obj s1 = os_obj s" using same_object [of s1 ?s] by simp
  have "sends ?s ok (judge_claim P g (os_obj s))" by (rule sends_emits [OF emits_mono [OF emits_judge look]])
  then have "sends ?s ok (do { ruling \<leftarrow> judge_claim P g (os_obj s); result \<leftarrow> record_ruling P ruling;
      release_held g; State_Monad.return result })"
  proof (rule sends_bind [OF _ judge])
    obtain x s2 where stored: "run_state (record_ruling P r) s1 = (x, s2)" by fastforce
    show "sends s1 ok (do { result \<leftarrow> record_ruling P r; release_held g; State_Monad.return result })"
      by (rule sends_bind [OF recorded [OF obj yieldsD [OF judged judge]] stored], rule sends_emits) (intro emits_intro)
  qed
  then show ?thesis using lease by (simp add: reconcile_claim_def sends_def)
qed

lemma sends_reconcile_registration:
  fixes s :: "('w, (registration, ('b option, 'z) ssys_ext) osys_ext) sys_scheme"
  assumes "fst (tp_get_claim P name (sys_world s)) = Inr c" and "\<And>r. ok (ReadAct r)"
    and "\<And>s' :: ('w, (registration, ('b option, 'z) ssys_ext) osys_ext) sys_scheme. os_obj s' = c \<Longrightarrow> ss_store s' = ss_store s \<Longrightarrow>
      sends s' ok (if tr_deletion_timestamp c \<noteq> None then reconcile_removal P else reconcile_claim P)"
  shows "sends s ok (reconcile_registration P name)"
proof -
  let ?s = "s\<lparr>sys_world := snd (tp_get_claim P name (sys_world s)),
               sys_trace := sys_trace s @ [ReadAct (registration_ref name)], os_obj := c\<rparr>"
  have "sends ?s ok (if tr_deletion_timestamp c \<noteq> None then reconcile_removal P else reconcile_claim P)"
    by (rule assms(3)) simp_all
  then show ?thesis
    using assms(1,2) by (auto simp: reconcile_registration_def sends_def)
qed


section \<open>The activation gate\<close>

lemma removal_gate: "os_obj s = c \<Longrightarrow> sends s (gate_ok P c) (reconcile_removal P)"
  by (auto simp: sends_def reconcile_removal_def block_removal_def release_claim_def claim_steps Let_def split_beta
      split: sum.split)

text \<open>C24: activation latches, and it is gated: no patch of a claim clears an activation, and one that
  makes it active makes it accepted and was sent because an instance the claim names was read, owns
  the claim in its inventory and reports Ready; a claim that becomes accepted carries the guard
  finalizer in the same patch, and its provider was read and owns it.\<close>

theorem claim_activation_gate:
  fixes P :: "('w, 'x, 'b) registration_params" and s :: "('w, (registration, ('b option, 'z) ssys_ext) osys_ext) sys_scheme"
  assumes "fst (tp_get_claim P name (sys_world s)) = Inr c"
  shows "sends s (gate_ok P c) (reconcile_registration P name)"
proof (rule sends_reconcile_registration [OF assms])
  fix s' :: "('w, (registration, ('b option, 'z) ssys_ext) osys_ext) sys_scheme"
  assume obj: "os_obj s' = c"
  have "sends s' (gate_ok P c) (reconcile_claim P)"
  proof (rule sends_reconcile_claim [where R = "ruled P c"])
    show "gate_ok P c a" if "looks a" for a using that by (cases a) (auto simp: looks_def)
    show "sends s' (gate_ok P c) (defer_verdict P reason msg)" for reason msg
      using record_gate [OF obj, of P "Defer reason msg"] by (simp add: ruled_def)
    show "yields (ruled P c) (judge_claim P g (os_obj s'))" for g using yields_judge [of P c g] obj by simp
  qed (simp add: obj record_gate)
  then show "sends s' (gate_ok P c) (if tr_deletion_timestamp c \<noteq> None then reconcile_removal P else reconcile_claim P)"
    by (simp add: removal_gate [OF obj])
qed simp

definition sample_provider :: module_instance where
  "sample_provider =
     \<lparr>mi_name = ''k8up'', mi_namespace = ''ns'', mi_generation = 1, mi_annotations = [], mi_finalizers = [],
      mi_deletion_timestamp = None,
      mi_spec = \<lparr>sp_suspend = False, sp_owner = owner_controller,
                 sp_module = \<lparr>mod_path = ''example.com/k8up'', mod_version = ''v1.0.0''\<rparr>, sp_values = None,
                 sp_prune = True, sp_data_policy = data_policy_keep, sp_service_account = [], sp_rollout = None\<rparr>,
      mi_status =
        \<lparr>is_observed_generation = 1, is_instance_uuid = ''u'', is_previous_instance_uuid = [],
         is_conditions = [\<lparr>c_type = ready_condition, c_status = CTrue, c_reason = ''Succeeded'', c_message = [], c_since = 1\<rparr>],
         is_last_attempted_action = [], is_last_attempted_at = None, is_last_attempted_duration = None,
         is_last_attempted_source_digest = [], is_last_attempted_config_digest = [],
         is_last_attempted_render_digest = [], is_last_applied_at = None, is_last_applied_source_digest = [],
         is_last_applied_version = [], is_last_applied_inputs = None, is_last_applied_config_digest = [],
         is_last_applied_render_digest = [], is_failure_counters = None,
         is_inventory = Some \<lparr>inv_revision = 1, inv_digest = ''d'', inv_count = 1, inv_entries =
           [\<lparr>ie_group = api_group, ie_kind = registration_kind, ie_namespace = [], ie_name = ''ns.k8up'',
             ie_version = ''v1alpha1'', ie_component = []\<rparr>]\<rparr>,
         is_required_contracts = [''c/backup@v1''], is_history = [], is_next_retry_at = None\<rparr>\<rparr>"

definition sample_claim_start :: "(unit, (registration, (unit option, unit) ssys_ext) osys_ext) sys_scheme" where
  "sample_claim_start =
     \<lparr>sys_world = (), sys_trace = [], os_obj = old_claim,
      ss_store = \<lparr>st_generated = Some \<lparr>gn_identity = zero_identity, gn_dir = [], gn_platform = Some (),
                                      gn_skew = SkewWarn\<rparr>, st_identity = zero_identity, st_leases = []\<rparr>\<rparr>"

theorem claim_activation_gate_witness:
  "sends sample_claim_start (gate_ok (sample_registration_params [old_claim] sample_provider False) old_claim)
     (reconcile_registration (sample_registration_params [old_claim] sample_provider False) ''ns.k8up'')"
  by (rule claim_activation_gate) (simp add: sample_registration_params_def old_claim_def sample_claim_def)


section \<open>A registry that does not answer\<close>

fun verdict_kept :: "registration \<Rightarrow> act \<Rightarrow> bool" where
  "verdict_kept c (PatchRegistrationAct fs st) =
     (fs = tr_finalizers c \<and> rt_accepted st \<and> rt_active st = rt_active (tr_status c) \<and>
      rt_observed_generation st = rt_observed_generation (tr_status c))"
| "verdict_kept c (PatchFinalizersAct fs) = False"
| "verdict_kept c _ = True"

lemma judge_unacquired:
  "fst (tp_acquire P (rg_catalog (tr_spec c)) (rg_version (tr_spec c)) (sys_world s)) = Inl e \<Longrightarrow>
    fst (run_state (judge_claim P g c) s) = rule_unacquired P c e"
  by (simp add: judge_claim_def State_Monad.return_def)

lemma yields_hold:
  assumes "\<forall>w. \<exists>e. fst (tp_acquire P (rg_catalog (tr_spec c)) (rg_version (tr_spec c)) w) = Inl e \<and>
      keeps_verdict (tp_err P) (tp_lib P) e \<and> \<not> as_lib (el_wrong_kind (tp_err P)) e"
    and "verdict_stands c"
  shows "yields (\<lambda>r. \<exists>e. r = Hold e) (judge_claim P g c)"
  unfolding yields_def
proof
  fix s :: "('a, 'd) sys_scheme"
  obtain e where e: "fst (tp_acquire P (rg_catalog (tr_spec c)) (rg_version (tr_spec c)) (sys_world s)) = Inl e"
    "keeps_verdict (tp_err P) (tp_lib P) e" "\<not> as_lib (el_wrong_kind (tp_err P)) e"
    using assms(1) by blast
  show "\<exists>e. fst (run_state (judge_claim P g c) s) = Hold e"
    using judge_unacquired [OF e(1)] e(2,3) assms(2) by (simp add: rule_unacquired_def)
qed

lemma hold_keeps:
  "os_obj s = c \<Longrightarrow> verdict_stands c \<Longrightarrow> sends s (verdict_kept c) (hold_verdict_kept P e)"
  by (simp add: sends_def hold_verdict_kept_def claim_steps verdict_stands_def Let_def)

text \<open>C29: an accepted claim whose spec was not edited since is not un-accepted by a registry that does
  not answer: while every acquisition of its catalog fails with an error that keeps the verdict, a
  reconcile leaves its acceptance, its activation, its finalizers and its observed generation as they
  are, and no finalizer is patched.\<close>

theorem verdict_survives_outage:
  fixes P :: "('w, 'x, 'b) registration_params" and s :: "('w, (registration, ('b option, 'z) ssys_ext) osys_ext) sys_scheme"
  assumes claim: "fst (tp_get_claim P name (sys_world s)) = Inr c" and live: "tr_deletion_timestamp c = None"
    and stands: "verdict_stands c"
    and down: "\<forall>w. \<exists>e. fst (tp_acquire P (rg_catalog (tr_spec c)) (rg_version (tr_spec c)) w) = Inl e \<and>
      keeps_verdict (tp_err P) (tp_lib P) e \<and> \<not> as_lib (el_wrong_kind (tp_err P)) e"
  shows "sends s (verdict_kept c) (reconcile_registration P name)"
proof (rule sends_reconcile_registration [OF claim])
  fix s' :: "('w, (registration, ('b option, 'z) ssys_ext) osys_ext) sys_scheme"
  assume obj: "os_obj s' = c"
  have "sends s' (verdict_kept c) (reconcile_claim P)"
  proof (rule sends_reconcile_claim [where R = "\<lambda>r. \<exists>e. r = Hold e"])
    show "verdict_kept c a" if "looks a" for a using that by (cases a) (auto simp: looks_def)
    show "sends s' (verdict_kept c) (defer_verdict P reason msg)" for reason msg
      using obj stands by (simp add: sends_def defer_verdict_def claim_steps verdict_stands_def)
    show "yields (\<lambda>r. \<exists>e. r = Hold e) (judge_claim P g (os_obj s'))" for g
      using yields_hold [OF down stands] obj by simp
    show "sends s2 (verdict_kept c) (record_ruling P r)" if "os_obj s2 = os_obj s'" "\<exists>e. r = Hold e" for r
        and s2 :: "('w, (registration, ('b option, 'z) ssys_ext) osys_ext) sys_scheme"
      using that obj stands by (auto intro: hold_keeps)
  qed
  then show "sends s' (verdict_kept c) (if tr_deletion_timestamp c \<noteq> None then reconcile_removal P else reconcile_claim P)"
    using live by simp
qed simp

theorem verdict_survives_outage_witness:
  "sends sample_claim_start (verdict_kept old_claim)
     (reconcile_registration (sample_registration_params [old_claim] sample_provider True) ''ns.k8up'')"
proof (rule verdict_survives_outage)
  show "\<forall>w. \<exists>e. fst (tp_acquire (sample_registration_params [old_claim] sample_provider True)
        (rg_catalog (tr_spec old_claim)) (rg_version (tr_spec old_claim)) w) = Inl e \<and>
      keeps_verdict (tp_err (sample_registration_params [old_claim] sample_provider True))
        (tp_lib (sample_registration_params [old_claim] sample_provider True)) e \<and>
      \<not> as_lib (el_wrong_kind (tp_err (sample_registration_params [old_claim] sample_provider True))) e"
    by (simp add: sample_registration_params_def keeps_verdict_def is_transient_failure_def is_terminal_cause_def
        is_typed_resolution_error_def as_lib_def errors_is_def sample_errors_def sample_registry_lib_def)
qed (simp_all add: sample_registration_params_def old_claim_def sample_claim_def verdict_stands_def)


section \<open>The removal\<close>

fun still_held :: "registration \<Rightarrow> act \<Rightarrow> bool" where
  "still_held c (PatchRegistrationAct fs st) =
     (fs = tr_finalizers c \<and> rt_accepted st = rt_accepted (tr_status c) \<and> rt_active st = rt_active (tr_status c))"
| "still_held c (PatchFinalizersAct fs) = False"
| "still_held c _ = True"

lemma removal_blocked:
  assumes "os_obj s = c" and "\<forall>w mis. fst (tp_list_instances P w) = Inr mis \<longrightarrow> mi \<in> set mis" and "demands c mi"
  shows "sends s (still_held c) (reconcile_removal P)"
proof -
  have "dependents_of c mis \<noteq> []" if "fst (tp_list_instances P (sys_world s)) = Inr mis" for mis
  proof -
    have "mi \<in> set mis" using assms(2) that by blast
    then show ?thesis using assms(3) by (auto simp: dependents_of_def filter_empty_conv)
  qed
  then show ?thesis
    using assms(1)
    by (auto simp: sends_def reconcile_removal_def block_removal_def claim_steps Let_def split: sum.split)
qed

lemma removal_released:
  assumes "os_obj s = c" and "fst (tp_list_instances P (sys_world s)) = Inr mis"
    and "\<forall>mi \<in> set mis. \<not> demands c mi" and "claim_finalizer_name \<in> set (tr_finalizers c)"
  shows "sys_trace (snd (run_state (reconcile_removal P) s)) = sys_trace s @
    [ListAct ''ModuleInstance'', PatchFinalizersAct (filter (\<lambda>f. f \<noteq> claim_finalizer_name) (tr_finalizers c))]"
proof -
  have "dependents_of c mis = []" using assms(3) by (simp add: dependents_of_def filter_empty_conv)
  then show ?thesis
    using assms(1,2,4) by (simp add: reconcile_removal_def release_claim_def claim_steps split_beta split: sum.split)
qed


section \<open>What the watch of the providers misses\<close>

text \<open>The digest of an inventory stays that of the rendered set when an object another instance
  adopted leaves its entries. When the claim itself is that object, the update is one the watch
  filters out, and the identity check it would have failed is not run: the claim keeps an acceptance
  it would be refused.\<close>

theorem lost_claim_goes_unseen:
  assumes "is_inventory (mi_status mi) = Some stock" and "list_ex (owns_claim (tr_name c)) (inv_entries stock)"
    and "mi' = mi\<lparr>mi_status := (mi_status mi)\<lparr>is_inventory :=
      Some (stock\<lparr>inv_revision := inv_revision stock + 1,
                  inv_entries := filter (\<lambda>e. \<not> owns_claim (tr_name c) e) (inv_entries stock)\<rparr>)\<rparr>\<rparr>"
  shows "\<not> provider_facts_changed K mi mi' \<and> provider_identity E c (Inr mi) = IdentityOK mi \<and>
    (\<exists>msg. provider_identity E c (Inr mi') = IdentityRefused msg)"
  using assms by (simp add: provider_facts_changed_def read_provider_facts_def provider_identity_def list_ex_iff)

theorem lost_claim_goes_unseen_witness:
  "\<exists>mi'. \<not> provider_facts_changed std_conds sample_provider mi' \<and>
     provider_identity sample_errors old_claim (Inr sample_provider) = IdentityOK sample_provider \<and>
     (\<exists>msg. provider_identity sample_errors old_claim (Inr mi') = IdentityRefused msg)"
proof -
  have "list_ex (owns_claim (tr_name old_claim)) (inv_entries (the (is_inventory (mi_status sample_provider))))"
    by (simp add: sample_provider_def owns_claim_def old_claim_def sample_claim_def)
  moreover have "is_inventory (mi_status sample_provider) = Some (the (is_inventory (mi_status sample_provider)))"
    by (simp add: sample_provider_def)
  ultimately show ?thesis using lost_claim_goes_unseen [OF _ _ refl] by blast
qed

end
