(* ===== verification/Platform_Union.thy ===== *)
theory Platform_Union
  imports Platform_Gen Registration_Safety
begin

text \<open>
  The entries of the generated platform as a function of the Platform and the active claims, what the
  watch of the claims lets through, and what a blocked removal keeps in the package.
\<close>

section \<open>Subscriptions and claims\<close>

text \<open>The specification: a path is that of its subscription, else that of the first active claim.\<close>

definition sub_entry :: "string \<Rightarrow> subscription \<Rightarrow> entry" where
  "sub_entry path s =
     \<lparr>en_path = path, en_version = sub_version s,
      en_enable = (case sub_enable s of None \<Rightarrow> True | Some b \<Rightarrow> b)\<rparr>"

definition claim_entry :: "registration \<Rightarrow> entry" where
  "claim_entry c =
     \<lparr>en_path = rg_catalog (tr_spec c), en_version = rg_version (tr_spec c), en_enable = True\<rparr>"

definition union_entry :: "(string \<times> subscription) list \<Rightarrow> registration list \<Rightarrow> string \<Rightarrow> entry option" where
  "union_entry subs claims path =
     (case map_of subs path of
        Some s \<Rightarrow> Some (sub_entry path s)
      | None \<Rightarrow> map_option claim_entry (find (\<lambda>c. rg_catalog (tr_spec c) = path) claims))"

definition find_entry :: "entry list \<Rightarrow> string \<Rightarrow> entry option" where
  "find_entry es path = find (\<lambda>e. en_path e = path) es"

lemma subscriptions_ok:
  "list_all (\<lambda>s. sub_version (snd s) \<noteq> []) subs \<Longrightarrow>
   subscription_entries subs = Inr (map (\<lambda>(path, s). sub_entry path s) subs)"
  by (induction subs) (auto simp: sub_entry_def)

lemma subscriptions_good:
  "subscription_entries subs = Inr es \<Longrightarrow> list_all (\<lambda>s. sub_version (snd s) \<noteq> []) subs"
  by (induction subs arbitrary: es) (auto split: if_splits sum.splits)

lemma entry_paths [simp]: "en_path (sub_entry p s) = p" "en_path (claim_entry c) = rg_catalog (tr_spec c)"
  by (simp_all add: sub_entry_def claim_entry_def)

lemma claim_entries_step:
  "claim_entries seen (c # cs) =
     (if rg_catalog (tr_spec c) \<in> seen then claim_entries seen cs
      else claim_entry c # claim_entries (insert (rg_catalog (tr_spec c)) seen) cs)"
  by (simp add: claim_entry_def)

declare claim_entries.simps(2) [simp del]
declare claim_entries_step [simp]

lemma claim_entries_paths:
  "distinct (map en_path (claim_entries seen cs)) \<and>
   set (map en_path (claim_entries seen cs)) = (rg_catalog \<circ> tr_spec) ` set cs - seen"
  by (induction cs arbitrary: seen) auto

lemma find_claim_entry:
  "path \<notin> seen \<Longrightarrow>
   find_entry (claim_entries seen cs) path = map_option claim_entry (find (\<lambda>c. rg_catalog (tr_spec c) = path) cs)"
  by (induction cs arbitrary: seen) (auto simp: find_entry_def)

lemma find_claim_seen: "path \<in> seen \<Longrightarrow> find_entry (claim_entries seen cs) path = None"
proof -
  assume "path \<in> seen"
  then have "path \<notin> en_path ` set (claim_entries seen cs)" using claim_entries_paths [of seen cs] by auto
  then show ?thesis by (auto simp: find_entry_def find_None_iff)
qed

lemma find_entry_append:
  "find_entry (xs @ ys) path = (case find_entry xs path of None \<Rightarrow> find_entry ys path | Some e \<Rightarrow> Some e)"
  by (induction xs) (auto simp: find_entry_def)

lemma find_sub_entry:
  "find_entry (map (\<lambda>(path, s). sub_entry path s) subs) path = map_option (sub_entry path) (map_of subs path)"
  by (induction subs) (auto simp: find_entry_def)

text \<open>Among distinct paths the order of the list does not matter to the search.\<close>

lemma find_entry_iff:
  "distinct (map en_path es) \<Longrightarrow> find_entry es path = Some e \<longleftrightarrow> e \<in> set es \<and> en_path e = path"
  by (induction es) (auto simp: find_entry_def)

lemma find_entry_set:
  assumes "distinct (map en_path xs)" and "distinct (map en_path ys)" and "set xs = set ys"
  shows "find_entry xs path = find_entry ys path"
proof (cases "find_entry xs path")
  case None
  show ?thesis
  proof (cases "find_entry ys path")
    case (Some e)
    then show ?thesis using None find_entry_iff [OF assms(1)] find_entry_iff [OF assms(2)] assms(3) by metis
  qed (simp add: None)
next
  case (Some e)
  then show ?thesis using find_entry_iff [OF assms(1)] find_entry_iff [OF assms(2)] assms(3) by metis
qed

lemma sort_key_unique:
  assumes "set xs = set ys" and "distinct (map f xs)" and "distinct (map f ys)"
  shows "sort_key f xs = sort_key (f :: 'a \<Rightarrow> 'b :: linorder) ys"
proof -
  have "inj_on f (set ys)" using assms(3) by (simp add: distinct_map)
  then have inj: "inj_on f (set (sort_key f ys))" by simp
  have keys: "map f (sort_key f xs) = map f (sort_key f ys)"
    by (rule sorted_distinct_set_unique) (use assms in \<open>simp_all add: distinct_map\<close>)
  show ?thesis
    by (rule map_inj_on [OF keys]) (use inj assms(1) in simp)
qed

definition all_versioned :: "platform \<Rightarrow> bool" where
  "all_versioned p = list_all (\<lambda>s. sub_version (snd s) \<noteq> []) (pf_registry (pf_spec p))"

definition union_list :: "platform \<Rightarrow> registration list \<Rightarrow> entry list" where
  "union_list p claims =
     map (\<lambda>(path, s). sub_entry path s) (pf_registry (pf_spec p)) @
     claim_entries (set (map fst (pf_registry (pf_spec p)))) claims"

lemma entries_sorted: "all_versioned p \<Longrightarrow> platform_entries p claims = Inr (sort_key en_path (union_list p claims))"
  by (simp add: platform_entries_def subscriptions_ok all_versioned_def union_list_def)

lemma union_list_distinct:
  assumes "distinct (map fst (pf_registry (pf_spec p)))"
  shows "distinct (map en_path (union_list p claims))"
proof -
  have "map en_path (map (\<lambda>(path, s). sub_entry path s) subs) = map fst subs" for subs
    by (induction subs) auto
  then show ?thesis
    using assms claim_entries_paths [of "set (map fst (pf_registry (pf_spec p)))" claims]
    by (auto simp: union_list_def simp del: map_map)
qed

lemma union_list_find: "find_entry (union_list p claims) path = union_entry (pf_registry (pf_spec p)) claims path"
proof (cases "map_of (pf_registry (pf_spec p)) path")
  case None
  then have "path \<notin> set (map fst (pf_registry (pf_spec p)))" by (simp add: map_of_eq_None_iff)
  then show ?thesis
    using None by (simp add: union_list_def find_entry_append find_sub_entry find_claim_entry union_entry_def)
next
  case (Some s)
  then show ?thesis by (simp add: union_list_def find_entry_append find_sub_entry union_entry_def)
qed

lemma sorted_keys_strict: "distinct (map f xs) \<Longrightarrow> sorted_wrt (<) (map (f :: 'a \<Rightarrow> 'b :: linorder) (sort_key f xs))"
  by (simp add: strict_sorted_iff distinct_map)

text \<open>Two platforms that differ in the order a Go map iterates in.\<close>

definition same_registry :: "platform \<Rightarrow> platform \<Rightarrow> bool" where
  "same_registry p q = (map_of (pf_registry (pf_spec p)) = map_of (pf_registry (pf_spec q)))"

text \<open>C27: the generated module imports every subscription of the Platform and the catalog of every
  active claim, each path once and in order: an authored subscription wins over a claim, a disabled
  one stays disabled, of two claims for one catalog the first in name order counts, and the iteration
  order of the registry does not matter.\<close>

theorem platform_entries_union:
  assumes keys: "distinct (map fst (pf_registry (pf_spec p)))" "distinct (map fst (pf_registry (pf_spec q)))"
    and versions: "all_versioned p" and same: "same_registry p q"
  shows "\<exists>es. platform_entries p claims = Inr es \<and> platform_entries q claims = Inr es \<and>
    sorted_wrt (<) (map en_path es) \<and>
    (\<forall>path. find_entry es path = union_entry (pf_registry (pf_spec p)) claims path)"
proof -
  let ?es = "sort_key en_path (union_list p claims)"
  have registries: "set (pf_registry (pf_spec p)) = set (pf_registry (pf_spec q))"
    using same by (simp add: same_registry_def map_of_inject_set [OF keys])
  then have names: "set (map fst (pf_registry (pf_spec p))) = set (map fst (pf_registry (pf_spec q)))" by auto
  have "all_versioned q" using versions registries by (auto simp: all_versioned_def list_all_iff)
  moreover have "set (union_list p claims) = set (union_list q claims)"
    using registries names by (simp add: union_list_def)
  ultimately have q: "platform_entries q claims = Inr ?es"
    using entries_sorted [of q] sort_key_unique [of "union_list p claims" "union_list q claims" en_path]
      union_list_distinct keys by simp
  have "find_entry ?es path = union_entry (pf_registry (pf_spec p)) claims path" for path
    using find_entry_set [of ?es "union_list p claims"] union_list_distinct [OF keys(1), of claims] union_list_find
    by (simp add: distinct_map)
  then show ?thesis
    using q entries_sorted [OF versions] sorted_keys_strict [OF union_list_distinct [OF keys(1)]] by blast
qed

definition sample_platform :: platform where
  "sample_platform =
     \<lparr>pf_name = singleton_name, pf_generation = 3, pf_deletion_timestamp = None,
      pf_spec = \<lparr>pf_type = ''kubernetes'',
                 pf_registry = [(''opmodel.dev/k8up@v1'', \<lparr>sub_enable = Some False, sub_version = ''v1.1.0''\<rparr>),
                                (''opmodel.dev/core@v0'', \<lparr>sub_enable = None, sub_version = ''v0.2.0''\<rparr>)],
                 pf_policy = None\<rparr>,
      pf_status = \<lparr>pf_observed_generation = 2, pf_identity = ''gen-2'', pf_resolved = [], pf_conditions = [],
                   pf_controller_version = []\<rparr>\<rparr>"

theorem platform_entries_union_witness:
  "\<exists>es. platform_entries sample_platform [old_claim] = Inr es \<and> sorted_wrt (<) (map en_path es) \<and>
     find_entry es ''opmodel.dev/k8up@v1'' =
       Some \<lparr>en_path = ''opmodel.dev/k8up@v1'', en_version = ''v1.1.0'', en_enable = False\<rparr>"
proof -
  have "distinct (map fst (pf_registry (pf_spec sample_platform)))" "all_versioned sample_platform"
    "same_registry sample_platform sample_platform"
    by (simp_all add: sample_platform_def all_versioned_def same_registry_def)
  note platform_entries_union [OF this(1) this(1) this(2) this(3), of "[old_claim]"]
  then show ?thesis by (auto simp: union_entry_def sample_platform_def sub_entry_def)
qed


section \<open>A refusal that changes its text\<close>

text \<open>A refusal for a missing version names the first such entry of the iteration, so with two
  of them the same Platform is refused with two texts, and each repeat that meets the other one is a
  transition that sends a warning again.\<close>

theorem missing_version_message_flaps:
  assumes "sub_version s = []" and "sub_version t = []" and "a \<noteq> b"
    and "pf_registry (pf_spec p) = [(a, s), (b, t)]" and "pf_registry (pf_spec q) = [(b, t), (a, s)]"
  shows "same_registry p q \<and> platform_entries p cs = Inl (missing_version a) \<and>
    platform_entries q cs = Inl (missing_version b)"
  using assms by (auto simp: same_registry_def platform_entries_def fun_eq_iff)

theorem missing_version_message_flaps_witness:
  "\<exists>p q. same_registry p q \<and> err_text sample_errors (missing_version ''a@v0'') \<noteq> err_text sample_errors (missing_version ''b@v0'') \<and>
     platform_entries p [] = Inl (missing_version ''a@v0'') \<and> platform_entries q [] = Inl (missing_version ''b@v0'')"
proof -
  let ?s = "\<lparr>sub_enable = None, sub_version = []\<rparr>"
  let ?p = "sample_platform\<lparr>pf_spec := (pf_spec sample_platform)\<lparr>pf_registry := [(''a@v0'', ?s), (''b@v0'', ?s)]\<rparr>\<rparr>"
  let ?q = "sample_platform\<lparr>pf_spec := (pf_spec sample_platform)\<lparr>pf_registry := [(''b@v0'', ?s), (''a@v0'', ?s)]\<rparr>\<rparr>"
  have "err_text sample_errors (missing_version ''a@v0'') \<noteq> err_text sample_errors (missing_version ''b@v0'')"
    by (simp add: missing_version_def quote_def quote_char_def)
  moreover have "same_registry ?p ?q \<and> platform_entries ?p [] = Inl (missing_version ''a@v0'') \<and>
      platform_entries ?q [] = Inl (missing_version ''b@v0'')"
    by (rule missing_version_message_flaps [of ?s ?s]) simp_all
  ultimately show ?thesis by blast
qed


section \<open>The watch of the claims\<close>

lemma sort_key_map: "sort_key f (map h xs) = map h (sort_key (\<lambda>x. f (h x)) xs)"
proof -
  have ins: "insort_key f (h x) (map h ys) = map h (insort_key (\<lambda>x. f (h x)) x ys)" for x ys
    by (induction ys) auto
  show ?thesis by (induction xs) (auto simp: ins)
qed

text \<open>The package and its entries depend on the coordinates of the active claims in name order.\<close>

lemma claim_entries_coordinates:
  "claim_coordinates cs = claim_coordinates ds \<Longrightarrow> claim_entries seen cs = claim_entries seen ds"
proof (induction cs arbitrary: ds seen)
  case Nil
  then show ?case by (cases ds) (simp_all add: claim_coordinates_def)
next
  case (Cons c cs)
  then obtain d ds' where ds: "ds = d # ds'" by (cases ds) (simp_all add: claim_coordinates_def)
  then have "claim_coordinates cs = claim_coordinates ds'" "rg_catalog (tr_spec c) = rg_catalog (tr_spec d)"
    "rg_version (tr_spec c) = rg_version (tr_spec d)"
    using Cons.prems by (simp_all add: claim_coordinates_def)
  then show ?case using Cons.IH ds by (simp add: claim_entry_def)
qed

lemma package_coordinates:
  assumes "claim_coordinates cs = claim_coordinates ds"
  shows "package_of p cs = package_of p ds" and "platform_entries p cs = platform_entries p ds"
  by (simp add: package_of_def assms) (unfold platform_entries_def claim_entries_coordinates [OF assms], rule refl)

definition coordinate_of :: "registration \<Rightarrow> claim_coordinate" where
  "coordinate_of c = \<lparr>cc_catalog = rg_catalog (tr_spec c), cc_version = rg_version (tr_spec c)\<rparr>"

lemma contribution_active:
  "claim_contribution c =
     (if is_active_claim c then (coordinate_of c, True) else (\<lparr>cc_catalog = [], cc_version = []\<rparr>, False))"
  by (simp add: claim_contribution_def is_active_claim_def coordinate_of_def)

lemma active_coordinates:
  "claim_coordinates (active_of cs) =
     map snd (sort_key fst (map (\<lambda>c. (tr_name c, coordinate_of c)) (filter is_active_claim cs)))"
  by (simp add: active_of_def claim_coordinates_def coordinate_of_def sort_key_map comp_def)

text \<open>The claims listed before and after an event, which is of one object.\<close>

fun claim_lists :: "claim_event \<Rightarrow> registration list \<Rightarrow> registration list \<Rightarrow> registration list \<times> registration list" where
  "claim_lists (Created c) xs ys = (xs @ ys, xs @ c # ys)"
| "claim_lists (Removed c) xs ys = (xs @ c # ys, xs @ ys)"
| "claim_lists (Updated old new) xs ys = (xs @ old # ys, xs @ new # ys)"

fun one_object :: "claim_event \<Rightarrow> bool" where
  "one_object (Updated old new) = (tr_name old = tr_name new)"
| "one_object _ = True"

text \<open>C30: the watch of the claims drops no event a reconcile would act on: after a dropped event the
  claims in the cluster imply the package identity and the entries they implied before it.\<close>

theorem claim_predicate_sound:
  assumes "\<not> claim_contribution_predicate ev" and "one_object ev"
  shows "case claim_lists ev xs ys of (before, later) \<Rightarrow>
    package_of p (active_of later) = package_of p (active_of before) \<and>
    platform_entries p (active_of later) = platform_entries p (active_of before)"
proof -
  have "case claim_lists ev xs ys of (before, later) \<Rightarrow>
      claim_coordinates (active_of later) = claim_coordinates (active_of before)"
  proof (cases ev)
    case (Updated old new)
    then have "is_active_claim old = is_active_claim new"
      "is_active_claim new \<Longrightarrow> coordinate_of old = coordinate_of new"
      using assms(1) by (auto simp: contribution_active split: if_splits)
    then show ?thesis using assms(2) Updated by (simp add: active_coordinates)
  qed (use assms in \<open>simp_all add: contribution_active active_coordinates split: if_splits\<close>)
  then show ?thesis by (auto intro: package_coordinates split: prod.splits)
qed

theorem claim_predicate_sound_witness:
  "package_of sample_platform (active_of [new_claim, old_claim\<lparr>tr_deletion_timestamp := Some 9\<rparr>]) =
   package_of sample_platform (active_of [new_claim, old_claim])"
proof -
  have "\<not> claim_contribution_predicate (Updated old_claim (old_claim\<lparr>tr_deletion_timestamp := Some 9\<rparr>))"
    by (simp add: claim_contribution_def contributes_after_deletion_def old_claim_def sample_claim_def)
  moreover have "one_object (Updated old_claim (old_claim\<lparr>tr_deletion_timestamp := Some 9\<rparr>))" by simp
  ultimately show ?thesis
    using claim_predicate_sound [where xs = "[new_claim]" and ys = "[]" and p = sample_platform] by fastforce
qed


section \<open>A blocked removal keeps the provider\<close>

fun stays_active :: "registration \<Rightarrow> act \<Rightarrow> bool" where
  "stays_active c (PatchRegistrationAct fs st) = is_active_claim (c\<lparr>tr_finalizers := fs, tr_status := st\<rparr>)"
| "stays_active c (PatchFinalizersAct fs) = False"
| "stays_active c _ = True"

lemma held_stays_active:
  assumes "rt_accepted (tr_status c)" "rt_active (tr_status c)" "claim_finalizer_name \<in> set (tr_finalizers c)"
  shows "still_held c a \<Longrightarrow> stays_active c a"
  using assms by (cases "(c, a)" rule: still_held.cases)
    (simp_all add: is_active_claim_def contributes_after_deletion_def)

lemma active_in_entries:
  assumes "c \<in> set cs" and "is_active_claim c" and "platform_entries p (active_of cs) = Inr es"
  shows "\<exists>e. find_entry es (rg_catalog (tr_spec c)) = Some e"
proof -
  have versions: "all_versioned p"
    using assms(3) by (auto simp: platform_entries_def all_versioned_def split: sum.splits dest: subscriptions_good)
  have "rg_catalog (tr_spec c) \<in> en_path ` set (union_list p (active_of cs))"
  proof (cases "rg_catalog (tr_spec c) \<in> set (map fst (pf_registry (pf_spec p)))")
    case True
    then obtain s where "(rg_catalog (tr_spec c), s) \<in> set (pf_registry (pf_spec p))" by auto
    then have "sub_entry (rg_catalog (tr_spec c)) s \<in> set (union_list p (active_of cs))"
      by (force simp: union_list_def)
    then show ?thesis by (metis entry_paths(1) image_eqI)
  next
    case False
    have "c \<in> set (active_of cs)" using assms(1,2) by (simp add: active_of_def)
    then show ?thesis using False claim_entries_paths [of "set (map fst (pf_registry (pf_spec p)))" "active_of cs"]
      by (auto simp: union_list_def)
  qed
  then have "rg_catalog (tr_spec c) \<in> en_path ` set es"
    using assms(3) by (auto simp: entries_sorted [OF versions])
  then have "find_entry es (rg_catalog (tr_spec c)) \<noteq> None" by (auto simp: find_entry_def find_None_iff)
  then show ?thesis by blast
qed

text \<open>C25: the guard of the removal and the Platform agree: as long as an instance demands a contract of
  a claim in force, deleting the claim sends no patch after which the claim would leave the active set,
  and every package generated from a listing with an active claim imports its catalog.\<close>

theorem blocked_removal_keeps_provider:
  fixes P :: "('w, 'x, 'b) registration_params" and s :: "('w, (registration, ('b option, 'z) ssys_ext) osys_ext) sys_scheme"
  assumes claim: "fst (tp_get_claim P name (sys_world s)) = Inr c" "tr_deletion_timestamp c \<noteq> None"
    and force: "rt_accepted (tr_status c)" "rt_active (tr_status c)" "claim_finalizer_name \<in> set (tr_finalizers c)"
    and dependent: "\<forall>w mis. fst (tp_list_instances P w) = Inr mis \<longrightarrow> mi \<in> set mis" "demands c mi"
  shows "sends s (stays_active c) (reconcile_registration P name) \<and>
    (\<forall>c' \<in> set cs. is_active_claim c' \<longrightarrow> platform_entries p (active_of cs) = Inr es \<longrightarrow>
       (\<exists>e. find_entry es (rg_catalog (tr_spec c')) = Some e))"
proof (intro conjI ballI impI)
  show "sends s (stays_active c) (reconcile_registration P name)"
  proof (rule sends_reconcile_registration [OF claim(1)])
    fix s' :: "('w, (registration, ('b option, 'z) ssys_ext) osys_ext) sys_scheme"
    assume "os_obj s' = c"
    then have "sends s' (still_held c) (reconcile_removal P)" by (rule removal_blocked [OF _ dependent])
    then have "sends s' (stays_active c) (reconcile_removal P)"
      by (rule sends_mono) (rule held_stays_active [OF force])
    then show "sends s' (stays_active c)
        (if tr_deletion_timestamp c \<noteq> None then reconcile_removal P else reconcile_claim P)"
      using claim(2) by simp
  qed simp
qed (rule active_in_entries)

theorem blocked_removal_keeps_provider_witness:
  "sends sample_claim_start (stays_active (old_claim\<lparr>tr_deletion_timestamp := Some 9\<rparr>))
     (reconcile_registration (sample_registration_params [old_claim\<lparr>tr_deletion_timestamp := Some 9\<rparr>] sample_provider False)
        ''ns.k8up'')"
proof -
  let ?c = "old_claim\<lparr>tr_deletion_timestamp := Some 9\<rparr>"
  let ?P = "sample_registration_params [?c] sample_provider False"
  have c: "fst (tp_get_claim ?P ''ns.k8up'' (sys_world sample_claim_start)) = Inr ?c" "tr_deletion_timestamp ?c \<noteq> None"
    "rt_accepted (tr_status ?c)" "rt_active (tr_status ?c)" "claim_finalizer_name \<in> set (tr_finalizers ?c)"
    by (simp_all add: sample_registration_params_def old_claim_def sample_claim_def)
  have d: "\<forall>w mis. fst (tp_list_instances ?P w) = Inr mis \<longrightarrow> sample_provider \<in> set mis" "demands ?c sample_provider"
    by (auto simp: sample_registration_params_def demands_def old_claim_def sample_claim_def sample_provider_def)
  show ?thesis using blocked_removal_keeps_provider [OF c d] by blast
qed

end
