(* ===== verification/Platform_Safety.thy ===== *)
theory Platform_Safety
  imports Platform_Union
begin

text \<open>
  What a reconcile of the Platform leaves behind: only a package that was built and passed the gate
  becomes the current one, the status names no package the store does not hold, a failure is tried
  again, the directories of leased packages stay, and a repeated tuple builds nothing.
\<close>

section \<open>Running the parts\<close>

lemma run_the_store [simp]: "run_state the_store s = (ss_store s, s)"
  by (simp add: the_store_def)

lemma run_change_store [simp]: "run_state (change_store f) s = ((), s\<lparr>ss_store := f (ss_store s)\<rparr>)"
  by (simp add: change_store_def)

lemma run_on_disk [simp]:
  "run_state (on_disk m) s = (fst (run_state m (ps_disk s)), s\<lparr>ps_disk := snd (run_state m (ps_disk s))\<rparr>)"
  by (simp add: on_disk_def Let_def split_beta)

lemmas platform_steps = mark_pf_def mark_object_def platform_object_view_def change_platform_def observe_platform_def
  patch_platform_def emit_event_def record_effective_registry_def report_generated_def State_Monad.return_def

fun is_platform_patch :: "act \<Rightarrow> bool" where
  "is_platform_patch (PatchPlatformAct st) = True"
| "is_platform_patch _ = False"

definition platform_patches :: "('w, 'z) sys_scheme \<Rightarrow> act list" where
  "platform_patches s = filter is_platform_patch (sys_trace s)"

type_synonym ('w, 'b, 'z) pstate = "('w, (platform, ('b option, 'z psys_ext) ssys_ext) osys_ext) sys_scheme"

text \<open>Nothing of what the properties read has moved.\<close>

definition level :: "('w, 'b, 'z) pstate \<Rightarrow> ('w, 'b, 'z) pstate \<Rightarrow> bool" where
  "level s0 s = (ss_store s = ss_store s0 \<and> platform_patches s = platform_patches s0 \<and> os_obj s = os_obj s0)"

text \<open>A failure that was reported: the store and the package fields of the status are as they were.\<close>

definition reported ::
    "('w, 'x, 'b, 'm, 'd) platform_params \<Rightarrow> ('w, 'b, 'z) pstate \<Rightarrow> 'x requeue \<Rightarrow> ('w, 'b, 'z) pstate \<Rightarrow> bool" where
  "reported P s0 r s =
     (ss_store s = ss_store s0 \<and>
      (fst r = transient_recheck_interval \<or> fst r = stalled_recheck_interval) \<and>
      (\<exists>st reason msg. platform_patches s = platform_patches s0 @ [PatchPlatformAct st] \<and>
         pf_identity st = pf_identity (pf_status (os_obj s0)) \<and> pf_resolved st = pf_resolved (pf_status (os_obj s0)) \<and>
         cond_view (pp_cond P) ready_condition (pf_conditions st) = Some (CFalse, reason, msg)))"

lemma run_fail:
  assumes "cond_laws (pp_cond P)" and "level s0 s" and "run_state (fail_reconcile P reason cl msg) s = (r, s')"
  shows "reported P s0 r s'"
  using assms(2,3)
  by (auto simp: fail_reconcile_def platform_steps reported_def level_def platform_patches_def Let_def mark_stalled_def
      cond_view_edits [OF assms(1)] split: if_splits)

lemma run_fail_store: "run_state (fail_reconcile P reason cl msg) s = (r, s') \<Longrightarrow> ss_store s' = ss_store s"
  by (auto simp: fail_reconcile_def platform_steps Let_def split: if_splits)

lemma run_fail_disk: "run_state (fail_reconcile P reason cl msg) s = (r, s') \<Longrightarrow> ps_disk s' = ps_disk s"
  by (auto simp: fail_reconcile_def platform_steps Let_def split: if_splits)

lemma resolved_registry_status [simp]: "resolved_registry (p\<lparr>pf_status := st\<rparr>) es = resolved_registry p es"
  by (simp add: resolved_registry_def)

text \<open>A package the status advertises: the store holds it and it is that of the tuple.\<close>

definition advertised ::
    "('w, 'x, 'b, 'm, 'd) platform_params \<Rightarrow> package_identity \<Rightarrow> entry list \<Rightarrow> ('w, 'b, 'z) pstate \<Rightarrow>
     ('w, 'b, 'z) pstate \<Rightarrow> bool" where
  "advertised P identity es s0 s =
     (\<exists>g st msg. st_generated (ss_store s) = Some g \<and> gn_identity g = identity \<and>
        platform_patches s = platform_patches s0 @ [PatchPlatformAct st] \<and>
        pf_identity st = identity_string (pp_sha256_hex P) identity \<and>
        pf_resolved st = resolved_registry (os_obj s0) es \<and>
        pf_observed_generation st = pf_generation (os_obj s0) \<and>
        pf_controller_version st = full_version (pp_build P) \<and>
        cond_view (pp_cond P) ready_condition (pf_conditions st) = Some (CTrue, ''Generated'', msg))"

lemma run_skip:
  assumes "cond_laws (pp_cond P)" and "level s0 s" and "run_state (skip_generation P identity es i) s = (r, s')"
    and "st_generated (ss_store s) = Some g" "gn_identity g = identity"
  shows "advertised P identity es s0 s' \<and> ss_store s' = ss_store s0"
  using assms(2-5)
  by (auto simp: skip_generation_def platform_steps advertised_def level_def platform_patches_def
      mark_ready_with_reason_def cond_view_edits [OF assms(1)])

lemma run_record:
  assumes "cond_laws (pp_cond P)" and "level s0 s" and "run_state (record_package P identity es dir b i) s = (r, s')"
  shows "advertised P identity es s0 s' \<and>
    ss_store s' = set_generated \<lparr>gn_identity = identity, gn_dir = dir, gn_platform = Some b,
      gn_skew = resolve_skew (os_obj s0)\<rparr> (ss_store s0)"
  using assms(2,3)
  by (auto simp: record_package_def platform_steps advertised_def level_def platform_patches_def set_generated_def
      mark_ready_with_reason_def cond_view_edits [OF assms(1)])

lemma run_record_store:
  "run_state (record_package P identity es dir b i) s = (r, s') \<Longrightarrow> st_identity (ss_store s') = identity"
  by (auto simp: record_package_def platform_steps set_generated_def)

lemma run_record_disk:
  assumes "run_state (record_package P identity es dir b i) s = (r, s')"
  shows "ps_disk s' = snd (run_state (layout_prune (pp_err P) (pp_faults P) (pp_layout P) (pp_sha256_hex P) True
    (identity # leased (pp_sha256_hex P) (ss_store s))) (ps_disk s))"
  using assms by (auto simp: record_package_def platform_steps leased_def set_generated_def)

lemma refusal_none: "inventory_refusal i = None \<longleftrightarrow> may_record i"
  by (auto simp: inventory_refusal_def may_record_def Let_def)


section \<open>The outcome of a tuple\<close>

text \<open>The package a reconcile made current.\<close>

definition recorded ::
    "('w, 'x, 'b, 'm, 'd) platform_params \<Rightarrow> package_identity \<Rightarrow> ('w, 'b, 'z) pstate \<Rightarrow> ('w, 'b, 'z) pstate \<Rightarrow> bool" where
  "recorded P identity s0 s =
     (\<exists>b i. ss_store s = set_generated \<lparr>gn_identity = identity,
          gn_dir = layout_dir (pp_layout P) (pp_sha256_hex P) identity, gn_platform = Some b,
          gn_skew = resolve_skew (os_obj s0)\<rparr> (ss_store s0) \<and>
        pp_contracts P (Some b) = Inr i \<and> may_record i)"

lemma yields_dir: "yields (\<lambda>r. \<forall>dir. r = Inr dir \<longrightarrow> dir = layout_dir l sha256_hex i)
    (layout_write E F l sha256_hex random i fs)"
  unfolding layout_write_def layout_swap_def Let_def
  by (auto intro!: yields_intro yields_sum split: sum.split option.split stat_answer.split)

lemma run_build:
  assumes "cond_laws (pp_cond P)" and "level s0 s" and "run_state (build_package P identity es dir) s = (r, s')"
    and "dir = layout_dir (pp_layout P) (pp_sha256_hex P) identity"
  shows "reported P s0 r s' \<or> advertised P identity es s0 s' \<and> recorded P identity s0 s'"
proof -
  let ?s = "s\<lparr>sys_world := snd (pp_acquire P dir (sys_world s)),
               sys_trace := sys_trace s @ [OtherAct ''AcquirePlatformFromDir'']\<rparr>"
  have level: "level s0 ?s" using assms(2) by (simp add: level_def platform_patches_def)
  show ?thesis
  proof (cases "fst (pp_acquire P dir (sys_world s))")
    case (Inl e)
    then show ?thesis using assms(3) run_fail [OF assms(1) level] by (auto simp: build_package_def)
  next
    case built: (Inr b)
    show ?thesis
    proof (cases "pp_contracts P (Some b)")
      case (Inl e)
      then show ?thesis using built assms(3) run_fail [OF assms(1) level] by (auto simp: build_package_def)
    next
      case contracts: (Inr i)
      show ?thesis
      proof (cases "inventory_refusal i")
        case None
        then have "run_state (record_package P identity es dir b i) ?s = (r, s')"
          using built contracts assms(3) by (simp add: build_package_def)
        then show ?thesis
          using run_record [OF assms(1) level] contracts None assms(4) unfolding recorded_def refusal_none by blast
      next
        case (Some refusal)
        then show ?thesis
          using built contracts assms(3) run_fail [OF assms(1) level]
          by (cases refusal) (auto simp: build_package_def)
      qed
    qed
  qed
qed

lemma level_trans: "level s0 s1 \<Longrightarrow> level s1 s2 \<Longrightarrow> level s0 s2"
  by (simp add: level_def)

text \<open>How a generation ends: with a failure, or with a package; in either case after at most one Write.\<close>

definition package_outcome ::
    "('w, 'x, 'b, 'm, 'd) platform_params \<Rightarrow> package_identity \<Rightarrow> entry list \<Rightarrow> ('w, 'b, 'z) pstate \<Rightarrow>
     'x requeue \<Rightarrow> ('w, 'b, 'z) pstate \<Rightarrow> bool" where
  "package_outcome P identity es s0 r s =
     (reported P s0 r s \<or> advertised P identity es s0 s \<and> recorded P identity s0 s)"

abbreviation package_write ::
    "('w, 'x, 'b, 'm, 'd) platform_params \<Rightarrow> 'x goerr + string \<Rightarrow> package_identity \<Rightarrow> files \<Rightarrow>
     ('x goerr + string) disk_prog" where
  "package_write P random identity fs \<equiv>
     layout_write (pp_err P) (pp_faults P) (pp_layout P) (pp_sha256_hex P) random identity fs"

lemma generate_cases:
  assumes level: "level s0 s" and run: "run_state (generate_package P identity es) s = (r, s')"
  obtains
    (failed) reason cl msg s1 where "level s0 s1" "ps_disk s1 = ps_disk s"
      "run_state (fail_reconcile P reason cl msg) s1 = (r, s')"
  | (unwritten) reason cl msg s1 w fs e where "level s0 s1"
      "run_state (package_write P (fst (pp_random P w)) identity fs) (ps_disk s) = (Inl e, ps_disk s1)"
      "run_state (fail_reconcile P reason cl msg) s1 = (r, s')"
  | (written) w fs dir s1 where "level s0 s1"
      "run_state (package_write P (fst (pp_random P w)) identity fs) (ps_disk s) = (Inr dir, ps_disk s1)"
      "run_state (build_package P identity es dir) s1 = (r, s')"
proof -
  obtain src s1 where src: "run_state (mod_files P) s = (src, s1)" by fastforce
  have l1: "level s0 s1" and d1: "ps_disk s1 = ps_disk s"
    using level src by (auto simp: mod_files_def State_Monad.return_def level_def platform_patches_def split: option.splits)
  show thesis
  proof (cases src)
    case (Inl e)
    then show thesis using run src failed [OF l1 d1] by (simp add: generate_package_def)
  next
    case (Inr m)
    obtain deps s2 where deps: "run_state (request (OtherAct ''Closure'') (pp_closure P m es)) s1 = (deps, s2)" by fastforce
    have l2: "level s0 s2" and d2: "ps_disk s2 = ps_disk s"
      using l1 d1 deps by (auto simp: level_def platform_patches_def)
    show thesis
    proof (cases deps)
      case (Inl e)
      then show thesis
        using run src Inr deps failed [OF l2 d2] by (simp add: generate_package_def del: run_request)
    next
      case d: (Inr d)
      let ?input = "\<lparr>mn_name = pf_name (os_obj s2), mn_type = pf_type (pf_spec (os_obj s2)),
        mn_module_path = platform_module_path, mn_entries = es, mn_deps = d\<rparr>"
      show thesis
      proof (cases "pp_generate P ?input")
        case (Inl e)
        then show thesis
          using run src Inr deps d failed [OF l2 d2] by (simp add: generate_package_def del: run_request)
      next
        case fs: (Inr fs)
        let ?w = "sys_world s2"
        let ?s3 = "s2\<lparr>sys_world := snd (pp_random P ?w)\<rparr>"
        obtain dir d4 where wrote: "run_state (package_write P (fst (pp_random P ?w)) identity fs) (ps_disk s) = (dir, d4)"
          by fastforce
        let ?s4 = "?s3\<lparr>ps_disk := d4\<rparr>"
        have l4: "level s0 ?s4" using l2 by (simp add: level_def platform_patches_def)
        show thesis
        proof (cases dir)
          case (Inl e)
          then have "run_state (fail_reconcile P ''GenerateFailed'' (Some e)
              (''writing platform module: '' @ err_text (pp_err P) e)) ?s4 = (r, s')"
            using run src Inr deps d fs wrote d2 by (simp add: generate_package_def del: run_request)
          then show thesis using unwritten [OF l4] wrote Inl by simp
        next
          case path: (Inr path)
          then have "run_state (build_package P identity es path) ?s4 = (r, s')"
            using run src Inr deps d fs wrote d2 by (simp add: generate_package_def del: run_request)
          then show thesis using written [OF l4] wrote path by simp
        qed
      qed
    qed
  qed
qed

lemma run_generate:
  assumes laws: "cond_laws (pp_cond P)" and level: "level s0 s"
    and run: "run_state (generate_package P identity es) s = (r, s')"
  shows "package_outcome P identity es s0 r s'"
  using level run
proof (cases rule: generate_cases)
  case (written w fs dir s1)
  have "dir = layout_dir (pp_layout P) (pp_sha256_hex P) identity"
    using yieldsD [OF yields_dir written(2)] by simp
  then show ?thesis using run_build [OF laws written(1,3)] by (simp add: package_outcome_def)
qed (simp_all add: package_outcome_def run_fail [OF laws])

lemma dir_exists_entries: "dk_entries (snd (run_state (dir_exists l F path) d)) = dk_entries d"
  by (auto simp: dir_exists_def disk_entries_def disk_step_def State_Monad.return_def Let_def)

lemma run_held:
  assumes "level s0 s" and "run_state (held_inventory P identity) s = (held, s1)"
  shows "level s0 s1 \<and> dk_entries (ps_disk s1) = dk_entries (ps_disk s) \<and>
    (\<forall>i. held = Some i \<longrightarrow> (\<exists>g. st_generated (ss_store s) = Some g \<and> gn_identity g = identity))"
  using assms
  by (auto simp: held_inventory_def store_generated_def State_Monad.return_def level_def platform_patches_def
      dir_exists_entries split: option.splits if_splits sum.splits)

text \<open>How a reconcile of the tuple ends.\<close>

definition tuple_outcome ::
    "('w, 'x, 'b, 'm, 'd) platform_params \<Rightarrow> registration list \<Rightarrow> ('w, 'b, 'z) pstate \<Rightarrow>
     'x requeue \<Rightarrow> ('w, 'b, 'z) pstate \<Rightarrow> bool" where
  "tuple_outcome P claims s0 r s =
     (reported P s0 r s \<or>
      (\<exists>es. (platform_entries (os_obj s0) claims :: 'x goerr + entry list) = Inr es \<and>
         advertised P (package_of (os_obj s0) claims) es s0 s \<and>
         (ss_store s = ss_store s0 \<or> recorded P (package_of (os_obj s0) claims) s0 s)))"

lemma run_tuple:
  fixes P :: "('w, 'x, 'b, 'm, 'd) platform_params" and s :: "('w, 'b, 'z) pstate"
  assumes laws: "cond_laws (pp_cond P)" and run: "run_state (reconcile_tuple P claims) s = (r, s')"
  shows "tuple_outcome P claims s r s'"
proof -
  have self: "level s s" by (simp add: level_def)
  show ?thesis
  proof (cases "platform_entries (os_obj s) claims :: 'x goerr + entry list")
    case (Inl e)
    then show ?thesis using run run_fail [OF laws self] by (auto simp: reconcile_tuple_def tuple_outcome_def)
  next
    case es: (Inr es)
    let ?id = "package_of (os_obj s) claims"
    obtain held s1 where held: "run_state (held_inventory P ?id) s = (held, s1)" by fastforce
    note h = run_held [OF self held]
    have store: "ss_store s1 = ss_store s" using h by (simp add: level_def)
    show ?thesis
    proof (cases held)
      case None
      then have "run_state (generate_package P ?id es) s1 = (r, s')"
        using run es held by (simp add: reconcile_tuple_def)
      from run_generate [OF laws conjunct1 [OF h] this] show ?thesis
        using es by (auto simp: tuple_outcome_def package_outcome_def)
    next
      case (Some i)
      then have skip: "run_state (skip_generation P ?id es i) s1 = (r, s')"
        using run es held by (simp add: reconcile_tuple_def)
      from h Some obtain g where "st_generated (ss_store s1) = Some g" "gn_identity g = ?id" using store by auto
      from run_skip [OF laws conjunct1 [OF h] skip this] show ?thesis
        using es by (auto simp: tuple_outcome_def)
    qed
  qed
qed



section \<open>How a reconcile ends\<close>

lemma tuple_outcome_level:
  assumes "level s0 s1"
  shows "tuple_outcome P claims s1 r s = tuple_outcome P claims s0 r s"
  using assms by (simp add: tuple_outcome_def reported_def advertised_def recorded_def level_def)

lemma reconcile_cases:
  assumes run: "run_state (reconcile_platform P name) s = (r, s')"
  obtains
    (idle) "ss_store s' = ss_store s" "ps_disk s' = ps_disk s" "platform_patches s' = platform_patches s"
      "name \<noteq> platform_singleton_name \<or> (\<exists>e. r = (0, Some e))"
  | (cleared) "ss_store s' = clear_store (ss_store s)" "ps_disk s' = ps_disk s"
      "platform_patches s' = platform_patches s" "r = (0, None)" "name = platform_singleton_name"
      "case fst (pp_get P (sys_world s)) of Inl e \<Rightarrow> ae_not_found (pp_err P) e
       | Inr p \<Rightarrow> pf_deletion_timestamp p \<noteq> None"
  | (tuple) p cs s1 where "fst (pp_get P (sys_world s)) = Inr p" "pf_deletion_timestamp p = None"
      "fst (pp_list_claims P (snd (pp_get P (sys_world s)))) = Inr cs"
      "level (s\<lparr>os_obj := p\<rparr>) s1" "ps_disk s1 = ps_disk s"
      "run_state (reconcile_tuple P (active_of cs)) s1 = (r, s')"
proof (cases "name = platform_singleton_name")
  case False
  then show thesis using run idle by (auto simp: reconcile_platform_def State_Monad.return_def)
next
  case name: True
  let ?w = "snd (pp_get P (sys_world s))"
  show thesis
  proof (cases "fst (pp_get P (sys_world s))")
    case (Inl e)
    then show thesis
      using run name idle cleared
      by (cases "ae_not_found (pp_err P) e")
        (auto simp: reconcile_platform_def State_Monad.return_def platform_patches_def)
  next
    case (Inr p)
    show thesis
    proof (cases "pf_deletion_timestamp p")
      case (Some t)
      then show thesis
        using run name Inr cleared
        by (auto simp: reconcile_platform_def State_Monad.return_def platform_patches_def)
    next
      case None
      let ?s1 = "s\<lparr>os_obj := p, sys_world := snd (pp_list_claims P ?w),
        sys_trace := sys_trace s @ [ReadAct platform_ref, ListAct registration_kind]\<rparr>"
      have level: "level (s\<lparr>os_obj := p\<rparr>) ?s1" by (simp add: level_def platform_patches_def)
      show thesis
      proof (cases "fst (pp_list_claims P ?w)")
        case (Inl e)
        then show thesis
          using run name Inr None idle
          by (auto simp: reconcile_platform_def State_Monad.return_def platform_patches_def)
      next
        case (Inr cs)
        then have "run_state (reconcile_tuple P (active_of cs)) ?s1 = (r, s')"
          using run name \<open>fst (pp_get P (sys_world s)) = Inr p\<close> None
          by (simp add: reconcile_platform_def State_Monad.return_def)
        then show thesis using tuple [OF \<open>fst (pp_get P (sys_world s)) = Inr p\<close> None Inr level] by simp
      qed
    qed
  qed
qed

lemma reconcile_tuple_outcome:
  assumes "cond_laws (pp_cond P)" and "run_state (reconcile_platform P platform_singleton_name) s = (r, s')"
    and "fst (pp_get P (sys_world s)) = Inr p" and "pf_deletion_timestamp p = None"
  shows "(\<exists>e. r = (0, Some e)) \<and> ss_store s' = ss_store s \<and> platform_patches s' = platform_patches s \<or>
    (\<exists>cs. tuple_outcome P (active_of cs) (s\<lparr>os_obj := p\<rparr>) r s')"
  using assms(2)
proof (cases rule: reconcile_cases)
  case (tuple q cs s1)
  have "tuple_outcome P (active_of cs) (s\<lparr>os_obj := q\<rparr>) r s'"
    using run_tuple [OF assms(1) tuple(6)] tuple_outcome_level [OF tuple(4)] by blast
  then show ?thesis using tuple(1) assms(3) by auto
qed (use assms(3,4) in auto)


section \<open>A cluster to evaluate on\<close>

text \<open>A registry and a kernel that answer, one active claim, and a store whose package a render holds.\<close>

definition sample_platform_params :: "(unit, string, unit, unit, unit) platform_params" where
  "sample_platform_params =
     \<lparr>pp_err = sample_errors, pp_cond = std_conds,
      pp_clock = \<lparr>tk_now = (\<lambda>w. 100), tk_ctx_err = (\<lambda>w. None), tk_wait = (\<lambda>d w. (True, w))\<rparr>,
      pp_get = (\<lambda>w. (Inr sample_platform, w)), pp_list_claims = (\<lambda>w. (Inr [old_claim], w)),
      pp_patch = (\<lambda>owned p w. (None, w)), pp_injected = None, pp_new_source = (\<lambda>w. (Inr (), w)),
      pp_closure = (\<lambda>src es w. (Inr (), w)), pp_generate = (\<lambda>i. Inr [(''platform.cue'', mn_name i)]),
      pp_layout = \<lparr>ly_root = ''/p'', ly_join = (\<lambda>a b. a @ ''/'' @ b)\<rparr>, pp_sha256_hex = id, pp_faults = (\<lambda>n. None),
      pp_random = (\<lambda>w. (Inr ''ff'', w)), pp_acquire = (\<lambda>dir w. (Inr (), w)),
      pp_contracts = (\<lambda>b. Inr (sample_inventory\<lparr>ci_over_subscribed := [], ci_routable := True\<rparr>)),
      pp_build = None\<rparr>"

definition sample_package :: "package_identity \<Rightarrow> unit option generated" where
  "sample_package i =
     \<lparr>gn_identity = i, gn_dir = ''/p/'' @ identity_string id i, gn_platform = Some (), gn_skew = SkewWarn\<rparr>"

definition sample_platform_state :: "package_identity \<Rightarrow> (unit, unit, unit) pstate" where
  "sample_platform_state i =
     \<lparr>sys_world = (), sys_trace = [], os_obj = sample_platform,
      ss_store = \<lparr>st_generated = Some (sample_package i), st_identity = i, st_leases = [(i, 1)]\<rparr>,
      ps_disk = \<lparr>dk_entries = [(identity_string id i, Whole [(''platform.cue'', [])])], dk_seen = [], dk_ops = 0\<rparr>\<rparr>"

definition older_identity :: package_identity where
  "older_identity = \<lparr>pi_generation = 2, pi_claims = []\<rparr>"

lemma sample_platform_simps [simp]:
  "pp_cond sample_platform_params = std_conds" "pp_get sample_platform_params w = (Inr sample_platform, w)"
  "pp_list_claims sample_platform_params w = (Inr [old_claim], w)" "pf_deletion_timestamp sample_platform = None"
  "pp_random sample_platform_params w = (Inr ''ff'', w)" "pp_sha256_hex sample_platform_params = id"
  by (simp_all add: sample_platform_params_def sample_platform_def)


text \<open>The sample run makes the package of its tuple current.\<close>

lemma sample_fields:
  "pp_injected sample_platform_params = None" "pp_new_source sample_platform_params w = (Inr (), w)"
  "pp_closure sample_platform_params src es w = (Inr (), w)"
  "pp_generate sample_platform_params i = Inr [(''platform.cue'', mn_name i)]"
  "pp_acquire sample_platform_params dir w = (Inr (), w)"
  "pp_contracts sample_platform_params b = Inr (sample_inventory\<lparr>ci_over_subscribed := [], ci_routable := True\<rparr>)"
  by (simp_all add: sample_platform_params_def)

abbreviation sample_tuple :: package_identity where
  "sample_tuple \<equiv> package_of sample_platform (active_of [old_claim])"

lemma sample_tuple_other: "identity_string id older_identity \<noteq> identity_string id sample_tuple"
  by code_simp

lemma sample_tuple_entries: "\<exists>es. (platform_entries sample_platform (active_of [old_claim]) :: string goerr + entry list) = Inr es"
  (is "\<exists>es. ?x = Inr es")
proof -
  have "case ?x of Inl e \<Rightarrow> False | Inr es \<Rightarrow> True" by code_simp
  then show ?thesis by (cases ?x) auto
qed

lemma sample_written:
  "\<exists>dir. fst (run_state (layout_write (pp_err sample_platform_params) (pp_faults sample_platform_params)
     (pp_layout sample_platform_params) id (Inr ''ff'') sample_tuple [(''platform.cue'', pf_name sample_platform)])
     (ps_disk (sample_platform_state older_identity))) = Inr dir"
  (is "\<exists>dir. ?x = Inr dir")
proof -
  have "case ?x of Inl e \<Rightarrow> False | Inr dir \<Rightarrow> True" by code_simp
  then show ?thesis by (cases ?x) auto
qed

lemma sample_run:
  assumes "\<And>g. st_generated st = Some g \<Longrightarrow> gn_identity g \<noteq> sample_tuple"
  shows "\<exists>es i dir s1. run_state (reconcile_platform sample_platform_params platform_singleton_name)
     ((sample_platform_state older_identity)\<lparr>ss_store := st\<rparr>) =
       run_state (record_package sample_platform_params sample_tuple es dir () i) s1 \<and> ss_store s1 = st"
proof -
  obtain es where es: "(platform_entries sample_platform (active_of [old_claim]) :: string goerr + entry list) = Inr es"
    using sample_tuple_entries by blast
  obtain dir where dir: "fst (run_state (layout_write (pp_err sample_platform_params) (pp_faults sample_platform_params)
      (pp_layout sample_platform_params) id (Inr ''ff'') sample_tuple [(''platform.cue'', pf_name sample_platform)])
      (ps_disk (sample_platform_state older_identity))) = Inr dir"
    using sample_written by blast
  have "inventory_refusal (sample_inventory\<lparr>ci_over_subscribed := [], ci_routable := True\<rparr>) = None"
    by (simp add: refusal_none may_record_def sample_inventory_def)
  then show ?thesis
    using dir assms
    by (cases "st_generated st") (simp_all add: reconcile_platform_def reconcile_tuple_def es generate_package_def
        build_package_def mod_files_def held_inventory_def store_generated_def sample_platform_state_def
        State_Monad.return_def sample_fields, (intro exI conjI, rule refl, simp)+)
qed

lemma sample_recorded:
  assumes "run_state (reconcile_platform sample_platform_params platform_singleton_name)
      ((sample_platform_state older_identity)\<lparr>ss_store := st\<rparr>) = (r, s')"
    and "\<And>g. st_generated st = Some g \<Longrightarrow> gn_identity g \<noteq> sample_tuple"
  obtains g where "st_generated (ss_store s') = Some g" "gn_identity g = sample_tuple"
    "ss_store s' = set_generated g st"
proof -
  obtain es i dir s1 where run: "run_state (record_package sample_platform_params sample_tuple es dir () i) s1 = (r, s')"
    and "ss_store s1 = st"
    using sample_run [of st] assms by auto
  then have stored: "ss_store s' = set_generated \<lparr>gn_identity = sample_tuple, gn_dir = dir, gn_platform = Some (),
      gn_skew = resolve_skew (os_obj s1)\<rparr> st"
    by (auto simp: record_package_def platform_steps)
  from that [OF _ _ stored] show thesis by (simp add: stored set_generated_def)
qed


section \<open>Properties\<close>

text \<open>C18: the status never advertises a package the controller does not hold: a reconcile of the live
  Platform writes one status at most; either it reports a failure, with the package identity and the
  registry of the last package untouched, the store as it was, Ready False and a retry within the
  minute or the stalled recheck; or it reports Ready for the generation it observed, with the
  identity of the tuple it read, which is that of the package the store holds, and the union that
  package was generated from. Without a status the reconcile returns an error.\<close>

theorem platform_status_honest:
  fixes P :: "('w, 'x, 'b, 'm, 'd) platform_params" and s :: "('w, 'b, 'z) pstate"
  assumes "cond_laws (pp_cond P)" and "run_state (reconcile_platform P platform_singleton_name) s = (r, s')"
    and "fst (pp_get P (sys_world s)) = Inr p" and "pf_deletion_timestamp p = None"
  shows "(\<exists>e. r = (0, Some e)) \<and> ss_store s' = ss_store s \<and> platform_patches s' = platform_patches s \<or>
    reported P (s\<lparr>os_obj := p\<rparr>) r s' \<or>
    (\<exists>cs es. (platform_entries p (active_of cs) :: 'x goerr + entry list) = Inr es \<and>
       advertised P (package_of p (active_of cs)) es (s\<lparr>os_obj := p\<rparr>) s')"
  using reconcile_tuple_outcome [OF assms] by (auto simp: tuple_outcome_def)

theorem platform_status_honest_witness:
  "case run_state (reconcile_platform sample_platform_params platform_singleton_name) (sample_platform_state older_identity) of
     (r, s') \<Rightarrow>
       (\<exists>e. r = (0, Some e)) \<or> reported sample_platform_params ((sample_platform_state older_identity)\<lparr>os_obj := sample_platform\<rparr>) r s' \<or>
       (\<exists>cs es. advertised sample_platform_params (package_of sample_platform (active_of cs)) es
          ((sample_platform_state older_identity)\<lparr>os_obj := sample_platform\<rparr>) s')"
proof -
  obtain r s' where run: "run_state (reconcile_platform sample_platform_params platform_singleton_name)
      (sample_platform_state older_identity) = (r, s')" by fastforce
  from platform_status_honest [OF _ run, of sample_platform] show ?thesis
    using run std_cond_laws by auto
qed

definition package_sound :: "('w, 'x, 'b, 'm, 'd) platform_params \<Rightarrow> 'b option platform_store \<Rightarrow> bool" where
  "package_sound P st =
     (case st_generated st of
        None \<Rightarrow> st_identity st = zero_identity
      | Some g \<Rightarrow>
          st_identity st = gn_identity g \<and>
          gn_dir g = layout_dir (pp_layout P) (pp_sha256_hex P) (gn_identity g) \<and>
          (case gn_platform g of
             None \<Rightarrow> False
           | Some b \<Rightarrow> (case pp_contracts P (Some b) of Inl e \<Rightarrow> False | Inr i \<Rightarrow> may_record i)))"

lemma recorded_sound: "recorded P identity s0 s \<Longrightarrow> package_sound P (ss_store s)"
  by (auto simp: recorded_def package_sound_def set_generated_def)

lemma recorded_leases: "recorded P identity s0 s \<Longrightarrow> st_leases (ss_store s) = st_leases (ss_store s0)"
  by (auto simp: recorded_def set_generated_def)

lemma reconcile_gate:
  assumes "cond_laws (pp_cond P)" and "package_sound P (ss_store s)"
    and "run_state (reconcile_platform P name) s = (r, s')"
  shows "package_sound P (ss_store s') \<and> st_leases (ss_store s') = st_leases (ss_store s)"
  using assms(3)
proof (cases rule: reconcile_cases)
  case (tuple p cs s1)
  have "tuple_outcome P (active_of cs) (s\<lparr>os_obj := p\<rparr>) r s'"
    using run_tuple [OF assms(1) tuple(6)] tuple_outcome_level [OF tuple(4)] by blast
  then show ?thesis
    using assms(2) by (auto simp: tuple_outcome_def reported_def recorded_sound dest: recorded_leases)
qed (use assms(2) in \<open>simp_all add: clear_store_def package_sound_def\<close>)

section \<open>The directories\<close>

text \<open>The directories of the leased packages, other than the one being generated.\<close>

definition leases_kept ::
    "('w, 'x, 'b, 'm, 'd) platform_params \<Rightarrow> package_identity \<Rightarrow> 'b option platform_store \<Rightarrow> entries \<Rightarrow> entries \<Rightarrow> bool" where
  "leases_kept P identity st e0 e =
     (\<forall>i \<in> fst ` set (st_leases st). identity_string (pp_sha256_hex P) i \<noteq> identity_string (pp_sha256_hex P) identity \<longrightarrow>
        map_of e (identity_string (pp_sha256_hex P) i) = map_of e0 (identity_string (pp_sha256_hex P) i))"

lemma untouched_leases: "untouched e0 (identity_string (pp_sha256_hex P) identity) e \<Longrightarrow> leases_kept P identity st e0 e"
  by (auto simp: leases_kept_def untouched_def package_names)

lemma prune_leases:
  assumes "leases_kept P identity st e0 (dk_entries d)" and "map_of (dk_entries d) (identity_string (pp_sha256_hex P) identity) = x"
  shows "leases_kept P identity st e0 (dk_entries (snd (run_state (layout_prune E F l (pp_sha256_hex P) b
      (identity # leased (pp_sha256_hex P) st)) d))) \<and>
    map_of (dk_entries (snd (run_state (layout_prune E F l (pp_sha256_hex P) b
      (identity # leased (pp_sha256_hex P) st)) d))) (identity_string (pp_sha256_hex P) identity) = x"
proof -
  let ?d = "snd (run_state (layout_prune E F l (pp_sha256_hex P) b (identity # leased (pp_sha256_hex P) st)) d)"
  have "\<forall>i \<in> set (identity # leased (pp_sha256_hex P) st).
      map_of (dk_entries ?d) (identity_string (pp_sha256_hex P) i) = map_of (dk_entries d) (identity_string (pp_sha256_hex P) i)"
    using layout_prune_keeps [of "identity # leased (pp_sha256_hex P) st" "pp_sha256_hex P" "dk_entries d" E F l b]
    unfolding observes_def by blast
  then show ?thesis using assms by (auto simp: leases_kept_def leased_def)
qed

lemma run_build_disk:
  assumes "run_state (build_package P identity es dir) s = (r, s')"
    and "leases_kept P identity (ss_store s) e0 (dk_entries (ps_disk s))"
    and "map_of (dk_entries (ps_disk s)) (identity_string (pp_sha256_hex P) identity) = x"
  shows "leases_kept P identity (ss_store s) e0 (dk_entries (ps_disk s'))"
    and "map_of (dk_entries (ps_disk s')) (identity_string (pp_sha256_hex P) identity) = x"
    and "ss_store s' = ss_store s \<or> st_identity (ss_store s') = identity"
proof -
  note pruned = prune_leases [OF assms(2,3)]
  show "leases_kept P identity (ss_store s) e0 (dk_entries (ps_disk s'))"
    "map_of (dk_entries (ps_disk s')) (identity_string (pp_sha256_hex P) identity) = x"
    using assms(1)
    by (auto simp: build_package_def split: sum.splits option.splits
        dest!: run_fail_disk run_record_disk simp: assms(2,3) pruned)
  show "ss_store s' = ss_store s \<or> st_identity (ss_store s') = identity"
    using assms(1)
    by (auto simp: build_package_def split: sum.splits option.splits dest!: run_fail_store run_record_store)
qed

text \<open>The names of the swap are not in use: their random suffix is fresh.\<close>

definition suffixes_fresh :: "('w, 'x, 'b, 'm, 'd) platform_params \<Rightarrow> entries \<Rightarrow> bool" where
  "suffixes_fresh P e =
     (\<forall>w sx n. fst (pp_random P w) = Inr sx \<longrightarrow> map_of e (aside_prefix @ n @ ''-'' @ sx) = None)"

lemma package_write_disk:
  assumes "suffixes_fresh P (dk_entries d)" and "run_state (package_write P (fst (pp_random P w)) identity fs) d = (dir, d')"
  shows "stored (dk_entries d) (identity_string (pp_sha256_hex P) identity) fs dir (dk_entries d')"
proof -
  have "\<And>sx. fst (pp_random P w) = Inr sx \<Longrightarrow>
      map_of (dk_entries d) (aside_prefix @ identity_string (pp_sha256_hex P) identity @ ''-'' @ sx) = None"
    using assms(1) by (simp add: suffixes_fresh_def)
  then have "observes (readable (dk_entries d) (identity_string (pp_sha256_hex P) identity) fs) (\<lambda>e. e = dk_entries d)
      (package_write P (fst (pp_random P w)) identity fs)
      (stored (dk_entries d) (identity_string (pp_sha256_hex P) identity) fs)"
    by (rule observes_write)
  then have "stored (dk_entries d) (identity_string (pp_sha256_hex P) identity) fs
      (fst (run_state (package_write P (fst (pp_random P w)) identity fs) d))
      (dk_entries (snd (run_state (package_write P (fst (pp_random P w)) identity fs) d)))"
    unfolding observes_def by blast
  then show ?thesis using assms(2) by simp
qed

text \<open>What a generation leaves on the disk.\<close>

definition disk_outcome ::
    "('w, 'x, 'b, 'm, 'd) platform_params \<Rightarrow> package_identity \<Rightarrow> ('w, 'b, 'z) pstate \<Rightarrow> ('w, 'b, 'z) pstate \<Rightarrow> bool" where
  "disk_outcome P identity s s' =
     (leases_kept P identity (ss_store s) (dk_entries (ps_disk s)) (dk_entries (ps_disk s')) \<and>
      (ss_store s' \<noteq> ss_store s \<longrightarrow> st_identity (ss_store s') = identity \<and>
         (\<exists>fs. map_of (dk_entries (ps_disk s')) (identity_string (pp_sha256_hex P) identity) = Some (Whole fs))))"

lemma same_disk:
  "ss_store s' = ss_store s \<Longrightarrow> dk_entries (ps_disk s') = dk_entries (ps_disk s) \<Longrightarrow> disk_outcome P identity s s'"
  by (simp add: disk_outcome_def leases_kept_def)

lemma run_generate_disk:
  assumes run: "run_state (generate_package P identity es) s = (r, s')"
    and fresh: "suffixes_fresh P (dk_entries (ps_disk s))"
  shows "disk_outcome P identity s s'"
proof -
  have "level s s" by (simp add: level_def)
  then show ?thesis
    using run
  proof (cases rule: generate_cases)
    case (failed reason cl msg s1)
    then show ?thesis
      using run_fail_disk [OF failed(3)] run_fail_store [OF failed(3)] by (simp add: same_disk level_def)
  next
    case (unwritten reason cl msg s1 w fs e)
    then show ?thesis
      using package_write_disk [OF fresh unwritten(2)] run_fail_disk [OF unwritten(3)] run_fail_store [OF unwritten(3)] unwritten(1)
      by (simp add: stored_def untouched_leases disk_outcome_def level_def)
  next
    case (written w fs dir s1)
    have "leases_kept P identity (ss_store s1) (dk_entries (ps_disk s)) (dk_entries (ps_disk s1))"
      "map_of (dk_entries (ps_disk s1)) (identity_string (pp_sha256_hex P) identity) = Some (Whole fs)"
      using package_write_disk [OF fresh written(2)] by (simp_all add: stored_def untouched_leases)
    from run_build_disk [OF written(3) this] show ?thesis
      using written(1) by (auto simp: disk_outcome_def level_def)
  qed
qed

lemma skip_same:
  "run_state (skip_generation P identity es i) s = (r, s') \<Longrightarrow> ps_disk s' = ps_disk s \<and> ss_store s' = ss_store s"
  by (auto simp: skip_generation_def platform_steps)

lemma run_tuple_disk:
  fixes P :: "('w, 'x, 'b, 'm, 'd) platform_params" and s :: "('w, 'b, 'z) pstate"
  assumes "run_state (reconcile_tuple P claims) s = (r, s')" and fresh: "suffixes_fresh P (dk_entries (ps_disk s))"
  shows "disk_outcome P (package_of (os_obj s) claims) s s'"
proof (cases "platform_entries (os_obj s) claims :: 'x goerr + entry list")
  case (Inl e)
  then have "run_state (fail_reconcile P ''BuildFailed'' (Some e) (err_text (pp_err P) e)) s = (r, s')"
    using assms(1) by (simp add: reconcile_tuple_def)
  then show ?thesis using run_fail_disk run_fail_store by (metis same_disk)
next
  case es: (Inr es)
  let ?id = "package_of (os_obj s) claims"
  obtain held s1 where held: "run_state (held_inventory P ?id) s = (held, s1)" by fastforce
  have "level s s" by (simp add: level_def)
  note h = run_held [OF this held]
  have "disk_outcome P ?id s1 s'"
  proof (cases held)
    case None
    then have "run_state (generate_package P ?id es) s1 = (r, s')"
      using assms(1) es held by (simp add: reconcile_tuple_def)
    then show ?thesis by (rule run_generate_disk) (use fresh h in simp)
  next
    case (Some i)
    then have "run_state (skip_generation P ?id es i) s1 = (r, s')"
      using assms(1) es held by (simp add: reconcile_tuple_def)
    then show ?thesis using skip_same same_disk by metis
  qed
  then show ?thesis using h by (simp add: disk_outcome_def level_def)
qed

text \<open>The package a reconcile is for, when the Platform is there and the claims could be listed.\<close>

definition tuple_identity ::
    "('w, 'x, 'b, 'm, 'd) platform_params \<Rightarrow> ('w, 'b, 'z) pstate \<Rightarrow> package_identity option" where
  "tuple_identity P s =
     (case (fst (pp_get P (sys_world s)), fst (pp_list_claims P (snd (pp_get P (sys_world s))))) of
        (Inr p, Inr cs) \<Rightarrow> if pf_deletion_timestamp p = None then Some (package_of p (active_of cs)) else None
      | _ \<Rightarrow> None)"

text \<open>Whatever a reconcile of the Platform does, and whichever of its file operations fail, the
  directory of a leased package other than the one it generates is left as it was, so a render never
  loses the module it reads; and a package that becomes current has its directory complete on disk.\<close>

lemma reconcile_disk:
  assumes "suffixes_fresh P (dk_entries (ps_disk s))"
    and "run_state (reconcile_platform P name) s = (r, s')"
  shows "(\<forall>i \<in> fst ` set (st_leases (ss_store s)).
      map_option (identity_string (pp_sha256_hex P)) (tuple_identity P s) \<noteq> Some (identity_string (pp_sha256_hex P) i) \<longrightarrow>
      map_of (dk_entries (ps_disk s')) (identity_string (pp_sha256_hex P) i) =
        map_of (dk_entries (ps_disk s)) (identity_string (pp_sha256_hex P) i)) \<and>
    (ss_store s' \<noteq> ss_store s \<and> st_generated (ss_store s') \<noteq> None \<longrightarrow>
       (\<exists>fs. map_of (dk_entries (ps_disk s')) (identity_string (pp_sha256_hex P) (st_identity (ss_store s'))) = Some (Whole fs)))"
  using assms(2)
proof (cases rule: reconcile_cases)
  case (tuple p cs s1)
  have same: "ss_store s1 = ss_store s" "os_obj s1 = p" using tuple(4) by (simp_all add: level_def)
  have "tuple_identity P s = Some (package_of p (active_of cs))"
    using tuple(1-3) by (simp add: tuple_identity_def)
  moreover have "disk_outcome P (package_of p (active_of cs)) s1 s'"
    using run_tuple_disk [OF tuple(6)] assms(1) tuple(5) same by simp
  ultimately show ?thesis
    using same tuple(5) by (auto simp: disk_outcome_def leases_kept_def)
qed (auto simp: clear_store_def)

lemma sample_fresh: "suffixes_fresh sample_platform_params (dk_entries (ps_disk (sample_platform_state older_identity)))"
proof -
  have "identity_string id older_identity = ''gen-2''" by code_simp
  then show ?thesis by (simp add: suffixes_fresh_def sample_platform_state_def aside_prefix_def)
qed


section \<open>A repeated tuple\<close>

fun is_generation :: "act \<Rightarrow> bool" where
  "is_generation (OtherAct what) = True"
| "is_generation (EventAct kind reason action msg) = True"
| "is_generation _ = False"

text \<open>Generating is idempotent: when the store holds the package of the tuple, with its directory on disk
  and its contracts readable, a reconcile resolves nothing, builds nothing, sends no event, and leaves
  the store and the platform directory as they are; it writes the status of the success again.\<close>

lemma repeat_builds_nothing:
  fixes P :: "('w, 'x, 'b, 'm, 'd) platform_params" and s :: "('w, 'b, 'z) pstate"
  assumes "fst (pp_get P (sys_world s)) = Inr p" "pf_deletion_timestamp p = None"
    and "fst (pp_list_claims P (snd (pp_get P (sys_world s)))) = Inr cs"
    and "(platform_entries p (active_of cs) :: 'x goerr + entry list) = Inr es"
    and "st_generated (ss_store s) = Some g" "gn_identity g = package_of p (active_of cs)"
    and "fst (run_state (dir_exists (pp_layout P) (pp_faults P) (gn_dir g)) (ps_disk s))"
    and "pp_contracts P (gn_platform g) = Inr i"
  shows "sends s (\<lambda>a. \<not> is_generation a) (reconcile_platform P platform_singleton_name) \<and>
    ss_store (snd (run_state (reconcile_platform P platform_singleton_name) s)) = ss_store s \<and>
    dk_entries (ps_disk (snd (run_state (reconcile_platform P platform_singleton_name) s))) = dk_entries (ps_disk s)"
  using assms
  by (simp add: sends_def reconcile_platform_def reconcile_tuple_def held_inventory_def
      store_generated_def State_Monad.return_def skip_generation_def platform_steps dir_exists_entries)

lemma repeat_skips:
  fixes P :: "('w, 'x, 'b, 'm, 'd) platform_params" and s :: "('w, 'b, 'z) pstate"
  assumes "fst (pp_get P (sys_world s)) = Inr p" "pf_deletion_timestamp p = None"
    and "fst (pp_list_claims P (snd (pp_get P (sys_world s)))) = Inr cs"
    and "(platform_entries p (active_of cs) :: 'x goerr + entry list) = Inr es"
    and "st_generated (ss_store s) = Some g" "gn_identity g = package_of p (active_of cs)"
    and "fst (run_state (dir_exists (pp_layout P) (pp_faults P) (gn_dir g)) (ps_disk s))"
    and "pp_contracts P (gn_platform g) = Inr i"
  shows "\<exists>s1. level (s\<lparr>os_obj := p\<rparr>) s1 \<and> st_generated (ss_store s1) = Some g \<and>
    run_state (reconcile_platform P platform_singleton_name) s =
      run_state (skip_generation P (package_of p (active_of cs)) es i) s1"
  using assms
  by (simp add: reconcile_platform_def reconcile_tuple_def held_inventory_def
      store_generated_def State_Monad.return_def)
    (intro exI conjI; (rule refl)?; simp add: level_def platform_patches_def)

end
