(* ===== verification/Renderer.thy ===== *)
theory Renderer
  imports Registration Files Module_Package
begin

text \<open>
  The renderers behind the two render paths (internal/render: kernel_module_renderer.go,
  kernel_package_renderer.go, warnings.go, findings.go; internal/moduleacquire/acquire.go): the lease
  on the generated platform, the acquisition, the synthesis, the build and what a render reports. The
  kernel and the CUE library are parameters.
\<close>

section \<open>findings.go: wording the findings of CUE\<close>

text \<open>A finding with its positions as token.Pos prints them. \<open>cu_error\<close> is errors.As with CUE's error
  interface and \<open>cu_list\<close> is cueerrors.Errors.\<close>

record finding =
  fi_text :: string
  fi_positions :: "string list"

record 'x cuelib =
  cu_error :: "'x \<Rightarrow> bool"
  cu_list :: "'x goerr \<Rightarrow> finding list"

text \<open>strings.CutPrefix and strings.Index.\<close>

definition cut_prefix :: "string \<Rightarrow> string \<Rightarrow> string option" where
  "cut_prefix s p = (if has_prefix s p then Some (drop (length p) s) else None)"

fun index_of :: "string \<Rightarrow> string \<Rightarrow> nat option" where
  "index_of [] p = (if p = [] then Some 0 else None)"
| "index_of (c # cs) p = (if has_prefix (c # cs) p then Some 0 else map_option Suc (index_of cs p))"

definition position_text :: "string \<Rightarrow> string \<Rightarrow> string" where
  "position_text p root =
     (if root = [] then p
      else case cut_prefix p (root @ ''/'') of Some rel \<Rightarrow> rel | None \<Rightarrow> p)"

definition finding_text :: "finding \<Rightarrow> string \<Rightarrow> string" where
  "finding_text f root =
     (if fi_positions f = [] then fi_text f
      else fi_text f @ '' ('' @ join '', '' (map (\<lambda>p. position_text p root) (fi_positions f)) @ '')'')"

definition with_findings :: "'x errlib \<Rightarrow> 'x cuelib \<Rightarrow> string \<Rightarrow> 'x goerr \<Rightarrow> string \<Rightarrow> 'x goerr" where
  "with_findings E C pref err root =
     (let txt = err_text E err;
          worded = FindingsErr (pref @ txt) [] err
      in if as_lib (el_fetch E) err then worded
         else if \<not> as_lib (cu_error C) err then worded
         else case cu_list C err of
                [] \<Rightarrow> worded
              | first # rest \<Rightarrow>
                  (case index_of txt (fi_text first) of
                     None \<Rightarrow> worded
                   | Some i \<Rightarrow>
                       FindingsErr (pref @ take i txt)
                         (map (\<lambda>f. finding_text f root) (first # rest)) err))"

text \<open>The walk up from a directory; \<open>is_dir\<close> is os.Stat with IsDir.\<close>

partial_function (option) module_root_from :: "(string \<Rightarrow> bool) \<Rightarrow> string \<Rightarrow> string \<Rightarrow> string option" where
  "module_root_from is_dir dir d =
     (if is_dir (path_join [d, ''cue.mod'']) then Some d
      else if path_dir d = d then Some dir
      else module_root_from is_dir dir (path_dir d))"

definition cue_module_root :: "(string \<Rightarrow> bool) \<Rightarrow> string \<Rightarrow> string option" where
  "cue_module_root is_dir dir = module_root_from is_dir (path_clean dir) (path_clean dir)"


section \<open>warnings.go\<close>

text \<open>kernel.RenderDiagnostics and kernel.RenderResult; the unhandled traits are a Go map.\<close>

record diagnostics =
  dg_unhandled_traits :: "(string \<times> string list) list"
  dg_resolved_versions :: "resolved_version list"
  dg_required_contracts :: "string list option"

record 'c render_output =
  ro_compiled :: "'c list"
  ro_diagnostics :: diagnostics

definition skew_line :: "resolved_version \<Rightarrow> string" where
  "skew_line r =
     ''version skew on '' @ quote (rv_path r) @ '': module requires '' @ rv_module_version r @
     '', platform carries '' @ rv_platform_version r @ ''; rendering against the platform's build''"

definition trait_line :: "string \<Rightarrow> string \<Rightarrow> string" where
  "trait_line c fqn =
     ''component '' @ quote c @ '': trait '' @ quote fqn @
     '' is not handled by any matched transformer (values will be ignored)''"

definition render_warnings :: "diagnostics \<Rightarrow> string list" where
  "render_warnings d =
     map skew_line (filter rv_newer (dg_resolved_versions d)) @
     concat (map (\<lambda>c. map (trait_line c) (case map_of (dg_unhandled_traits d) c of None \<Rightarrow> [] | Some ts \<Rightarrow> ts))
       (sort (map fst (dg_unhandled_traits d))))"


section \<open>The kernel\<close>

text \<open>
  The verbs of kernel.Kernel on modules (\<open>'m\<close>), values sources (\<open>'v\<close>) and instances (\<open>'i\<close>); the
  library's object.Duplicates, as the error of the duplicates it finds, and object.Resources; and the
  version a module declares, empty when CUE cannot read it.
\<close>

record ('w, 'x, 'b, 'm, 'v, 'i, 'c, 'r) kernel =
  kn_err :: "'x errlib"
  kn_cue :: "'x cuelib"
  kn_acquire_module :: "string \<Rightarrow> string \<Rightarrow> 'w \<Rightarrow> ('x goerr + 'm) \<times> 'w"
  kn_load_source :: "string \<Rightarrow> string \<Rightarrow> 'x goerr + 'v"
  kn_synthesize :: "'m \<Rightarrow> string \<Rightarrow> string \<Rightarrow> 'v list \<Rightarrow> 'w \<Rightarrow> ('x goerr + 'i) \<times> 'w"
  kn_acquire_instance :: "string \<Rightarrow> 'w \<Rightarrow> ('x goerr + 'i) \<times> 'w"
  kn_render :: "'i \<Rightarrow> 'b option \<Rightarrow> string \<Rightarrow> skew_policy \<Rightarrow> 'w \<Rightarrow> ('x goerr + 'c render_output) \<times> 'w"
  kn_duplicates :: "'c list \<Rightarrow> 'x option"
  kn_resources :: "'c list \<Rightarrow> 'r"
  kn_declared_version :: "'i \<Rightarrow> string"
  kn_is_dir :: "'w \<Rightarrow> string \<Rightarrow> bool"
  kn_runtime_name :: string
  kn_sha256_hex :: "string \<Rightarrow> string"

definition values_origin :: string where "values_origin = ''spec.values''"

definition acquire_module ::
    "('w, 'x, 'b, 'm, 'v, 'i, 'c, 'r) kernel \<Rightarrow> string \<Rightarrow> string \<Rightarrow> ('w, 'z, 'x goerr + 'm) prog" where
  "acquire_module K path version =
     do { r \<leftarrow> request (AcquireAct path version) (kn_acquire_module K path version);
          State_Monad.return (case r of
            Inl e \<Rightarrow> Inl (Fmt (''acquiring module '' @ quote path @ ''@'' @ quote version @ '': '' @ err_text (kn_err K) e) [e])
          | Inr m \<Rightarrow> Inr m) }"

definition synthesize_from ::
    "('w, 'x, 'b, 'm, 'v, 'i, 'c, 'r) kernel \<Rightarrow> 'm \<Rightarrow> string \<Rightarrow> string \<Rightarrow> string option \<Rightarrow>
     ('w, 'z, 'x goerr + 'i) prog" where
  "synthesize_from K m name namespace vals =
     (case kn_load_source K values_origin (case vals of None \<Rightarrow> ''{}'' | Some raw \<Rightarrow> raw) of
        Inl e \<Rightarrow> State_Monad.return (Inl (Fmt (''compiling values: '' @ err_text (kn_err K) e) [e]))
      | Inr src \<Rightarrow>
          do { r \<leftarrow> request (OtherAct ''SynthesizeInstance'') (kn_synthesize K m name namespace [src]);
               State_Monad.return (case r of
                 Inl e \<Rightarrow> Inl (with_findings (kn_err K) (kn_cue K) ''synthesizing release: '' e [])
               | Inr i \<Rightarrow> Inr i) })"

definition synthesize ::
    "('w, 'x, 'b, 'm, 'v, 'i, 'c, 'r) kernel \<Rightarrow> instance_inputs \<Rightarrow> ('w, 'z, 'x goerr + 'i) prog" where
  "synthesize K i =
     do { r \<leftarrow> acquire_module K (ii_path i) (ii_version i);
          case r of
            Inl e \<Rightarrow> State_Monad.return (Inl (acquire_failed ''acquiring module'' e))
          | Inr m \<Rightarrow> synthesize_from K m (ii_name i) (ii_namespace i) (ii_values i) }"

definition demand_of :: "diagnostics \<Rightarrow> string list" where
  "demand_of d = (case dg_required_contracts d of None \<Rightarrow> [] | Some cs \<Rightarrow> cs)"

definition result_from_render ::
    "('w, 'x, 'b, 'm, 'v, 'i, 'c, 'r) kernel \<Rightarrow> 'c render_output \<Rightarrow> package_identity \<Rightarrow>
     'x goerr + render_result \<times> 'r" where
  "result_from_render K out identity =
     (case kn_duplicates K (ro_compiled out) of
        Some x \<Rightarrow> Inl (Ext x)
      | None \<Rightarrow>
          Inr (\<lparr>rr_warnings = render_warnings (ro_diagnostics out),
                rr_unhandled_traits = dg_unhandled_traits (ro_diagnostics out),
                rr_resolved_versions = dg_resolved_versions (ro_diagnostics out),
                rr_required_contracts = demand_of (ro_diagnostics out),
                rr_module_version = [],
                rr_platform_identity = identity_string (kn_sha256_hex K) identity,
                rr_skew_policy = []\<rparr>, kn_resources K (ro_compiled out)))"

text \<open>The build of an instance against a leased platform, which both renderers end with.\<close>

definition render_leased ::
    "('w, 'x, 'b, 'm, 'v, 'i, 'c, 'r) kernel \<Rightarrow> 'b option generated \<Rightarrow> 'i \<Rightarrow>
     ('w, 'z, 'x goerr + render_result \<times> 'r) prog" where
  "render_leased K g i =
     do { out \<leftarrow> request RenderAct (kn_render K i (gn_platform g) (kn_runtime_name K) (gn_skew g));
          State_Monad.return (case out of
            Inl e \<Rightarrow> Inl (Fmt (''rendering module instance: '' @ err_text (kn_err K) e) [e])
          | Inr out \<Rightarrow>
              (case result_from_render K out (gn_identity g) of
                 Inl e \<Rightarrow> Inl e
               | Inr (r, resources) \<Rightarrow>
                   Inr (r\<lparr>rr_module_version := kn_declared_version K i, rr_skew_policy := skew_policy_name (gn_skew g)\<rparr>,
                        resources))) }"

definition render_module ::
    "('w, 'x, 'b, 'm, 'v, 'i, 'c, 'r) kernel \<Rightarrow> instance_inputs \<Rightarrow>
     ('w, 'o, 'b option, 'z, 'x goerr + render_result \<times> 'r) sprog" where
  "render_module K i =
     do { leased \<leftarrow> lease_current;
          case leased of
            None \<Rightarrow> State_Monad.return (Inl (Sentinel ErrPlatformNotReady))
          | Some g \<Rightarrow>
              do { inst \<leftarrow> synthesize K i;
                   r \<leftarrow> (case inst of Inl e \<Rightarrow> State_Monad.return (Inl e) | Inr inst \<Rightarrow> render_leased K g inst);
                   release_held g;
                   State_Monad.return r } }"

text \<open>The kind comes with every answer: empty for an unsupported package.\<close>

definition render_package_dir ::
    "('w, 'x, 'b, 'm, 'v, 'i, 'c, 'r) kernel \<Rightarrow> string \<Rightarrow>
     ('w, 'o, 'b option, 'z, string \<times> ('x goerr + render_result \<times> 'r)) sprog" where
  "render_package_dir K dir =
     do { inst \<leftarrow> request (OtherAct ''AcquireInstanceFromDir'') (kn_acquire_instance K dir);
          case inst of
            Inl e \<Rightarrow>
              if as_lib (el_wrong_kind (kn_err K)) e
              then State_Monad.return ([], Inl (Fmt (sentinel_text ErrUnsupportedKind @ '': '' @ err_text (kn_err K) e)
                     [Sentinel ErrUnsupportedKind, e]))
              else do { root \<leftarrow> ask (\<lambda>w. cue_module_root (kn_is_dir K w) dir);
                        State_Monad.return (case root of
                          None \<Rightarrow> (kind_module_instance, Inl (Sentinel LoopNotEnded))
                        | Some root \<Rightarrow> (kind_module_instance,
                            Inl (acquire_failed ''loading package'' (with_findings (kn_err K) (kn_cue K) [] e root)))) }
          | Inr i \<Rightarrow>
              do { leased \<leftarrow> lease_current;
                   case leased of
                     None \<Rightarrow> State_Monad.return (kind_module_instance, Inl (Sentinel ErrPlatformNotReady))
                   | Some g \<Rightarrow>
                       do { r \<leftarrow> render_leased K g i;
                            release_held g;
                            State_Monad.return (kind_module_instance, r) } } }"


section \<open>The walk to the module root\<close>

lemma dir_root: "path_dir (path_text []) = path_text []"
  by code_simp

lemma path_text_names: "list_all plain_name p \<Longrightarrow> clean_list True (split_path (path_text p)) = p"
  using clean_plain [of p True "[]"] split_path_text [of p] by (simp add: clean_list_def clean_step_def)

lemma dir_shorter:
  assumes "list_all plain_name (p @ [c])"
  shows "path_dir (path_text (p @ [c])) \<noteq> path_text (p @ [c])"
proof
  assume "path_dir (path_text (p @ [c])) = path_text (p @ [c])"
  then have "path_text p = path_text (p @ [c])" using dir_text [OF assms] by simp
  then have "p = p @ [c]" using path_text_names [of p] path_text_names [OF assms] assms by simp
  then show False by simp
qed

definition holds_module :: "(string \<Rightarrow> bool) \<Rightarrow> string list \<Rightarrow> bool" where
  "holds_module is_dir p = is_dir (path_join [path_text p, ''cue.mod''])"

text \<open>The nearest of a directory and those above it, from the longest path to the root.\<close>

definition nearest :: "(string list \<Rightarrow> bool) \<Rightarrow> string list \<Rightarrow> string list option" where
  "nearest has p = find has (rev (prefixes p))"

lemma module_root_from_nearest:
  "list_all plain_name p \<Longrightarrow>
   module_root_from is_dir dir (path_text p) =
     Some (case nearest (holds_module is_dir) p of None \<Rightarrow> dir | Some q \<Rightarrow> path_text q)"
proof (induction p rule: rev_induct)
  case Nil
  then show ?case
    by (subst module_root_from.simps) (simp add: dir_root holds_module_def nearest_def)
next
  case (snoc c p)
  then have "module_root_from is_dir dir (path_text p) =
      Some (case nearest (holds_module is_dir) p of None \<Rightarrow> dir | Some q \<Rightarrow> path_text q)"
    by simp
  then show ?case
    using dir_text [OF snoc.prems] dir_shorter [OF snoc.prems]
    by (subst module_root_from.simps) (simp add: holds_module_def nearest_def prefixes_snoc)
qed

text \<open>The walk to the module root ends on every absolute path, with the nearest directory at or above it
  that holds a cue.mod directory, or with the directory itself.\<close>

theorem cue_module_root_nearest:
  assumes "list_all plain_name p"
  shows "cue_module_root is_dir (path_text p) =
    Some (case nearest (holds_module is_dir) p of None \<Rightarrow> path_text p | Some q \<Rightarrow> path_text q)"
  using module_root_from_nearest [OF assms] by (simp add: cue_module_root_def clean_text [OF assms])


section \<open>The lease of a render\<close>

lemma keeps_synthesize: "keeps sys.more (synthesize K i)"
  unfolding synthesize_def synthesize_from_def acquire_module_def
  by (auto intro!: keeps_intro split: sum.split option.split)

lemma keeps_render: "keeps sys.more (render_leased K g i)"
  unfolding render_leased_def by (auto intro!: keeps_intro)

lemma same_store: "sys.more s = sys.more s' \<Longrightarrow> ss_store (s :: ('w, ('o, ('b, 'z) ssys_ext) osys_ext) sys_scheme) = ss_store s'"
  by (cases s; cases s') simp

text \<open>A run that borrows the current package at most: it ends with the store as it was, or leased and
  given back.\<close>

definition borrows :: "'b platform_store \<Rightarrow> 'b platform_store \<Rightarrow> bool" where
  "borrows st st' =
     (st' = st \<or> (\<exists>g leased. lease st = Some (g, leased) \<and> st' = release_lease (gn_identity g) leased))"

lemma borrows_refl [simp]: "borrows st st"
  by (simp add: borrows_def)

text \<open>What is left of the store then: the current package and every count are as they were.\<close>

lemma borrows_balanced:
  assumes "leases_ok st" and "borrows st st'"
  shows "st_generated st' = st_generated st \<and> st_identity st' = st_identity st \<and> leases_ok st' \<and>
    lease_count st' = lease_count st"
  using assms(2) unfolding borrows_def
proof
  assume "\<exists>g leased. lease st = Some (g, leased) \<and> st' = release_lease (gn_identity g) leased"
  then obtain g st1 where g: "lease st = Some (g, st1)" "st' = release_lease (gn_identity g) st1" by blast
  have took: "take_lease st = Some (gn_identity g, st1)" using g(1) by (simp add: take_lease_def)
  from leases.lease_counts [OF assms(1) took]
  have ok: "leases_ok st1" "lease_count st1 = (lease_count st)(gn_identity g := lease_count st (gn_identity g) + 1)" by auto
  have "0 \<le> lease_count st (gn_identity g)"
    using assms(1) by (auto simp: leases_ok_def lease_count_def list_all_iff split: option.split dest: map_of_SomeD)
  then have pos: "0 < lease_count st1 (gn_identity g)" using ok(2) by simp
  from leases.release_counts [OF ok(1) pos] have "leases_ok st'" "lease_count st' = lease_count st"
    using ok(2) g(2) by auto
  moreover have "st_generated st' = st_generated st" "st_identity st' = st_identity st"
    using g by (auto simp: lease_def release_lease_def split: option.splits)
  ultimately show ?thesis by simp
qed (use assms(1) in simp)

text \<open>A program between the lease and its release that leaves the store alone.\<close>

lemma borrowing_section:
  fixes m :: "('w, 'o, 'b, 'z, 'a) sprog"
  assumes "lease (ss_store s) = Some (g, st)" and "keeps ss_store m"
    and "run_state (m \<bind> (\<lambda>r. release_held g \<bind> (\<lambda>_. State_Monad.return (f r)))) (s\<lparr>ss_store := st\<rparr>) = (r, s')"
  shows "borrows (ss_store s) (ss_store s')"
proof -
  obtain x s1 where m: "run_state m (s\<lparr>ss_store := st\<rparr>) = (x, s1)" by fastforce
  have "ss_store s1 = st" using keepsE [OF assms(2) m] by simp
  then have "ss_store s' = release_lease (gn_identity g) st"
    using assms(3) m by (auto simp: release_held_def State_Monad.return_def)
  then show ?thesis using assms(1) by (auto simp: borrows_def)
qed

lemma keeps_store: "keeps sys.more m \<Longrightarrow> keeps ss_store m"
  unfolding keeps_def using same_store by blast

lemma lease_none: "lease st = None \<longleftrightarrow> st_generated st = None"
  by (simp add: lease_def split: option.split)

lemma render_module_borrows:
  assumes "run_state (render_module K i) s = (r, s')"
  shows "borrows (ss_store s) (ss_store s')"
proof (cases "lease (ss_store s)")
  case None
  then show ?thesis
    using assms by (simp add: render_module_def lease_current_def State_Monad.return_def)
next
  case (Some leased)
  obtain g st where leased: "lease (ss_store s) = Some (g, st)" using Some by (cases leased) simp
  let ?m = "synthesize K i \<bind> (\<lambda>inst. case inst of Inl e \<Rightarrow> State_Monad.return (Inl e) | Inr inst \<Rightarrow> render_leased K g inst)"
  have "keeps sys.more ?m"
    by (rule keeps_bind [OF keeps_synthesize]) (auto intro: keeps_return keeps_render split: sum.split)
  then have "keeps ss_store ?m" by (rule keeps_store)
  from borrowing_section [OF leased this, of id] show ?thesis
    using assms leased by (simp add: render_module_def lease_current_def)
qed

lemma render_package_borrows:
  fixes K :: "('w, 'x, 'b, 'm, 'v, 'i, 'c, 'r) kernel"
  assumes "run_state (render_package_dir K dir) s = (r, s')"
  shows "borrows (ss_store s) (ss_store s')"
proof (cases "fst (kn_acquire_instance K dir (sys_world s))")
  case (Inl e)
  then have "ss_store s' = ss_store s"
    using assms by (auto simp: render_package_dir_def State_Monad.return_def Let_def split: if_splits option.splits)
  then show ?thesis by simp
next
  case (Inr i)
  let ?s = "s\<lparr>sys_world := snd (kn_acquire_instance K dir (sys_world s)),
    sys_trace := sys_trace s @ [OtherAct ''AcquireInstanceFromDir'']\<rparr>"
  show ?thesis
  proof (cases "lease (ss_store s)")
    case None
    then show ?thesis
      using assms Inr by (auto simp: render_package_dir_def lease_current_def State_Monad.return_def)
  next
    case (Some leased)
    obtain g st where leased: "lease (ss_store ?s) = Some (g, st)" using Some by (cases leased) simp
    from borrowing_section [OF leased keeps_store [OF keeps_render [of K g i]], of "Pair kind_module_instance"] show ?thesis
      using assms leased Inr by (simp add: render_package_dir_def lease_current_def)
  qed
qed

text \<open>The kernel gets the instance that was synthesized and the platform that was leased; what a render
  says of the platform is what it leased. Without a platform it does nothing.\<close>

definition rendered_with ::
    "('w, 'x, 'b, 'm, 'v, 'i, 'c, 'r) kernel \<Rightarrow> 'b option generated \<Rightarrow> 'i \<Rightarrow> 'w \<Rightarrow> 'w \<Rightarrow> render_result \<Rightarrow> 'r \<Rightarrow> bool" where
  "rendered_with K g inst w w' res out =
     (\<exists>answer. kn_render K inst (gn_platform g) (kn_runtime_name K) (gn_skew g) w = (Inr answer, w') \<and>
        kn_duplicates K (ro_compiled answer) = None \<and> out = kn_resources K (ro_compiled answer) \<and>
        rr_required_contracts res = demand_of (ro_diagnostics answer) \<and>
        rr_module_version res = kn_declared_version K inst \<and>
        rr_platform_identity res = identity_string (kn_sha256_hex K) (gn_identity g) \<and>
        rr_skew_policy res = skew_policy_name (gn_skew g))"

lemma render_leased_report:
  "run_state (render_leased K g i) s = (Inr (res, out), s') \<Longrightarrow>
   rendered_with K g i (sys_world s) (sys_world s') res out"
  by (cases "kn_render K i (gn_platform g) (kn_runtime_name K) (gn_skew g) (sys_world s)")
    (auto simp: rendered_with_def render_leased_def result_from_render_def State_Monad.return_def
      split: sum.splits option.splits)

lemma render_module_report:
  assumes "run_state (render_module K i) s = (Inr (res, out), s')"
  shows "\<exists>g st inst s1. lease (ss_store s) = Some (g, st) \<and>
    run_state (synthesize K i) (s\<lparr>ss_store := st\<rparr>) = (Inr inst, s1) \<and> rendered_with K g inst (sys_world s1) (sys_world s') res out"
proof -
  obtain g st where leased: "lease (ss_store s) = Some (g, st)"
    using assms by (auto simp: render_module_def lease_current_def State_Monad.return_def split: option.splits)
  obtain inst s1 where inst: "run_state (synthesize K i) (s\<lparr>ss_store := st\<rparr>) = (inst, s1)" by fastforce
  obtain j where j: "inst = Inr j"
    using assms leased inst
    by (cases inst) (auto simp: render_module_def lease_current_def State_Monad.return_def split_beta)
  obtain r s2 where built: "run_state (render_leased K g j) s1 = (r, s2)" by fastforce
  then have "r = Inr (res, out)" "sys_world s' = sys_world s2"
    using assms leased inst j
    by (auto simp: render_module_def lease_current_def release_held_def State_Monad.return_def)
  then have "rendered_with K g j (sys_world s1) (sys_world s') res out"
    using render_leased_report [of K g j s1 res out s2] built by simp
  then show ?thesis using inst j leased by blast
qed

lemma render_without_platform:
  "st_generated (ss_store s) = None \<Longrightarrow> run_state (render_module K i) s = (Inl (Sentinel ErrPlatformNotReady), s)"
  by (simp add: render_module_def lease_current_def lease_none [THEN iffD2] State_Monad.return_def)

text \<open>A render with two objects of one identity yields no resource.\<close>

lemma render_refuses_duplicates: "kn_duplicates K (ro_compiled out) = Some x \<Longrightarrow> result_from_render K out i = Inl (Ext x)"
  by (simp add: result_from_render_def)

end
