(* ===== verification/Store_Clients.thy ===== *)
theory Store_Clients
  imports Platform_Safety Registration_Safety Renderer Instance_Safety
begin

text \<open>
  The clients of the platform store together: the Platform reconciler that fills it
  (internal/controller/platform_controller.go), and the renders and claims that lease what it holds
  (internal/render, transformerregistration_controller.go), in whatever order they run.
\<close>

section \<open>The store over time\<close>

text \<open>A package that was built, whose contract inventory was read and passed the gate.\<close>

definition gated :: "('w, 'x, 'b, 'm, 'd) platform_params \<Rightarrow> 'b option generated \<Rightarrow> bool" where
  "gated P g =
     (gn_dir g = layout_dir (pp_layout P) (pp_sha256_hex P) (gn_identity g) \<and>
      (\<exists>b i. gn_platform g = Some b \<and> pp_contracts P (Some b) = Inr i \<and> may_record i))"

lemma package_sound_cong:
  "st_generated st' = st_generated st \<Longrightarrow> st_identity st' = st_identity st \<Longrightarrow> package_sound P st' = package_sound P st"
  by (cases "st_generated st") (simp_all add: package_sound_def)

lemma sound_gated: "package_sound P st \<Longrightarrow> st_generated st = Some g \<Longrightarrow> gated P g"
  by (auto simp: package_sound_def gated_def split: option.splits sum.splits)

text \<open>
  The store of a process and the packages that are held on lease, from the start of the process on.
  A reconcile of the Platform is one step; a lease is held through any steps of the others.
\<close>

inductive served ::
    "('w, 'x, 'b, 'm, 'd) platform_params \<Rightarrow> 'b option platform_store \<Rightarrow> 'b option generated list \<Rightarrow> bool" for P where
  Boots: "served P new_store []"
| Leases: "served P st held \<Longrightarrow> lease st = Some (g, st') \<Longrightarrow> served P st' (g # held)"
| Releases: "served P st held \<Longrightarrow> g \<in> set held \<Longrightarrow> served P (release_lease (gn_identity g) st) (remove1 g held)"
| Reconciles: "served P (ss_store s) held \<Longrightarrow>
    run_state (reconcile_platform P name) (s :: ('w, 'b, unit) pstate) = (r, s') \<Longrightarrow> served P (ss_store s') held"

definition holders :: "'b generated list \<Rightarrow> package_identity \<Rightarrow> int" where
  "holders held i = int (length (filter (\<lambda>g. gn_identity g = i) held))"

lemma holders_simps [simp]:
  "holders [] i = 0"
  "holders (g # held) = (holders held)(gn_identity g := holders held (gn_identity g) + 1)"
  by (auto simp: holders_def)

lemma holders_remove: "g \<in> set held \<Longrightarrow> holders (remove1 g held) = (holders held)(gn_identity g := holders held (gn_identity g) - 1)"
  by (induction held) (auto simp: fun_eq_iff)

lemma holders_pos: "g \<in> set held \<Longrightarrow> 0 < holders held (gn_identity g)"
  by (induction held) (auto simp: holders_def)

definition served_ok :: "('w, 'x, 'b, 'm, 'd) platform_params \<Rightarrow> 'b option platform_store \<Rightarrow> 'b option generated list \<Rightarrow> bool" where
  "served_ok P st held =
     (package_sound P st \<and> leases_ok st \<and> lease_count st = holders held \<and> (\<forall>g \<in> set held. gated P g))"

lemma served_invariant:
  assumes "served P st held" and "cond_laws (pp_cond P)"
  shows "served_ok P st held"
  using assms(1)
proof induction
  case Boots
  then show ?case
    by (simp add: served_ok_def package_sound_def new_store_def leases_ok_def lease_count_def fun_eq_iff)
next
  case (Leases st held g st')
  have took: "take_lease st = Some (gn_identity g, st')" using Leases(2) by (simp add: take_lease_def)
  have same: "st_generated st = Some g" "st_generated st' = st_generated st" "st_identity st' = st_identity st"
    using Leases(2) by (auto simp: lease_def split: option.splits)
  then have "package_sound P st'" using Leases(3) package_sound_cong [OF same(2,3), of P] by (simp add: served_ok_def)
  then show ?case
    using Leases(3) leases.lease_counts [OF _ took] sound_gated [OF _ same(1)] by (auto simp: served_ok_def)
next
  case (Releases st held g)
  have pos: "0 < lease_count st (gn_identity g)" using Releases holders_pos by (simp add: served_ok_def)
  have same: "st_generated (release_lease i st) = st_generated st" "st_identity (release_lease i st) = st_identity st" for i
    by (simp_all add: release_lease_def)
  have "package_sound P (release_lease (gn_identity g) st)"
    using Releases(3) package_sound_cong [OF same, of P] by (simp add: served_ok_def)
  then show ?case
    using Releases(2,3) leases.release_counts [OF _ pos] set_remove1_subset [of g held]
    by (auto simp: served_ok_def holders_remove)
next
  case (Reconciles s held name r s')
  have "lease_count (ss_store s') = lease_count (ss_store s) \<and> leases_ok (ss_store s') = leases_ok (ss_store s) \<and> package_sound P (ss_store s')"
    using reconcile_gate [OF assms(2) _ Reconciles(2)] Reconciles(3)
    by (simp add: served_ok_def lease_count_def leases_ok_def fun_eq_iff)
  then show ?case using Reconciles(3) by (simp add: served_ok_def)
qed


section \<open>The clients as steps\<close>

lemma served_borrows:
  assumes "served P st held" and "borrows st st'"
  shows "served P st' held"
  using assms(2) unfolding borrows_def
proof
  assume "\<exists>g leased. lease st = Some (g, leased) \<and> st' = release_lease (gn_identity g) leased"
  then obtain g st1 where "lease st = Some (g, st1)" "st' = release_lease (gn_identity g) st1" by blast
  then show ?thesis using Releases [OF Leases [OF assms(1)], of g st1 g] by simp
qed (use assms(1) in simp)

text \<open>The reconcile of a claim.\<close>

lemma keeps_store_object [keeps_intro]: "keeps ss_store the_object" "keeps ss_store (change_object f)"
  by (simp_all add: keeps_def)

lemma keeps_store_calls [keeps_intro]:
  "keeps ss_store (ask q)" "keeps ss_store (tick h)" "keeps ss_store (request a h)" "keeps ss_store (emit_event k re ac t)"
  by (simp_all add: keeps_def emit_event_def)

lemma keeps_ruling: "keeps ss_store (record_ruling P r)"
  by (cases r) (auto intro!: keeps_intro simp: defer_verdict_def refuse_claim_def hold_verdict_kept_def accept_claim_def
      gate_activation_def observe_registration_def hold_claim_def change_registration_def mark_tr_def mark_object_def
      patch_registration_def Let_def)


lemma registration_borrows:
  assumes "run_state (reconcile_registration P name) s = (r, s')"
  shows "borrows (ss_store s) (ss_store s')"
proof (cases "fst (tp_get_claim P name (sys_world s))")
  case (Inl e)
  then show ?thesis using assms by (auto simp: reconcile_registration_def State_Monad.return_def)
next
  case (Inr c)
  let ?s = "s\<lparr>sys_world := snd (tp_get_claim P name (sys_world s)),
    sys_trace := sys_trace s @ [ReadAct (registration_ref name)], os_obj := c\<rparr>"
  show ?thesis
  proof (cases "tr_deletion_timestamp c = None")
    case False
    have "keeps ss_store (reconcile_removal P)"
      unfolding reconcile_removal_def block_removal_def release_claim_def mark_tr_def mark_object_def patch_registration_def
      by (auto intro!: keeps_intro simp: Let_def split: sum.split)
    moreover have "run_state (reconcile_removal P) ?s = (r, s')"
      using assms Inr False by (simp add: reconcile_registration_def)
    ultimately have "ss_store s' = ss_store ?s" by (rule keepsE)
    then show ?thesis by simp
  next
    case True
    then have run: "run_state (reconcile_claim P) ?s = (r, s')"
      using assms Inr by (simp add: reconcile_registration_def)
    show ?thesis
    proof (cases "lease (ss_store ?s)")
      case None
      then have "run_state (record_ruling P (Defer ''PlatformNotReady''
          ''No platform has been generated yet, so the claim cannot be judged'')) ?s = (r, s')"
        using run by (simp add: reconcile_claim_def)
      then have "ss_store s' = ss_store ?s" by (rule keepsE [OF keeps_ruling])
      then show ?thesis by simp
    next
      case (Some leased)
      then obtain g st where leased: "lease (ss_store ?s) = Some (g, st)" by (cases leased) simp
      have "keeps ss_store (judge_claim P g c \<bind> record_ruling P)"
        by (intro keeps_bind keeps_ruling keeps_store [OF keeps_judge])
      from borrowing_section [OF leased this, of id] show ?thesis
        using run leased by (simp add: reconcile_claim_def)
    qed
  qed
qed


text \<open>So a whole run of a client, started at any moment, is made of steps of the store.\<close>

lemma clients_are_steps:
  "served P (ss_store s) held \<Longrightarrow> run_state (render_module K i) s = (r, s') \<Longrightarrow> served P (ss_store s') held"
  "served P (ss_store s) held \<Longrightarrow> run_state (render_package_dir K dir) s = (r', s') \<Longrightarrow> served P (ss_store s') held"
  "served P (ss_store t) held \<Longrightarrow> run_state (reconcile_registration R name) t = (q, t') \<Longrightarrow> served P (ss_store t') held"
  by (erule served_borrows, erule render_module_borrows render_package_borrows registration_borrows)+


section \<open>A sample run\<close>

definition sample_boot :: "(unit, unit, unit) pstate" where
  "sample_boot = (sample_platform_state older_identity)\<lparr>ss_store := new_store\<rparr>"

lemma sample_served:
  obtains g st where "served sample_platform_params st [g]" "gn_identity g = sample_tuple" "lease (set_generated g new_store) = Some (g, st)"
proof -
  obtain r s' where run: "run_state (reconcile_platform sample_platform_params platform_singleton_name) sample_boot = (r, s')"
    by fastforce
  have "served sample_platform_params (ss_store sample_boot) []" by (simp add: sample_boot_def Boots)
  from Reconciles [OF this run] have served: "served sample_platform_params (ss_store s') []" .
  obtain g where g: "gn_identity g = sample_tuple" "ss_store s' = set_generated g new_store"
    by (rule sample_recorded [OF run [unfolded sample_boot_def]]) (auto simp: new_store_def)
  obtain st where st: "lease (set_generated g new_store) = Some (g, st)"
    by (simp add: lease_def set_generated_def)
  show thesis using that [OF Leases [OF served] g(1) st] st g(2) by simp
qed


section \<open>Properties\<close>

text \<open>C20: whatever the renders, the claims and the reconciles of the Platform do in whatever order, the
  store counts exactly the leases that are held, every package held was built and passed the gate, and
  the next reconcile of the Platform leaves its directory as it is, unless it generates that very
  package, whichever of its file operations fail; and a package that becomes current has its directory
  complete on disk.\<close>

theorem holders_keep_their_package:
  assumes "cond_laws (pp_cond P)" and "served P (ss_store s) held"
    and "suffixes_fresh P (dk_entries (ps_disk s))" and "run_state (reconcile_platform P name) s = (r, s')"
  shows "(\<forall>i. lease_count (ss_store s') i = int (length (filter (\<lambda>g. gn_identity g = i) held))) \<and>
    (\<forall>g \<in> set held. gated P g \<and>
       (map_option (identity_string (pp_sha256_hex P)) (tuple_identity P s) \<noteq>
          Some (identity_string (pp_sha256_hex P) (gn_identity g)) \<longrightarrow>
        map_of (dk_entries (ps_disk s')) (identity_string (pp_sha256_hex P) (gn_identity g)) =
          map_of (dk_entries (ps_disk s)) (identity_string (pp_sha256_hex P) (gn_identity g)))) \<and>
    (ss_store s' \<noteq> ss_store s \<and> st_generated (ss_store s') \<noteq> None \<longrightarrow>
       (\<exists>fs. map_of (dk_entries (ps_disk s')) (identity_string (pp_sha256_hex P) (st_identity (ss_store s'))) = Some (Whole fs)))"
proof -
  have ok: "served_ok P (ss_store s) held" using served_invariant [OF assms(2,1)] .
  then have leased: "gn_identity g \<in> fst ` set (st_leases (ss_store s))" if "g \<in> set held" for g
    using lease_count_pos [of "ss_store s" "gn_identity g"] holders_pos [OF that] by (simp add: served_ok_def)
  have "lease_count (ss_store s') = lease_count (ss_store s)"
    using reconcile_gate [OF assms(1) _ assms(4)] ok by (simp add: served_ok_def lease_count_def fun_eq_iff)
  moreover note conjunct1 [OF reconcile_disk [OF assms(3,4)], rule_format, OF leased]
  ultimately show ?thesis
    using ok conjunct2 [OF reconcile_disk [OF assms(3,4)]] by (simp add: served_ok_def holders_def)
qed

theorem holders_keep_their_package_witness:
  "\<exists>g. gated sample_platform_params g \<and>
     (\<exists>st s'. served sample_platform_params st [g] \<and> lease_count (ss_store s') (gn_identity g) = 1 \<and>
        s' = snd (run_state (reconcile_platform sample_platform_params platform_singleton_name)
               ((sample_platform_state older_identity)\<lparr>ss_store := st\<rparr>)))"
proof (rule sample_served)
  fix g st
  assume g: "served sample_platform_params st [g]"
  let ?s = "(sample_platform_state older_identity)\<lparr>ss_store := st\<rparr>"
  obtain r s' where run: "run_state (reconcile_platform sample_platform_params platform_singleton_name) ?s = (r, s')"
    by fastforce
  have fresh: "suffixes_fresh sample_platform_params (dk_entries (ps_disk ?s))" using sample_fresh by simp
  have "cond_laws (pp_cond sample_platform_params)" by (simp add: std_cond_laws)
  moreover have "served sample_platform_params (ss_store ?s) [g]" using g by simp
  ultimately show ?thesis
    using holders_keep_their_package [OF _ _ fresh run, of "[g]"] g run by (intro exI [of _ g]) auto
qed

text \<open>C21: a render that succeeds, at whatever moment, was made by one call of the kernel, on the
  instance synthesized from its inputs and on the built platform the store held when it began, one
  that passed the gate, under that platform's skew policy. The resources, the contracts demanded and
  the module version it answers are those of that call, it names that package and its policy, and
  the run leaves every lease count as it was.\<close>

theorem render_reports_gated_package:
  assumes "cond_laws (pp_cond P)" and "served P (ss_store s) held"
    and "run_state (render_module K i) s = (Inr (res, out), s')"
  shows "\<exists>g st platform inst s1 answer. st_generated (ss_store s) = Some g \<and> gated P g \<and> gn_platform g = Some platform \<and>
    lease (ss_store s) = Some (g, st) \<and> run_state (synthesize K i) (s\<lparr>ss_store := st\<rparr>) = (Inr inst, s1) \<and>
    kn_render K inst (Some platform) (kn_runtime_name K) (gn_skew g) (sys_world s1) = (Inr answer, sys_world s') \<and>
    kn_duplicates K (ro_compiled answer) = None \<and> out = kn_resources K (ro_compiled answer) \<and>
    rr_required_contracts res = demand_of (ro_diagnostics answer) \<and>
    rr_module_version res = kn_declared_version K inst \<and>
    rr_platform_identity res = identity_string (kn_sha256_hex K) (gn_identity g) \<and>
    rr_skew_policy res = skew_policy_name (gn_skew g) \<and>
    lease_count (ss_store s') = lease_count (ss_store s)"
proof -
  have ok: "served_ok P (ss_store s) held" using served_invariant [OF assms(2,1)] .
  have counts: "lease_count (ss_store s') = lease_count (ss_store s)"
    using borrows_balanced [OF _ render_module_borrows [OF assms(3)]] ok by (simp add: served_ok_def)
  obtain g st inst s1 where used: "lease (ss_store s) = Some (g, st)"
    "run_state (synthesize K i) (s\<lparr>ss_store := st\<rparr>) = (Inr inst, s1)"
    "rendered_with K g inst (sys_world s1) (sys_world s') res out"
    using render_module_report [OF assms(3)] by blast
  have current: "st_generated (ss_store s) = Some g" using used(1) by (auto simp: lease_def split: option.splits)
  then have gated: "gated P g" using ok by (auto simp: served_ok_def intro: sound_gated)
  then obtain platform where "gn_platform g = Some platform" by (auto simp: gated_def)
  then show ?thesis using used current gated counts unfolding rendered_with_def by metis
qed


definition sample_kernel :: "(unit, string, unit, unit, unit, unit, unit, unit) kernel" where
  "sample_kernel =
     \<lparr>kn_err = sample_errors, kn_cue = \<lparr>cu_error = (\<lambda>x. False), cu_list = (\<lambda>e. [])\<rparr>,
      kn_acquire_module = (\<lambda>p v w. (Inr (), w)), kn_load_source = (\<lambda>name raw. Inr ()),
      kn_synthesize = (\<lambda>m name ns vs w. (Inr (), w)), kn_acquire_instance = (\<lambda>dir w. (Inr (), w)),
      kn_render = (\<lambda>i p name skew w. (Inr \<lparr>ro_compiled = [], ro_diagnostics =
         \<lparr>dg_unhandled_traits = [], dg_resolved_versions = [], dg_required_contracts = None\<rparr>\<rparr>, w)),
      kn_duplicates = (\<lambda>cs. None), kn_resources = (\<lambda>cs. ()), kn_declared_version = (\<lambda>i. ''v1.0.0''),
      kn_is_dir = (\<lambda>w d. False), kn_runtime_name = ''opm-operator'', kn_sha256_hex = id\<rparr>"

theorem render_reports_gated_package_witness:
  "\<exists>g st res out s'. gated sample_platform_params g \<and> served sample_platform_params st [g] \<and>
     run_state (render_module sample_kernel (instance_inputs_of sample_instance))
       ((sample_platform_state older_identity)\<lparr>ss_store := st\<rparr>) = (Inr (res, out), s') \<and>
     rr_platform_identity res = identity_string id sample_tuple"
proof (rule sample_served)
  fix g st
  assume g: "served sample_platform_params st [g]" "gn_identity g = sample_tuple"
    and leased: "lease (set_generated g new_store) = Some (g, st)"
  let ?s = "(sample_platform_state older_identity)\<lparr>ss_store := st\<rparr>"
  have current: "st_generated st = Some g" using leased by (auto simp: lease_def set_generated_def)
  obtain x s' where run: "run_state (render_module sample_kernel (instance_inputs_of sample_instance)) ?s = (x, s')"
    by fastforce
  obtain res out where x: "x = Inr (res, out)"
    using run current by (auto simp: render_module_def lease_def synthesize_def synthesize_from_def acquire_module_def
        render_leased_def result_from_render_def sample_kernel_def State_Monad.return_def)
  have "served sample_platform_params (ss_store ?s) [g]" using g(1) by simp
  from render_reports_gated_package [OF _ this run [unfolded x]] std_cond_laws
  have "gated sample_platform_params g" "rr_platform_identity res = identity_string id sample_tuple"
    using current g(2) by (auto simp: sample_kernel_def)
  with g(1) run x show ?thesis by blast
qed

end
