(* ===== verification/Watches.thy ===== *)
theory Watches
  imports Platform_Safety Instance_Safety Package_Base
begin

text \<open>
  What wakes a ModuleInstance and a ModulePackage: the predicates and the maps of
  internal/controller/moduleinstance_controller.go and modulepackage_controller.go. A list of objects
  is the answer of the client; a request is a namespace and a name.
\<close>

section \<open>moduleinstance_controller.go\<close>

text \<open>An event of a watch; an update may lack one of its objects, or hold one of another type.\<close>

datatype 'o event =
    Create_Event 'o
  | Update_Event "'o option" "'o option"
  | Delete_Event 'o
  | Generic_Event 'o

type_synonym wake = "string \<times> string"

definition orphan_annotation :: "module_instance \<Rightarrow> bool" where
  "orphan_annotation mi = (map_of (mi_annotations mi) annotation_force_delete_orphan = Some ''true'')"

fun orphan_annotation_set :: "module_instance event \<Rightarrow> bool" where
  "orphan_annotation_set (Update_Event (Some old) (Some new)) =
     (mi_deletion_timestamp new \<noteq> None \<and> orphan_annotation new \<and> \<not> orphan_annotation old)"
| "orphan_annotation_set (Update_Event old new) = False"
| "orphan_annotation_set ev = True"

fun service_account_created :: "'o event \<Rightarrow> bool" where
  "service_account_created (Create_Event sa) = True"
| "service_account_created ev = False"

definition waits_for_service_account :: "condlib \<Rightarrow> module_instance \<Rightarrow> bool" where
  "waits_for_service_account K mi =
     (case k_find K ready_condition (is_conditions (mi_status mi)) of
        None \<Rightarrow> False
      | Some ready \<Rightarrow>
          if c_status ready \<noteq> CFalse then False
          else c_reason ready = ''DeletionSAMissing'' \<or> c_reason ready = ''ImpersonationFailed'')"

definition woken_by_account :: "condlib \<Rightarrow> string \<Rightarrow> string \<Rightarrow> module_instance \<Rightarrow> bool" where
  "woken_by_account K default_sa sa mi =
     (if sp_owner (mi_spec mi) = owner_cli then False
      else if sp_suspend (mi_spec mi) \<and> mi_deletion_timestamp mi = None then False
      else if fst (resolve_effective_sa (sp_service_account (mi_spec mi)) default_sa) \<noteq> sa then False
      else waits_for_service_account K mi)"

definition instance_wake :: "module_instance \<Rightarrow> wake" where
  "instance_wake mi = (mi_namespace mi, mi_name mi)"

definition map_service_account_to_instances ::
    "condlib \<Rightarrow> string \<Rightarrow> (string \<Rightarrow> 'x goerr + module_instance list) \<Rightarrow> string \<Rightarrow> string \<Rightarrow> wake list" where
  "map_service_account_to_instances K default_sa listing namespace sa =
     (case listing namespace of Inl e \<Rightarrow> [] | Inr mis \<Rightarrow> map instance_wake (filter (woken_by_account K default_sa sa) mis))"

definition ready_status :: "condlib \<Rightarrow> platform \<Rightarrow> cond_status option" where
  "ready_status K p = map_option c_status (k_find K ready_condition (pf_conditions (pf_status p)))"

definition skew_policy_of :: "platform \<Rightarrow> string" where
  "skew_policy_of p = (case pf_policy (pf_spec p) of None \<Rightarrow> [] | Some s \<Rightarrow> s)"

definition platform_pins :: "platform \<Rightarrow> string" where
  "platform_pins p =
     pin_set \<lparr>pf_skew_policy = pf_policy (pf_spec p), pf_package_identity = pf_identity (pf_status p)\<rparr>"

fun platform_consumed_fields_changed :: "condlib \<Rightarrow> platform event \<Rightarrow> bool" where
  "platform_consumed_fields_changed K (Update_Event (Some old) (Some cur)) =
     (pf_observed_generation (pf_status old) \<noteq> pf_observed_generation (pf_status cur) \<or>
      platform_pins old \<noteq> platform_pins cur \<or>
      pf_resolved (pf_status old) \<noteq> pf_resolved (pf_status cur) \<or>
      skew_policy_of old \<noteq> skew_policy_of cur \<or>
      ready_status K old \<noteq> ready_status K cur \<or>
      pf_controller_version (pf_status old) \<noteq> pf_controller_version (pf_status cur))"
| "platform_consumed_fields_changed K ev = True"

definition module_instance_platform :: "module_instance \<Rightarrow> string list" where
  "module_instance_platform mi =
     (if sp_owner (mi_spec mi) = owner_cli \<or> sp_suspend (mi_spec mi) then [] else [platform_singleton_name])"

text \<open>The client answers with the instances the field index holds under the name.\<close>

definition indexed_instances :: "string \<Rightarrow> module_instance list \<Rightarrow> module_instance list" where
  "indexed_instances name mis = filter (\<lambda>mi. name \<in> set (module_instance_platform mi)) mis"

definition map_platform_to_instances :: "'x goerr + module_instance list \<Rightarrow> wake list" where
  "map_platform_to_instances answer = (case answer of Inl e \<Rightarrow> [] | Inr mis \<Rightarrow> map instance_wake mis)"


section \<open>modulepackage_controller.go\<close>

text \<open>\<open>mapping\<close> is the RESTMapper: whether a kind of the Flux sources can be resolved.\<close>

definition flux_source_crds_installed :: "(string \<Rightarrow> bool) \<Rightarrow> bool" where
  "flux_source_crds_installed mapping = list_all mapping [''OCIRepository'', ''GitRepository'', ''Bucket'']"

definition package_wake :: "module_package \<Rightarrow> wake" where
  "package_wake pk = (pk_namespace pk, pk_name pk)"

definition reads_source :: "string \<Rightarrow> string \<Rightarrow> string \<Rightarrow> module_package \<Rightarrow> bool" where
  "reads_source kind namespace name pk =
     (let ref = pp_source (pk_spec pk)
      in sf_kind ref = kind \<and> sf_name ref = name \<and>
         (if sf_namespace ref = [] then pk_namespace pk else sf_namespace ref) = namespace)"

text \<open>\<open>listing\<close> is the client's answer for one namespace.\<close>

definition map_source_to_packages ::
    "(string \<Rightarrow> 'x goerr + module_package list) \<Rightarrow> string \<Rightarrow> string \<Rightarrow> string \<Rightarrow> wake list" where
  "map_source_to_packages listing kind namespace name =
     (case listing namespace of Inl e \<Rightarrow> [] | Inr pks \<Rightarrow> map package_wake (filter (reads_source kind namespace name) pks))"

definition map_platform_to_packages :: "'x goerr + module_package list \<Rightarrow> wake list" where
  "map_platform_to_packages answer = (case answer of Inl e \<Rightarrow> [] | Inr pks \<Rightarrow> map package_wake pks)"

text \<open>The artifact of a source, none for an unknown type or an absent object.\<close>

definition artifact_of :: "flux_source option \<Rightarrow> (string \<times> string) option" where
  "artifact_of src = Option.bind src (\<lambda>x. map_option (\<lambda>a. (fa_revision a, fa_digest a)) (fx_artifact x))"

fun source_artifact_changed :: "flux_source event \<Rightarrow> bool" where
  "source_artifact_changed (Update_Event old new) =
     (case (artifact_of old, artifact_of new) of
        (None, None) \<Rightarrow> False
      | (Some (r, d), Some (r', d')) \<Rightarrow> r \<noteq> r' \<or> d \<noteq> d'
      | _ \<Rightarrow> True)"
| "source_artifact_changed (Create_Event src) = True"
| "source_artifact_changed (Delete_Event src) = False"
| "source_artifact_changed (Generic_Event src) = True"


section \<open>What an update of the Platform wakes\<close>

text \<open>C22: a reconcile of the Platform that makes another package current than the status names sends a
  status whose update passes the watch of both render paths, so what waits for that package is woken.\<close>

theorem new_package_wakes_renders:
  fixes P :: "('w, 'x, 'b, 'm, 'd) platform_params" and s :: "('w, 'b, 'z) pstate"
  assumes "cond_laws (pp_cond P)" and "run_state (reconcile_platform P platform_singleton_name) s = (r, s')"
    and "fst (pp_get P (sys_world s)) = Inr p" and "pf_deletion_timestamp p = None"
    and made: "st_generated (ss_store s') = Some g" "st_generated (ss_store s) \<noteq> Some g"
    and other: "identity_string (pp_sha256_hex P) (gn_identity g) \<noteq> pf_identity (pf_status p)"
  shows "\<exists>st. platform_patches s' = platform_patches s @ [PatchPlatformAct st] \<and>
    platform_consumed_fields_changed (pp_cond P) (Update_Event (Some p) (Some (p\<lparr>pf_status := st\<rparr>)))"
proof -
  have "ss_store s' \<noteq> ss_store s" using made by auto
  with reconcile_tuple_outcome [OF assms(1-4)] obtain identity es where
    "advertised P identity es (s\<lparr>os_obj := p\<rparr>) s'"
    by (auto simp: tuple_outcome_def reported_def)
  with made(1) obtain st where st: "platform_patches s' = platform_patches s @ [PatchPlatformAct st]"
    "pf_identity st = identity_string (pp_sha256_hex P) (gn_identity g)"
    by (auto simp: advertised_def platform_patches_def)
  then have "platform_pins p \<noteq> platform_pins (p\<lparr>pf_status := st\<rparr>)"
    using other by (simp add: platform_pins_def pin_set_def)
  then show ?thesis using st(1) by auto
qed

theorem new_package_wakes_renders_witness:
  "case run_state (reconcile_platform sample_platform_params platform_singleton_name)
       (sample_platform_state older_identity) of
     (r, s') \<Rightarrow> \<exists>st. platform_patches s' = [PatchPlatformAct st] \<and>
       platform_consumed_fields_changed std_conds
         (Update_Event (Some sample_platform) (Some (sample_platform\<lparr>pf_status := st\<rparr>)))"
proof -
  obtain r s' where run: "run_state (reconcile_platform sample_platform_params platform_singleton_name)
      (sample_platform_state older_identity) = (r, s')" by fastforce
  have stored: "run_state (reconcile_platform sample_platform_params platform_singleton_name)
      ((sample_platform_state older_identity)\<lparr>ss_store := ss_store (sample_platform_state older_identity)\<rparr>) = (r, s')"
    using run by simp
  obtain g where g: "st_generated (ss_store s') = Some g" "gn_identity g = sample_tuple"
  proof (rule sample_recorded [OF stored])
    fix g
    assume "st_generated (ss_store (sample_platform_state older_identity)) = Some g"
    then show "gn_identity g \<noteq> sample_tuple"
      using sample_tuple_other by (auto simp: sample_platform_state_def sample_package_def)
  qed
  moreover have "st_generated (ss_store (sample_platform_state older_identity)) \<noteq> Some g"
    using g(2) sample_tuple_other by (auto simp: sample_platform_state_def sample_package_def)
  moreover have "identity_string id sample_tuple \<noteq> pf_identity (pf_status sample_platform)"
    by code_simp
  moreover have "platform_patches (sample_platform_state older_identity) = []"
    by (simp add: platform_patches_def sample_platform_state_def)
  ultimately show ?thesis
    using new_package_wakes_renders [of sample_platform_params "sample_platform_state older_identity" r s' sample_platform g]
      run std_cond_laws by simp
qed

text \<open>Without a new version of the controller the status that follows a restart is the one before it: the
  update is filtered out, and what the restart left waiting is not woken by it.\<close>

lemma restart_update_is_filtered:
  assumes "pf_observed_generation st = pf_observed_generation (pf_status p)" and "pf_identity st = pf_identity (pf_status p)"
    and "pf_resolved st = pf_resolved (pf_status p)" and "pf_controller_version st = pf_controller_version (pf_status p)"
    and "ready_status K (p\<lparr>pf_status := st\<rparr>) = ready_status K p"
  shows "\<not> platform_consumed_fields_changed K (Update_Event (Some p) (Some (p\<lparr>pf_status := st\<rparr>)))"
  using assms by (simp add: platform_pins_def pin_set_def skew_policy_of_def)


section \<open>What the field index leaves out\<close>

definition no_render :: "act \<Rightarrow> bool" where
  "no_render a = (a \<noteq> RenderAct)"

lemma emits_gates_no_render: "emits no_render (handle_cli_owned P)" "emits no_render (handle_own_instance P sig)"
  by (rule emits_gates; auto simp: no_render_def is_bookkeeping_def)+

lemma runs_read_same:
  fixes f :: "'o \<Rightarrow> ('w, 'o, 'z, 'a) oprog"
  assumes "\<And>x. J x \<Longrightarrow> runs (\<lambda>o'. o' = x) P (f x) Q"
  shows "runs J P (the_object \<bind> f) Q"
proof (rule runsI)
  fix s :: "('w, ('o, 'z) osys_ext) sys_scheme"
  assume J: "J (os_obj s)"
  have run: "run_state (the_object \<bind> f) s = run_state (f (os_obj s)) s" by simp
  then show "sends s P (the_object \<bind> f)" using runsD(1) [OF assms [OF J]] by (simp add: sends_def)
  fix r s'
  assume "run_state (the_object \<bind> f) s = (r, s')"
  then show "Q r (os_obj s')" using runsD(2) [OF assms [OF J]] run by simp
qed

text \<open>C23: the index of the Platform watch mirrors the early returns of the reconcile: an instance it does
  not hold under the Platform, as it is owned by the CLI or suspended, renders nothing when it is
  reconciled, so leaving it asleep loses no render.\<close>

theorem unindexed_instances_do_not_render:
  assumes "\<forall>mi. fst (mp_get_instance P (sys_world s)) = Inr mi \<longrightarrow>
    module_instance_platform mi = [] \<and> mi_deletion_timestamp mi = None"
  shows "sends s no_render (reconcile_module_instance P namespace name)"
proof -
  let ?J = "\<lambda>mi. module_instance_platform mi = [] \<and> mi_deletion_timestamp mi = None"
  let ?S = "\<lambda>mi. sp_suspend (mi_spec mi) \<and> mi_deletion_timestamp mi = None"
  have cli: "runs J no_render (do { err \<leftarrow> handle_cli_owned P; State_Monad.return (Some err) }) (\<lambda>r mi. r = None \<longrightarrow> ?S mi)" for J
    by (rule runs_bind [OF runs_trivial [OF emits_gates_no_render(1)]]) (rule runs_return, simp)
  have own: "runs J no_render (do { err \<leftarrow> handle_own_instance P sig; State_Monad.return (Some err) }) (\<lambda>r mi. r = None \<longrightarrow> ?S mi)" for J sig
    by (rule runs_bind [OF runs_trivial [OF emits_gates_no_render(2)]]) (rule runs_return, simp)
  have gates: "runs ?J no_render (handle_not_reconciled P) (\<lambda>r mi. r = None \<longrightarrow> ?S mi)"
    unfolding handle_not_reconciled_def
    by (rule runs_read_same, intro runs_if runs_option cli own runs_return)
      (auto simp: module_instance_platform_def split: if_splits)
  have suspend: "emits no_render (handle_suspend P)"
    unfolding handle_suspend_def mark_mi_def observe_generation_def
    by (intro emits_intro emits_patch_mi) (simp_all add: no_render_def)
  have finalizer: "emits no_render (add_finalizer P)"
    unfolding add_finalizer_def by (intro emits_intro emits_patch_finalizers) (simp_all add: no_render_def)
  have live: "runs ?S no_render (reconcile_live P start) (\<lambda>_ _. True)" for start
    unfolding reconcile_live_def
    by (rule runs_read, rule runs_if, rule runs_trivial) (intro emits_intro suspend | simp)+
  have managed: "runs ?S no_render (reconcile_managed P) (\<lambda>_ _. True)"
    unfolding reconcile_managed_def
    by (rule runs_read, rule runs_bind [OF runs_ask [where Q = "\<lambda>_. ?S"]], assumption, rule runs_if, rule runs_trivial)
      (intro emits_intro finalizer live runs_if | simp)+
  have loaded: "runs ?J no_render (reconcile_loaded P) (\<lambda>_ _. True)"
    unfolding reconcile_loaded_def
    by (rule runs_bind [OF gates]) (auto intro!: runs_return runs_pre [OF _ managed] split: option.split)
  show ?thesis by (rule sends_reconcile [OF _ _ loaded]) (use assms in \<open>simp_all add: no_render_def\<close>)
qed


theorem unindexed_instances_do_not_render_witness:
  "let mi = sample_instance\<lparr>mi_spec := (mi_spec sample_instance)\<lparr>sp_suspend := True\<rparr>\<rparr>
   in sends (sample_start mi) no_render (reconcile_module_instance (sample_params mi) ''ns'' ''app'')"
  unfolding Let_def
  by (rule unindexed_instances_do_not_render)
    (simp add: sample_params_def module_instance_platform_def sample_instance_def)


section \<open>What an update of a source wakes\<close>

text \<open>The client answers with the packages of the namespace.\<close>

definition lists_namespace :: "module_package list \<Rightarrow> (string \<Rightarrow> 'x goerr + module_package list) \<Rightarrow> bool" where
  "lists_namespace cluster listing = (\<forall>ns. listing ns = Inr (filter (\<lambda>pk. pk_namespace pk = ns) cluster))"

text \<open>An update of a source wakes exactly the packages that read it from its own namespace.\<close>

lemma source_wakes:
  assumes "lists_namespace cluster listing"
  shows "set (map_source_to_packages listing kind namespace name) =
    package_wake ` {pk \<in> set cluster. pk_namespace pk = namespace \<and> reads_source kind namespace name pk}"
  using assms by (auto simp: map_source_to_packages_def lists_namespace_def)

text \<open>A package may name a source of another namespace, which a reconcile resolves, but no update of that
  source wakes it.\<close>

lemma foreign_source_wakes_nothing:
  assumes "lists_namespace cluster listing" and "pk_namespace pk \<noteq> namespace"
  shows "package_wake pk \<notin> set (map_source_to_packages listing kind namespace name)"
  using assms by (auto simp: map_source_to_packages_def lists_namespace_def package_wake_def)

end
