(* ===== verification/Startup.thy ===== *)
theory Startup
  imports Slots Store_Clients
begin

text \<open>
  cmd/main.go: the flags and their checks, the registry mapping, and what the process shares when it
  starts: the environment CUE reads, the empty store, the emptied platform directory and the render
  slots. The manager, the kernel's schema cache and the registration of controllers are parameters; the
  flag package, the servers' TLS options and the log lines are left out.
\<close>

section \<open>The flags\<close>

record flags =
  fl_registry :: string
  fl_cue_cache_dir :: string
  fl_platform_dir :: string
  fl_max_concurrent_renders :: int
  fl_drift_render_interval :: duration
  fl_instance_reconcile_interval :: duration
  fl_render_timeout :: duration

definition default_registry :: string where
  "default_registry = ''testing.opmodel.dev=ghcr.io/open-platform-model,'' @
     ''opmodel.dev=ghcr.io/open-platform-model,registry.cue.works''"

definition default_instance_reconcile_interval :: duration where "default_instance_reconcile_interval = 10 * minute"
definition default_render_timeout :: duration where "default_render_timeout = 10 * minute"

text \<open>The second part is the source; \<open>env\<close> is the value of OPM_REGISTRY, empty when unset.\<close>

definition resolve_registry :: "string \<Rightarrow> string \<Rightarrow> string \<times> string" where
  "resolve_registry flag env =
     (if flag \<noteq> [] then (flag, ''flag'') else if env \<noteq> [] then (env, ''env'') else (default_registry, ''default''))"

definition validate_drift_render_interval :: "duration \<Rightarrow> string option" where
  "validate_drift_render_interval d =
     (if d < 0 then Some (''--drift-render-interval must not be negative (0 disables the render skip), got '' @ duration_string d)
      else None)"

definition validate_instance_reconcile_interval :: "duration \<Rightarrow> string option" where
  "validate_instance_reconcile_interval d =
     (if d < 0 then Some (''--instance-reconcile-interval must not be negative (0 disables the periodic reconcile), got '' @
        duration_string d)
      else None)"

definition validate_render_timeout :: "duration \<Rightarrow> string option" where
  "validate_render_timeout d =
     (if d < 0 then Some (''--render-timeout must not be negative (0 disables the deadline), got '' @ duration_string d)
      else None)"


section \<open>The start\<close>

text \<open>What the start asks of others; an answer of None is success. \<open>su_schema\<close> is the core schema that a
  kernel for this registry resolves.\<close>

record 'x startup_params =
  su_err :: "'x errlib"
  su_build :: "build_info option"
  su_registry_env :: string
  su_manager :: "'x goerr option"
  su_setenv :: "string \<Rightarrow> string \<Rightarrow> 'x goerr option"
  su_schema :: "string \<Rightarrow> 'x goerr + string"
  su_faults :: "nat \<Rightarrow> 'x option"
  su_join :: "string \<Rightarrow> string \<Rightarrow> string"
  su_sha256_hex :: "string \<Rightarrow> string"
  su_root_exists :: bool
  su_setup :: "string \<Rightarrow> 'x goerr option"
  su_check :: "string \<Rightarrow> 'x goerr option"
  su_run :: "'x goerr option"

text \<open>What the controllers of the process share.\<close>

record 'b shared =
  sh_registry :: string
  sh_schema :: string
  sh_store :: "'b platform_store"
  sh_slots :: slots
  sh_controller_version :: string
  sh_library_version :: string
  sh_flags :: flags

text \<open>How main ends: with the log line and error of an exit with status 1, in a panic, or when the
  manager returned without error, with what was shared while it ran.\<close>

datatype ('x, 'b) main_end = Exits string "'x goerr option" | Panics string | Ran "'b shared"

definition invalid_flag :: "flags \<Rightarrow> (string \<times> 'x goerr option) option" where
  "invalid_flag fl =
     (if fl_max_concurrent_renders fl < 1
      then Some (''Invalid flag value: --max-concurrent-renders must be at least 1'', None)
      else case validate_drift_render_interval (fl_drift_render_interval fl) of
        Some e \<Rightarrow> Some (''Invalid flag value'', Some (Fmt e []))
      | None \<Rightarrow>
          (case validate_instance_reconcile_interval (fl_instance_reconcile_interval fl) of
             Some e \<Rightarrow> Some (''Invalid flag value'', Some (Fmt e []))
           | None \<Rightarrow>
               (case validate_render_timeout (fl_render_timeout fl) of
                  Some e \<Rightarrow> Some (''Invalid flag value'', Some (Fmt e []))
                | None \<Rightarrow> None)))"

text \<open>The first of some calls that fails, with its argument.\<close>

fun first_failure :: "('a \<Rightarrow> 'e option) \<Rightarrow> 'a list \<Rightarrow> ('a \<times> 'e) option" where
  "first_failure f [] = None"
| "first_failure f (x # xs) = (case f x of Some e \<Rightarrow> Some (x, e) | None \<Rightarrow> first_failure f xs)"

definition set_environment :: "'x startup_params \<Rightarrow> string \<Rightarrow> string \<Rightarrow> 'x goerr option" where
  "set_environment U registry cache_dir =
     map_option snd (first_failure (\<lambda>(key, v). su_setenv U key v)
       ((if registry \<noteq> [] then [(''CUE_REGISTRY'', registry), (''OPM_REGISTRY'', registry)] else []) @
        [(''CUE_CACHE_DIR'', cache_dir)]))"

definition verify_core_schema :: "'x startup_params \<Rightarrow> string \<Rightarrow> 'x goerr + string" where
  "verify_core_schema U registry = su_schema U registry"

text \<open>From the pool on: the controllers, the health checks and the manager.\<close>

definition run_manager :: "'x startup_params \<Rightarrow> 'b shared \<Rightarrow> ('x, 'b) main_end" where
  "run_manager U sh =
     (case first_failure (su_setup U) [''ModuleInstance'', ''ModulePackage'', ''Platform'', ''TransformerRegistration''] of
        Some (_, e) \<Rightarrow> Exits ''Failed to create controller'' (Some e)
      | None \<Rightarrow>
          (case su_check U ''healthz'' of
             Some e \<Rightarrow> Exits ''Failed to set up health check'' (Some e)
           | None \<Rightarrow>
               (case su_check U ''readyz'' of
                  Some e \<Rightarrow> Exits ''Failed to set up ready check'' (Some e)
                | None \<Rightarrow>
                    (case su_run U of Some e \<Rightarrow> Exits ''Failed to run manager'' (Some e) | None \<Rightarrow> Ran sh))))"

definition start_with_schema ::
    "'x startup_params \<Rightarrow> flags \<Rightarrow> string \<Rightarrow> string \<Rightarrow> ('x, 'b) main_end disk_prog" where
  "start_with_schema U fl registry schema =
     do { err \<leftarrow> layout_reset (su_err U) (su_faults U) \<lparr>ly_root = fl_platform_dir fl, ly_join = su_join U\<rparr>
            (su_sha256_hex U) (su_root_exists U);
          State_Monad.return (case err of
            Some e \<Rightarrow> Exits ''Failed to prepare platform module directory'' (Some e)
          | None \<Rightarrow>
              (case new_slots (fl_max_concurrent_renders fl) of
                 Inl msg \<Rightarrow> Panics msg
               | Inr pool \<Rightarrow>
                   run_manager U \<lparr>sh_registry = registry, sh_schema = schema, sh_store = new_store, sh_slots = pool,
                     sh_controller_version = full_version (su_build U), sh_library_version = library_version (su_build U),
                     sh_flags = fl\<rparr>)) }"

definition start :: "'x startup_params \<Rightarrow> flags \<Rightarrow> ('x, 'b) main_end disk_prog" where
  "start U fl =
     (case invalid_flag fl of
        Some (msg, e) \<Rightarrow> State_Monad.return (Exits msg e)
      | None \<Rightarrow>
          (case su_manager U of
             Some e \<Rightarrow> State_Monad.return (Exits ''Failed to start manager'' (Some e))
           | None \<Rightarrow>
               (let registry = fst (resolve_registry (fl_registry fl) (su_registry_env U))
                in case set_environment U registry (fl_cue_cache_dir fl) of
                     Some e \<Rightarrow> State_Monad.return (Exits ''Failed to set environment variable'' (Some e))
                   | None \<Rightarrow>
                       (case verify_core_schema U registry of
                          Inl e \<Rightarrow> State_Monad.return (Exits ''Failed to resolve OPM core schema'' (Some e))
                        | Inr schema \<Rightarrow> start_with_schema U fl registry schema))))"


section \<open>What a process starts with\<close>

lemma resolve_registry_set: "fst (resolve_registry flag env) \<noteq> []"
  by (simp add: resolve_registry_def default_registry_def)

text \<open>The registry the process uses is the one it leaves in the environment for CUE.\<close>

lemma environment_set:
  "set_environment U (fst (resolve_registry flag env)) dir = None \<longleftrightarrow>
   (\<forall>key \<in> {''CUE_REGISTRY'', ''OPM_REGISTRY''}. su_setenv U key (fst (resolve_registry flag env)) = None) \<and>
   su_setenv U ''CUE_CACHE_DIR'' dir = None"
  using resolve_registry_set [of flag env] by (auto simp: set_environment_def split: option.split)

lemma invalid_flag_none:
  "invalid_flag fl = None \<longleftrightarrow>
   1 \<le> fl_max_concurrent_renders fl \<and> 0 \<le> fl_drift_render_interval fl \<and> 0 \<le> fl_instance_reconcile_interval fl \<and>
   0 \<le> fl_render_timeout fl"
  by (auto simp: invalid_flag_def validate_drift_render_interval_def validate_instance_reconcile_interval_def
      validate_render_timeout_def)

text \<open>A directory that could be pruned of everything is empty.\<close>

lemma remove_all_done:
  "run_state (remove_all F name) d = (None, d') \<Longrightarrow> dom (map_of (dk_entries d')) = dom (map_of (dk_entries d)) - {name}"
  by (auto simp: remove_all_def disk_step_def spoil_def Let_def delete_conv' update_conv' State_Monad.return_def
      split: if_splits option.splits)

lemma prune_names_done:
  "run_state (prune_names E F {} ns) d = ([], d') \<Longrightarrow>
   dom (map_of (dk_entries d')) = dom (map_of (dk_entries d)) - set ns"
proof (induction ns arbitrary: d)
  case (Cons n ns)
  obtain err d1 where rm: "run_state (remove_all F n) d = (err, d1)" by fastforce
  obtain errs d2 where rest: "run_state (prune_names E F {} ns) d1 = (errs, d2)" by fastforce
  have "err = None" "errs = []" "d2 = d'"
    using Cons.prems rm rest by (auto simp: State_Monad.return_def split: option.splits)
  then show ?case using Cons.IH [of d1] remove_all_done [of F n d d1] rm rest by auto
qed (simp add: State_Monad.return_def)

lemma layout_reset_done:
  assumes "run_state (layout_reset E F l sha256_hex True) d = (None, d')"
  shows "dk_entries d' = []"
proof -
  obtain err d1 where pruned: "run_state (layout_prune E F l sha256_hex True []) d = (err, d1)" by fastforce
  then have reset: "err = None" "dk_entries d' = dk_entries d1"
    using assms by (auto simp: layout_reset_def mkdir_all_def disk_step_def Let_def State_Monad.return_def
        split: if_splits option.splits)
  let ?d = "\<lparr>dk_entries = dk_entries d, dk_seen = dk_seen d @ [dk_entries d], dk_ops = Suc (dk_ops d)\<rparr>"
  obtain errs d2 where names: "run_state (prune_names E F {} (sort (map fst (dk_entries d)))) ?d = (errs, d2)"
    by fastforce
  have "errs = []" "d2 = d1"
    using pruned names reset(1) by (auto simp: layout_prune_def read_dir_def disk_step_def disk_entries_def Let_def
        State_Monad.return_def split: if_splits option.splits)
  then have "dom (map_of (dk_entries d1)) = {}"
    using prune_names_done [OF names [unfolded \<open>errs = []\<close>]] by (simp add: dom_map_of_conv_image_fst)
  then show ?thesis using reset(2) by (simp add: dom_map_of_conv_image_fst)
qed

lemma layout_reset_missing:
  assumes "run_state (layout_reset E F l sha256_hex False) d = (err, d')"
  shows "dk_entries d' = dk_entries d"
  using assms by (auto simp: layout_reset_def layout_prune_def read_dir_def mkdir_all_def disk_step_def disk_entries_def
      Let_def State_Monad.return_def split: if_splits option.splits)

lemma run_manager_end: "(\<exists>msg e. run_manager U sh = Exits msg e) \<or> run_manager U sh = Ran sh"
  by (auto simp: run_manager_def split: option.split)

lemma start_with_schema_end:
  fixes U :: "'x startup_params"
  assumes "run_state (start_with_schema U fl registry schema) d = (r, d')" and "1 \<le> fl_max_concurrent_renders fl"
    and "su_root_exists U \<or> dk_entries d = []"
  shows "(\<exists>msg e. r = Exits msg e) \<or>
    dk_entries d' = [] \<and> (\<exists>sh. r = Ran sh \<and> sh_registry sh = registry \<and> sh_store sh = new_store \<and>
      sh_slots sh = \<lparr>sl_cap = nat (fl_max_concurrent_renders fl), sl_held = 0, sl_running = {}\<rparr>)"
proof -
  obtain err d1 where "run_state (layout_reset (su_err U) (su_faults U)
      \<lparr>ly_root = fl_platform_dir fl, ly_join = su_join U\<rparr> (su_sha256_hex U) (su_root_exists U)) d = (err, d1)"
    by fastforce
  moreover from this assms(1) have "d1 = d'" by (simp add: start_with_schema_def State_Monad.return_def)
  ultimately have reset: "run_state (layout_reset (su_err U) (su_faults U)
      \<lparr>ly_root = fl_platform_dir fl, ly_join = su_join U\<rparr> (su_sha256_hex U) (su_root_exists U)) d = (err, d')"
    by simp
  let ?pool = "\<lparr>sl_cap = nat (fl_max_concurrent_renders fl), sl_held = 0, sl_running = {}\<rparr>"
  have pool: "new_slots (fl_max_concurrent_renders fl) = Inr ?pool"
    using assms(2) by (simp add: new_slots_def)
  show ?thesis
  proof (cases err)
    case None
    have "dk_entries d' = []"
    proof (cases "su_root_exists U")
      case True
      then have root: "su_root_exists U = True" by simp
      from layout_reset_done [OF reset [unfolded None root]] show ?thesis .
    next
      case False
      then have root: "su_root_exists U = False" by simp
      from layout_reset_missing [OF reset [unfolded root]] show ?thesis using assms(3) root by simp
    qed
    moreover obtain sh where "r = run_manager U sh" "sh_registry sh = registry" "sh_store sh = new_store" "sh_slots sh = ?pool"
      using assms(1) reset None pool by (auto simp: start_with_schema_def State_Monad.return_def)
    ultimately show ?thesis using run_manager_end [of U sh] by auto
  qed (use assms(1) reset in \<open>auto simp: start_with_schema_def State_Monad.return_def\<close>)
qed

text \<open>C38: a process that comes up does so with at least one render slot, all of them free, no negative
  interval and a registry, with a store that holds no package, and over an emptied platform directory,
  so no render of a previous process's package is possible; and the pool never panics.\<close>

theorem process_starts_clean:
  fixes U :: "'x startup_params" and P :: "('w, 'y, 'b, 'm, 'd) platform_params"
  assumes "su_root_exists U \<or> dk_entries d = []"
  shows "case run_state (start U fl) d of
     (Exits msg e, d') \<Rightarrow> True
   | (Panics msg, d') \<Rightarrow> False
   | (Ran sh, d') \<Rightarrow>
       1 \<le> sl_cap (sh_slots sh) \<and> sl_held (sh_slots sh) = 0 \<and> sl_running (sh_slots sh) = {} \<and>
       0 \<le> fl_drift_render_interval fl \<and> 0 \<le> fl_instance_reconcile_interval fl \<and> 0 \<le> fl_render_timeout fl \<and>
       sh_registry sh \<noteq> [] \<and> served P (sh_store sh) [] \<and> dk_entries d' = []"
proof (cases "invalid_flag fl :: (string \<times> 'x goerr option) option")
  case None
  then have flags: "1 \<le> fl_max_concurrent_renders fl" "0 \<le> fl_drift_render_interval fl"
    "0 \<le> fl_instance_reconcile_interval fl" "0 \<le> fl_render_timeout fl"
    by (simp_all add: invalid_flag_none)
  let ?r = "fst (resolve_registry (fl_registry fl) (su_registry_env U))"
  have "?r \<noteq> []" by (rule resolve_registry_set)
  let ?start = "run_state (start U fl :: ('x, 'b option) main_end disk_prog) d"
  have "(\<exists>msg e. fst ?start = Exits msg e) \<or>
    (\<exists>schema. ?start = run_state (start_with_schema U fl ?r schema) d)"
    using None by (auto simp: start_def Let_def State_Monad.return_def split: option.split sum.split)
  then show ?thesis
  proof
    assume "\<exists>schema. ?start = run_state (start_with_schema U fl ?r schema) d"
    then obtain schema where run: "?start = run_state (start_with_schema U fl ?r schema) d" by blast
    obtain r d' where "?start = (r, d')" by fastforce
    then have "run_state (start_with_schema U fl ?r schema) d = (r, d')" using run by simp
    from start_with_schema_end [OF this flags(1) assms] this run show ?thesis
      using flags \<open>?r \<noteq> []\<close> by (auto simp: Boots)
  qed (auto simp: split_beta)
qed (auto simp: start_def State_Monad.return_def)

definition sample_flags :: flags where
  "sample_flags = \<lparr>fl_registry = [], fl_cue_cache_dir = ''/tmp/cue-cache'', fl_platform_dir = ''/tmp/opm-platform'',
     fl_max_concurrent_renders = 2, fl_drift_render_interval = 30 * minute,
     fl_instance_reconcile_interval = default_instance_reconcile_interval, fl_render_timeout = default_render_timeout\<rparr>"

definition sample_startup :: "string startup_params" where
  "sample_startup = \<lparr>su_err = sample_errors, su_build = None, su_registry_env = [], su_manager = None,
     su_setenv = (\<lambda>k v. None), su_schema = (\<lambda>r. Inr ''v1''), su_faults = (\<lambda>n. None), su_join = (\<lambda>a b. a @ ''/'' @ b),
     su_sha256_hex = id, su_root_exists = True, su_setup = (\<lambda>c. None), su_check = (\<lambda>c. None), su_run = None\<rparr>"

theorem process_starts_clean_witness:
  "\<exists>sh d'. run_state (start sample_startup sample_flags)
     \<lparr>dk_entries = [(''gen-1'', Part)], dk_seen = [], dk_ops = 0\<rparr> = (Ran (sh :: unit option shared), d') \<and>
     sl_cap (sh_slots sh) = 2 \<and> sh_registry sh = default_registry \<and> dk_entries d' = []"
proof -
  let ?d = "\<lparr>dk_entries = [(''gen-1'', Part)], dk_seen = [], dk_ops = 0\<rparr>"
  let ?x = "run_state (start sample_startup sample_flags :: (string, unit option) main_end disk_prog) ?d"
  have "case fst ?x of Exits m e \<Rightarrow> False | Panics m \<Rightarrow> False | Ran sh \<Rightarrow> sl_cap (sh_slots sh) = 2 \<and> sh_registry sh = default_registry"
    by code_simp
  then obtain sh d' where "?x = (Ran sh, d')" "sl_cap (sh_slots sh) = 2" "sh_registry sh = default_registry"
    by (cases ?x) (auto split: main_end.splits)
  then show ?thesis
    using process_starts_clean [of sample_startup ?d sample_flags sample_platform_params] by (simp add: sample_startup_def)
qed

end
