(* ===== verification/Wiring.thy ===== *)
theory Wiring
  imports Watches Store_Clients
begin

text \<open>
  The four SetupWithManager functions of internal/controller: which watches a controller has, under
  which predicates, and the requests that an event of the cluster puts into its queue. The library
  controller-runtime behind them (GenerationChangedPredicate and the two event handlers) is a parameter
  with its documented laws; rate limits and worker counts are left out. Then what an event that puts a
  claim into no queue leaves of a reconcile of that claim, and that a settled Platform stays at rest.
\<close>

section \<open>The library\<close>

datatype shape = Creates | Updates | Deletes | Generics

fun shape_of :: "'o event \<Rightarrow> shape" where
  "shape_of (Create_Event x) = Creates"
| "shape_of (Update_Event old new) = Updates"
| "shape_of (Delete_Event x) = Deletes"
| "shape_of (Generic_Event x) = Generics"

text \<open>The objects of an event: the old one of an update (\<open>False\<close>), the new or only one (\<open>True\<close>).\<close>

fun object_at :: "'o event \<Rightarrow> bool \<Rightarrow> 'o option" where
  "object_at (Update_Event old new) later = (if later then new else old)"
| "object_at (Create_Event x) later = (if later then Some x else None)"
| "object_at (Delete_Event x) later = (if later then Some x else None)"
| "object_at (Generic_Event x) later = (if later then Some x else None)"

text \<open>GenerationChangedPredicate on the generations of the objects, and which objects of an event the
  handlers EnqueueRequestForObject and EnqueueRequestsFromMapFunc go through.\<close>

record watch_lib =
  wl_generation_changed :: "shape \<Rightarrow> int64 option \<Rightarrow> int64 option \<Rightarrow> bool"
  wl_own :: "shape \<Rightarrow> bool list"
  wl_mapped :: "shape \<Rightarrow> bool list"

definition watch_laws :: "watch_lib \<Rightarrow> bool" where
  "watch_laws L =
     ((\<forall>a b. wl_generation_changed L Updates (Some a) (Some b) = (a \<noteq> b)) \<and>
      wl_mapped L Updates = [False, True] \<and> (\<forall>sh. sh \<noteq> Updates \<longrightarrow> wl_mapped L sh = [True]))"

definition generation_passes :: "watch_lib \<Rightarrow> ('o \<Rightarrow> int64) \<Rightarrow> 'o event \<Rightarrow> bool" where
  "generation_passes L gen ev =
     wl_generation_changed L (shape_of ev) (map_option gen (object_at ev False)) (map_option gen (object_at ev True))"

definition own_requests :: "watch_lib \<Rightarrow> 'o event \<Rightarrow> bool \<Rightarrow> ('o \<Rightarrow> 'r) \<Rightarrow> 'r list" where
  "own_requests L ev passes f = (if passes then map f (List.map_filter (object_at ev) (wl_own L (shape_of ev))) else [])"

definition mapped_requests :: "watch_lib \<Rightarrow> 'o event \<Rightarrow> bool \<Rightarrow> ('o \<Rightarrow> 'r list) \<Rightarrow> 'r list" where
  "mapped_requests L ev passes f =
     (if passes then concat (map f (List.map_filter (object_at ev) (wl_mapped L (shape_of ev)))) else [])"


section \<open>The watches\<close>

text \<open>An event of the cluster; a ServiceAccount is its namespace and name, a source carries both.\<close>

datatype cluster_event =
    On_Platform "platform event"
  | On_Claim "registration event"
  | On_Instance "module_instance event"
  | On_Package "module_package event"
  | On_Account "(string \<times> string) event"
  | On_Source string "(string \<times> string \<times> flux_source) event"

text \<open>The answers of the client to the lists of the map functions.\<close>

record 'x wake_reads =
  wr_claims :: "'x goerr + registration list"
  wr_indexed :: "string \<Rightarrow> 'x goerr + module_instance list"
  wr_instances_in :: "string \<Rightarrow> 'x goerr + module_instance list"
  wr_packages :: "'x goerr + module_package list"
  wr_packages_in :: "string \<Rightarrow> 'x goerr + module_package list"

text \<open>The claim predicate of the Platform controller on the events of a watch.\<close>

definition contribution_of :: "registration option \<Rightarrow> claim_coordinate \<times> bool" where
  "contribution_of x = (case x of None \<Rightarrow> (\<lparr>cc_catalog = [], cc_version = []\<rparr>, False) | Some c \<Rightarrow> claim_contribution c)"

fun claim_contribution_passes :: "registration event \<Rightarrow> bool" where
  "claim_contribution_passes (Create_Event c) = claim_contribution_predicate (Created c)"
| "claim_contribution_passes (Delete_Event c) = claim_contribution_predicate (Removed c)"
| "claim_contribution_passes (Update_Event old new) = (contribution_of old \<noteq> contribution_of new)"
| "claim_contribution_passes (Generic_Event c) = True"

definition platform_requests :: "watch_lib \<Rightarrow> cluster_event \<Rightarrow> string list" where
  "platform_requests L ev =
     (case ev of
        On_Platform e \<Rightarrow> own_requests L e (generation_passes L pf_generation e) pf_name
      | On_Claim e \<Rightarrow> mapped_requests L e (claim_contribution_passes e) map_claim_to_platform
      | _ \<Rightarrow> [])"

text \<open>The second part of the claim predicate; an update without one of its objects does not occur.\<close>

fun deletion_acquired :: "registration event \<Rightarrow> bool" where
  "deletion_acquired (Update_Event (Some old) (Some new)) =
     (tr_deletion_timestamp old = None \<and> tr_deletion_timestamp new \<noteq> None)"
| "deletion_acquired (Update_Event old new) = False"
| "deletion_acquired ev = True"

fun provider_facts_pass :: "condlib \<Rightarrow> module_instance event \<Rightarrow> bool" where
  "provider_facts_pass K (Update_Event (Some old) (Some new)) = provider_facts_changed K old new"
| "provider_facts_pass K ev = True"

definition claim_requests :: "watch_lib \<Rightarrow> condlib \<Rightarrow> 'x wake_reads \<Rightarrow> cluster_event \<Rightarrow> string list" where
  "claim_requests L K R ev =
     (case ev of
        On_Claim e \<Rightarrow> own_requests L e (generation_passes L tr_generation e \<or> deletion_acquired e) tr_name
      | On_Platform e \<Rightarrow> mapped_requests L e True (\<lambda>_. claims_of_platform (wr_claims R))
      | On_Instance e \<Rightarrow> mapped_requests L e (provider_facts_pass K e) (claims_of_instance (wr_claims R))
      | _ \<Rightarrow> [])"

definition instance_requests :: "watch_lib \<Rightarrow> condlib \<Rightarrow> string \<Rightarrow> 'x wake_reads \<Rightarrow> cluster_event \<Rightarrow> wake list" where
  "instance_requests L K default_sa R ev =
     (case ev of
        On_Instance e \<Rightarrow> own_requests L e (generation_passes L mi_generation e \<or> orphan_annotation_set e) instance_wake
      | On_Platform e \<Rightarrow>
          mapped_requests L e (platform_consumed_fields_changed K e) (\<lambda>p. map_platform_to_instances (wr_indexed R (pf_name p)))
      | On_Account e \<Rightarrow>
          mapped_requests L e (service_account_created e)
            (\<lambda>(namespace, sa). map_service_account_to_instances K default_sa (wr_instances_in R) namespace sa)
      | _ \<Rightarrow> [])"

definition package_requests :: "watch_lib \<Rightarrow> condlib \<Rightarrow> (string \<Rightarrow> bool) \<Rightarrow> 'x wake_reads \<Rightarrow> cluster_event \<Rightarrow> wake list" where
  "package_requests L K mapping R ev =
     (case ev of
        On_Package e \<Rightarrow> own_requests L e (generation_passes L pk_generation e) package_wake
      | On_Platform e \<Rightarrow>
          mapped_requests L e (platform_consumed_fields_changed K e) (\<lambda>_. map_platform_to_packages (wr_packages R))
      | On_Source kind e \<Rightarrow>
          if flux_source_crds_installed mapping \<and> kind \<in> {''OCIRepository'', ''GitRepository'', ''Bucket''}
          then mapped_requests L e (source_artifact_changed (map_event (\<lambda>(_, _, src). src) e))
                 (\<lambda>(namespace, name, _). map_source_to_packages (wr_packages_in R) kind namespace name)
          else []
      | _ \<Rightarrow> [])"



section \<open>Requests of an event\<close>

lemma generation_update:
  "watch_laws L \<Longrightarrow> generation_passes L gen (Update_Event (Some old) (Some new)) = (gen old \<noteq> gen new)"
  by (simp add: generation_passes_def watch_laws_def)



lemma own_filtered [simp]: "own_requests L ev False f = []"
  by (simp add: own_requests_def)

lemma mapped_filtered [simp]: "mapped_requests L ev False f = []"
  by (simp add: mapped_requests_def)

text \<open>A controller's write of a status does not put its object back into its own queue, so no reconcile
  feeds itself; what comes next is the requeue it returns.\<close>

lemma own_status_is_silent:
  assumes "watch_laws L"
  shows "platform_requests L (On_Platform (Update_Event (Some p) (Some (p\<lparr>pf_status := ps\<rparr>)))) = []"
    and "claim_requests L K R (On_Claim (Update_Event (Some c) (Some (c\<lparr>tr_status := cs, tr_finalizers := fs\<rparr>)))) = []"
    and "instance_requests L K sa R (On_Instance (Update_Event (Some mi) (Some (mi\<lparr>mi_status := is\<rparr>)))) = []"
    and "package_requests L K m R (On_Package (Update_Event (Some pk) (Some (pk\<lparr>pk_status := ks\<rparr>)))) = []"
proof -
  have "\<not> deletion_acquired (Update_Event (Some c) (Some (c\<lparr>tr_status := cs, tr_finalizers := fs\<rparr>)))" by auto
  then show "claim_requests L K R (On_Claim (Update_Event (Some c) (Some (c\<lparr>tr_status := cs, tr_finalizers := fs\<rparr>)))) = []"
    by (simp only: claim_requests_def cluster_event.case generation_update [OF assms]) simp
qed (simp_all add: platform_requests_def instance_requests_def package_requests_def generation_update [OF assms]
    orphan_annotation_def)


section \<open>Claims follow the instances\<close>




















section \<open>A settled Platform\<close>

text \<open>The status of the Platform reports the package of its tuple as a success reports it.\<close>

definition settled :: "('w, 'x, 'b, 'm, 'd) platform_params \<Rightarrow> platform \<Rightarrow> package_identity \<Rightarrow> entry list \<Rightarrow> bool" where
  "settled P p identity es =
     (pf_observed_generation (pf_status p) = pf_generation p \<and>
      pf_identity (pf_status p) = identity_string (pp_sha256_hex P) identity \<and>
      pf_resolved (pf_status p) = resolved_registry p es \<and>
      pf_controller_version (pf_status p) = full_version (pp_build P) \<and>
      ready_status (pp_cond P) p = Some CTrue)"

lemma cond_view_status: "cond_view K t cs = Some (st, reason, msg) \<Longrightarrow> map_option c_status (k_find K t cs) = Some st"
  by (auto simp: cond_view_def)

lemma settled_again:
  assumes "settled P p identity es" and "advertised P identity es (s\<lparr>os_obj := p\<rparr>) s'"
  shows "\<exists>st. platform_patches s' = platform_patches s @ [PatchPlatformAct st] \<and>
    \<not> platform_consumed_fields_changed (pp_cond P) (Update_Event (Some p) (Some (p\<lparr>pf_status := st\<rparr>)))"
proof -
  obtain st msg where st: "platform_patches s' = platform_patches s @ [PatchPlatformAct st]"
    "pf_identity st = identity_string (pp_sha256_hex P) identity" "pf_resolved st = resolved_registry p es"
    "pf_observed_generation st = pf_generation p" "pf_controller_version st = full_version (pp_build P)"
    "cond_view (pp_cond P) ready_condition (pf_conditions st) = Some (CTrue, ''Generated'', msg)"
    using assms(2) by (auto simp: advertised_def platform_patches_def)
  have "ready_status (pp_cond P) (p\<lparr>pf_status := st\<rparr>) = Some CTrue"
    using cond_view_status [OF st(6)] by (simp add: ready_status_def)
  then show ?thesis
    using assms(1) st(1-5) restart_update_is_filtered [of st p "pp_cond P"] by (auto simp: settled_def)
qed

text \<open>C31: the system comes to rest: when the status of the Platform reports the package of its tuple and
  the store holds it, a reconcile resolves and builds nothing, sends no event, leaves the store and the
  directory as they are, and writes one status whose update wakes no instance, no package and not the
  Platform itself, so nothing is rendered again.\<close>

theorem settled_platform_is_quiet:
  fixes P :: "('w, 'x, 'b, 'm, 'd) platform_params" and s :: "('w, 'b, 'z) pstate" and R :: "'y wake_reads"
  assumes "cond_laws (pp_cond P)" and "watch_laws L"
    and world: "fst (pp_get P (sys_world s)) = Inr p" "pf_deletion_timestamp p = None"
      "fst (pp_list_claims P (snd (pp_get P (sys_world s)))) = Inr cs"
      "(platform_entries p (active_of cs) :: 'x goerr + entry list) = Inr es"
    and held: "st_generated (ss_store s) = Some g" "gn_identity g = package_of p (active_of cs)"
      "fst (run_state (dir_exists (pp_layout P) (pp_faults P) (gn_dir g)) (ps_disk s))"
      "pp_contracts P (gn_platform g) = Inr i"
    and settled: "settled P p (package_of p (active_of cs)) es"
    and run: "run_state (reconcile_platform P platform_singleton_name) s = (r, s')"
  shows "sends s (\<lambda>a. \<not> is_generation a) (reconcile_platform P platform_singleton_name) \<and>
    ss_store s' = ss_store s \<and> dk_entries (ps_disk s') = dk_entries (ps_disk s) \<and>
    (\<exists>st. platform_patches s' = platform_patches s @ [PatchPlatformAct st] \<and>
      (let ev = On_Platform (Update_Event (Some p) (Some (p\<lparr>pf_status := st\<rparr>)))
       in platform_requests L ev = [] \<and> instance_requests L (pp_cond P) sa R ev = [] \<and>
          package_requests L (pp_cond P) mapping R ev = []))"
proof -
  obtain s1 where s1: "level (s\<lparr>os_obj := p\<rparr>) s1" "st_generated (ss_store s1) = Some g"
    "run_state (skip_generation P (package_of p (active_of cs)) es i) s1 = (r, s')"
    using repeat_skips [OF world held] run by auto
  have "advertised P (package_of p (active_of cs)) es (s\<lparr>os_obj := p\<rparr>) s'"
    using run_skip [OF assms(1) s1(1,3,2) held(2)] by simp
  then obtain st where "platform_patches s' = platform_patches s @ [PatchPlatformAct st]"
    "\<not> platform_consumed_fields_changed (pp_cond P) (Update_Event (Some p) (Some (p\<lparr>pf_status := st\<rparr>)))"
    using settled_again [OF settled] by blast
  then show ?thesis
    using repeat_builds_nothing [OF world held] run own_status_is_silent(1) [OF assms(2)]
    by (auto simp: instance_requests_def package_requests_def Let_def simp del: platform_consumed_fields_changed.simps)
qed

definition sample_watch_lib :: watch_lib where
  "sample_watch_lib = \<lparr>wl_generation_changed = (\<lambda>sh a b. sh \<noteq> Updates \<or> a \<noteq> b), wl_own = (\<lambda>sh. [True]),
     wl_mapped = (\<lambda>sh. if sh = Updates then [False, True] else [True])\<rparr>"

lemma sample_watch_laws: "watch_laws sample_watch_lib"
  by (simp add: watch_laws_def sample_watch_lib_def)

definition sample_reads :: "string wake_reads" where
  "sample_reads = \<lparr>wr_claims = Inr [old_claim], wr_indexed = (\<lambda>name. Inr [sample_provider]),
     wr_instances_in = (\<lambda>ns. Inr [sample_provider]), wr_packages = Inr [], wr_packages_in = (\<lambda>ns. Inr [])\<rparr>"

definition sample_tuple_list :: "entry list" where
  "sample_tuple_list =
     (case (platform_entries sample_platform (active_of [old_claim]) :: string goerr + entry list) of Inl e \<Rightarrow> [] | Inr es \<Rightarrow> es)"

definition settled_platform :: platform where
  "settled_platform = sample_platform\<lparr>pf_status :=
     \<lparr>pf_observed_generation = pf_generation sample_platform, pf_identity = identity_string id sample_tuple,
      pf_resolved = resolved_registry sample_platform sample_tuple_list,
      pf_conditions = [\<lparr>c_type = ready_condition, c_status = CTrue, c_reason = ''Generated'', c_message = [], c_since = 0\<rparr>],
      pf_controller_version = full_version None\<rparr>\<rparr>"

definition settled_params :: "(unit, string, unit, unit, unit) platform_params" where
  "settled_params = sample_platform_params\<lparr>pp_get := (\<lambda>w. (Inr settled_platform, w))\<rparr>"

lemma settled_entries:
  "(platform_entries settled_platform (active_of [old_claim]) :: string goerr + entry list) = Inr sample_tuple_list"
proof -
  have spec: "pf_spec settled_platform = pf_spec sample_platform" by (simp add: settled_platform_def)
  have "(platform_entries settled_platform (active_of [old_claim]) :: string goerr + entry list) =
      platform_entries sample_platform (active_of [old_claim])"
    unfolding platform_entries_def spec ..
  then show ?thesis using sample_tuple_entries by (auto simp: sample_tuple_list_def)
qed

theorem settled_platform_is_quiet_witness:
  "\<exists>st s'. snd (run_state (reconcile_platform settled_params platform_singleton_name) (sample_platform_state sample_tuple)) = s' \<and>
     platform_patches s' = [PatchPlatformAct st] \<and>
     instance_requests sample_watch_lib std_conds [] sample_reads
       (On_Platform (Update_Event (Some settled_platform) (Some (settled_platform\<lparr>pf_status := st\<rparr>)))) = []"
proof -
  let ?s = "sample_platform_state sample_tuple"
  obtain r s' where run: "run_state (reconcile_platform settled_params platform_singleton_name) ?s = (r, s')" by fastforce
  have world: "fst (pp_get settled_params (sys_world ?s)) = Inr settled_platform" "pf_deletion_timestamp settled_platform = None"
    "fst (pp_list_claims settled_params (snd (pp_get settled_params (sys_world ?s)))) = Inr [old_claim]"
    by (simp_all add: settled_params_def settled_platform_def)
  have same: "package_of settled_platform cs = package_of sample_platform cs" for cs
    by (simp add: package_of_def settled_platform_def)
  have held: "st_generated (ss_store ?s) = Some (sample_package sample_tuple)"
    "gn_identity (sample_package sample_tuple) = package_of settled_platform (active_of [old_claim])"
    "fst (run_state (dir_exists (pp_layout settled_params) (pp_faults settled_params)
      (gn_dir (sample_package sample_tuple))) (ps_disk ?s))"
    "pp_contracts settled_params (gn_platform (sample_package sample_tuple)) =
      Inr (sample_inventory\<lparr>ci_over_subscribed := [], ci_routable := True\<rparr>)"
    by (simp_all add: same sample_platform_state_def sample_package_def settled_params_def sample_platform_params_def
        dir_exists_def disk_entries_def disk_step_def State_Monad.return_def Let_def)
  have "settled settled_params settled_platform (package_of settled_platform (active_of [old_claim])) sample_tuple_list"
    unfolding same
    by (simp add: settled_def settled_platform_def settled_params_def sample_platform_params_def ready_status_def
        std_conds_def resolved_registry_def)
  from settled_platform_is_quiet [OF _ sample_watch_laws world settled_entries held this run, of "[]" sample_reads]
  have "\<exists>st. platform_patches s' = platform_patches ?s @ [PatchPlatformAct st] \<and>
     instance_requests sample_watch_lib (pp_cond settled_params) [] sample_reads
       (On_Platform (Update_Event (Some settled_platform) (Some (settled_platform\<lparr>pf_status := st\<rparr>)))) = []"
    using std_cond_laws by (auto simp: settled_params_def Let_def)
  then show ?thesis
    using run by (simp add: settled_params_def platform_patches_def sample_platform_state_def)
qed


end
