(* ===== verification/Spec2Isabelle.thy ===== *)
theory Spec2Isabelle
  imports Slots Artifact Package_Dirs Instance_Outcome Platform_Safety Store_Clients Watches Startup Wiring
begin

text \<open>
  Verification library of the OPM operator: the Go code of src/api, src/cmd and src/internal, a
  Kubernetes controller that renders CUE modules against a generated platform and applies the result.

  \<^bold>\<open>The program.\<close> Four controllers share one process. The Platform controller generates a platform module
  from the Platform object and the active claims, builds it, and puts it into an in-memory store. The
  TransformerRegistration controller judges claims (who provides a catalog and its contracts) against
  that platform. The ModuleInstance and ModulePackage controllers render: they lease the package of the
  store, build an instance against it in a pool of render slots, and apply, prune, judge health and
  clean up what they own. They interact through the store (leases), through the status of the objects
  (a claim's active flag, an instance's required contracts and Ready condition), and through watches.

  \<^bold>\<open>How code becomes definitions.\<close> A struct is a record, an enum or a tagged union a datatype, an int64 a
  word of 64 bits where it can overflow, a duration or a time an integer of nanoseconds, a pointer an
  option, a Go map an association list in the order of an iteration or a map. An error is a tree
  (Errors: \<open>goerr\<close>), so that errors.Is and errors.As are functions. A function with effects is a
  \<open>state\<close> program (Effects, Owned): its state is the world of the cluster, the trace of requests sent so
  far (\<open>act\<close>), the object being reconciled, and what the controller keeps in memory. Reads, writes, the
  clock and random numbers are parameters, functions of the world; so is every library that is not part
  of the repository. Properties speak of the trace (what is sent, in which order), of the object and of
  the answer.

  \<^bold>\<open>Theories.\<close>
  \<^item> Prelude, Api, Errors, Effects, Owned, Object_Logic, Invariant_Logic: the standard library, the API types,
    errors, programs with effects and the two program logics (\<open>emits\<close>/\<open>sends\<close>, \<open>runs\<close>) in which the
    controllers are proved, with one rule per construct.
  \<^item> Outcome, Status_Record, Status_Notes, Conditions: internal/reconcile/outcome.go and backoff.go and
    internal/status. The backoff on 64-bit failure counts, counters, bounded history, digests and the key
    of a render's inputs; every note and message fits the limits of the API.
  \<^item> Deletion, Prune, Apply_Guards, Apply, Guard: internal/apply. The driver of the library's deletion
    plans, the prune, the guard every delete of an apply passes, the staged apply with its retry, the
    verdict of the apply and the drift detection. The loops end: a plan takes at most
    \<open>deletion_turns\<close> = 3 n + 4 turns for n entries by the progress its laws demand, and the retry of an
    apply at most \<open>retry_attempts\<close> = 22 passes, as the clock advances by the interval it waits.
  \<^item> Identity, Shrink, Health, Warnings, Render_Inputs, Deletion_Cleanup: internal/reconcile/identity.go,
    withhold.go, health.go, warnings.go, inputs.go, version.go, converted.go and deletion.go, and
    internal/shrink. The protocol of an instance's identities as a step relation, the tracker of warnings
    as an implementation of a set of facts, the skip of a render, the finalizer and what may release it.
  \<^item> Instance_Base, Instance_Acts, Module_Instance (definitions), Instance_Invariant, Instance_Safety,
    Instance_Outcome (proofs): internal/reconcile/moduleinstance.go, every phase with every early return,
    the deferred status commit and the panic path of the render.
  \<^item> Package_Base, Module_Package (definitions), Package_Invariant, Package_Safety, Package_Dirs (proofs):
    internal/reconcile/modulepackage.go with internal/source/resolve.go.
  \<^item> Files, Artifact: internal/source, over a file system with symbolic links. A path is resolved through at
    most \<open>max_links\<close> = 40 links, the limit of the kernel; beyond it the operation fails with ELOOP.
  \<^item> Slots: internal/render/slots.go as a transition system of callers and render goroutines in every
    interleaving: the bound, no loss, no deadlock, one render per object.
  \<^item> Platform_Store, Layout: internal/platform. Identities of packages, the store with its leases, and the
    directory writes by staging and rename under any fault of a file operation.
  \<^item> Platform_Inventory, Platform_Gen (definitions), Platform_Union, Platform_Safety (proofs):
    internal/controller/platform_controller.go, platform_inventory.go and internal/version.
  \<^item> Registration_Rules, Registration (definitions), Registration_Holder, Registration_Safety (proofs):
    the transformerregistration files of internal/controller.
  \<^item> Renderer: the two renderers of internal/render over the leased platform, with the wording of findings
    and warnings, and internal/moduleacquire.
  \<^item> Watches: the predicates and maps of the watches of the two render controllers, and the field index.
  \<^item> Wiring: the four SetupWithManager functions of internal/controller, as the requests that an event of
    the cluster puts into the queue of each controller.
  \<^item> Store_Clients: the Platform reconciles, renders and claims together over one store, as an inductive
    set of reachable stores with the leases that are held.
  \<^item> Startup: cmd/main.go, the checks of the flags and what the process shares when it starts; the state
    it ends in is the one from which Store_Clients and Slots set out.

  \<^bold>\<open>Interfaces.\<close> The locales are the contracts that several operations share: \<open>guarded_client\<close> (a client
  all of whose deletes pass a guard; interpreted on deleteGuard), \<open>lease_store\<close> (what renders and the
  Platform controller rely on of the store; interpreted on Store), \<open>identity_policy\<close> (interpreted on both
  kinds), \<open>cleanup_target\<close> (a kind of object with a cleanup finalizer; interpreted on both kinds), and
  \<open>object_invariant\<close> with its extensions (an invariant of an object through a reconcile: phase by phase for
  a ModuleInstance and for a ModulePackage; interpreted for the protection of claims, the forms of a
  status, the accounts of an attempt and the temporary directories).

  \<^bold>\<open>What the properties show.\<close> No reconcile deletes a PersistentVolumeClaim without the Delete policy, and
  the finalizer goes only with a cause; deletions do not give up and remember what they sent; an identity
  is stored before it is applied; records of what was applied move on success only; every failed attempt
  is tried again; statuses are well formed. The Platform status is honest, what renders use was built and
  passed the gate, the directory of a held package survives every reconcile under any file fault, a
  repeated tuple builds nothing, a new package wakes the renders, a settled platform wakes none. Claims
  are activated behind their gate, keep their verdict through an outage, a removal waits for its
  dependents, and an event of an instance that wakes no claim changes nothing the claim's reconcile
  would do, but for the claim entering or leaving the instance's inventory. A failed render is retried
  or stalls by the errors it carries. At most as many renders run as there are slots, none is lost, no
  object renders twice at once. An artifact is verified before it is extracted, and extraction stays
  in its directory.

  \<^bold>\<open>Hypotheses.\<close> \<open>cond_laws\<close> (the condition library sets and finds by type), \<open>plan_laws\<close> and
  \<open>plan_progress\<close> (a deletion plan holds exactly the entries it was made of, and moves on with every
  event), \<open>timer_laws\<close> and \<open>wait_ok\<close> (a wait takes its time), \<open>suffixes_fresh\<close> (a random suffix is not in
  use), \<open>watch_laws\<close> (GenerationChangedPredicate compares the generations of an update, a mapped watch goes
  through both its objects). Each is shown to hold of a concrete instance by the witnesses, which run the
  definitions on sample objects.

  \<^bold>\<open>Not modelled.\<close> The libraries: OPM (rendering, catalogs, deletion plans, health rules), CUE, Flux,
  controller-runtime and the API server are parameters. Log lines, values of metrics (a metric is a request
  of the trace without its value), generated deep copies, the scheme, TLS and certificate options, and the
  rate limits and worker counts of the controllers. A panic is modelled where the code recovers it (the
  render) or guards against it (the slot pool). One reconcile runs without steps of other goroutines on the same store in
  between, except where a lease is held (Store_Clients) and in the slot pool, whose interleavings are
  steps; the reads of a health judgement are taken in order. File permissions and times are left out.
\<close>

end
